(* ===== verification/DoIP_Prelude.thy ===== *)
theory DoIP_Prelude
  imports Main "HOL-Library.Word" "HOL-Library.Char_ord"
begin

text \<open>
  Shared vocabulary of the development: the machine integers of the C++ sources, the
  exceptions they raise, raw pointers into byte buffers, and the result types in which
  the components return.  The lemmas at the end are the generic facts on words, lists
  and results that the component theories rest on; they are collected in the named
  theorem lists \<open>byte_simps\<close> (big-endian composition), \<open>res_simps\<close> (sequencing of
  fallible code) and \<open>mem_simps\<close> (pointer reads).
\<close>

unbundle bit_operations_syntax

named_theorems byte_simps \<open>composition and decomposition of big-endian words\<close>
named_theorems res_simps \<open>sequencing of computations that may raise\<close>
named_theorems mem_simps \<open>reads through raw pointers\<close>

section \<open>Machine integers and errors\<close>

type_synonym u8 = "8 word"
type_synonym u16 = "16 word"
type_synonym u32 = "32 word"
type_synonym u64 = "64 word"

text \<open>
  The ways in which C++ code of the repository leaves its normal control flow.
  \<open>UndefinedRead\<close> stands for a read through a raw pointer that is null or past the
  end of the object it points into: the language gives such code no meaning, so the
  model keeps it as an error value of its own.
\<close>

datatype cxx_error =
    OutOfRange string
  | BadOptionalAccess
  | BadFunctionCall
  | RuntimeError string
  | StdException
  | UndefinedRead

type_synonym 'a res = "cxx_error + 'a"

fun rbind :: "'a res \<Rightarrow> ('a \<Rightarrow> 'b res) \<Rightarrow> 'b res" where
  "rbind (Inl e) f = Inl e"
| "rbind (Inr a) f = f a"

lemma rbind_assoc [res_simps]: "rbind (rbind m f) g = rbind m (\<lambda>a. rbind (f a) g)"
  by (cases m) simp_all

lemma rbind_Inr_iff: "rbind m f = Inr b \<longleftrightarrow> (\<exists>a. m = Inr a \<and> f a = Inr b)"
  by (cases m) simp_all

lemma rbind_Inl_iff:
  "rbind m f = Inl e \<longleftrightarrow> m = Inl e \<or> (\<exists>a. m = Inr a \<and> f a = Inl e)"
  by (cases m) simp_all

lemma rbind_cong [fundef_cong]:
  "m = m' \<Longrightarrow> (\<And>a. m' = Inr a \<Longrightarrow> f a = g a) \<Longrightarrow> rbind m f = rbind m' g"
  by (cases m') simp_all

section \<open>Sizes\<close>

text \<open>
  \<open>size_t\<close> is 64 bits wide on the platforms the project builds for.  Sizes and indices
  are natural numbers; \<open>szadd\<close> is the addition of the language, which wraps.
\<close>

definition szadd :: "nat \<Rightarrow> nat \<Rightarrow> nat" where
  "szadd a b = (a + b) mod 2 ^ 64"

text \<open>\<open>std::vector<uint8_t>::max_size()\<close>.\<close>

definition vec_max :: nat where
  "vec_max = 2 ^ 63 - 1"

lemma szadd_small: "a + b < 2 ^ 64 \<Longrightarrow> szadd a b = a + b"
  by (simp add: szadd_def)

lemma szadd_index:
  "i < 2 ^ 64 \<Longrightarrow> k \<le> 8 \<Longrightarrow> i < 2 ^ 64 - 8 \<Longrightarrow> szadd i k = i + k"
  by (simp add: szadd_def)

section \<open>Raw pointers\<close>

text \<open>
  A \<open>const uint8_t *\<close> is the list of the bytes that can be read from it on, or
  \<open>None\<close> for \<open>nullptr\<close>.  Pointer arithmetic drops bytes; \<open>p[i]\<close> outside the
  list is \<open>UndefinedRead\<close>.
\<close>

type_synonym ptr = "u8 list option"

fun ptr_read :: "ptr \<Rightarrow> nat \<Rightarrow> u8 res" where
  "ptr_read None i = Inl UndefinedRead"
| "ptr_read (Some bs) i = (if i < length bs then Inr (bs ! i) else Inl UndefinedRead)"

fun ptr_add :: "ptr \<Rightarrow> nat \<Rightarrow> ptr" where
  "ptr_add None n = None"
| "ptr_add (Some bs) n = Some (drop n bs)"

text \<open>\<open>std::copy_n(p, n, \<dots>)\<close>: reads the first \<open>n\<close> bytes.\<close>

fun ptr_copy_n :: "ptr \<Rightarrow> nat \<Rightarrow> u8 list res" where
  "ptr_copy_n p 0 = Inr []"
| "ptr_copy_n None (Suc n) = Inl UndefinedRead"
| "ptr_copy_n (Some bs) (Suc n) =
     (if Suc n \<le> length bs then Inr (take (Suc n) bs) else Inl UndefinedRead)"

lemma ptr_copy_n_Some [mem_simps]: "n \<le> length bs \<Longrightarrow> ptr_copy_n (Some bs) n = Inr (take n bs)"
  by (cases n) simp_all

lemma ptr_read_in [mem_simps]: "i < length bs \<Longrightarrow> ptr_read (Some bs) i = Inr (bs ! i)"
  by simp

lemma ptr_read_add [mem_simps]:
  "n \<le> length bs \<Longrightarrow> ptr_read (ptr_add (Some bs) n) i = ptr_read (Some bs) (n + i)"
  by auto

section \<open>Big-endian words\<close>

definition hi8 :: "u16 \<Rightarrow> u8" where
  "hi8 v = ucast (drop_bit 8 v AND 0xFF)"

definition lo8 :: "u16 \<Rightarrow> u8" where
  "lo8 v = ucast (v AND 0xFF)"

definition byte_of32 :: "nat \<Rightarrow> u32 \<Rightarrow> u8" where
  "byte_of32 s v = ucast (drop_bit s v AND 0xFF)"

definition join16 :: "u8 \<Rightarrow> u8 \<Rightarrow> u16" where
  "join16 h l = push_bit 8 (ucast h) OR ucast l"

definition join32 :: "u8 \<Rightarrow> u8 \<Rightarrow> u8 \<Rightarrow> u8 \<Rightarrow> u32" where
  "join32 a b c d =
     ((push_bit 24 (ucast a) OR push_bit 16 (ucast b)) OR push_bit 8 (ucast c)) OR ucast d"

lemma mask8_16: "(0xFF :: u16) = mask 8"
  by (simp add: mask_eq_exp_minus_1)

lemma mask8_32: "(0xFF :: u32) = mask 8"
  by (simp add: mask_eq_exp_minus_1)

lemma join16_split [byte_simps]: "join16 (hi8 v) (lo8 v) = v"
  unfolding join16_def hi8_def lo8_def mask8_16
  by (rule bit_word_eqI) (auto simp: bit_simps)

lemma hi8_join16 [byte_simps]: "hi8 (join16 h l) = h"
  unfolding join16_def hi8_def mask8_16
  by (rule bit_word_eqI) (auto simp: bit_simps dest: bit_imp_le_length)

lemma lo8_join16 [byte_simps]: "lo8 (join16 h l) = l"
  unfolding join16_def lo8_def mask8_16
  by (rule bit_word_eqI) (auto simp: bit_simps)

lemma join32_split [byte_simps]:
  "join32 (byte_of32 24 v) (byte_of32 16 v) (byte_of32 8 v) (byte_of32 0 v) = v"
proof (rule bit_word_eqI)
  fix n assume "n < LENGTH(32)"
  then consider "n < 8" | "8 \<le> n" "n < 16" | "16 \<le> n" "n < 24" | "24 \<le> n" "n < 32"
    by (cases "n < 8"; cases "n < 16"; cases "n < 24") auto
  then show "bit (join32 (byte_of32 24 v) (byte_of32 16 v) (byte_of32 8 v) (byte_of32 0 v)) n
      = bit v n"
    by cases (auto simp: join32_def byte_of32_def mask8_32 bit_simps less_diff_conv2)
qed

lemma byte_of32_join32 [byte_simps]:
  "byte_of32 24 (join32 a b c d) = a" "byte_of32 16 (join32 a b c d) = b"
  "byte_of32 8 (join32 a b c d) = c" "byte_of32 0 (join32 a b c d) = d"
  by (rule bit_word_eqI,
      auto simp: join32_def byte_of32_def mask8_32 bit_simps dest: bit_imp_le_length)+

section \<open>Characters and numbers as text\<close>

text \<open>\<open>std::to_string\<close> / \<open>operator<<\<close> of a non-negative integer.\<close>

fun show_nat :: "nat \<Rightarrow> string" where
  "show_nat n = (if n < 10 then [char_of (48 + n)] else show_nat (n div 10) @ [char_of (48 + n mod 10)])"

declare show_nat.simps [simp del]

text \<open>A \<open>char\<close> of the source is a byte; the two conversions are the casts to and from \<open>uint8_t\<close>.\<close>

definition byte_of_char :: "char \<Rightarrow> u8" where
  "byte_of_char c = word_of_nat (of_char c)"

definition char_of_byte :: "u8 \<Rightarrow> char" where
  "char_of_byte b = char_of (unat b)"

lemma unat_byte_of_char [simp]: "unat (byte_of_char c) = of_char c"
  by (simp add: byte_of_char_def unat_of_nat nat_of_char_less_256)

lemma char_byte_char [simp]: "char_of_byte (byte_of_char c) = c"
  by (simp add: char_of_byte_def)

lemma unat_u8_less [simp]: "unat (b :: u8) < 256"
  using unsigned_less [of b] by simp

lemma byte_char_byte [simp]: "byte_of_char (char_of_byte b) = b"
  by (simp add: char_of_byte_def byte_of_char_def)

section \<open>Splitting lists at an index\<close>

lemma list_window:
  assumes "i + k \<le> length a"
  obtains xs ys zs where "a = xs @ ys @ zs" "length xs = i" "length ys = k"
    "take i a = xs" "drop (i + k) a = zs"
proof
  show "a = take i a @ take k (drop i a) @ drop (i + k) a"
    by (metis add.commute append_take_drop_id drop_drop)
qed (use assms in auto)

lemma length_2E:
  assumes "length ys = 2" obtains p q where "ys = [p, q]"
  using assms by (cases ys; cases "tl ys") auto

lemma length_4E:
  assumes "length ys = 4" obtains p q r s where "ys = [p, q, r, s]"
  using assms by (auto simp: eval_nat_numeral length_Suc_conv)

end
