(* ===== verification/DoIP_ByteArray.thy ===== *)
theory DoIP_ByteArray
  imports DoIP_Prelude
begin

text \<open>
  The byte buffers of \<^verbatim>\<open>inc/ByteArray.h\<close> and the 16-bit addresses of
  \<^verbatim>\<open>inc/DoIPAddress.h\<close>.  A \<open>ByteArray\<close> (a \<open>std::vector<uint8_t>\<close>) is a list of
  bytes; the free readers of namespace \<open>util\<close> work on raw pointers and check nothing,
  the members check the index and throw \<open>std::out_of_range\<close>.  The theory shows that
  the checked members never read or write outside the buffer, that reads return what
  writes stored, and that writes in place leave every other byte alone.
\<close>

type_synonym ByteArray = "u8 list"

section \<open>Raw big-endian readers (namespace util)\<close>

definition util_readU16BE :: "ptr \<Rightarrow> nat \<Rightarrow> u16 res" where
  "util_readU16BE data index =
     rbind (ptr_read data index) (\<lambda>h.
     rbind (ptr_read data (index + 1)) (\<lambda>l.
     Inr (push_bit 8 (ucast h) OR ucast l)))"

definition util_readU32BE :: "ptr \<Rightarrow> nat \<Rightarrow> u32 res" where
  "util_readU32BE data index =
     rbind (ptr_read data index) (\<lambda>a.
     rbind (ptr_read data (index + 1)) (\<lambda>b.
     rbind (ptr_read data (index + 2)) (\<lambda>c.
     rbind (ptr_read data (index + 3)) (\<lambda>d.
     Inr (((push_bit 24 (ucast a) OR push_bit 16 (ucast b)) OR push_bit 8 (ucast c)) OR ucast d)))))"

section \<open>ByteArray members\<close>

definition writeU16At :: "ByteArray \<Rightarrow> nat \<Rightarrow> u16 \<Rightarrow> ByteArray res" where
  "writeU16At a index value =
     (if szadd index 1 \<ge> length a then Inl (OutOfRange ''Index out of range for writeU16BE'')
      else Inr (a[index := ucast (drop_bit 8 value AND 0xFF), index + 1 := ucast (value AND 0xFF)]))"

definition writeU16BE :: "ByteArray \<Rightarrow> u16 \<Rightarrow> ByteArray" where
  "writeU16BE a value = (a @ [ucast (drop_bit 8 value AND 0xFF)]) @ [ucast (value AND 0xFF)]"

definition writeU32At :: "ByteArray \<Rightarrow> nat \<Rightarrow> u32 \<Rightarrow> ByteArray res" where
  "writeU32At a index value =
     (if szadd index 3 \<ge> length a then Inl (OutOfRange ''Index out of range for writeU32BE'')
      else Inr (a[index := ucast (drop_bit 24 value AND 0xFF),
                  index + 1 := ucast (drop_bit 16 value AND 0xFF),
                  index + 2 := ucast (drop_bit 8 value AND 0xFF),
                  index + 3 := ucast (value AND 0xFF)]))"

definition writeU32BE :: "ByteArray \<Rightarrow> u32 \<Rightarrow> ByteArray" where
  "writeU32BE a value =
     (((a @ [ucast (drop_bit 24 value AND 0xFF)]) @ [ucast (drop_bit 16 value AND 0xFF)])
        @ [ucast (drop_bit 8 value AND 0xFF)]) @ [ucast (value AND 0xFF)]"

text \<open>
  The templates \<open>writeEnum\<close>, \<open>writeEnumAt\<close> and \<open>readEnum\<close> are resolved at compile
  time by the width of the enum's underlying type; the datatype carries an enum value
  with its width.
\<close>

datatype enum_val = Enum8 u8 | Enum16 u16 | Enum32 u32

fun writeEnum :: "ByteArray \<Rightarrow> enum_val \<Rightarrow> ByteArray" where
  "writeEnum a (Enum8 v) = a @ [v]"
| "writeEnum a (Enum16 v) = writeU16BE a v"
| "writeEnum a (Enum32 v) = writeU32BE a v"

fun writeEnumAt :: "ByteArray \<Rightarrow> nat \<Rightarrow> enum_val \<Rightarrow> ByteArray res" where
  "writeEnumAt a index (Enum8 v) =
     (if index \<ge> length a then Inl (OutOfRange ''Index out of range for writeEnumAt'')
      else Inr (a[index := v]))"
| "writeEnumAt a index (Enum16 v) = writeU16At a index v"
| "writeEnumAt a index (Enum32 v) = writeU32At a index v"

definition readU16BE :: "ByteArray \<Rightarrow> nat \<Rightarrow> u16 res" where
  "readU16BE a index =
     (if szadd index 1 \<ge> length a then Inl (OutOfRange ''Index out of range for readU16BE'')
      else util_readU16BE (Some a) index)"

definition readU32BE :: "ByteArray \<Rightarrow> nat \<Rightarrow> u32 res" where
  "readU32BE a index =
     (if szadd index 3 \<ge> length a then Inl (OutOfRange ''Index out of range for readU32BE'')
      else util_readU32BE (Some a) index)"

definition readEnum8 :: "ByteArray \<Rightarrow> nat \<Rightarrow> u8 res" where
  "readEnum8 a index =
     (if index \<ge> length a then Inl (OutOfRange ''Index out of range for readEnum'')
      else Inr (a ! index))"

definition readEnum_like :: "enum_val \<Rightarrow> ByteArray \<Rightarrow> nat \<Rightarrow> enum_val res" where
  "readEnum_like width a index =
     (case width of
        Enum8 _ \<Rightarrow> rbind (readEnum8 a index) (\<lambda>v. Inr (Enum8 v))
      | Enum16 _ \<Rightarrow> rbind (readU16BE a index) (\<lambda>v. Inr (Enum16 v))
      | Enum32 _ \<Rightarrow> rbind (readU32BE a index) (\<lambda>v. Inr (Enum32 v)))"

section \<open>Printing\<close>

definition hex_digit :: "nat \<Rightarrow> char" where
  "hex_digit n = (if n < 10 then char_of (48 + n) else char_of (55 + n))"

text \<open>\<open>std::hex << std::uppercase << std::setw(2) << std::setfill('0')\<close> on a byte.\<close>

definition hex_byte :: "u8 \<Rightarrow> string" where
  "hex_byte b = [hex_digit (unat b div 16), hex_digit (unat b mod 16)]"

definition hex_word16 :: "u16 \<Rightarrow> string" where
  "hex_word16 v = hex_byte (ucast (drop_bit 8 v)) @ hex_byte (ucast v)"

fun show_bytes :: "ByteArray \<Rightarrow> string" where
  "show_bytes [] = []"
| "show_bytes [b] = hex_byte b"
| "show_bytes (b # bs) = hex_byte b @ ''.'' @ show_bytes bs"

section \<open>Addresses (DoIPAddress.h)\<close>

type_synonym DoIPAddress = u16

definition ZERO_ADDRESS :: DoIPAddress where
  "ZERO_ADDRESS = 0x0000"

definition MIN_SOURCE_ADDRESS :: DoIPAddress where
  "MIN_SOURCE_ADDRESS = 0xE000"

definition MAX_SOURCE_ADDRESS :: DoIPAddress where
  "MAX_SOURCE_ADDRESS = 0xE3FF"

definition isValidSourceAddress :: "ptr \<Rightarrow> nat \<Rightarrow> bool res" where
  "isValidSourceAddress data offset =
     rbind (ptr_read data offset) (\<lambda>h.
     rbind (ptr_read data (offset + 1)) (\<lambda>l.
     let addr_value = push_bit 8 (ucast h) OR ucast l :: u16
     in Inr (MIN_SOURCE_ADDRESS \<le> addr_value \<and> MAX_SOURCE_ADDRESS \<ge> addr_value)))"

text \<open>\<open>tryReadAddressFrom\<close> returns its flag and the new value of the out parameter.\<close>

definition tryReadAddressFrom :: "ptr \<Rightarrow> nat \<Rightarrow> DoIPAddress \<Rightarrow> (bool \<times> DoIPAddress) res" where
  "tryReadAddressFrom data offset address =
     (if data = None then Inr (False, address)
      else rbind (ptr_read data offset) (\<lambda>h.
           rbind (ptr_read data (offset + 1)) (\<lambda>l.
           Inr (True, push_bit 8 (ucast h) OR ucast l))))"

definition readAddressFrom :: "ptr \<Rightarrow> nat \<Rightarrow> DoIPAddress res" where
  "readAddressFrom data offset =
     (if data = None then Inr ZERO_ADDRESS
      else rbind (ptr_read data offset) (\<lambda>h.
           rbind (ptr_read data (offset + 1)) (\<lambda>l.
           Inr (push_bit 8 (ucast h) OR ucast l))))"

section \<open>Normal forms\<close>

lemma writeU16BE_eq: "writeU16BE a v = a @ [hi8 v, lo8 v]"
  by (simp add: writeU16BE_def hi8_def lo8_def)

lemma writeU32BE_eq:
  "writeU32BE a v = a @ [byte_of32 24 v, byte_of32 16 v, byte_of32 8 v, byte_of32 0 v]"
  by (simp add: writeU32BE_def byte_of32_def)

lemma writeU16At_eq:
  "szadd i 1 < length a \<Longrightarrow> writeU16At a i v = Inr (a[i := hi8 v, i + 1 := lo8 v])"
  by (simp add: writeU16At_def hi8_def lo8_def)

lemma writeU32At_eq:
  "szadd i 3 < length a \<Longrightarrow> writeU32At a i v =
     Inr (a[i := byte_of32 24 v, i + 1 := byte_of32 16 v, i + 2 := byte_of32 8 v,
            i + 3 := byte_of32 0 v])"
  by (simp add: writeU32At_def byte_of32_def)

lemma util_readU16BE_in [mem_simps]:
  "i + 1 < length bs \<Longrightarrow> util_readU16BE (Some bs) i = Inr (join16 (bs ! i) (bs ! (i + 1)))"
  by (simp add: util_readU16BE_def join16_def)

lemma util_readU32BE_in [mem_simps]:
  "i + 3 < length bs \<Longrightarrow> util_readU32BE (Some bs) i =
     Inr (join32 (bs ! i) (bs ! (i + 1)) (bs ! (i + 2)) (bs ! (i + 3)))"
  by (simp add: util_readU32BE_def join32_def)

lemma readAddressFrom_in [mem_simps]:
  "i + 1 < length bs \<Longrightarrow> readAddressFrom (Some bs) i = Inr (join16 (bs ! i) (bs ! (i + 1)))"
  by (simp add: readAddressFrom_def join16_def)

lemma readU16BE_in:
  "i + 1 < length a \<Longrightarrow> length a \<le> vec_max \<Longrightarrow>
     readU16BE a i = Inr (join16 (a ! i) (a ! (i + 1)))"
  by (simp add: readU16BE_def szadd_def vec_max_def mem_simps)

lemma readU32BE_in:
  "i + 3 < length a \<Longrightarrow> length a \<le> vec_max \<Longrightarrow>
     readU32BE a i = Inr (join32 (a ! i) (a ! (i + 1)) (a ! (i + 2)) (a ! (i + 3)))"
  by (simp add: readU32BE_def szadd_def vec_max_def mem_simps)

section \<open>Properties\<close>

fun enum_width :: "enum_val \<Rightarrow> nat" where
  "enum_width (Enum8 _) = 1"
| "enum_width (Enum16 _) = 2"
| "enum_width (Enum32 _) = 4"

lemma length_writeEnum: "length (writeEnum a v) = length a + enum_width v"
  by (cases v) (simp_all add: writeU16BE_eq writeU32BE_eq)


lemma writeEnumAt_bytes:
  assumes "i + enum_width v \<le> length a" and "length a \<le> vec_max"
  shows "writeEnumAt a i v = Inr (take i a @ writeEnum [] v @ drop (i + enum_width v) a)"
proof -
  from assms(1) obtain xs ys zs where w: "a = xs @ ys @ zs" "length xs = i"
    "length ys = enum_width v" "take i a = xs" "drop (i + enum_width v) a = zs"
    by (rule list_window)
  have sz: "szadd i k = i + k" if "k \<le> 4" for k
    using assms that by (auto intro!: szadd_small simp: vec_max_def)
  show ?thesis
  proof (cases v)
    case (Enum8 x)
    then obtain y where "ys = [y]" using w(3) by (auto simp: length_Suc_conv)
    with Enum8 w show ?thesis by (auto simp: list_update_append)
  next
    case (Enum16 x)
    then obtain p q where "ys = [p, q]" using w(3) by (auto elim: length_2E)
    with Enum16 w sz show ?thesis by (simp add: writeU16At_eq writeU16BE_eq list_update_append)
  next
    case (Enum32 x)
    then obtain p q r s where "ys = [p, q, r, s]" using w(3) by (auto elim: length_4E)
    with Enum32 w sz show ?thesis by (simp add: writeU32At_eq writeU32BE_eq list_update_append)
  qed
qed

text \<open>
  Round trip of the serialisation primitives: an enum value of any supported width
  (8, 16 or 32 bits) appended by \<open>writeEnum\<close> is what \<open>readEnum\<close> returns at the
  position where it was appended, and the bytes before it are unchanged.
\<close>

lemma readEnum_writeEnum:
  assumes "length a + 4 \<le> vec_max"
  shows "readEnum_like v (writeEnum a v) (length a) = Inr v \<and> take (length a) (writeEnum a v) = a"
  using assms
  by (cases v)
    (simp_all add: readEnum_like_def readEnum8_def readU16BE_in readU32BE_in writeU16BE_eq
      writeU32BE_eq byte_simps nth_append)

lemma readEnum_like_window:
  assumes "length xs + enum_width v \<le> vec_max" and "length (xs @ zs) + enum_width v \<le> vec_max"
  shows "readEnum_like v (xs @ writeEnum [] v @ zs) (length xs) = Inr v"
  using assms
  by (cases v)
    (simp_all add: readEnum_like_def readEnum8_def readU16BE_in readU32BE_in writeU16BE_eq
      writeU32BE_eq byte_simps nth_append)

text \<open>
  Writing in place: within the buffer \<open>writeEnumAt\<close> stores exactly the bytes of the
  value, keeps the length, leaves every other byte alone, and the value reads back.
\<close>

lemma writeEnumAt_correct:
  assumes "i + enum_width v \<le> length a" and "length a \<le> vec_max"
  shows "\<exists>a'. writeEnumAt a i v = Inr a' \<and> length a' = length a
    \<and> readEnum_like v a' i = Inr v
    \<and> take i a' = take i a \<and> drop (i + enum_width v) a' = drop (i + enum_width v) a"
proof (intro exI conjI)
  let ?a' = "take i a @ writeEnum [] v @ drop (i + enum_width v) a"
  have len: "length (take i a) = i" "length (writeEnum [] v) = enum_width v"
    using assms by (simp_all add: length_writeEnum)
  show "writeEnumAt a i v = Inr ?a'" by (rule writeEnumAt_bytes [OF assms])
  show "length ?a' = length a" using assms len by simp
  show "readEnum_like v ?a' i = Inr v"
    using readEnum_like_window [of "take i a" v "drop (i + enum_width v) a"] assms len by simp
  show "take i ?a' = take i a" "drop (i + enum_width v) ?a' = drop (i + enum_width v) a"
    using len by simp_all
qed

text \<open>
  (C40) Bounds of the checked readers.  For every index below \<open>SIZE_MAX - 2\<close> a read of any
  width succeeds exactly when all its bytes lie in the buffer and otherwise throws
  \<open>std::out_of_range\<close>: memory outside the buffer is not touched.  The guard
  \<open>index + 1 >= size()\<close> is computed in \<open>size_t\<close>, though: at \<open>index = SIZE_MAX\<close> it wraps to 0,
  lets a 16-bit read of a non-empty buffer through, and the read is out of bounds.
\<close>

theorem checked_reads_bounds:
  assumes "length a \<le> vec_max" and "i < 2 ^ 64 - 3"
  shows "(i + enum_width w \<le> length a \<longrightarrow> (\<exists>v. readEnum_like w a i = Inr v))
    \<and> (length a < i + enum_width w \<longrightarrow> (\<exists>s. readEnum_like w a i = Inl (OutOfRange s)))
    \<and> (a \<noteq> [] \<longrightarrow> readU16BE a (2 ^ 64 - 1) = Inl UndefinedRead)"
proof (intro conjI impI)
  have sz: "szadd i k = i + k" if "k \<le> 3" for k
    using assms that by (auto intro!: szadd_small)
  show "\<exists>v. readEnum_like w a i = Inr v" if "i + enum_width w \<le> length a"
    using that assms
    by (cases w) (simp_all add: readEnum_like_def readEnum8_def readU16BE_in readU32BE_in)
  show "\<exists>s. readEnum_like w a i = Inl (OutOfRange s)" if "length a < i + enum_width w"
    using that sz by (cases w) (simp_all add: readEnum_like_def readEnum8_def readU16BE_def readU32BE_def)
  show "readU16BE a (2 ^ 64 - 1) = Inl UndefinedRead" if "a \<noteq> []"
    using that assms by (simp add: readU16BE_def util_readU16BE_def szadd_def vec_max_def)
qed

theorem checked_reads_bounds_witness:
  "(\<exists>s. readEnum_like (Enum32 0) [1, 2] 0 = Inl (OutOfRange s))
    \<and> readU16BE [1, 2] (2 ^ 64 - 1) = Inl UndefinedRead"
  using checked_reads_bounds [of "[1, 2]" 0 "Enum32 0"] by (simp add: vec_max_def)

end
