(* ===== verification/DoIP_Enums.thy ===== *)
theory DoIP_Enums
  imports DoIP_ByteArray
begin

text \<open>
  The enumerations of the protocol: payload types, acknowledgement and routing codes,
  close reasons, server states, events and timers
  (\<^verbatim>\<open>inc/DoIPPayloadType.h\<close>, \<^verbatim>\<open>inc/DoIPNegativeAck.h\<close>,
  \<^verbatim>\<open>inc/DoIPNegativeDiagnosticAck.h\<close>, \<^verbatim>\<open>inc/DoIPRoutingActivationResult.h\<close>,
  \<^verbatim>\<open>inc/DoIPRoutingActivationType.h\<close>, \<^verbatim>\<open>inc/DoIPFurtherAction.h\<close>,
  \<^verbatim>\<open>inc/DoIPSyncStatus.h\<close>, \<^verbatim>\<open>inc/DoIPCloseReason.h\<close>,
  \<^verbatim>\<open>inc/DoIPDownstreamResult.h\<close>, \<^verbatim>\<open>inc/DoIPServerState.h\<close>,
  \<^verbatim>\<open>inc/DoIPServerEvent.h\<close>) with the stream operators that print them.

  A C++ enum with a fixed underlying type can hold any value of that type, and the code
  does produce such values by \<open>static_cast\<close> from received bytes.  Where it does, the
  datatype has a constructor \<open>Unnamed\<close> for the values without an enumerator;
  the \<open>_cast\<close> functions model the \<open>static_cast\<close>, the \<open>_code\<close> functions its inverse.
\<close>

section \<open>Payload types\<close>

datatype DoIPPayloadType =
    NegativeAck
  | VehicleIdentificationRequest
  | VehicleIdentificationRequestWithEid
  | VehicleIdentificationRequestWithVin
  | VehicleIdentificationResponse
  | RoutingActivationRequest
  | RoutingActivationResponse
  | AliveCheckRequest
  | AliveCheckResponse
  | EntityStatusRequest
  | EntityStatusResponse
  | DiagnosticPowerModeRequest
  | DiagnosticPowerModeResponse
  | DiagnosticMessage
  | DiagnosticMessageAck
  | DiagnosticMessageNegativeAck
  | PeriodicDiagnosticMessage
  | UnnamedPayloadType u16

fun payloadType_code :: "DoIPPayloadType \<Rightarrow> u16" where
  "payloadType_code DoIPPayloadType.NegativeAck = 0x0000"
| "payloadType_code DoIPPayloadType.VehicleIdentificationRequest = 0x0001"
| "payloadType_code DoIPPayloadType.VehicleIdentificationRequestWithEid = 0x0002"
| "payloadType_code DoIPPayloadType.VehicleIdentificationRequestWithVin = 0x0003"
| "payloadType_code DoIPPayloadType.VehicleIdentificationResponse = 0x0004"
| "payloadType_code DoIPPayloadType.RoutingActivationRequest = 0x0005"
| "payloadType_code DoIPPayloadType.RoutingActivationResponse = 0x0006"
| "payloadType_code DoIPPayloadType.AliveCheckRequest = 0x0007"
| "payloadType_code DoIPPayloadType.AliveCheckResponse = 0x0008"
| "payloadType_code DoIPPayloadType.EntityStatusRequest = 0x4001"
| "payloadType_code DoIPPayloadType.EntityStatusResponse = 0x4002"
| "payloadType_code DoIPPayloadType.DiagnosticPowerModeRequest = 0x4003"
| "payloadType_code DoIPPayloadType.DiagnosticPowerModeResponse = 0x4004"
| "payloadType_code DoIPPayloadType.DiagnosticMessage = 0x8001"
| "payloadType_code DoIPPayloadType.DiagnosticMessageAck = 0x8002"
| "payloadType_code DoIPPayloadType.DiagnosticMessageNegativeAck = 0x8003"
| "payloadType_code DoIPPayloadType.PeriodicDiagnosticMessage = 0x8004"
| "payloadType_code (DoIPPayloadType.UnnamedPayloadType v) = v"

definition payloadType_cast :: "u16 \<Rightarrow> DoIPPayloadType" where
  "payloadType_cast v =
     (if v = 0x0000 then DoIPPayloadType.NegativeAck
      else if v = 0x0001 then DoIPPayloadType.VehicleIdentificationRequest
      else if v = 0x0002 then DoIPPayloadType.VehicleIdentificationRequestWithEid
      else if v = 0x0003 then DoIPPayloadType.VehicleIdentificationRequestWithVin
      else if v = 0x0004 then DoIPPayloadType.VehicleIdentificationResponse
      else if v = 0x0005 then DoIPPayloadType.RoutingActivationRequest
      else if v = 0x0006 then DoIPPayloadType.RoutingActivationResponse
      else if v = 0x0007 then DoIPPayloadType.AliveCheckRequest
      else if v = 0x0008 then DoIPPayloadType.AliveCheckResponse
      else if v = 0x4001 then DoIPPayloadType.EntityStatusRequest
      else if v = 0x4002 then DoIPPayloadType.EntityStatusResponse
      else if v = 0x4003 then DoIPPayloadType.DiagnosticPowerModeRequest
      else if v = 0x4004 then DoIPPayloadType.DiagnosticPowerModeResponse
      else if v = 0x8001 then DoIPPayloadType.DiagnosticMessage
      else if v = 0x8002 then DoIPPayloadType.DiagnosticMessageAck
      else if v = 0x8003 then DoIPPayloadType.DiagnosticMessageNegativeAck
      else if v = 0x8004 then DoIPPayloadType.PeriodicDiagnosticMessage
      else DoIPPayloadType.UnnamedPayloadType v)"

definition isValidPayloadType :: "u16 \<Rightarrow> bool" where
  "isValidPayloadType value \<longleftrightarrow> value \<in>
     {0x0000, 0x0001, 0x0002, 0x0003, 0x0004, 0x0005, 0x0006, 0x0007, 0x0008,
      0x4001, 0x4002, 0x4003, 0x4004, 0x8001, 0x8002, 0x8003, 0x8004}"

definition toPayloadType :: "u16 \<Rightarrow> DoIPPayloadType option" where
  "toPayloadType value = (if isValidPayloadType value then Some (payloadType_cast value) else None)"

definition toPayloadType2 :: "u8 \<Rightarrow> u8 \<Rightarrow> DoIPPayloadType option" where
  "toPayloadType2 hsb lsb = toPayloadType (push_bit 8 (ucast hsb) OR ucast lsb)"

fun payloadType_name :: "DoIPPayloadType \<Rightarrow> string" where
  "payloadType_name DoIPPayloadType.NegativeAck = ''NegativeAck''"
| "payloadType_name DoIPPayloadType.VehicleIdentificationRequest = ''VehicleIdentificationRequest''"
| "payloadType_name DoIPPayloadType.VehicleIdentificationRequestWithEid = ''VehicleIdentificationRequestWithEid''"
| "payloadType_name DoIPPayloadType.VehicleIdentificationRequestWithVin = ''VehicleIdentificationRequestWithVin''"
| "payloadType_name DoIPPayloadType.VehicleIdentificationResponse = ''VehicleIdentificationResponse''"
| "payloadType_name DoIPPayloadType.RoutingActivationRequest = ''RoutingActivationRequest''"
| "payloadType_name DoIPPayloadType.RoutingActivationResponse = ''RoutingActivationResponse''"
| "payloadType_name DoIPPayloadType.AliveCheckRequest = ''AliveCheckRequest''"
| "payloadType_name DoIPPayloadType.AliveCheckResponse = ''AliveCheckResponse''"
| "payloadType_name DoIPPayloadType.EntityStatusRequest = ''EntityStatusRequest''"
| "payloadType_name DoIPPayloadType.EntityStatusResponse = ''EntityStatusResponse''"
| "payloadType_name DoIPPayloadType.DiagnosticPowerModeRequest = ''DiagnosticPowerModeRequest''"
| "payloadType_name DoIPPayloadType.DiagnosticPowerModeResponse = ''DiagnosticPowerModeResponse''"
| "payloadType_name DoIPPayloadType.DiagnosticMessage = ''DiagnosticMessage''"
| "payloadType_name DoIPPayloadType.DiagnosticMessageAck = ''DiagnosticMessageAck''"
| "payloadType_name DoIPPayloadType.DiagnosticMessageNegativeAck = ''DiagnosticMessageNegativeAck''"
| "payloadType_name DoIPPayloadType.PeriodicDiagnosticMessage = ''PeriodicDiagnosticMessage''"
| "payloadType_name (DoIPPayloadType.UnnamedPayloadType v) = ''Unknown''"

definition show_payloadType :: "DoIPPayloadType \<Rightarrow> string" where
  "show_payloadType t = payloadType_name t @ '' (0x'' @ hex_word16 (payloadType_code t) @ '')''"

section \<open>Acknowledgement codes\<close>

datatype DoIPNegativeAck =
    IncorrectPatternFormat
  | UnknownPayloadType
  | MessageTooLarge
  | OutOfMemory
  | InvalidPayloadLength

fun negativeAck_code :: "DoIPNegativeAck \<Rightarrow> u8" where
  "negativeAck_code DoIPNegativeAck.IncorrectPatternFormat = 0x00"
| "negativeAck_code DoIPNegativeAck.UnknownPayloadType = 0x01"
| "negativeAck_code DoIPNegativeAck.MessageTooLarge = 0x02"
| "negativeAck_code DoIPNegativeAck.OutOfMemory = 0x03"
| "negativeAck_code DoIPNegativeAck.InvalidPayloadLength = 0x04"

datatype DoIPNegativeDiagnosticAck =
    InvalidSourceAddress
  | UnknownTargetAddress
  | DiagnosticMessageTooLarge
  | OutOfMemory
  | TargetUnreachable
  | UnknownNetwork
  | TransportProtocolError
  | TargetBusy
  | UnnamedDiagnosticAck u8

type_synonym DoIPDiagnosticAck = "DoIPNegativeDiagnosticAck option"

fun diagAck_code :: "DoIPNegativeDiagnosticAck \<Rightarrow> u8" where
  "diagAck_code DoIPNegativeDiagnosticAck.InvalidSourceAddress = 0x02"
| "diagAck_code DoIPNegativeDiagnosticAck.UnknownTargetAddress = 0x03"
| "diagAck_code DoIPNegativeDiagnosticAck.DiagnosticMessageTooLarge = 0x04"
| "diagAck_code DoIPNegativeDiagnosticAck.OutOfMemory = 0x05"
| "diagAck_code DoIPNegativeDiagnosticAck.TargetUnreachable = 0x06"
| "diagAck_code DoIPNegativeDiagnosticAck.UnknownNetwork = 0x07"
| "diagAck_code DoIPNegativeDiagnosticAck.TransportProtocolError = 0x08"
| "diagAck_code DoIPNegativeDiagnosticAck.TargetBusy = 0x09"
| "diagAck_code (DoIPNegativeDiagnosticAck.UnnamedDiagnosticAck v) = v"

definition diagAck_cast :: "u8 \<Rightarrow> DoIPNegativeDiagnosticAck" where
  "diagAck_cast v =
     (if v = 0x02 then DoIPNegativeDiagnosticAck.InvalidSourceAddress
      else if v = 0x03 then DoIPNegativeDiagnosticAck.UnknownTargetAddress
      else if v = 0x04 then DoIPNegativeDiagnosticAck.DiagnosticMessageTooLarge
      else if v = 0x05 then DoIPNegativeDiagnosticAck.OutOfMemory
      else if v = 0x06 then DoIPNegativeDiagnosticAck.TargetUnreachable
      else if v = 0x07 then DoIPNegativeDiagnosticAck.UnknownNetwork
      else if v = 0x08 then DoIPNegativeDiagnosticAck.TransportProtocolError
      else if v = 0x09 then DoIPNegativeDiagnosticAck.TargetBusy
      else DoIPNegativeDiagnosticAck.UnnamedDiagnosticAck v)"

fun diagAck_name :: "DoIPNegativeDiagnosticAck \<Rightarrow> string" where
  "diagAck_name DoIPNegativeDiagnosticAck.InvalidSourceAddress = ''InvalidSourceAddress''"
| "diagAck_name DoIPNegativeDiagnosticAck.UnknownTargetAddress = ''UnknownTargetAddress''"
| "diagAck_name DoIPNegativeDiagnosticAck.DiagnosticMessageTooLarge = ''DiagnosticMessageTooLarge''"
| "diagAck_name DoIPNegativeDiagnosticAck.OutOfMemory = ''OutOfMemory''"
| "diagAck_name DoIPNegativeDiagnosticAck.TargetUnreachable = ''TargetUnreachable''"
| "diagAck_name DoIPNegativeDiagnosticAck.UnknownNetwork = ''UnknownNetwork''"
| "diagAck_name DoIPNegativeDiagnosticAck.TransportProtocolError = ''TransportProtocolError''"
| "diagAck_name DoIPNegativeDiagnosticAck.TargetBusy = ''TargetBusy''"
| "diagAck_name (DoIPNegativeDiagnosticAck.UnnamedDiagnosticAck v) = ''Unknown''"

definition show_negativeDiagnosticAck :: "DoIPNegativeDiagnosticAck \<Rightarrow> string" where
  "show_negativeDiagnosticAck n = diagAck_name n @ '' (0x'' @ hex_byte (diagAck_code n) @ '')''"

fun show_diagnosticAck :: "DoIPDiagnosticAck \<Rightarrow> string" where
  "show_diagnosticAck None = ''PositiveAck (0x00)''"
| "show_diagnosticAck (Some n) = show_negativeDiagnosticAck n"

section \<open>Routing activation\<close>

datatype DoIPRoutingActivationResult =
    UnknownSourceAddress
  | NoMoreRoutingSlotsAvailable
  | InvalidAddressOrRoutingType
  | SourceAddressAlreadyRegistered
  | Unauthorized
  | MissingConfirmation
  | InvalidRoutingType
  | SecuredConnectionRequired
  | VehicleNotReadyForRouting
  | RouteActivated
  | RouteActivatedConfirmationRequired
  | UnnamedActivationResult u8

fun activationResult_code :: "DoIPRoutingActivationResult \<Rightarrow> u8" where
  "activationResult_code DoIPRoutingActivationResult.UnknownSourceAddress = 0x00"
| "activationResult_code DoIPRoutingActivationResult.NoMoreRoutingSlotsAvailable = 0x01"
| "activationResult_code DoIPRoutingActivationResult.InvalidAddressOrRoutingType = 0x02"
| "activationResult_code DoIPRoutingActivationResult.SourceAddressAlreadyRegistered = 0x03"
| "activationResult_code DoIPRoutingActivationResult.Unauthorized = 0x04"
| "activationResult_code DoIPRoutingActivationResult.MissingConfirmation = 0x05"
| "activationResult_code DoIPRoutingActivationResult.InvalidRoutingType = 0x06"
| "activationResult_code DoIPRoutingActivationResult.SecuredConnectionRequired = 0x07"
| "activationResult_code DoIPRoutingActivationResult.VehicleNotReadyForRouting = 0x08"
| "activationResult_code DoIPRoutingActivationResult.RouteActivated = 0x10"
| "activationResult_code DoIPRoutingActivationResult.RouteActivatedConfirmationRequired = 0x11"
| "activationResult_code (DoIPRoutingActivationResult.UnnamedActivationResult v) = v"

fun closeSocketOnRoutingActivationResult :: "DoIPRoutingActivationResult \<Rightarrow> bool" where
  "closeSocketOnRoutingActivationResult DoIPRoutingActivationResult.UnknownSourceAddress = True"
| "closeSocketOnRoutingActivationResult DoIPRoutingActivationResult.NoMoreRoutingSlotsAvailable = True"
| "closeSocketOnRoutingActivationResult DoIPRoutingActivationResult.SourceAddressAlreadyRegistered = True"
| "closeSocketOnRoutingActivationResult DoIPRoutingActivationResult.MissingConfirmation = True"
| "closeSocketOnRoutingActivationResult DoIPRoutingActivationResult.InvalidRoutingType = True"
| "closeSocketOnRoutingActivationResult DoIPRoutingActivationResult.SecuredConnectionRequired = True"
| "closeSocketOnRoutingActivationResult DoIPRoutingActivationResult.InvalidAddressOrRoutingType = False"
| "closeSocketOnRoutingActivationResult DoIPRoutingActivationResult.Unauthorized = False"
| "closeSocketOnRoutingActivationResult DoIPRoutingActivationResult.VehicleNotReadyForRouting = False"
| "closeSocketOnRoutingActivationResult DoIPRoutingActivationResult.RouteActivated = False"
| "closeSocketOnRoutingActivationResult DoIPRoutingActivationResult.RouteActivatedConfirmationRequired = False"
| "closeSocketOnRoutingActivationResult (DoIPRoutingActivationResult.UnnamedActivationResult v) = True"

fun show_routingActivationResult :: "DoIPRoutingActivationResult \<Rightarrow> string" where
  "show_routingActivationResult DoIPRoutingActivationResult.UnknownSourceAddress = ''UnknownSourceAddress''"
| "show_routingActivationResult DoIPRoutingActivationResult.NoMoreRoutingSlotsAvailable = ''NoMoreRoutingSlotsAvailable''"
| "show_routingActivationResult DoIPRoutingActivationResult.InvalidAddressOrRoutingType = ''InvalidAddressOrRoutingType''"
| "show_routingActivationResult DoIPRoutingActivationResult.SourceAddressAlreadyRegistered = ''SourceAddressAlreadyRegistered''"
| "show_routingActivationResult DoIPRoutingActivationResult.Unauthorized = ''Unauthorized''"
| "show_routingActivationResult DoIPRoutingActivationResult.MissingConfirmation = ''MissingConfirmation''"
| "show_routingActivationResult DoIPRoutingActivationResult.InvalidRoutingType = ''InvalidRoutingType''"
| "show_routingActivationResult DoIPRoutingActivationResult.SecuredConnectionRequired = ''SecuredConnectionRequired''"
| "show_routingActivationResult DoIPRoutingActivationResult.VehicleNotReadyForRouting = ''VehicleNotReadyForRouting''"
| "show_routingActivationResult DoIPRoutingActivationResult.RouteActivated = ''RouteActivated''"
| "show_routingActivationResult DoIPRoutingActivationResult.RouteActivatedConfirmationRequired = ''RouteActivatedConfirmationRequired''"
| "show_routingActivationResult (DoIPRoutingActivationResult.UnnamedActivationResult v) = ''Unknown('' @ show_nat (unat v) @ '')''"

datatype DoIPRoutingActivationType =
    Default
  | DiagnosticCommRequired
  | CentralSecurity

fun activationType_code :: "DoIPRoutingActivationType \<Rightarrow> u8" where
  "activationType_code DoIPRoutingActivationType.Default = 0x00"
| "activationType_code DoIPRoutingActivationType.DiagnosticCommRequired = 0x01"
| "activationType_code DoIPRoutingActivationType.CentralSecurity = 0xE0"

definition toRoutingActivationType :: "u8 \<Rightarrow> DoIPRoutingActivationType option" where
  "toRoutingActivationType value =
     (if value = 0 then Some DoIPRoutingActivationType.Default
      else if value = 0xE0 then Some DoIPRoutingActivationType.CentralSecurity
      else None)"

section \<open>Vehicle identification\<close>

datatype DoIPFurtherAction =
    NoFurtherAction
  | RoutingActivationForCentralSecurity
  | ReservedFurtherAction u8

fun furtherAction_code :: "DoIPFurtherAction \<Rightarrow> u8" where
  "furtherAction_code DoIPFurtherAction.NoFurtherAction = 0x00"
| "furtherAction_code DoIPFurtherAction.RoutingActivationForCentralSecurity = 0x10"
| "furtherAction_code (DoIPFurtherAction.ReservedFurtherAction v) = v"

definition furtherAction_cast :: "u8 \<Rightarrow> DoIPFurtherAction" where
  "furtherAction_cast v =
     (if v = 0x00 then DoIPFurtherAction.NoFurtherAction
      else if v = 0x10 then DoIPFurtherAction.RoutingActivationForCentralSecurity
      else DoIPFurtherAction.ReservedFurtherAction v)"

text \<open>
  The stream operator prints a reserved code with \<open>std::hex << static_cast<uint8_t>(far)\<close>;
  a \<open>uint8_t\<close> is a character type, so the byte itself is written, not its hexadecimal digits.
\<close>

fun show_furtherAction :: "DoIPFurtherAction \<Rightarrow> string" where
  "show_furtherAction DoIPFurtherAction.NoFurtherAction = ''None''"
| "show_furtherAction DoIPFurtherAction.RoutingActivationForCentralSecurity
     = ''Routing Activation for Central Security Required''"
| "show_furtherAction (DoIPFurtherAction.ReservedFurtherAction v)
     = ''Reserved Further Action Code: 0x'' @ [char_of (unat v)]"

datatype DoIPSyncStatus =
    GidVinSynchronized
  | GidVinNotSynchronized

fun syncStatus_code :: "DoIPSyncStatus \<Rightarrow> u8" where
  "syncStatus_code DoIPSyncStatus.GidVinSynchronized = 0x00"
| "syncStatus_code DoIPSyncStatus.GidVinNotSynchronized = 0x10"

section \<open>Connection life cycle\<close>

datatype DoIPCloseReason =
    NoReason
  | InitialInactivityTimeout
  | GeneralInactivityTimeout
  | AliveCheckTimeout
  | SocketError
  | InvalidMessage
  | ApplicationRequest
  | RoutingActivationDenied

fun show_closeReason :: "DoIPCloseReason \<Rightarrow> string" where
  "show_closeReason DoIPCloseReason.NoReason = ''None''"
| "show_closeReason DoIPCloseReason.InitialInactivityTimeout = ''Initial Inactivity Timeout''"
| "show_closeReason DoIPCloseReason.GeneralInactivityTimeout = ''General Inactivity Timeout''"
| "show_closeReason DoIPCloseReason.AliveCheckTimeout = ''AliveCheck Timeout''"
| "show_closeReason DoIPCloseReason.SocketError = ''Socket Error''"
| "show_closeReason DoIPCloseReason.InvalidMessage = ''Invalid Message''"
| "show_closeReason DoIPCloseReason.ApplicationRequest = ''Application Request''"
| "show_closeReason DoIPCloseReason.RoutingActivationDenied = ''Routing Activation Denied''"

datatype DoIPDownstreamResult =
    Pending
  | Handled
  | Error

text \<open>The ANSI escape sequences of \<^verbatim>\<open>inc/AnsiColors.h\<close> that the printers use.\<close>

definition ansi_reset :: string where "ansi_reset = CHR 0x1B # ''[0m''"

definition ansi_red :: string where "ansi_red = CHR 0x1B # ''[31m''"

definition ansi_green :: string where "ansi_green = CHR 0x1B # ''[32m''"

definition ansi_yellow :: string where "ansi_yellow = CHR 0x1B # ''[33m''"

fun show_downstreamResult :: "DoIPDownstreamResult \<Rightarrow> string" where
  "show_downstreamResult DoIPDownstreamResult.Pending = ansi_yellow @ ''Pending'' @ ansi_reset"
| "show_downstreamResult DoIPDownstreamResult.Handled = ansi_green @ ''Handled'' @ ansi_reset"
| "show_downstreamResult DoIPDownstreamResult.Error = ansi_red @ ''Error'' @ ansi_reset"

datatype DoIPServerState =
    SocketInitialized
  | WaitRoutingActivation
  | RoutingActivated
  | WaitAliveCheckResponse
  | WaitDownstreamResponse
  | Finalize
  | Closed

fun serverState_index :: "DoIPServerState \<Rightarrow> nat" where
  "serverState_index DoIPServerState.SocketInitialized = 0"
| "serverState_index DoIPServerState.WaitRoutingActivation = 1"
| "serverState_index DoIPServerState.RoutingActivated = 2"
| "serverState_index DoIPServerState.WaitAliveCheckResponse = 3"
| "serverState_index DoIPServerState.WaitDownstreamResponse = 4"
| "serverState_index DoIPServerState.Finalize = 5"
| "serverState_index DoIPServerState.Closed = 6"

fun show_serverState :: "DoIPServerState \<Rightarrow> string" where
  "show_serverState DoIPServerState.SocketInitialized = ''SocketInitialized''"
| "show_serverState DoIPServerState.WaitRoutingActivation = ''WaitRoutingActivation''"
| "show_serverState DoIPServerState.RoutingActivated = ''RoutingActivated''"
| "show_serverState DoIPServerState.WaitAliveCheckResponse = ''WaitAliveCheckResponse''"
| "show_serverState DoIPServerState.WaitDownstreamResponse = ''WaitDownstreamResponse''"
| "show_serverState DoIPServerState.Finalize = ''Finalize''"
| "show_serverState DoIPServerState.Closed = ''Closed''"

datatype DoIPServerEvent =
    RoutingActivationReceived
  | AliveCheckResponseReceived
  | DiagnosticMessageReceived
  | DiagnosticMessageReceivedDownstream
  | CloseRequestReceived
  | Initial_inactivity_timeout
  | GeneralInactivityTimeout
  | AliveCheckTimeout
  | DownstreamTimeout
  | InvalidMessage
  | SocketError

fun show_serverEvent :: "DoIPServerEvent \<Rightarrow> string" where
  "show_serverEvent DoIPServerEvent.RoutingActivationReceived = ''RoutingActivationReceived''"
| "show_serverEvent DoIPServerEvent.AliveCheckResponseReceived = ''AliveCheckResponseReceived''"
| "show_serverEvent DoIPServerEvent.DiagnosticMessageReceived = ''DiagnosticMessageReceived''"
| "show_serverEvent DoIPServerEvent.DiagnosticMessageReceivedDownstream = ''DiagnosticMessageReceivedDownstream''"
| "show_serverEvent DoIPServerEvent.CloseRequestReceived = ''CloseRequestReceived''"
| "show_serverEvent DoIPServerEvent.Initial_inactivity_timeout = ''Initial_inactivity_timeout''"
| "show_serverEvent DoIPServerEvent.GeneralInactivityTimeout = ''GeneralInactivityTimeout''"
| "show_serverEvent DoIPServerEvent.AliveCheckTimeout = ''AliveCheckTimeout''"
| "show_serverEvent DoIPServerEvent.DownstreamTimeout = ''DownstreamTimeout''"
| "show_serverEvent DoIPServerEvent.InvalidMessage = ''InvalidMessage''"
| "show_serverEvent DoIPServerEvent.SocketError = ''SocketError''"

datatype ConnectionTimers =
    InitialInactivity
  | GeneralInactivity
  | AliveCheck
  | DownstreamResponse
  | UserDefined

fun show_connectionTimer :: "ConnectionTimers \<Rightarrow> string" where
  "show_connectionTimer ConnectionTimers.InitialInactivity = ''Initial Inactivity''"
| "show_connectionTimer ConnectionTimers.GeneralInactivity = ''General Inactivity''"
| "show_connectionTimer ConnectionTimers.AliveCheck = ''Alive Check''"
| "show_connectionTimer ConnectionTimers.DownstreamResponse = ''Downstream Response''"
| "show_connectionTimer ConnectionTimers.UserDefined = ''User Defined''"

text \<open>
  Scoped enums compare by their underlying value: the order of the states is the order of
  their indices.
\<close>

instantiation DoIPServerState :: linorder
begin

definition less_eq_DoIPServerState :: "DoIPServerState \<Rightarrow> DoIPServerState \<Rightarrow> bool" where
  "less_eq_DoIPServerState s t \<longleftrightarrow> serverState_index s \<le> serverState_index t"

definition less_DoIPServerState :: "DoIPServerState \<Rightarrow> DoIPServerState \<Rightarrow> bool" where
  "less_DoIPServerState s t \<longleftrightarrow> serverState_index s < serverState_index t"

instance
proof
  have inj: "serverState_index s = serverState_index t \<Longrightarrow> s = t" for s t
    by (cases s; cases t) simp_all
  fix x y z :: DoIPServerState
  show "x < y \<longleftrightarrow> x \<le> y \<and> \<not> y \<le> x" "x \<le> x" "x \<le> y \<or> y \<le> x"
    "x \<le> y \<Longrightarrow> y \<le> z \<Longrightarrow> x \<le> z" "x \<le> y \<Longrightarrow> y \<le> x \<Longrightarrow> x = y"
    by (auto simp: less_eq_DoIPServerState_def less_DoIPServerState_def intro: inj)
qed

end

section \<open>Codes and casts\<close>

lemma payloadType_code_cast [simp]: "payloadType_code (payloadType_cast v) = v"
  by (simp add: payloadType_cast_def)

definition named_payloadType :: "DoIPPayloadType \<Rightarrow> bool" where
  "named_payloadType t \<longleftrightarrow> (case t of DoIPPayloadType.UnnamedPayloadType _ \<Rightarrow> False | _ \<Rightarrow> True)"

lemma toPayloadType_code:
  "named_payloadType t \<Longrightarrow> toPayloadType (payloadType_code t) = Some t"
  by (cases t)
    (simp_all add: toPayloadType_def payloadType_cast_def isValidPayloadType_def named_payloadType_def)

lemma toPayloadType_Some_iff:
  "toPayloadType v = Some t \<longleftrightarrow> named_payloadType t \<and> payloadType_code t = v"
proof
  assume "toPayloadType v = Some t"
  then have "isValidPayloadType v" and t: "t = payloadType_cast v"
    by (auto simp: toPayloadType_def split: if_splits)
  then show "named_payloadType t \<and> payloadType_code t = v"
    by (auto simp: isValidPayloadType_def payloadType_cast_def named_payloadType_def)
qed (auto simp: toPayloadType_code)

lemma furtherAction_code_cast [simp]: "furtherAction_code (furtherAction_cast v) = v"
  by (simp add: furtherAction_cast_def)

lemma diagAck_code_cast [simp]: "diagAck_code (diagAck_cast v) = v"
  by (simp add: diagAck_cast_def)

end
