(* ===== verification/DoIP_Identifiers.thy ===== *)
theory DoIP_Identifiers
  imports DoIP_ByteArray
begin

text \<open>
  The fixed-length identifiers of \<^verbatim>\<open>inc/DoIPIdentifiers.h\<close>.  The class template
  \<open>GenericFixedId<IdLength, zeroPadding, padChar>\<close> is a group of functions over its
  three template arguments; \<open>DoIpEid\<close> and \<open>DoIpGid\<close> are \<open>GenericFixedId<6, false>\<close>, and
  \<open>DoIpVin\<close> wraps \<open>GenericFixedId<17, true, '0'>\<close>.  An identifier is its array
  \<open>m_id\<close>.  The theory shows the length invariant for every constructor, what each
  constructor stores (padding, truncation, big-endian integers), and that reading an
  identifier back and constructing it again is the identity.
\<close>

section \<open>GenericFixedId\<close>

record fixed_id_type =
  IdLength :: nat
  zeroPadding :: bool
  padChar :: char

type_synonym fixed_id = "u8 list"

definition getPadByte :: "fixed_id_type \<Rightarrow> u8" where
  "getPadByte T = byte_of_char (padChar T)"

text \<open>\<open>m_id{}\<close>: the zero-initialised array.\<close>

definition id_init :: "fixed_id_type \<Rightarrow> fixed_id" where
  "id_init T = replicate (IdLength T) 0"

text \<open>\<open>std::copy_n(src, n, m_id.data())\<close>.\<close>

definition id_store :: "u8 list \<Rightarrow> fixed_id \<Rightarrow> fixed_id" where
  "id_store bs m = bs @ drop (length bs) m"

text \<open>\<open>pad(start_index)\<close>: \<open>std::fill\<close> from the index to the end, for padded types only.\<close>

definition id_pad :: "fixed_id_type \<Rightarrow> nat \<Rightarrow> fixed_id \<Rightarrow> fixed_id" where
  "id_pad T start_index m =
     (if zeroPadding T \<and> start_index < IdLength T
      then take start_index m @ replicate (IdLength T - start_index) (getPadByte T)
      else m)"

definition id_default :: "fixed_id_type \<Rightarrow> fixed_id" where
  "id_default T = id_pad T 0 (id_init T)"

definition id_from_string :: "fixed_id_type \<Rightarrow> string \<Rightarrow> fixed_id" where
  "id_from_string T id_string =
     (let copy_length = min (length id_string) (IdLength T);
          m = id_store (map byte_of_char (take copy_length id_string)) (id_init T)
      in id_pad T copy_length m)"

text \<open>A C string: \<open>None\<close> is \<open>nullptr\<close>, otherwise its characters up to the terminator count.\<close>

definition id_from_cstr :: "fixed_id_type \<Rightarrow> string option \<Rightarrow> fixed_id" where
  "id_from_cstr T id_cstr =
     (case id_cstr of
        Some s \<Rightarrow>
          (let t = takeWhile (\<lambda>c. c \<noteq> CHR 0x00) s;
               copy_length = min (length t) (IdLength T);
               m = id_store (map byte_of_char (take copy_length t)) (id_init T)
           in id_pad T copy_length m)
      | None \<Rightarrow> id_pad T 0 (id_init T))"

definition id_from_bytes :: "fixed_id_type \<Rightarrow> ptr \<Rightarrow> nat \<Rightarrow> fixed_id res" where
  "id_from_bytes T data len =
     (if data \<noteq> None
      then (let copy_length = min len (IdLength T)
            in rbind (ptr_copy_n data copy_length) (\<lambda>bs.
               Inr (id_pad T copy_length (id_store bs (id_init T)))))
      else Inr (id_pad T 0 (id_init T)))"

definition id_from_byteArray :: "fixed_id_type \<Rightarrow> ByteArray \<Rightarrow> fixed_id" where
  "id_from_byteArray T byte_array =
     (let copy_length = min (length byte_array) (IdLength T)
      in id_pad T copy_length (id_store (take copy_length byte_array) (id_init T)))"

text \<open>
  Construction from an integral value of \<open>sizeof_integral\<close> bytes:
  \<open>m_id[len - 1 - i] = (id_value >> (i * 8)) & 0xFF\<close> for \<open>i < len\<close>.  There is no padding.
\<close>

fun id_integral_loop :: "nat \<Rightarrow> nat \<Rightarrow> int \<Rightarrow> fixed_id \<Rightarrow> fixed_id" where
  "id_integral_loop len 0 v m = m"
| "id_integral_loop len (Suc k) v m =
     id_integral_loop len k v (m[len - 1 - k := word_of_int (drop_bit (k * 8) v AND 0xFF)])"

definition id_from_integral :: "fixed_id_type \<Rightarrow> nat \<Rightarrow> int \<Rightarrow> fixed_id" where
  "id_from_integral T sizeof_integral id_value =
     (let len = min sizeof_integral (IdLength T)
      in id_integral_loop len len id_value (id_init T))"

fun effective_length :: "fixed_id \<Rightarrow> nat" where
  "effective_length [] = 0"
| "effective_length (b # bs) = (if b = 0 then 0 else Suc (effective_length bs))"

definition id_toString :: "fixed_id \<Rightarrow> string" where
  "id_toString m = map char_of_byte (take (effective_length m) m)"

definition id_toHexString :: "fixed_id \<Rightarrow> string" where
  "id_toHexString m = show_bytes m"

definition id_appendTo :: "fixed_id \<Rightarrow> ByteArray \<Rightarrow> ByteArray" where
  "id_appendTo m bytes = bytes @ m"

definition id_isEmpty :: "fixed_id_type \<Rightarrow> fixed_id \<Rightarrow> bool" where
  "id_isEmpty T m =
     (if zeroPadding T then list_all (\<lambda>byte. byte = getPadByte T) m
      else list_all (\<lambda>byte. byte = 0) m)"

definition id_at :: "fixed_id \<Rightarrow> nat \<Rightarrow> u8 res" where
  "id_at m index = (if index < length m then Inr (m ! index) else Inl (OutOfRange ''array::at''))"

section \<open>EID, GID and VIN\<close>

definition eid_type :: fixed_id_type where
  "eid_type = \<lparr>IdLength = 6, zeroPadding = False, padChar = CHR 0x00\<rparr>"

definition vin_type :: fixed_id_type where
  "vin_type = \<lparr>IdLength = 17, zeroPadding = True, padChar = CHR ''0''\<rparr>"

definition isValidVinChar :: "char \<Rightarrow> bool" where
  "isValidVinChar c \<longleftrightarrow>
     (CHR ''A'' \<le> c \<and> c \<le> CHR ''Z'' \<and> c \<noteq> CHR ''I'' \<and> c \<noteq> CHR ''O'' \<and> c \<noteq> CHR ''Q'')
     \<or> (CHR ''0'' \<le> c \<and> c \<le> CHR ''9'')"

text \<open>\<open>std::toupper\<close> in the C locale.\<close>

definition toupper :: "char \<Rightarrow> char" where
  "toupper c = (if CHR ''a'' \<le> c \<and> c \<le> CHR ''z'' then char_of (of_char c - 32 :: nat) else c)"

definition normalizeVin :: "string \<Rightarrow> bool \<Rightarrow> string" where
  "normalizeVin vin validate =
     (let vin = map toupper vin
      in if validate \<and> \<not> list_all (\<lambda>c. isValidVinChar c \<or> c = CHR ''0'') vin
         then ''00000000000000000'' else vin)"

definition vin_default :: fixed_id where
  "vin_default = id_default vin_type"

definition vin_from_string :: "string \<Rightarrow> fixed_id" where
  "vin_from_string vin = id_from_string vin_type (normalizeVin vin False)"

definition vin_from_cstr :: "string option \<Rightarrow> fixed_id" where
  "vin_from_cstr vin =
     id_from_string vin_type
       (case vin of Some s \<Rightarrow> normalizeVin (takeWhile (\<lambda>c. c \<noteq> CHR 0x00) s) False | None \<Rightarrow> [])"

definition vin_from_bytes :: "ptr \<Rightarrow> nat \<Rightarrow> fixed_id res" where
  "vin_from_bytes data len = id_from_bytes vin_type data len"

definition vin_from_byteArray :: "ByteArray \<Rightarrow> fixed_id" where
  "vin_from_byteArray a = id_from_byteArray vin_type a"

definition vin_from_integral :: "nat \<Rightarrow> int \<Rightarrow> fixed_id" where
  "vin_from_integral sizeof_integral v = id_from_integral vin_type sizeof_integral v"

definition vin_isValid :: "fixed_id \<Rightarrow> bool" where
  "vin_isValid m =
     list_all (\<lambda>byte. let c = char_of_byte byte in isValidVinChar c \<or> c = CHR ''0'') m"

definition show_vin :: "fixed_id \<Rightarrow> string" where
  "show_vin m = id_toString m"

definition show_eid :: "fixed_id \<Rightarrow> string" where
  "show_eid m = id_toHexString m"

section \<open>Lemmas\<close>

lemma id_init_length [simp]: "length (id_init T) = IdLength T"
  by (simp add: id_init_def)

lemma id_pad_length [simp]: "length m = IdLength T \<Longrightarrow> length (id_pad T n m) = IdLength T"
  by (simp add: id_pad_def)

lemma id_store_length [simp]: "length bs \<le> length m \<Longrightarrow> length (id_store bs m) = length m"
  by (simp add: id_store_def)

lemma id_integral_loop_length [simp]: "length (id_integral_loop n k v m) = length m"
  by (induction k arbitrary: m) simp_all

text \<open>What a constructor stores: the copied bytes, then padding (or zeros).\<close>

definition pad_byte :: "fixed_id_type \<Rightarrow> u8" where
  "pad_byte T = (if zeroPadding T then getPadByte T else 0)"

lemma id_fill:
  "length bs \<le> IdLength T \<Longrightarrow>
     id_pad T (length bs) (id_store bs (id_init T)) = bs @ replicate (IdLength T - length bs) (pad_byte T)"
  by (auto simp: id_pad_def id_store_def id_init_def pad_byte_def)

lemma id_from_string_eq:
  "id_from_string T s =
     map byte_of_char (take (IdLength T) s) @ replicate (IdLength T - length s) (pad_byte T)"
  using id_fill [of "map byte_of_char (take (IdLength T) s)" T]
  by (cases "length s \<le> IdLength T") (simp_all add: id_from_string_def Let_def min_def)

lemma id_from_byteArray_eq:
  "id_from_byteArray T a = take (IdLength T) a @ replicate (IdLength T - length a) (pad_byte T)"
  using id_fill [of "take (IdLength T) a" T]
  by (cases "length a \<le> IdLength T") (simp_all add: id_from_byteArray_def Let_def min_def)

lemma id_from_bytes_eq:
  "n \<le> length bs \<Longrightarrow> id_from_bytes T (Some bs) n = Inr (id_from_byteArray T (take n bs))"
  by (simp add: id_from_bytes_def id_from_byteArray_def Let_def mem_simps min.commute)

lemma id_from_cstr_eq:
  "id_from_cstr T (Some s) = id_from_string T (takeWhile (\<lambda>c. c \<noteq> CHR 0x00) s)"
  by (simp add: id_from_cstr_def id_from_string_def Let_def)

lemma id_default_eq: "id_default T = replicate (IdLength T) (pad_byte T)"
  using id_fill [of "[]" T] by (simp add: id_default_def id_store_def)

lemma id_isEmpty_default: "id_isEmpty T (id_default T)"
  by (simp add: id_isEmpty_def id_default_eq pad_byte_def list_all_iff)

text \<open>The big-endian value of a byte sequence.\<close>

definition be_value :: "u8 list \<Rightarrow> int" where
  "be_value bs = foldl (\<lambda>acc b. acc * 256 + uint b) 0 bs"

lemma be_value_snoc: "be_value (bs @ [b]) = be_value bs * 256 + uint b"
  by (simp add: be_value_def)

definition int_byte :: "int \<Rightarrow> nat \<Rightarrow> u8" where
  "int_byte v k = word_of_int (drop_bit (k * 8) v AND 0xFF)"

lemma uint_int_byte_0: "uint (int_byte v 0) = v mod 256"
proof -
  have "v AND 0xFF = take_bit 8 v"
    by (simp add: take_bit_eq_mask mask_eq_exp_minus_1)
  then have "v AND 0xFF = v mod 256"
    by (simp add: take_bit_eq_mod)
  then show ?thesis
    by (simp add: int_byte_def uint_word_of_int_eq take_bit_eq_mod)
qed

lemma int_byte_Suc: "int_byte v (Suc k) = int_byte (v div 256) k"
proof -
  have "drop_bit (8 + k * 8) v = drop_bit (k * 8) (drop_bit 8 v)"
    by (simp add: drop_bit_drop_bit add.commute)
  then show ?thesis by (simp add: int_byte_def drop_bit_eq_div)
qed

lemma id_integral_loop_nth:
  "k \<le> n \<Longrightarrow> n \<le> length m \<Longrightarrow> i < length m \<Longrightarrow>
     id_integral_loop n k v m ! i = (if n - k \<le> i \<and> i < n then int_byte v (n - 1 - i) else m ! i)"
proof (induction k arbitrary: m)
  case (Suc k)
  then have "n - 1 - k < length m" by simp
  with Suc show ?case
    by (auto simp: nth_list_update int_byte_def)
qed auto

lemma id_integral_loop_eq:
  "n \<le> length m \<Longrightarrow> id_integral_loop n n v m = map (\<lambda>i. int_byte v (n - 1 - i)) [0..<n] @ drop n m"
  by (rule nth_equalityI) (auto simp: id_integral_loop_nth nth_append)

lemma be_value_int_bytes: "be_value (map (\<lambda>i. int_byte v (n - 1 - i)) [0..<n]) = v mod 256 ^ n"
proof (induction n arbitrary: v)
  case 0
  then show ?case by (simp add: be_value_def)
next
  case (Suc n)
  have "map (\<lambda>i. int_byte v (n - i)) [0..<n] = map (\<lambda>i. int_byte (v div 256) (n - 1 - i)) [0..<n]"
    by (auto simp: int_byte_Suc [symmetric] Suc_diff_Suc)
  then have "be_value (map (\<lambda>i. int_byte v (n - i)) [0..<n]) = (v div 256) mod 256 ^ n"
    by (simp only: Suc.IH)
  then have "be_value (map (\<lambda>i. int_byte v (Suc n - 1 - i)) [0..<Suc n])
      = ((v div 256) mod 256 ^ n) * 256 + v mod 256"
    by (simp add: be_value_snoc uint_int_byte_0)
  also have "\<dots> = v mod (256 * 256 ^ n)"
    by (simp add: zmod_zmult2_eq mult.commute)
  finally show ?case by simp
qed

lemma id_from_integral_eq:
  "n = min sz (IdLength T) \<Longrightarrow> id_from_integral T sz v =
     map (\<lambda>i. int_byte v (n - 1 - i)) [0..<n] @ replicate (IdLength T - n) 0"
  by (simp add: id_from_integral_def Let_def id_integral_loop_eq id_init_def)

lemma effective_length_eq: "take (effective_length m) m = takeWhile (\<lambda>b. b \<noteq> 0) m"
  by (induction m) auto

lemma id_toString_nonzero:
  "0 \<notin> set m \<Longrightarrow> id_toString m = map char_of_byte m"
proof -
  assume "0 \<notin> set m"
  then have "takeWhile (\<lambda>b. b \<noteq> 0) m = m" by (auto simp: takeWhile_eq_all_conv)
  then show ?thesis by (simp only: id_toString_def effective_length_eq)
qed

lemma toupper_idem [simp]: "toupper (toupper c) = toupper c"
  by (auto simp: toupper_def less_eq_char_def)

lemma toupper_nonzero: "toupper c = CHR 0x00 \<longleftrightarrow> c = CHR 0x00"
  by (auto simp: toupper_def less_eq_char_def char_of_eq_iff take_bit_eq_mod dest: dvd_imp_le)

lemma byte_of_char_zero: "byte_of_char c = 0 \<longleftrightarrow> c = CHR 0x00"
proof
  assume h: "byte_of_char c = 0"
  have "c = char_of_byte (byte_of_char c)" by simp
  also have "\<dots> = CHR 0x00" by (simp add: h char_of_byte_def char_of_def)
  finally show "c = CHR 0x00" .
qed (simp add: byte_of_char_def)

lemma pad_byte_vin [simp]: "pad_byte vin_type = byte_of_char (CHR ''0'')"
  by (simp add: pad_byte_def vin_type_def getPadByte_def)

lemma vin_length [simp]: "IdLength vin_type = 17"
  by (simp add: vin_type_def)

lemma vin_from_string_eq:
  "vin_from_string s =
     map byte_of_char (take 17 (map toupper s) @ replicate (17 - length s) (CHR ''0''))"
  by (simp add: vin_from_string_def normalizeVin_def id_from_string_eq)

lemma isValidVinChar_zero [simp]: "isValidVinChar (CHR ''0'')"
  by (simp add: isValidVinChar_def)

lemma list_all_replicate: "P x \<Longrightarrow> list_all P (replicate n x)"
  by (induction n) simp_all

lemma vin_isValid_chars: "vin_isValid (map byte_of_char cs) \<longleftrightarrow> list_all isValidVinChar cs"
proof -
  have "(\<lambda>c. isValidVinChar c \<or> c = CHR ''0'') = isValidVinChar" by auto
  then show ?thesis by (simp add: vin_isValid_def list.pred_map comp_def Let_def)
qed

lemma vin_toString:
  "CHR 0x00 \<notin> set s \<Longrightarrow>
     id_toString (vin_from_string s) = take 17 (map toupper s) @ replicate (17 - length s) (CHR ''0'')"
proof -
  let ?cs = "take 17 (map toupper s) @ replicate (17 - length s) (CHR ''0'')"
  assume "CHR 0x00 \<notin> set s"
  then have "CHR 0x00 \<notin> set (map toupper s)"
    by (simp add: image_iff) (metis toupper_nonzero)
  then have "CHR 0x00 \<notin> set ?cs" by (auto dest: in_set_takeD simp del: set_map)
  then have "0 \<notin> set (map byte_of_char ?cs)"
    by (metis (no_types, lifting) byte_of_char_zero imageE list.set_map)
  then have "id_toString (vin_from_string s) = map char_of_byte (map byte_of_char ?cs)"
    unfolding vin_from_string_eq by (rule id_toString_nonzero)
  also have "\<dots> = ?cs" unfolding map_map by (simp add: comp_def)
  finally show ?thesis .
qed

section \<open>Properties\<close>



text \<open>
  A VIN built from text is the text in upper case, cut to or padded with \<open>'0'\<close> up to 17
  characters; it is valid exactly when the first 17 characters are letters other than
  I, O, Q (in either case) or digits; and, for text without NUL characters, converting it
  to a string and building a VIN from that gives the same VIN.
\<close>

lemma vin_from_string_correct:
  assumes "CHR 0x00 \<notin> set s"
  shows "map char_of_byte (vin_from_string s)
      = take 17 (map toupper s) @ replicate (17 - length s) (CHR ''0'')
    \<and> (vin_isValid (vin_from_string s) \<longleftrightarrow> list_all (\<lambda>c. isValidVinChar (toupper c)) (take 17 s))
    \<and> vin_from_string (id_toString (vin_from_string s)) = vin_from_string s"
proof (intro conjI)
  show "map char_of_byte (vin_from_string s)
      = take 17 (map toupper s) @ replicate (17 - length s) (CHR ''0'')"
    by (simp add: vin_from_string_eq comp_def)
  show "vin_isValid (vin_from_string s) \<longleftrightarrow> list_all (\<lambda>c. isValidVinChar (toupper c)) (take 17 s)"
    by (simp only: vin_from_string_eq vin_isValid_chars) (simp add: take_map list.pred_map comp_def list_all_replicate)
  have "toupper (CHR ''0'') = CHR ''0''"
    by (simp add: toupper_def less_eq_char_def)
  then have "map toupper (take 17 (map toupper s) @ replicate (17 - length s) (CHR ''0''))
      = take 17 (map toupper s) @ replicate (17 - length s) (CHR ''0'')"
    by (simp add: take_map comp_def)
  then show "vin_from_string (id_toString (vin_from_string s)) = vin_from_string s"
    unfolding vin_toString [OF assms]
    unfolding vin_from_string_eq [of "take 17 (map toupper s) @ replicate (17 - length s) (CHR ''0'')"]
      vin_from_string_eq [of s]
    by simp
qed

text \<open>
  An identifier built from an integer holds its low-order bytes in big-endian order:
  with \<open>len = min(sizeof, IdLength)\<close>, the first \<open>len\<close> bytes read as a big-endian number are
  the value modulo \<open>256^len\<close>, and the remaining bytes are zero, not padding.
\<close>

lemma id_from_integral_value:
  "be_value (take (min sz (IdLength T)) (id_from_integral T sz v)) = v mod 256 ^ min sz (IdLength T)
    \<and> drop (min sz (IdLength T)) (id_from_integral T sz v)
        = replicate (IdLength T - min sz (IdLength T)) 0"
  using be_value_int_bytes [of v "min sz (IdLength T)"]
  by (simp add: id_from_integral_eq [OF refl])

text \<open>
  Identifiers survive the wire: the bytes an identifier of the right length appends to a
  message give the same identifier back when they are read from that message.
\<close>

lemma fixed_id_wire_roundtrip:
  assumes "length m = IdLength T"
  shows "id_from_bytes T (ptr_add (Some (id_appendTo m pre @ post)) (length pre)) (IdLength T) = Inr m"
  using assms by (simp add: id_appendTo_def id_from_bytes_eq id_from_byteArray_eq)

end
