(* ===== verification/DoIP_Message.thy ===== *)
theory DoIP_Message
  imports DoIP_Enums DoIP_Identifiers
begin

text \<open>
  DoIP messages (\<^verbatim>\<open>inc/DoIPMessage.h\<close>): the class \<open>DoIPMessage\<close>, which keeps a whole
  message (8 byte header and payload) in one buffer, the parser \<open>tryParse\<close>, the factories
  of namespace \<open>message\<close> and the stream operator.  A \<open>ByteArrayRef\<close> is a pointer and a size.
  The theory relates the parser to a declarative description of the wire format, shows that
  the factories produce messages from which every field is read back, and says for which
  messages the accessors and the stream operator leave their contract.
\<close>

section \<open>The message class\<close>

type_synonym ByteArrayRef = "ptr \<times> nat"

record DoIPMessage =
  m_data :: ByteArray

definition ISO_13400_2010 :: u8 where "ISO_13400_2010 = 1"

definition ISO_13400_2025 :: u8 where "ISO_13400_2025 = 4"

definition PROTOCOL_VERSION :: u8 where "PROTOCOL_VERSION = 3"

definition PROTOCOL_VERSION_INV :: u8 where "PROTOCOL_VERSION_INV = NOT PROTOCOL_VERSION"

definition DIAGNOSTIC_MESSAGE_ACK :: u8 where "DIAGNOSTIC_MESSAGE_ACK = 0"

definition DOIP_HEADER_SIZE :: nat where "DOIP_HEADER_SIZE = 8"

definition DOIP_DIAG_HEADER_SIZE :: nat where "DOIP_DIAG_HEADER_SIZE = DOIP_HEADER_SIZE + 4"

definition empty_message :: DoIPMessage where
  "empty_message = \<lparr>m_data = []\<rparr>"

definition buildMessage :: "DoIPPayloadType \<Rightarrow> ByteArray \<Rightarrow> DoIPMessage" where
  "buildMessage payloadType payload =
     (let d = [] @ [PROTOCOL_VERSION] @ [PROTOCOL_VERSION_INV];
          d = writeEnum d (Enum16 (payloadType_code payloadType));
          payloadLength = word_of_nat (length payload) :: u32;
          d = writeU32BE d payloadLength
      in \<lparr>m_data = d @ payload\<rparr>)"

text \<open>The constructor from a pointer and a size copies the bytes first.\<close>

definition message_from_ptr :: "DoIPPayloadType \<Rightarrow> ptr \<Rightarrow> nat \<Rightarrow> DoIPMessage res" where
  "message_from_ptr payloadType data n =
     rbind (ptr_copy_n data n) (\<lambda>payload. Inr (buildMessage payloadType payload))"

definition getPayloadType :: "DoIPMessage \<Rightarrow> DoIPPayloadType" where
  "getPayloadType m =
     (if length (m_data m) < DOIP_HEADER_SIZE then DoIPPayloadType.NegativeAck
      else payloadType_cast (push_bit 8 (ucast (m_data m ! 2)) OR ucast (m_data m ! 3)))"

definition getPayload :: "DoIPMessage \<Rightarrow> ByteArrayRef" where
  "getPayload m =
     (if length (m_data m) \<le> DOIP_HEADER_SIZE then (None, 0)
      else (ptr_add (Some (m_data m)) DOIP_HEADER_SIZE, length (m_data m) - DOIP_HEADER_SIZE))"

definition getDiagnosticMessagePayload :: "DoIPMessage \<Rightarrow> ByteArrayRef" where
  "getDiagnosticMessagePayload m =
     (if length (m_data m) \<le> DOIP_DIAG_HEADER_SIZE then (None, 0)
      else (ptr_add (Some (m_data m)) DOIP_DIAG_HEADER_SIZE, length (m_data m) - DOIP_DIAG_HEADER_SIZE))"

definition getPayloadSize :: "DoIPMessage \<Rightarrow> nat" where
  "getPayloadSize m =
     (if length (m_data m) < DOIP_HEADER_SIZE then 0 else length (m_data m) - DOIP_HEADER_SIZE)"

definition getMessageSize :: "DoIPMessage \<Rightarrow> nat" where
  "getMessageSize m = length (m_data m)"

definition getData :: "DoIPMessage \<Rightarrow> ByteArrayRef" where
  "getData m = (Some (m_data m), length (m_data m))"

definition hasSourceAddress :: "DoIPMessage \<Rightarrow> bool" where
  "hasSourceAddress m =
     (let payloadRef = getPayload m;
          plType = getPayloadType m;
          result = plType = DoIPPayloadType.DiagnosticMessage
            \<or> plType = DoIPPayloadType.RoutingActivationRequest
            \<or> plType = DoIPPayloadType.RoutingActivationResponse
            \<or> plType = DoIPPayloadType.AliveCheckResponse
      in result \<and> snd payloadRef \<ge> 2)"

definition getSourceAddress :: "DoIPMessage \<Rightarrow> DoIPAddress option res" where
  "getSourceAddress m =
     (if hasSourceAddress m then rbind (readAddressFrom (fst (getPayload m)) 0) (\<lambda>a. Inr (Some a))
      else Inr None)"

definition getLogicalAddress :: "DoIPMessage \<Rightarrow> DoIPAddress option res" where
  "getLogicalAddress m =
     (if getPayloadType m = DoIPPayloadType.VehicleIdentificationResponse \<and> snd (getPayload m) \<ge> 19
      then rbind (readAddressFrom (ptr_add (fst (getPayload m)) 17) 0) (\<lambda>a. Inr (Some a))
      else Inr None)"

definition getTargetAddress :: "DoIPMessage \<Rightarrow> DoIPAddress option res" where
  "getTargetAddress m =
     (if getPayloadType m = DoIPPayloadType.DiagnosticMessage \<and> snd (getPayload m) \<ge> 4
      then rbind (readAddressFrom (fst (getPayload m)) 2) (\<lambda>a. Inr (Some a))
      else Inr None)"

definition getVin :: "DoIPMessage \<Rightarrow> fixed_id option res" where
  "getVin m =
     (if getPayloadType m = DoIPPayloadType.VehicleIdentificationResponse \<and> snd (getPayload m) \<ge> 17
      then rbind (vin_from_bytes (fst (getPayload m)) 17) (\<lambda>v. Inr (Some v))
      else Inr None)"

definition getEid :: "DoIPMessage \<Rightarrow> fixed_id option res" where
  "getEid m =
     (if getPayloadType m = DoIPPayloadType.VehicleIdentificationResponse \<and> snd (getPayload m) \<ge> 25
      then rbind (id_from_bytes eid_type (ptr_add (fst (getPayload m)) 19) 6) (\<lambda>v. Inr (Some v))
      else Inr None)"

definition getGid :: "DoIPMessage \<Rightarrow> fixed_id option res" where
  "getGid m =
     (if getPayloadType m = DoIPPayloadType.VehicleIdentificationResponse \<and> snd (getPayload m) \<ge> 31
      then rbind (id_from_bytes eid_type (ptr_add (fst (getPayload m)) 25) 6) (\<lambda>v. Inr (Some v))
      else Inr None)"

definition getFurtherActionRequest :: "DoIPMessage \<Rightarrow> DoIPFurtherAction option res" where
  "getFurtherActionRequest m =
     (if getPayloadType m = DoIPPayloadType.VehicleIdentificationResponse \<and> snd (getPayload m) \<ge> 31
      then rbind (ptr_read (fst (getPayload m)) 31) (\<lambda>b. Inr (Some (furtherAction_cast b)))
      else Inr None)"

text \<open>
  The sum of the two version bytes is computed in \<open>int\<close> after promotion, so it does not wrap.
\<close>

definition isValidProtocolVersion_ptr :: "ptr \<Rightarrow> nat \<Rightarrow> nat \<Rightarrow> bool res" where
  "isValidProtocolVersion_ptr data len offset =
     (if len < 2 then Inr False
      else rbind (ptr_read data offset) (\<lambda>version.
           rbind (ptr_read data (offset + 1)) (\<lambda>version_inv.
           Inr (version \<ge> ISO_13400_2010 \<and> version \<le> ISO_13400_2025
             \<and> unat version + unat version_inv = 0xFF))))"

definition isValidProtocolVersion :: "DoIPMessage \<Rightarrow> bool" where
  "isValidProtocolVersion m =
     (if length (m_data m) < 2 then False
      else m_data m ! 0 \<ge> ISO_13400_2010 \<and> m_data m ! 0 \<le> ISO_13400_2025
        \<and> unat (m_data m ! 0) + unat (m_data m ! 1) = 0xFF)"

definition getPayloadLengthFromHeader :: "DoIPMessage \<Rightarrow> u32 res" where
  "getPayloadLengthFromHeader m =
     (if length (m_data m) < DOIP_HEADER_SIZE then Inr 0 else readU32BE (m_data m) 4)"

definition isValid :: "DoIPMessage \<Rightarrow> bool res" where
  "isValid m =
     (if length (m_data m) \<ge> DOIP_HEADER_SIZE \<and> isValidProtocolVersion m
      then rbind (getPayloadLengthFromHeader m) (\<lambda>l. Inr (getPayloadSize m = unat l))
      else Inr False)"

definition tryParseHeader :: "ptr \<Rightarrow> nat \<Rightarrow> (DoIPPayloadType \<times> u32) option res" where
  "tryParseHeader data len =
     (if data = None \<or> len < DOIP_HEADER_SIZE then Inr None
      else rbind (isValidProtocolVersion_ptr data len 0) (\<lambda>ok.
        if \<not> ok then Inr None
        else rbind (ptr_read data 2) (\<lambda>h. rbind (ptr_read data 3) (\<lambda>l.
          case toPayloadType2 h l of
            None \<Rightarrow> Inr None
          | Some payloadType \<Rightarrow>
              rbind (util_readU32BE data 4) (\<lambda>payloadLength.
              Inr (Some (payloadType, payloadLength)))))))"

definition tryParse :: "ptr \<Rightarrow> nat \<Rightarrow> DoIPMessage option res" where
  "tryParse data len =
     rbind (tryParseHeader data len) (\<lambda>optHeader.
       case optHeader of
         None \<Rightarrow> Inr None
       | Some (_, payloadLength) \<Rightarrow>
           if len < szadd DOIP_HEADER_SIZE (unat payloadLength) then Inr None
           else rbind (ptr_copy_n data (DOIP_HEADER_SIZE + unat payloadLength)) (\<lambda>d.
                Inr (Some \<lparr>m_data = d\<rparr>)))"

section \<open>Factories (namespace message)\<close>

definition makeVehicleIdentificationRequest :: DoIPMessage where
  "makeVehicleIdentificationRequest = buildMessage DoIPPayloadType.VehicleIdentificationRequest []"

definition makeVehicleIdentificationResponse ::
  "fixed_id \<Rightarrow> DoIPAddress \<Rightarrow> fixed_id \<Rightarrow> fixed_id \<Rightarrow> DoIPFurtherAction \<Rightarrow> DoIPSyncStatus \<Rightarrow> DoIPMessage" where
  "makeVehicleIdentificationResponse vin logicalAddress entityType groupId furtherAction syncStatus =
     (let payload = [] @ vin;
          payload = writeU16BE payload logicalAddress;
          payload = payload @ entityType;
          payload = payload @ groupId;
          payload = writeEnum payload (Enum8 (furtherAction_code furtherAction));
          payload = writeEnum payload (Enum8 (syncStatus_code syncStatus))
      in buildMessage DoIPPayloadType.VehicleIdentificationResponse payload)"

definition makeNegativeAckMessage :: "DoIPNegativeAck \<Rightarrow> DoIPMessage" where
  "makeNegativeAckMessage nack = buildMessage DoIPPayloadType.NegativeAck [negativeAck_code nack]"

definition makeDiagnosticMessage :: "DoIPAddress \<Rightarrow> DoIPAddress \<Rightarrow> ByteArray \<Rightarrow> DoIPMessage" where
  "makeDiagnosticMessage sa ta msg_payload =
     (let payload = writeU16BE [] sa;
          payload = writeU16BE payload ta
      in buildMessage DoIPPayloadType.DiagnosticMessage (payload @ msg_payload))"

definition makeDiagnosticPositiveResponse :: "DoIPAddress \<Rightarrow> DoIPAddress \<Rightarrow> ByteArray \<Rightarrow> DoIPMessage" where
  "makeDiagnosticPositiveResponse sa ta msg_payload =
     (let payload = writeU16BE [] sa;
          payload = writeU16BE payload ta;
          payload = payload @ [DIAGNOSTIC_MESSAGE_ACK]
      in buildMessage DoIPPayloadType.DiagnosticMessageAck (payload @ msg_payload))"

definition makeDiagnosticNegativeResponse ::
  "DoIPAddress \<Rightarrow> DoIPAddress \<Rightarrow> DoIPNegativeDiagnosticAck \<Rightarrow> ByteArray \<Rightarrow> DoIPMessage" where
  "makeDiagnosticNegativeResponse sa ta nack msg_payload =
     (let payload = writeU16BE [] sa;
          payload = writeU16BE payload ta;
          payload = payload @ [diagAck_code nack]
      in buildMessage DoIPPayloadType.DiagnosticMessageNegativeAck (payload @ msg_payload))"

definition makeAliveCheckRequest :: DoIPMessage where
  "makeAliveCheckRequest = buildMessage DoIPPayloadType.AliveCheckRequest []"

definition makeAliveCheckResponse :: "DoIPAddress \<Rightarrow> DoIPMessage" where
  "makeAliveCheckResponse sa = buildMessage DoIPPayloadType.AliveCheckResponse (writeU16BE [] sa)"

definition makeRoutingActivationRequest :: "DoIPAddress \<Rightarrow> DoIPRoutingActivationType \<Rightarrow> DoIPMessage" where
  "makeRoutingActivationRequest ea actType =
     (let payload = writeU16BE [] ea;
          payload = writeEnum payload (Enum8 (activationType_code actType))
      in buildMessage DoIPPayloadType.RoutingActivationRequest (payload @ [0, 0, 0, 0]))"

definition makeRoutingActivationResponse ::
  "DoIPMessage \<Rightarrow> DoIPAddress \<Rightarrow> DoIPRoutingActivationType \<Rightarrow> DoIPMessage res" where
  "makeRoutingActivationResponse routingReq ea actType =
     rbind (getSourceAddress routingReq) (\<lambda>optSourceAddress.
       let payload = (case optSourceAddress of None \<Rightarrow> [] | Some a \<Rightarrow> writeU16BE [] a);
           payload = writeU16BE payload ea;
           payload = payload @ [activationType_code actType]
       in Inr (buildMessage DoIPPayloadType.RoutingActivationResponse (payload @ [0, 0, 0, 0])))"

section \<open>The stream operator\<close>

definition ansi_dim :: string where "ansi_dim = CHR 0x1B # ''[2m''"

definition ansi_cyan :: string where "ansi_cyan = CHR 0x1B # ''[36m''"

definition ansi_bold_blue :: string where "ansi_bold_blue = CHR 0x1B # ''[1;34m''"

definition ansi_bold_magenta :: string where "ansi_bold_magenta = CHR 0x1B # ''[1;35m''"

definition ansi_bold_white :: string where "ansi_bold_white = CHR 0x1B # ''[1;37m''"

definition check_mark :: string where
  "check_mark = [CHR 0xE2, CHR 0x9C, CHR 0x93]"

text \<open>\<open>std::optional::value()\<close>.\<close>

fun opt_value :: "'a option \<Rightarrow> 'a res" where
  "opt_value None = Inl BadOptionalAccess"
| "opt_value (Some a) = Inr a"

definition show_address :: "DoIPAddress \<Rightarrow> string" where
  "show_address a = show_nat (unat a)"

text \<open>The loop over a \<open>ByteArrayRef\<close> that prints its bytes separated by dots.\<close>

definition show_ref :: "ByteArrayRef \<Rightarrow> string res" where
  "show_ref r = rbind (ptr_copy_n (fst r) (snd r)) (\<lambda>bs. Inr (show_bytes bs))"

definition show_message :: "DoIPMessage \<Rightarrow> string res" where
  "show_message msg =
     (let hd_txt = ansi_dim @ ''V'' @ hex_byte PROTOCOL_VERSION @ ansi_reset;
          t = getPayloadType msg
      in if t = DoIPPayloadType.DiagnosticMessageNegativeAck then
           (let payload = getDiagnosticMessagePayload msg
            in if fst payload = None \<or> snd payload < 1
               then Inr (hd_txt @ ansi_red @ ''|Diag NACK <invalid>'')
               else rbind (ptr_read (fst payload) 0) (\<lambda>b.
                    Inr (hd_txt @ ansi_red @ ''|Diag NACK '' @ show_negativeDiagnosticAck (diagAck_cast b)
                      @ ansi_reset)))
         else if t = DoIPPayloadType.AliveCheckRequest then
           Inr (hd_txt @ ansi_yellow @ ''|Alive Check?'' @ ansi_reset)
         else if t = DoIPPayloadType.AliveCheckResponse then
           rbind (getSourceAddress msg) (\<lambda>sa. rbind (opt_value sa) (\<lambda>a.
           Inr (hd_txt @ ansi_green @ ''|Alive Check '' @ show_address a @ '' '' @ check_mark @ ansi_reset)))
         else if t = DoIPPayloadType.RoutingActivationRequest then
           rbind (getSourceAddress msg) (\<lambda>sa. rbind (opt_value sa) (\<lambda>a.
           Inr (hd_txt @ ansi_yellow @ ''|Routing activation? '' @ show_address a @ ansi_reset)))
         else if t = DoIPPayloadType.RoutingActivationResponse then
           rbind (getSourceAddress msg) (\<lambda>sa. rbind (opt_value sa) (\<lambda>a.
           Inr (hd_txt @ ansi_green @ ''|Routing activation '' @ show_address a @ '' '' @ check_mark @ ansi_reset)))
         else if t = DoIPPayloadType.DiagnosticMessage then
           rbind (getSourceAddress msg) (\<lambda>sa. rbind (getTargetAddress msg) (\<lambda>ta.
           rbind (opt_value sa) (\<lambda>s. rbind (opt_value ta) (\<lambda>d.
           rbind (show_ref (getDiagnosticMessagePayload msg)) (\<lambda>txt.
           Inr (hd_txt @ ''|Diag '' @ ansi_bold_magenta @ show_address s @ ansi_reset @ '' -> ''
             @ ansi_bold_magenta @ show_address d @ ansi_reset @ '': '' @ ansi_bold_blue @ txt @ ansi_reset))))))
         else rbind (show_ref (getPayload msg)) (\<lambda>txt.
           Inr (hd_txt @ ''|'' @ ansi_cyan @ show_payloadType t @ ansi_reset @ ''|L''
             @ show_nat (getPayloadSize msg) @ ''| Payload: '' @ ansi_bold_white @ txt @ ansi_reset)))"

section \<open>The wire format\<close>

text \<open>
  The layout of a message as the class comment gives it, as a function of the version byte,
  the payload type code and the payload: the specification of builder and parser.
\<close>

definition wire :: "u8 \<Rightarrow> u16 \<Rightarrow> u8 list \<Rightarrow> u8 list" where
  "wire v t pl =
     (let n = word_of_nat (length pl) :: u32
      in [v, NOT v, hi8 t, lo8 t, byte_of32 24 n, byte_of32 16 n, byte_of32 8 n, byte_of32 0 n] @ pl)"

lemma length_wire [simp]: "length (wire v t pl) = 8 + length pl"
  by (simp add: wire_def Let_def)

lemma buildMessage_wire: "m_data (buildMessage t pl) = wire 3 (payloadType_code t) pl"
  by (simp add: buildMessage_def wire_def Let_def writeU16BE_eq writeU32BE_eq PROTOCOL_VERSION_def
      PROTOCOL_VERSION_INV_def)

lemma unat_plus_not: "unat v + unat w = 255 \<longleftrightarrow> w = NOT (v :: u8)"
proof -
  have "NOT v = - 1 - v" by (simp add: not_eq_complement)
  then have n: "unat (NOT v) = 255 - unat v"
    using unat_sub [of v "- 1"] by (simp add: unsigned_minus_1_eq_mask mask_eq_exp_minus_1)
  have "unat v \<le> 255" using unat_u8_less [of v] by linarith
  then show ?thesis
    using n unat_u8_less [of w] by (auto simp: word_unat_eq_iff)
qed

lemma unat_word32_len: "n < 2 ^ 32 \<Longrightarrow> unat (word_of_nat n :: u32) = n"
  by (simp add: unat_of_nat take_bit_eq_mod)

lemma wire_nth:
  "wire v t pl ! 0 = v" "wire v t pl ! Suc 0 = NOT v" "wire v t pl ! 2 = hi8 t" "wire v t pl ! 3 = lo8 t"
  by (simp_all add: wire_def Let_def)

lemma drop_wire [simp]: "drop 8 (wire v t pl) = pl"
  by (simp add: wire_def Let_def)

lemma wire_length_field:
  "util_readU32BE (Some (wire v t pl @ rest)) 4 = Inr (word_of_nat (length pl))"
  by (simp add: util_readU32BE_in wire_def Let_def byte_simps)

lemma bytes_8E:
  assumes "8 \<le> length bs"
  obtains b0 b1 b2 b3 b4 b5 b6 b7 r where "bs = b0 # b1 # b2 # b3 # b4 # b5 # b6 # b7 # r"
  using assms by (auto simp: eval_nat_numeral Suc_le_length_iff)

lemma tryParseHeader_bytes:
  assumes "8 \<le> n"
  shows "tryParseHeader (Some (b0 # b1 # b2 # b3 # b4 # b5 # b6 # b7 # r)) n =
    Inr (if 1 \<le> b0 \<and> b0 \<le> 4 \<and> b1 = NOT b0
         then map_option (\<lambda>t. (t, join32 b4 b5 b6 b7)) (toPayloadType (join16 b2 b3)) else None)"
  using assms
  by (auto simp: tryParseHeader_def isValidProtocolVersion_ptr_def DOIP_HEADER_SIZE_def
      ISO_13400_2010_def ISO_13400_2025_def unat_plus_not toPayloadType2_def join16_def
      util_readU32BE_def join32_def split: option.split)

lemma szadd_header [simp]: "szadd 8 (unat (l :: u32)) = 8 + unat l"
proof -
  have "unat l < 2 ^ 32" using unsigned_less [of l] by simp
  then show ?thesis by (simp add: szadd_def)
qed

lemma tryParse_bytes:
  assumes "8 \<le> n" and "n \<le> length bs" and bs: "bs = b0 # b1 # b2 # b3 # b4 # b5 # b6 # b7 # r"
  shows "tryParse (Some bs) n =
    Inr (if 1 \<le> b0 \<and> b0 \<le> 4 \<and> b1 = NOT b0 \<and> isValidPayloadType (join16 b2 b3)
            \<and> 8 + unat (join32 b4 b5 b6 b7) \<le> n
         then Some \<lparr>m_data = take (8 + unat (join32 b4 b5 b6 b7)) bs\<rparr> else None)"
  unfolding bs using assms
  by (auto simp: tryParse_def tryParseHeader_bytes toPayloadType_def ptr_copy_n_Some DOIP_HEADER_SIZE_def
      simp del: ptr_copy_n.simps)

lemma isValidPayloadType_iff: "isValidPayloadType c \<longleftrightarrow> (\<exists>t. named_payloadType t \<and> c = payloadType_code t)"
  by (metis toPayloadType_Some_iff toPayloadType_def option.distinct(1))

lemma take_8_plus:
  "take (8 + n) (b0 # b1 # b2 # b3 # b4 # b5 # b6 # b7 # r) = b0 # b1 # b2 # b3 # b4 # b5 # b6 # b7 # take n r"
  by (simp add: numeral_eq_Suc)

lemma wire_bytes:
  assumes "length r \<ge> unat (join32 b4 b5 b6 b7)"
  shows "wire b0 (join16 b2 b3) (take (unat (join32 b4 b5 b6 b7)) r) =
    take (8 + unat (join32 b4 b5 b6 b7)) (b0 # NOT b0 # b2 # b3 # b4 # b5 # b6 # b7 # r)"
  using assms by (simp add: wire_def Let_def byte_simps take_8_plus)

lemma wire_bytesE:
  assumes "take (8 + length pl) (b0 # b1 # b2 # b3 # b4 # b5 # b6 # b7 # r) = wire v c pl"
    and "length pl < 2 ^ 32"
  shows "b0 = v \<and> b1 = NOT v \<and> join16 b2 b3 = c \<and> unat (join32 b4 b5 b6 b7) = length pl"
  using assms by (auto simp: take_8_plus wire_def Let_def byte_simps unat_word32_len)

text \<open>What the parser accepts, and the only results it has on a buffer it may read.\<close>

definition parses_to :: "u8 list \<Rightarrow> nat \<Rightarrow> DoIPMessage \<Rightarrow> bool" where
  "parses_to bs n m \<longleftrightarrow> (\<exists>v t pl. 1 \<le> v \<and> v \<le> 4 \<and> named_payloadType t \<and> length pl < 2 ^ 32
     \<and> 8 + length pl \<le> n \<and> m_data m = wire v (payloadType_code t) pl
     \<and> take (8 + length pl) bs = m_data m)"

lemma tryParse_parses_to:
  assumes n: "8 \<le> n" "n \<le> length bs"
  shows "tryParse (Some bs) n = Inr (Some m) \<longleftrightarrow> parses_to bs n m"
proof -
  obtain b0 b1 b2 b3 b4 b5 b6 b7 r where bs: "bs = b0 # b1 # b2 # b3 # b4 # b5 # b6 # b7 # r"
    using n bytes_8E [of bs] by (metis le_trans)
  let ?l = "unat (join32 b4 b5 b6 b7)"
  note tp = tryParse_bytes [OF n bs]
  show ?thesis
  proof
    assume h: "tryParse (Some bs) n = Inr (Some m)"
    then have ok: "1 \<le> b0" "b0 \<le> 4" "b1 = NOT b0" "isValidPayloadType (join16 b2 b3)" "8 + ?l \<le> n"
      and m: "m_data m = take (8 + ?l) bs" by (auto simp: tp split: if_splits)
    obtain t where t: "named_payloadType t" "join16 b2 b3 = payloadType_code t"
      using ok by (auto simp: isValidPayloadType_iff)
    have "?l < 2 ^ 32" using unsigned_less [of "join32 b4 b5 b6 b7"] by simp
    moreover have "length (take ?l r) = ?l" using ok n bs by simp
    ultimately show "parses_to bs n m"
      unfolding parses_to_def using ok t m bs wire_bytes [of b4 b5 b6 b7 r b0 b2 b3]
      by (intro exI [of _ b0] exI [of _ t] exI [of _ "take ?l r"]) simp
  next
    assume "parses_to bs n m"
    then obtain v t pl where h: "1 \<le> v" "v \<le> 4" "named_payloadType t" "length pl < 2 ^ 32"
      "8 + length pl \<le> n" "m_data m = wire v (payloadType_code t) pl" "take (8 + length pl) bs = m_data m"
      by (auto simp: parses_to_def)
    with wire_bytesE [of pl b0 b1 b2 b3 b4 b5 b6 b7 r v "payloadType_code t"] bs
    have "b0 = v" "b1 = NOT v" "join16 b2 b3 = payloadType_code t" "?l = length pl" by auto
    then show "tryParse (Some bs) n = Inr (Some m)"
      using h by (auto simp: tp isValidPayloadType_iff)
  qed
qed

lemma tryParse_short: "n < 8 \<Longrightarrow> tryParse p n = Inr None"
  by (simp add: tryParse_def tryParseHeader_def DOIP_HEADER_SIZE_def)

lemma tryParse_defined:
  assumes "n \<le> length bs" shows "\<exists>r. tryParse (Some bs) n = Inr r"
proof (cases "8 \<le> n")
  case True
  then have "8 \<le> length bs" using assms by simp
  then show ?thesis by (elim bytes_8E) (rule exI, rule tryParse_bytes [OF True assms])
qed (simp add: tryParse_short)

lemma parses_to_build:
  assumes "named_payloadType t" "length pl < 2 ^ 32" "8 + length pl \<le> n"
  shows "parses_to (m_data (buildMessage t pl) @ rest) n (buildMessage t pl)"
  unfolding parses_to_def using assms
  by (intro exI [of _ 3] exI [of _ t] exI [of _ pl]) (simp add: buildMessage_wire)

lemma take_wire_field:
  assumes "8 \<le> n" "n \<le> length bs" "take 8 bs = take 8 (wire v c pl)" "length pl < 2 ^ 32"
    and "n < 8 + length pl"
  shows "tryParse (Some bs) n = Inr None"
proof -
  obtain b0 b1 b2 b3 b4 b5 b6 b7 r where bs: "bs = b0 # b1 # b2 # b3 # b4 # b5 # b6 # b7 # r"
    using assms bytes_8E [of bs] by (metis le_trans)
  with assms(3,4) have "unat (join32 b4 b5 b6 b7) = length pl"
    by (simp add: wire_def Let_def byte_simps unat_word32_len)
  then show ?thesis using tryParse_bytes [OF assms(1,2) bs] assms(5) by simp
qed

section \<open>Reading fields back\<close>

lemma getPayloadType_build [simp]:
  "named_payloadType t \<Longrightarrow> getPayloadType (buildMessage t pl) = t"
  using toPayloadType_code [of t] byte_simps(1) [of "payloadType_code t"]
  by (auto simp: getPayloadType_def DOIP_HEADER_SIZE_def buildMessage_wire wire_nth join16_def
      toPayloadType_def split: if_splits)

lemma getPayloadSize_build [simp]: "getPayloadSize (buildMessage t pl) = length pl"
  by (simp add: getPayloadSize_def buildMessage_wire DOIP_HEADER_SIZE_def)

lemma getPayload_build [simp]:
  "getPayload (buildMessage t pl) = (if pl = [] then (None, 0) else (Some pl, length pl))"
  by (simp add: getPayload_def buildMessage_wire DOIP_HEADER_SIZE_def)

lemma getDiagnosticMessagePayload_build [simp]:
  "getDiagnosticMessagePayload (buildMessage t pl) =
     (if length pl \<le> 4 then (None, 0) else (Some (drop 4 pl), length pl - 4))"
  by (simp add: getDiagnosticMessagePayload_def buildMessage_wire DOIP_HEADER_SIZE_def
      DOIP_DIAG_HEADER_SIZE_def wire_def Let_def)

lemma isValid_build:
  assumes "length pl < 2 ^ 32" shows "isValid (buildMessage t pl) = Inr True"
proof -
  have "readU32BE (wire 3 (payloadType_code t) pl) 4 = Inr (word_of_nat (length pl))"
    using assms wire_length_field [of 3 "payloadType_code t" pl "[]"] by (simp add: readU32BE_def szadd_def)
  then show ?thesis using assms
    by (simp add: isValid_def getPayloadLengthFromHeader_def buildMessage_wire DOIP_HEADER_SIZE_def
        isValidProtocolVersion_def wire_nth unat_plus_not ISO_13400_2010_def ISO_13400_2025_def
        getPayloadSize_def unat_word32_len)
qed

lemma named_payloadTypes [simp]:
  "named_payloadType DoIPPayloadType.DiagnosticMessage"
  "named_payloadType DoIPPayloadType.DiagnosticMessageAck"
  "named_payloadType DoIPPayloadType.DiagnosticMessageNegativeAck"
  "named_payloadType DoIPPayloadType.AliveCheckRequest"
  "named_payloadType DoIPPayloadType.AliveCheckResponse"
  "named_payloadType DoIPPayloadType.RoutingActivationRequest"
  "named_payloadType DoIPPayloadType.RoutingActivationResponse"
  "named_payloadType DoIPPayloadType.VehicleIdentificationRequest"
  "named_payloadType DoIPPayloadType.VehicleIdentificationResponse"
  "named_payloadType DoIPPayloadType.NegativeAck"
  by (simp_all add: named_payloadType_def)

lemma getSourceAddress_build:
  assumes "t \<in> {DoIPPayloadType.DiagnosticMessage, DoIPPayloadType.RoutingActivationRequest,
    DoIPPayloadType.RoutingActivationResponse, DoIPPayloadType.AliveCheckResponse}"
  shows "getSourceAddress (buildMessage t pl) =
    Inr (if 2 \<le> length pl then Some (join16 (pl ! 0) (pl ! 1)) else None)"
  using assms
  by (auto simp: getSourceAddress_def hasSourceAddress_def readAddressFrom_in)

lemma getTargetAddress_build:
  "getTargetAddress (buildMessage DoIPPayloadType.DiagnosticMessage pl) =
    Inr (if 4 \<le> length pl then Some (join16 (pl ! 2) (pl ! 3)) else None)"
  by (auto simp: getTargetAddress_def readAddressFrom_in)

lemma getPayload_cases:
  "getPayload m = (None, 0) \<and> getPayloadSize m = 0
   \<or> (\<exists>pl. getPayload m = (Some pl, length pl) \<and> pl \<noteq> [] \<and> getPayloadSize m = length pl)"
  by (auto simp: getPayload_def getPayloadSize_def DOIP_HEADER_SIZE_def)

lemma getSourceAddress_safe:
  "\<exists>a. getSourceAddress m = Inr (if hasSourceAddress m then Some a else None)"
  using getPayload_cases [of m]
  by (auto simp: getSourceAddress_def hasSourceAddress_def readAddressFrom_in Let_def)

lemma getTargetAddress_safe:
  "\<exists>a. getTargetAddress m =
     Inr (if getPayloadType m = DoIPPayloadType.DiagnosticMessage \<and> 4 \<le> getPayloadSize m
          then Some a else None)"
  using getPayload_cases [of m]
  by (auto simp: getTargetAddress_def readAddressFrom_in)

lemma hasSourceAddress_iff:
  "hasSourceAddress m \<longleftrightarrow> getPayloadType m \<in> {DoIPPayloadType.DiagnosticMessage,
     DoIPPayloadType.RoutingActivationRequest, DoIPPayloadType.RoutingActivationResponse,
     DoIPPayloadType.AliveCheckResponse} \<and> 2 \<le> getPayloadSize m"
  using getPayload_cases [of m] by (auto simp: hasSourceAddress_def Let_def)

lemma show_ref_payload: "\<exists>s. show_ref (getPayload m) = Inr s"
  using getPayload_cases [of m] by (auto simp: show_ref_def ptr_copy_n_Some)

lemma show_ref_diag: "\<exists>s. show_ref (getDiagnosticMessagePayload m) = Inr s"
  by (auto simp: show_ref_def getDiagnosticMessagePayload_def ptr_copy_n_Some)

lemma nack_byte:
  "fst (getDiagnosticMessagePayload m) \<noteq> None \<Longrightarrow>
    \<exists>b. ptr_read (fst (getDiagnosticMessagePayload m)) 0 = Inr b"
  by (auto simp: getDiagnosticMessagePayload_def split: if_splits)

section \<open>Properties\<close>

text \<open>
  (C3) The parser is exact and memory safe.  On a null pointer it returns no message.  When
  the length it is told does not exceed the buffer, it never reads outside the buffer, and
  it returns a message exactly when the buffer starts with the wire image of some message:
  a version byte 1 to 4 followed by its complement, the big-endian code of a named payload
  type, the big-endian payload length and that many bytes, all within the given length;
  the result holds exactly these bytes.
\<close>

theorem tryParse_correct:
  assumes "n \<le> length bs"
  shows "tryParse None k = Inr None \<and> (\<exists>r. tryParse (Some bs) n = Inr r)
    \<and> (tryParse (Some bs) n = Inr (Some m) \<longleftrightarrow> parses_to bs n m)"
proof (intro conjI)
  show "tryParse None k = Inr None" by (simp add: tryParse_def tryParseHeader_def)
  show "\<exists>r. tryParse (Some bs) n = Inr r" by (rule tryParse_defined [OF assms])
  show "tryParse (Some bs) n = Inr (Some m) \<longleftrightarrow> parses_to bs n m"
    using tryParse_parses_to [of n bs m] assms
    by (cases "8 \<le> n") (auto simp: tryParse_short parses_to_def)
qed

theorem tryParse_correct_witness:
  "parses_to [2, 0xFD, 0, 7, 0, 0, 0, 0, 99] 9 \<lparr>m_data = [2, 0xFD, 0, 7, 0, 0, 0, 0]\<rparr>"
proof -
  have "tryParse (Some [2, 0xFD, 0, 7, 0, 0, 0, 0, 99]) 9 = Inr (Some \<lparr>m_data = [2, 0xFD, 0, 7, 0, 0, 0, 0]\<rparr>)"
    by (simp add: tryParse_bytes [OF _ _ refl] isValidPayloadType_def join16_def join32_def)
  then show ?thesis
    using tryParse_correct [of 9 "[2, 0xFD, 0, 7, 0, 0, 0, 0, 99]" 0 "\<lparr>m_data = [2, 0xFD, 0, 7, 0, 0, 0, 0]\<rparr>"]
    by simp
qed

text \<open>
  (C10) Builder and parser are inverse.  For a named payload type and a payload below
  \<open>2^32\<close> bytes, parsing the serialised message, whatever follows it in the buffer, gives
  the same message; the message is valid and its type and payload are the ones it was built
  from; and while bytes of it are still missing the parser returns no message.
\<close>

theorem tryParse_buildMessage:
  assumes "named_payloadType t" and "length pl < 2 ^ 32" and "k \<le> length rest" and "j < 8 + length pl"
  shows "tryParse (Some (m_data (buildMessage t pl) @ rest)) (getMessageSize (buildMessage t pl) + k)
      = Inr (Some (buildMessage t pl))
    \<and> tryParse (Some (m_data (buildMessage t pl) @ rest)) j = Inr None
    \<and> isValid (buildMessage t pl) = Inr True \<and> getPayloadType (buildMessage t pl) = t
    \<and> getPayloadSize (buildMessage t pl) = length pl
    \<and> (pl \<noteq> [] \<longrightarrow> getPayload (buildMessage t pl) = (Some pl, length pl))"
proof (intro conjI)
  show "tryParse (Some (m_data (buildMessage t pl) @ rest)) (getMessageSize (buildMessage t pl) + k)
      = Inr (Some (buildMessage t pl))"
    using assms parses_to_build [of t pl "8 + length pl + k" rest]
    by (subst tryParse_parses_to) (simp_all add: getMessageSize_def buildMessage_wire)
  show "tryParse (Some (m_data (buildMessage t pl) @ rest)) j = Inr None"
    using assms by (cases "8 \<le> j") (auto simp: tryParse_short buildMessage_wire intro!: take_wire_field)
qed (use assms in \<open>simp_all add: isValid_build\<close>)

theorem tryParse_buildMessage_witness:
  "tryParse (Some (m_data (buildMessage DoIPPayloadType.DiagnosticMessage [0x0E, 0x80, 1, 2, 0x3E]) @ [7, 7]))
       (getMessageSize (buildMessage DoIPPayloadType.DiagnosticMessage [0x0E, 0x80, 1, 2, 0x3E]) + 1)
     = Inr (Some (buildMessage DoIPPayloadType.DiagnosticMessage [0x0E, 0x80, 1, 2, 0x3E]))"
  using tryParse_buildMessage [of DoIPPayloadType.DiagnosticMessage "[0x0E, 0x80, 1, 2, 0x3E]" 1 "[7, 7]" 0]
  by simp

text \<open>
  A vehicle identification response carries its fields: for identifiers of the right
  lengths (17, 6 and 6 bytes) every accessor returns the argument of the factory.
\<close>

lemma vehicleIdentificationResponse_fields:
  assumes "length vin = 17" and "length eid = 6" and "length gid = 6"
    and "m = makeVehicleIdentificationResponse vin la eid gid fa sync"
  shows "getVin m = Inr (Some vin) \<and> getLogicalAddress m = Inr (Some la) \<and> getEid m = Inr (Some eid)
    \<and> getGid m = Inr (Some gid)
    \<and> getFurtherActionRequest m = Inr (Some (furtherAction_cast (furtherAction_code fa)))
    \<and> getPayloadSize m = 33"
proof -
  let ?pl = "vin @ [hi8 la, lo8 la] @ eid @ gid @ [furtherAction_code fa, syncStatus_code sync]"
  have m: "m = buildMessage DoIPPayloadType.VehicleIdentificationResponse ?pl"
    using assms(4) by (simp add: makeVehicleIdentificationResponse_def Let_def writeU16BE_eq)
  have [simp]: "drop 17 ?pl = [hi8 la, lo8 la] @ eid @ gid @ [furtherAction_code fa, syncStatus_code sync]"
    "drop 19 ?pl = eid @ gid @ [furtherAction_code fa, syncStatus_code sync]"
    "drop 25 ?pl = gid @ [furtherAction_code fa, syncStatus_code sync]"
    "?pl ! 31 = furtherAction_code fa"
    using assms by (simp_all add: nth_append)
  have "length ?pl = 33" using assms by simp
  then show ?thesis unfolding m using assms(1-3)
    by (simp add: getVin_def getLogicalAddress_def getEid_def getGid_def getFurtherActionRequest_def
        vin_from_bytes_def id_from_bytes_eq id_from_byteArray_eq readAddressFrom_in byte_simps eid_type_def
        nth_append)
qed

text \<open>
  (C37) Accessors stay inside the buffer, with one exception: whatever bytes a message holds,
  source, target and logical address, VIN, EID and GID are read without leaving the buffer,
  but \<open>getFurtherActionRequest\<close> guards with a payload of 31 bytes and reads the byte with
  index 31, so that it is out of bounds exactly for a vehicle identification response with a
  payload of 31 bytes.
\<close>

theorem accessors_memory_safe:
  "(\<exists>r. getSourceAddress m = Inr r) \<and> (\<exists>r. getTargetAddress m = Inr r)
    \<and> (\<exists>r. getLogicalAddress m = Inr r) \<and> (\<exists>r. getVin m = Inr r) \<and> (\<exists>r. getEid m = Inr r)
    \<and> (\<exists>r. getGid m = Inr r)
    \<and> (getFurtherActionRequest m = Inl UndefinedRead
        \<longleftrightarrow> getPayloadType m = DoIPPayloadType.VehicleIdentificationResponse \<and> getPayloadSize m = 31)"
proof (intro conjI)
  show "\<exists>r. getSourceAddress m = Inr r" using getSourceAddress_safe by blast
  show "\<exists>r. getTargetAddress m = Inr r" using getTargetAddress_safe by blast
  show "\<exists>r. getLogicalAddress m = Inr r" "\<exists>r. getVin m = Inr r" "\<exists>r. getEid m = Inr r"
    "\<exists>r. getGid m = Inr r"
    "getFurtherActionRequest m = Inl UndefinedRead
        \<longleftrightarrow> getPayloadType m = DoIPPayloadType.VehicleIdentificationResponse \<and> getPayloadSize m = 31"
    using getPayload_cases [of m]
    by (auto simp: getLogicalAddress_def getVin_def getEid_def getGid_def getFurtherActionRequest_def
        vin_from_bytes_def id_from_bytes_eq readAddressFrom_in split: if_splits)
qed

text \<open>
  Addressed messages carry their addresses and data: the accessors of a diagnostic
  message, a routing activation request and an alive check response built by the factories
  return the arguments; the acknowledgements put both addresses, the code and the echoed
  payload in this order.
\<close>

lemma addressed_messages_fields:
  "getSourceAddress (makeDiagnosticMessage sa ta uds) = Inr (Some sa)
    \<and> getTargetAddress (makeDiagnosticMessage sa ta uds) = Inr (Some ta)
    \<and> getDiagnosticMessagePayload (makeDiagnosticMessage sa ta uds)
        = (if uds = [] then (None, 0) else (Some uds, length uds))
    \<and> getSourceAddress (makeRoutingActivationRequest sa act) = Inr (Some sa)
    \<and> getSourceAddress (makeAliveCheckResponse sa) = Inr (Some sa)
    \<and> fst (getPayload (makeDiagnosticPositiveResponse sa ta uds))
        = Some (writeU16BE (writeU16BE [] sa) ta @ [0] @ uds)
    \<and> fst (getPayload (makeDiagnosticNegativeResponse sa ta nack uds))
        = Some (writeU16BE (writeU16BE [] sa) ta @ [diagAck_code nack] @ uds)"
  by (simp add: makeDiagnosticMessage_def makeRoutingActivationRequest_def makeAliveCheckResponse_def
      makeDiagnosticPositiveResponse_def makeDiagnosticNegativeResponse_def Let_def writeU16BE_eq
      getSourceAddress_build getTargetAddress_build DIAGNOSTIC_MESSAGE_ACK_def byte_simps)

text \<open>
  Printing a message throws \<open>std::bad_optional_access\<close> exactly when the message has an
  address its payload is too short to hold: an alive check response or a routing activation
  message below 2 bytes, or a diagnostic message below 4.  In every other case it prints.
\<close>

lemma show_message_errors:
  "(show_message m = Inl BadOptionalAccess \<longleftrightarrow>
      getPayloadType m \<in> {DoIPPayloadType.AliveCheckResponse, DoIPPayloadType.RoutingActivationRequest,
        DoIPPayloadType.RoutingActivationResponse} \<and> getPayloadSize m < 2
      \<or> getPayloadType m = DoIPPayloadType.DiagnosticMessage \<and> getPayloadSize m < 4)
    \<and> (show_message m = Inl BadOptionalAccess \<or> (\<exists>s. show_message m = Inr s))"
proof -
  obtain sa ta where
    sa: "getSourceAddress m = Inr (if hasSourceAddress m then Some sa else None)" and
    ta: "getTargetAddress m = Inr (if getPayloadType m = DoIPPayloadType.DiagnosticMessage
      \<and> 4 \<le> getPayloadSize m then Some ta else None)"
    using getSourceAddress_safe getTargetAddress_safe by metis
  obtain s d where s: "show_ref (getPayload m) = Inr s" and d: "show_ref (getDiagnosticMessagePayload m) = Inr d"
    using show_ref_payload show_ref_diag by metis
  show ?thesis
    using sa ta s d nack_byte [of m]
    by (cases "getPayloadType m") (auto simp: show_message_def Let_def hasSourceAddress_iff)
qed

end
