(* ===== verification/DoIP_Protocol.thy ===== *)
theory DoIP_Protocol
  imports DoIP_Message
begin

text \<open>
  What a server connection promises to its client, as a specification of its own: five phases,
  the messages of the client, the expiry of the timer of the phase, answers from downstream
  and requests to close as inputs, and as outputs what is sent, what the application is
  given and the disconnection.  Timers, transport, flags and counters of the code do not
  occur in it.  \<open>forward_simulation\<close> is the contract a system has to meet to refine such a
  specification; \<^verbatim>\<open>DoIP_ProtocolRefinement\<close> shows that the connection meets it.
\<close>

section \<open>Runs and forward simulation\<close>

text \<open>
  Runs of a system whose steps show at most one input, and runs of a specification whose
  steps take one input and give a list of outputs.
\<close>

inductive shown_run :: "('s \<Rightarrow> 'i option \<Rightarrow> 's \<Rightarrow> bool) \<Rightarrow> 's \<Rightarrow> 'i list \<Rightarrow> 's \<Rightarrow> bool"
  for cstep :: "'s \<Rightarrow> 'i option \<Rightarrow> 's \<Rightarrow> bool" and s :: 's where
  shown_start: "shown_run cstep s [] s"
| shown_step: "shown_run cstep s is t \<Longrightarrow> cstep t (Some i) u \<Longrightarrow> shown_run cstep s (is @ [i]) u"
| hidden_step: "shown_run cstep s is t \<Longrightarrow> cstep t None u \<Longrightarrow> shown_run cstep s is u"

inductive spec_run :: "('a \<Rightarrow> 'i \<Rightarrow> 'o list \<Rightarrow> 'a \<Rightarrow> bool) \<Rightarrow> 'a \<Rightarrow> 'i list \<Rightarrow> 'o list \<Rightarrow> 'a \<Rightarrow> bool"
  for astep :: "'a \<Rightarrow> 'i \<Rightarrow> 'o list \<Rightarrow> 'a \<Rightarrow> bool" and a :: 'a where
  spec_start: "spec_run astep a [] [] a"
| spec_step: "spec_run astep a is os b \<Longrightarrow> astep b i os' d \<Longrightarrow> spec_run astep a (is @ [i]) (os @ os') d"

locale forward_simulation =
  fixes cstep :: "'s \<Rightarrow> 'i option \<Rightarrow> 's \<Rightarrow> bool" and astep :: "'a \<Rightarrow> 'i \<Rightarrow> 'o list \<Rightarrow> 'a \<Rightarrow> bool"
    and phase :: "'s \<Rightarrow> 'a" and out :: "'s \<Rightarrow> 'o list" and I :: "'s \<Rightarrow> bool"
  assumes step_I: "I s \<Longrightarrow> cstep s l t \<Longrightarrow> I t"
    and step_shown: "I s \<Longrightarrow> cstep s (Some i) t \<Longrightarrow> \<exists>os. astep (phase s) i os (phase t) \<and> out t = out s @ os"
    and step_hidden: "I s \<Longrightarrow> cstep s None t \<Longrightarrow> phase t = phase s \<and> out t = out s"
begin

lemma run_simulated:
  assumes "shown_run cstep s is t" and "I s"
  shows "I t \<and> (\<exists>os. spec_run astep (phase s) is os (phase t) \<and> out t = out s @ os)"
  using assms
proof (induction rule: shown_run.induct)
  case shown_start
  then show ?case using spec_run.spec_start [of astep "phase s"] by auto
next
  case (shown_step "is" t i u)
  then obtain os where o: "spec_run astep (phase s) is os (phase t)" "out t = out s @ os" and t: "I t" by blast
  from step_shown [OF t shown_step.hyps(2)] obtain os'
    where "astep (phase t) i os' (phase u)" "out u = out t @ os'" by blast
  with o step_I [OF t shown_step.hyps(2)] show ?case using spec_run.spec_step [OF o(1)] by auto
next
  case (hidden_step "is" t u)
  then show ?case using step_I [of t None u] step_hidden [of t u] by auto
qed

end

section \<open>The specification\<close>

datatype phase = Unrouted | Routed DoIPAddress | Probing DoIPAddress | Forwarding DoIPAddress | Ended

datatype protocol_input =
    Request DoIPMessage
  | Expired
  | Reply ByteArray DoIPDownstreamResult
  | Shutdown DoIPCloseReason
  | Outgoing DoIPMessage

datatype protocol_output = Answer DoIPMessage | Deliver DoIPMessage | Forward DoIPMessage | Disconnect DoIPCloseReason

record service =
  svc_address :: DoIPAddress
  svc_listens :: bool
  svc_forwards :: bool
  svc_retries :: u8

definition activation_answer :: "service \<Rightarrow> DoIPAddress \<Rightarrow> protocol_output" where
  "activation_answer S a = Answer (buildMessage DoIPPayloadType.RoutingActivationResponse
     (writeU16BE (writeU16BE [] a) (svc_address S) @ [0x10, 0, 0, 0, 0]))"

definition ack_answer :: "service \<Rightarrow> DoIPAddress \<Rightarrow> DoIPDiagnosticAck \<Rightarrow> protocol_output" where
  "ack_answer S a ack = Answer (case ack of
     None \<Rightarrow> makeDiagnosticPositiveResponse a (svc_address S) []
   | Some code \<Rightarrow> makeDiagnosticNegativeResponse a (svc_address S) code [])"

definition deliver :: "service \<Rightarrow> DoIPMessage \<Rightarrow> protocol_output list" where
  "deliver S m = (if svc_listens S then [Deliver m] else [])"

definition reply_answer :: "service \<Rightarrow> DoIPAddress \<Rightarrow> ByteArray \<Rightarrow> DoIPDownstreamResult \<Rightarrow> protocol_output" where
  "reply_answer S a b res = Answer (if res = DoIPDownstreamResult.Handled
     then makeDiagnosticMessage (svc_address S) a b
     else makeDiagnosticNegativeResponse (svc_address S) a DoIPNegativeDiagnosticAck.TargetUnreachable [])"

abbreviation diagnostic :: "DoIPMessage \<Rightarrow> bool" where
  "diagnostic m \<equiv> getPayloadType m = DoIPPayloadType.DiagnosticMessage"

abbreviation alive :: "DoIPMessage \<Rightarrow> bool" where
  "alive m \<equiv> getPayloadType m = DoIPPayloadType.AliveCheckResponse"

inductive protocol :: "service \<Rightarrow> phase \<Rightarrow> protocol_input \<Rightarrow> protocol_output list \<Rightarrow> phase \<Rightarrow> bool"
  for S :: service where
  activated: "getPayloadType m = DoIPPayloadType.RoutingActivationRequest \<Longrightarrow> getSourceAddress m = Inr (Some a) \<Longrightarrow>
     protocol S Unrouted (Request m) [activation_answer S a] (Routed a)"
| refused: "getPayloadType m \<noteq> DoIPPayloadType.RoutingActivationRequest \<or> getSourceAddress m = Inr None \<Longrightarrow>
     protocol S Unrouted (Request m) [Disconnect DoIPCloseReason.InvalidMessage] Ended"
| silent: "protocol S Unrouted Expired [Disconnect DoIPCloseReason.InitialInactivityTimeout] Ended"
| foreign: "diagnostic m \<Longrightarrow> getSourceAddress m = Inr (Some b) \<Longrightarrow> b \<noteq> a \<Longrightarrow>
     protocol S (Routed a) (Request m) [ack_answer S b (Some DoIPNegativeDiagnosticAck.InvalidSourceAddress)] (Routed a)"
| truncated: "diagnostic m \<Longrightarrow> getSourceAddress m = Inr None \<Longrightarrow>
     protocol S (Routed a) (Request m) [Disconnect DoIPCloseReason.InvalidMessage] Ended"
| rejected: "diagnostic m \<Longrightarrow> getSourceAddress m = Inr (Some a) \<Longrightarrow> svc_listens S \<Longrightarrow>
     protocol S (Routed a) (Request m) (deliver S m @ [ack_answer S a (Some code)]) (Routed a)"
| accepted: "diagnostic m \<Longrightarrow> getSourceAddress m = Inr (Some a) \<Longrightarrow> \<not> svc_forwards S \<Longrightarrow>
     protocol S (Routed a) (Request m) (deliver S m @ [ack_answer S a None]) (Routed a)"
| forwarded: "diagnostic m \<Longrightarrow> getSourceAddress m = Inr (Some a) \<Longrightarrow> svc_forwards S \<Longrightarrow> p \<in> {Forwarding a, Routed a} \<Longrightarrow>
     protocol S (Routed a) (Request m) (deliver S m @ [ack_answer S a None, Forward m]) p"
| unreachable: "diagnostic m \<Longrightarrow> getSourceAddress m = Inr (Some a) \<Longrightarrow> svc_forwards S \<Longrightarrow>
     protocol S (Routed a) (Request m) (deliver S m @ [ack_answer S a None, Forward m,
       ack_answer S a (Some DoIPNegativeDiagnosticAck.TargetUnreachable)]) (Routed a)"
| kept_alive: "alive m \<Longrightarrow> protocol S (Routed a) (Request m) [] (Routed a)"
| probed: "protocol S (Routed a) Expired [Answer makeAliveCheckRequest] (Probing a)"
| recovered: "diagnostic m \<or> alive m \<Longrightarrow> protocol S (Probing a) (Request m) [] (Routed a)"
| unexpected: "\<not> diagnostic m \<Longrightarrow> \<not> alive m \<Longrightarrow> p \<in> {Routed a, Probing a} \<Longrightarrow>
     protocol S p (Request m) [ack_answer S ZERO_ADDRESS (Some DoIPNegativeDiagnosticAck.TransportProtocolError)] p"
| lost: "svc_retries S \<le> 1 \<Longrightarrow> protocol S (Probing a) Expired [Disconnect DoIPCloseReason.AliveCheckTimeout] Ended"
| stalled: "1 < svc_retries S \<Longrightarrow> protocol S (Probing a) Expired [] (Probing a)"
| deaf: "protocol S (Forwarding a) (Request m) [] (Forwarding a)"
| overdue: "p \<in> {Forwarding a, Ended} \<Longrightarrow> protocol S p Expired [] p"
| replied: "p \<in> {Forwarding a, Routed a, Probing a} \<Longrightarrow> protocol S p (Reply b res) [reply_answer S a b res] (Routed a)"
| shut: "p \<noteq> Ended \<Longrightarrow> protocol S p (Shutdown r) [Disconnect r] Ended"
| ended: "i \<in> {Request m, Shutdown r} \<Longrightarrow> protocol S Ended i [] Ended"
| pushed: "protocol S p (Outgoing m) [Answer m] p"

section \<open>What the specification guarantees\<close>

inductive_cases protocol_ended: "protocol S Ended i os p'"

fun phase_client :: "phase \<Rightarrow> DoIPAddress option" where
  "phase_client (Routed a) = Some a"
| "phase_client (Probing a) = Some a"
| "phase_client (Forwarding a) = Some a"
| "phase_client _ = None"

text \<open>No request is left without a reaction, and nothing but the application's own messages follows the end.\<close>

lemma protocol_total: "\<exists>os p'. protocol S p (Request m) os p'"
proof -
  obtain x where x: "getSourceAddress m = Inr x"
    using getSourceAddress_safe by blast
  consider (r) a where "p = Routed a" "diagnostic m" | (o) "\<nexists>a. p = Routed a \<and> diagnostic m" by blast
  then show ?thesis
  proof cases
    case r
    then show ?thesis using x protocol.truncated protocol.foreign protocol.accepted protocol.forwarded
      by (cases x; cases "svc_forwards S") (metis insertI1)+
  next
    case o
    have "x = None \<or> (\<exists>a. x = Some a)" by (cases x) auto
    with o x show ?thesis
      by (cases p) (metis protocol.activated protocol.refused, metis protocol.kept_alive protocol.unexpected insertI1,
          metis protocol.recovered protocol.unexpected insertI1 insertI2, metis protocol.deaf, metis protocol.ended insertI1)
  qed
qed

lemma spec_ended:
  assumes "spec_run (protocol S) Ended is os p"
  shows "p = Ended \<and> os = map Answer [m. Outgoing m \<leftarrow> is]"
  using assms by (induction rule: spec_run.induct) (auto elim!: protocol_ended)

text \<open>
  A client is routed only after its activation was answered, so a message reaches the
  application only after the server answered the activation of its sender.
\<close>

lemma protocol_client:
  assumes "protocol S p i os p'" and "phase_client p' = Some a"
  shows "phase_client p = Some a \<or> activation_answer S a \<in> set os"
  using assms by (cases rule: protocol.cases) auto

lemma protocol_deliver:
  assumes "protocol S p i os p'" and "os = pre @ Deliver m # suf"
  shows "\<exists>a. phase_client p = Some a \<and> getSourceAddress m = Inr (Some a)"
  using assms
  by (cases rule: protocol.cases)
    (auto simp: activation_answer_def ack_answer_def reply_answer_def deliver_def Cons_eq_append_conv split: if_splits)

lemma spec_delivered:
  assumes "spec_run (protocol S) Unrouted is os p"
  shows "(\<forall>a. phase_client p = Some a \<longrightarrow> activation_answer S a \<in> set os)
    \<and> (\<forall>pre m suf. os = pre @ Deliver m # suf \<longrightarrow>
         (\<exists>a. getSourceAddress m = Inr (Some a) \<and> activation_answer S a \<in> set pre))"
  using assms
proof (induction rule: spec_run.induct)
  case (spec_step "is" os b i os' d)
  have "activation_answer S a \<in> set (os @ os')" if "phase_client d = Some a" for a
    using protocol_client [OF spec_step.hyps(2) that] spec_step.IH by auto
  moreover have "\<exists>a. getSourceAddress m = Inr (Some a) \<and> activation_answer S a \<in> set pre"
    if e: "os @ os' = pre @ Deliver m # suf" for pre m suf
  proof -
    from e consider us where "os = pre @ Deliver m # us" | us where "pre = os @ us" "os' = us @ Deliver m # suf"
      by (auto simp: append_eq_append_conv2 append_eq_Cons_conv)
    then show ?thesis
    proof cases
      case 1
      then show ?thesis using spec_step.IH by blast
    next
      case 2
      with protocol_deliver [OF spec_step.hyps(2)] obtain a
        where "phase_client b = Some a" "getSourceAddress m = Inr (Some a)" by blast
      with 2(1) spec_step.IH show ?thesis by auto
    qed
  qed
  ultimately show ?case by blast
qed simp

end
