(* ===== verification/DoIP_Queue.thy ===== *)
theory DoIP_Queue
  imports DoIP_Prelude "HOL-Library.Sublist"
begin

text \<open>
  The blocking queue \<^verbatim>\<open>inc/ThreadSafeQueue.h\<close>.  Every member takes the mutex for its
  whole critical section, so an execution of several threads is a sequence of the atomic
  operations below; a wait on the condition variable is described at the moment it ends.
  The locale \<open>fifo\<close> is the contract the transports rely on, whichever of the three
  removing members they call; it is interpreted for \<open>tryPop\<close>, \<open>pop\<close> and \<open>waitAndPop\<close>.
\<close>

section \<open>State and members\<close>

record 'a ThreadSafeQueue =
  m_queue :: "'a list"
  m_stopped :: bool

definition queue_new :: "'a ThreadSafeQueue" where
  "queue_new = \<lparr>m_queue = [], m_stopped = False\<rparr>"

definition push :: "'a \<Rightarrow> 'a ThreadSafeQueue \<Rightarrow> 'a ThreadSafeQueue" where
  "push item q = (if m_stopped q then q else q\<lparr>m_queue := m_queue q @ [item]\<rparr>)"

text \<open>
  The members with an out parameter return \<open>Some\<close> of the item stored there together with
  \<open>true\<close>, and \<open>None\<close> for \<open>false\<close>, when the parameter is left alone.
\<close>

definition front_pop :: "'a ThreadSafeQueue \<Rightarrow> 'a option \<times> 'a ThreadSafeQueue" where
  "front_pop q = (Some (hd (m_queue q)), q\<lparr>m_queue := tl (m_queue q)\<rparr>)"

text \<open>
  \<open>wait_for\<close> returns false when the time is over and the predicate does not hold; otherwise
  the predicate holds when it returns.
\<close>

definition pop :: "'a ThreadSafeQueue \<Rightarrow> 'a option \<times> 'a ThreadSafeQueue" where
  "pop q =
     (if \<not> (m_queue q \<noteq> [] \<or> m_stopped q) then (None, q)
      else if m_stopped q \<and> m_queue q = [] then (None, q)
      else front_pop q)"

definition stop :: "'a ThreadSafeQueue \<Rightarrow> 'a ThreadSafeQueue" where
  "stop q = q\<lparr>m_stopped := True\<rparr>"

definition queue_size :: "'a ThreadSafeQueue \<Rightarrow> nat" where
  "queue_size q = length (m_queue q)"

definition queue_empty :: "'a ThreadSafeQueue \<Rightarrow> bool" where
  "queue_empty q = (m_queue q = [])"

text \<open>\<open>None\<close>: the call is still waiting, because the predicate of its wait does not hold.\<close>

definition waitAndPop :: "'a ThreadSafeQueue \<Rightarrow> ('a option \<times> 'a ThreadSafeQueue) option" where
  "waitAndPop q =
     (if \<not> (m_queue q \<noteq> [] \<or> m_stopped q) then None
      else if m_stopped q \<and> m_queue q = [] then Some (None, q)
      else Some (front_pop q))"

definition tryPop :: "'a ThreadSafeQueue \<Rightarrow> 'a option \<times> 'a ThreadSafeQueue" where
  "tryPop q = (if m_queue q = [] \<or> m_stopped q then (None, q) else front_pop q)"

definition clear :: "'a ThreadSafeQueue \<Rightarrow> 'a ThreadSafeQueue" where
  "clear q = q\<lparr>m_queue := []\<rparr>"

text \<open>Move construction: the new queue and the queue that was moved from.\<close>

definition move_from :: "'a ThreadSafeQueue \<Rightarrow> 'a ThreadSafeQueue \<times> 'a ThreadSafeQueue" where
  "move_from other =
     (\<lparr>m_queue = m_queue other, m_stopped = m_stopped other\<rparr>, other\<lparr>m_queue := [], m_stopped := True\<rparr>)"

text \<open>
  Move assignment; \<open>self\<close> says that both are the same object.  The destructor stops the queue, so
  that threads waiting in it return.
\<close>

definition move_assign ::
  "bool \<Rightarrow> 'a ThreadSafeQueue \<Rightarrow> 'a ThreadSafeQueue \<Rightarrow> 'a ThreadSafeQueue \<times> 'a ThreadSafeQueue" where
  "move_assign self this other =
     (if \<not> self
      then (this\<lparr>m_queue := m_queue other, m_stopped := m_stopped other\<rparr>, other\<lparr>m_queue := [], m_stopped := True\<rparr>)
      else (this, other))"

definition queue_destroy :: "'a ThreadSafeQueue \<Rightarrow> 'a ThreadSafeQueue" where
  "queue_destroy q = stop q"

section \<open>The contract\<close>

locale fifo =
  fixes contents :: "'q \<Rightarrow> 'a list"
    and accepting :: "'q \<Rightarrow> bool"
    and put :: "'a \<Rightarrow> 'q \<Rightarrow> 'q"
    and get :: "'q \<Rightarrow> 'a option \<times> 'q"
  assumes put_accepting: "accepting q \<Longrightarrow> contents (put a q) = contents q @ [a] \<and> accepting (put a q)"
    and put_refused: "\<not> accepting q \<Longrightarrow> put a q = q"
    and get_Some: "get q = (Some a, q') \<Longrightarrow> contents q = a # contents q' \<and> accepting q' = accepting q"
    and get_None: "get q = (None, q') \<Longrightarrow> q' = q \<and> (accepting q \<longrightarrow> contents q = [])"
begin

text \<open>A client runs a sequence of insertions (\<open>Some a\<close>) and removals (\<open>None\<close>).\<close>

fun run :: "'a option list \<Rightarrow> 'q \<Rightarrow> 'a list \<times> 'q" where
  "run [] q = ([], q)"
| "run (Some a # ops) q = run ops (put a q)"
| "run (None # ops) q =
     (case get q of
        (None, q') \<Rightarrow> run ops q'
      | (Some a, q') \<Rightarrow> (let (out, q'') = run ops q' in (a # out, q'')))"

fun inserted :: "'a option list \<Rightarrow> 'a list" where
  "inserted [] = []"
| "inserted (Some a # ops) = a # inserted ops"
| "inserted (None # ops) = inserted ops"

text \<open>Nothing is lost, duplicated or reordered.\<close>

lemma run_fifo:
  "run ops q = (out, q') \<Longrightarrow> accepting q \<Longrightarrow>
     out @ contents q' = contents q @ inserted ops \<and> accepting q'"
proof (induction ops arbitrary: q out)
  case Nil
  then show ?case by simp
next
  case (Cons op ops)
  show ?case
  proof (cases op)
    case (Some a)
    with Cons.IH [of "put a q" out] Cons.prems show ?thesis by (auto simp: put_accepting)
  next
    case None
    show ?thesis
    proof (cases "get q")
      case (Pair r q1)
      show ?thesis
      proof (cases r)
        case None
        with Pair have "q1 = q" "contents q = []" using get_None Cons.prems(2) by auto
        with None Pair \<open>op = None\<close> Cons show ?thesis by simp
      next
        case (Some a)
        with Pair have "contents q = a # contents q1" "accepting q1" using get_Some Cons.prems(2) by auto
        moreover obtain o1 where "out = a # o1" "run ops q1 = (o1, q')"
          using Some Pair \<open>op = None\<close> Cons.prems(1) by (auto split: prod.splits)
        ultimately show ?thesis using Cons.IH [of q1 o1] \<open>op = None\<close> by simp
      qed
    qed
  qed
qed

text \<open>Once insertions are refused the queue only drains.\<close>

lemma run_refused:
  "run ops q = (out, q') \<Longrightarrow> \<not> accepting q \<Longrightarrow> out @ contents q' = contents q \<and> \<not> accepting q'"
proof (induction ops arbitrary: q out)
  case Nil
  then show ?case by simp
next
  case (Cons op ops)
  show ?case
  proof (cases op)
    case (Some a)
    with Cons show ?thesis by (simp add: put_refused)
  next
    case None
    then show ?thesis
      using Cons get_None [of q] get_Some [of q]
      by (auto split: prod.splits option.splits)
  qed
qed

end

section \<open>The queue fulfils the contract\<close>

lemmas queue_defs = push_def pop_def tryPop_def waitAndPop_def front_pop_def stop_def clear_def

lemma front_pop_contents: "m_queue q \<noteq> [] \<Longrightarrow> front_pop q = (Some a, q') \<Longrightarrow> m_queue q = a # m_queue q'"
  by (auto simp: front_pop_def)

interpretation tryq: fifo m_queue "\<lambda>q. \<not> m_stopped q" push tryPop
  by unfold_locales (auto simp: queue_defs split: if_splits)

interpretation popq: fifo m_queue "\<lambda>q. \<not> m_stopped q" push pop
  by unfold_locales (auto simp: queue_defs split: if_splits)

text \<open>A \<open>waitAndPop\<close> that would wait has not removed anything.\<close>

definition waitAndPop_done :: "'a ThreadSafeQueue \<Rightarrow> 'a option \<times> 'a ThreadSafeQueue" where
  "waitAndPop_done q = (case waitAndPop q of None \<Rightarrow> (None, q) | Some r \<Rightarrow> r)"

interpretation waitq: fifo m_queue "\<lambda>q. \<not> m_stopped q" push waitAndPop_done
  by unfold_locales (auto simp: queue_defs waitAndPop_done_def split: if_splits)

section \<open>All operations interleaved\<close>

datatype 'a queue_op = Push 'a | Pop | TryPop | WaitAndPop | Stop | Clear

fun queue_step :: "'a queue_op \<Rightarrow> 'a ThreadSafeQueue \<Rightarrow> 'a option \<times> 'a ThreadSafeQueue" where
  "queue_step (Push a) q = (None, push a q)"
| "queue_step Pop q = pop q"
| "queue_step TryPop q = tryPop q"
| "queue_step WaitAndPop q = waitAndPop_done q"
| "queue_step Stop q = (None, stop q)"
| "queue_step Clear q = (None, clear q)"

fun queue_run :: "'a queue_op list \<Rightarrow> 'a ThreadSafeQueue \<Rightarrow> 'a list \<times> 'a ThreadSafeQueue" where
  "queue_run [] q = ([], q)"
| "queue_run (op # ops) q =
     (case queue_step op q of (r, q1) \<Rightarrow>
      case queue_run ops q1 of (out, q2) \<Rightarrow> ((case r of None \<Rightarrow> out | Some a \<Rightarrow> a # out), q2))"

text \<open>The items that were pushed before the queue was stopped.\<close>

fun accepted :: "'a queue_op list \<Rightarrow> bool \<Rightarrow> 'a list" where
  "accepted [] stopped = []"
| "accepted (Push a # ops) stopped = (if stopped then accepted ops stopped else a # accepted ops stopped)"
| "accepted (Stop # ops) stopped = accepted ops True"
| "accepted (op # ops) stopped = accepted ops stopped"

lemma queue_step_cases:
  assumes "queue_step op q = (r, q1)" and "op \<noteq> Clear"
  shows "(case r of None \<Rightarrow> [] | Some a \<Rightarrow> [a]) @ m_queue q1 = m_queue q @ accepted [op] (m_stopped q)
    \<and> accepted (op # ops) (m_stopped q) = accepted [op] (m_stopped q) @ accepted ops (m_stopped q1)"
  using assms by (cases op) (auto simp: queue_defs waitAndPop_done_def split: if_splits)

lemma queue_run_exact:
  "queue_run ops q = (out, q') \<Longrightarrow> Clear \<notin> set ops \<Longrightarrow>
     out @ m_queue q' = m_queue q @ accepted ops (m_stopped q)"
proof (induction ops arbitrary: q out)
  case (Cons op ops)
  obtain r q1 where s: "queue_step op q = (r, q1)" by (cases "queue_step op q")
  obtain o1 where r: "queue_run ops q1 = (o1, q')" and out: "out = (case r of None \<Rightarrow> o1 | Some a \<Rightarrow> a # o1)"
    using Cons.prems(1) s by (auto split: prod.splits)
  then show ?case
    using Cons.IH [OF r] Cons.prems(2) queue_step_cases [OF s, of ops]
    by (cases r) auto
qed simp

lemma queue_run_subseq:
  "queue_run ops q = (out, q') \<Longrightarrow> subseq (out @ m_queue q') (m_queue q @ accepted ops (m_stopped q))"
proof (induction ops arbitrary: q out)
  case (Cons op ops)
  obtain r q1 where s: "queue_step op q = (r, q1)" by (cases "queue_step op q")
  obtain o1 where r: "queue_run ops q1 = (o1, q')" and out: "out = (case r of None \<Rightarrow> o1 | Some a \<Rightarrow> a # o1)"
    using Cons.prems(1) s by (auto split: prod.splits)
  show ?case
  proof (cases "op = Clear")
    case True
    then show ?thesis
      using Cons.IH [OF r] out s by (auto simp: clear_def intro: subseq_drop_many)
  next
    case False
    have "m_queue q @ accepted (op # ops) (m_stopped q)
        = (case r of None \<Rightarrow> [] | Some a \<Rightarrow> [a]) @ m_queue q1 @ accepted ops (m_stopped q1)"
      using queue_step_cases [OF s False, of ops] by (metis append_assoc)
    then show ?thesis
      using Cons.IH [OF r] out by (cases r) simp_all
  qed
qed simp

text \<open>
  Moving hands over all items and the stopped flag and leaves a queue that takes nothing more;
  assigning a queue to itself changes nothing.
\<close>

lemma move_hands_over:
  "move_assign False this other = move_from other" "move_assign True this this = (this, this)"
  "m_queue (push x (snd (move_from other))) = []" "fst (move_from other) = other"
  by (simp_all add: move_assign_def move_from_def push_def)

section \<open>Properties\<close>

lemma drain_pop:
  "m_stopped q \<Longrightarrow> popq.run (replicate (length (m_queue q)) None) q = (m_queue q, q\<lparr>m_queue := []\<rparr>)"
proof (induction "m_queue q" arbitrary: q)
  case (Cons a as)
  have "pop q = (Some a, q\<lparr>m_queue := as\<rparr>)"
    using Cons.hyps(2) Cons.prems by (simp add: queue_defs flip: Cons.hyps(2))
  then show ?case
    using Cons.hyps(1) [of "q\<lparr>m_queue := as\<rparr>"] Cons.prems by (simp flip: Cons.hyps(2))
qed simp

lemma drain_tryPop: "m_stopped q \<Longrightarrow> tryq.run (replicate n None) q = ([], q)"
  by (induction n) (simp_all add: tryPop_def)

text \<open>
  (C16) First in, first out, for every interleaving of operations of any number of threads on
  a fresh queue: what the consumers received, followed by what is still queued, is an
  order-preserving selection of the items pushed before the queue was stopped, and exactly
  these items when \<open>clear\<close> was not called: nothing is lost, duplicated or reordered.
\<close>

theorem queue_fifo:
  assumes "queue_run ops queue_new = (received, q)"
  shows "subseq (received @ m_queue q) (accepted ops False)
    \<and> (Clear \<notin> set ops \<longrightarrow> received @ m_queue q = accepted ops False)"
  using queue_run_subseq [OF assms] queue_run_exact [OF assms] by (simp add: queue_new_def)

theorem queue_fifo_witness:
  "\<exists>received q. queue_run [Push (1::nat), Push 2, TryPop, Stop, Push 3, Pop] queue_new = (received, q)
    \<and> subseq (received @ m_queue q) (accepted [Push 1, Push 2, TryPop, Stop, Push 3, Pop] False)
    \<and> received @ m_queue q = accepted [Push 1, Push 2, TryPop, Stop, Push 3, Pop] False"
proof -
  obtain received q where r: "queue_run [Push (1::nat), Push 2, TryPop, Stop, Push 3, Pop] queue_new = (received, q)"
    by (cases "queue_run [Push (1::nat), Push 2, TryPop, Stop, Push 3, Pop] queue_new")
  then show ?thesis using queue_fifo [OF r] by auto
qed

text \<open>
  Behaviour around \<open>stop\<close>.  A blocking removal waits exactly while the queue is empty and
  not stopped; a push that is accepted or a stop ends the wait, \<open>clear\<close> does not.  After
  a stop, pushes are ignored, the blocking removals still hand out everything that was
  queued, in order, and then fail, while \<open>tryPop\<close> refuses at once and leaves the items.
\<close>

lemma queue_stop_behaviour:
  "(waitAndPop q = None \<longleftrightarrow> m_queue q = [] \<and> \<not> m_stopped q)
    \<and> waitAndPop (push a q) \<noteq> None \<and> waitAndPop (stop q) \<noteq> None
    \<and> (\<not> m_stopped q \<longrightarrow> waitAndPop (clear q) = None)
    \<and> push a (stop q) = stop q
    \<and> popq.run (replicate (length (m_queue q)) None) (stop q) = (m_queue q, (stop q)\<lparr>m_queue := []\<rparr>)
    \<and> pop ((stop q)\<lparr>m_queue := []\<rparr>) = (None, (stop q)\<lparr>m_queue := []\<rparr>)
    \<and> tryq.run (replicate n None) (stop q) = ([], stop q)"
  using drain_pop [of "stop q"] drain_tryPop [of "stop q" n]
  by (auto simp: queue_defs)

end
