(* ===== verification/DoIP_Transport.thy ===== *)
theory DoIP_Transport
  imports DoIP_Message DoIP_Queue
begin

text \<open>
  The transports below a connection (\<^verbatim>\<open>inc/tp\<close>, \<^verbatim>\<open>src/tp\<close>): the abstract class
  \<open>IConnectionTransport\<close> as a record of its virtual functions, the queue based mock and the
  TCP implementation.  The operating system is a parameter: a record of the socket calls
  over an arbitrary state of the network.  A function that may not return has result
  \<open>None\<close> when it does not (a blocking wait, an endless retry).  The locale
  \<open>connection_transport\<close> is the contract the connection relies on; it is interpreted for
  both implementations.
\<close>

section \<open>The interface (IConnectionTransport.h)\<close>

record 't transport_ops =
  tp_send :: "DoIPMessage \<Rightarrow> 't \<Rightarrow> int \<times> 't"
  tp_receive :: "'t \<Rightarrow> (DoIPMessage option \<times> 't) res option"
  tp_close :: "DoIPCloseReason \<Rightarrow> 't \<Rightarrow> 't"
  tp_isActive :: "'t \<Rightarrow> bool"
  tp_getIdentifier :: "'t \<Rightarrow> string"

section \<open>The mock (MockConnectionTransport, MockTransport)\<close>

record MockConnectionTransport =
  mock_identifier :: string
  mock_isActive :: bool
  mock_blocking :: bool
  m_sentQueue :: "DoIPMessage ThreadSafeQueue"
  m_receiveQueue :: "DoIPMessage ThreadSafeQueue"

definition mock_new :: "string \<Rightarrow> MockConnectionTransport" where
  "mock_new identifier = \<lparr>mock_identifier = identifier, mock_isActive = True, mock_blocking = False,
     m_sentQueue = queue_new, m_receiveQueue = queue_new\<rparr>"

definition mock_sendMessage :: "DoIPMessage \<Rightarrow> MockConnectionTransport \<Rightarrow> int \<times> MockConnectionTransport" where
  "mock_sendMessage msg t =
     (if \<not> mock_isActive t then (- 1, t)
      else (int (getMessageSize msg), t\<lparr>m_sentQueue := push msg (m_sentQueue t)\<rparr>))"

definition mock_receiveMessage ::
  "MockConnectionTransport \<Rightarrow> (DoIPMessage option \<times> MockConnectionTransport) res option" where
  "mock_receiveMessage t =
     (if \<not> mock_isActive t then Some (Inr (None, t))
      else if mock_blocking t then
        (case waitAndPop (m_receiveQueue t) of
           None \<Rightarrow> None
         | Some (msg, q) \<Rightarrow> Some (Inr (msg, t\<lparr>m_receiveQueue := q\<rparr>)))
      else
        (case tryPop (m_receiveQueue t) of
           (msg, q) \<Rightarrow> Some (Inr (msg, t\<lparr>m_receiveQueue := q\<rparr>))))"

definition mock_close :: "DoIPCloseReason \<Rightarrow> MockConnectionTransport \<Rightarrow> MockConnectionTransport" where
  "mock_close reason t =
     (let t = t\<lparr>mock_isActive := False\<rparr>;
          t = t\<lparr>m_receiveQueue := clear (m_receiveQueue t)\<rparr>
      in t\<lparr>m_sentQueue := clear (m_sentQueue t)\<rparr>)"

definition mock_injectMessage :: "DoIPMessage \<Rightarrow> MockConnectionTransport \<Rightarrow> MockConnectionTransport" where
  "mock_injectMessage msg t = t\<lparr>m_receiveQueue := push msg (m_receiveQueue t)\<rparr>"

definition mock_popSentMessage :: "MockConnectionTransport \<Rightarrow> DoIPMessage option \<times> MockConnectionTransport" where
  "mock_popSentMessage t = (case tryPop (m_sentQueue t) of (m, q) \<Rightarrow> (m, t\<lparr>m_sentQueue := q\<rparr>))"

definition mock_hasSentMessages :: "MockConnectionTransport \<Rightarrow> bool" where
  "mock_hasSentMessages t = (\<not> queue_empty (m_sentQueue t))"

definition mock_sentMessageCount :: "MockConnectionTransport \<Rightarrow> nat" where
  "mock_sentMessageCount t = queue_size (m_sentQueue t)"

definition mock_clearQueues :: "MockConnectionTransport \<Rightarrow> MockConnectionTransport" where
  "mock_clearQueues t = t\<lparr>m_sentQueue := clear (m_sentQueue t), m_receiveQueue := clear (m_receiveQueue t)\<rparr>"

definition mock_ops :: "MockConnectionTransport transport_ops" where
  "mock_ops = \<lparr>tp_send = mock_sendMessage, tp_receive = mock_receiveMessage, tp_close = mock_close,
     tp_isActive = mock_isActive, tp_getIdentifier = mock_identifier\<rparr>"

section \<open>The socket calls\<close>

datatype errno = EAGAIN | EINTR | OtherErrno nat

datatype recv_result = RecvData "u8 list" | RecvEof | RecvError errno

record 'n os_socket =
  os_recv :: "int \<Rightarrow> nat \<Rightarrow> 'n \<Rightarrow> recv_result \<times> 'n"
  os_write :: "int \<Rightarrow> u8 list \<Rightarrow> 'n \<Rightarrow> int \<times> 'n"
  os_close :: "int \<Rightarrow> 'n \<Rightarrow> 'n"
  os_getpeername :: "int \<Rightarrow> 'n \<Rightarrow> (string \<times> u16) option"

section \<open>TCP (TcpConnectionTransport, TcpTransport)\<close>

record 'n TcpConnectionTransport =
  m_socket :: int
  m_receiveBuffer :: "u8 list"
  tcp_isActive :: bool
  tcp_identifier :: string
  network :: 'n

definition show_int :: "int \<Rightarrow> string" where
  "show_int i = (if i < 0 then ''-'' @ show_nat (nat (- i)) else show_nat (nat i))"

definition initializeIdentifier :: "'n os_socket \<Rightarrow> int \<Rightarrow> 'n \<Rightarrow> string" where
  "initializeIdentifier os fd n =
     (case os_getpeername os fd n of
        Some (ip, port) \<Rightarrow> ip @ '':'' @ show_nat (unat port)
      | None \<Rightarrow> ''socket_'' @ show_int fd)"

text \<open>\<open>mtu\<close> is the configured \<open>DOIP_MAXIMUM_MTU\<close>, the size of the receive buffer.\<close>

definition tcp_new :: "'n os_socket \<Rightarrow> nat \<Rightarrow> int \<Rightarrow> 'n \<Rightarrow> 'n TcpConnectionTransport" where
  "tcp_new os mtu fd n = \<lparr>m_socket = fd, m_receiveBuffer = replicate mtu 0, tcp_isActive = True,
     tcp_identifier = initializeIdentifier os fd n, network = n\<rparr>"

definition tcp_sendMessage ::
  "'n os_socket \<Rightarrow> DoIPMessage \<Rightarrow> 'n TcpConnectionTransport \<Rightarrow> int \<times> 'n TcpConnectionTransport" where
  "tcp_sendMessage os msg t =
     (if \<not> tcp_isActive t then (- 1, t)
      else (case os_write os (m_socket t) (m_data msg) (network t) of (result, n) \<Rightarrow>
              (result, if result < 0 then t\<lparr>network := n, tcp_isActive := False\<rparr> else t\<lparr>network := n\<rparr>)))"

text \<open>
  Bytes stored at an offset of a buffer that has room for them, and the loop of
  \<open>receiveExactly\<close>, which returns the buffer, the number of bytes received and the network.
\<close>

definition buffer_write :: "u8 list \<Rightarrow> nat \<Rightarrow> u8 list \<Rightarrow> u8 list" where
  "buffer_write buf off bs = take off buf @ bs @ drop (off + length bs) buf"

partial_function (option) receiveExactly_loop ::
  "'n os_socket \<Rightarrow> int \<Rightarrow> u8 list \<Rightarrow> nat \<Rightarrow> nat \<Rightarrow> 'n \<Rightarrow> (u8 list \<times> nat \<times> 'n) option" where
  "receiveExactly_loop os fd buf totalReceived remaining n =
     (if remaining > 0 then
        (case os_recv os fd remaining n of
           (RecvError e, n') \<Rightarrow>
             if e = EAGAIN \<or> e = EINTR then receiveExactly_loop os fd buf totalReceived remaining n'
             else Some (buf, totalReceived, n')
         | (RecvEof, n') \<Rightarrow> Some (buf, totalReceived, n')
         | (RecvData bs, n') \<Rightarrow>
             receiveExactly_loop os fd (buffer_write buf totalReceived bs) (totalReceived + length bs)
               (remaining - length bs) n')
      else Some (buf, totalReceived, n))"

definition receiveExactly :: "'n os_socket \<Rightarrow> int \<Rightarrow> u8 list \<Rightarrow> nat \<Rightarrow> 'n \<Rightarrow> (u8 list \<times> nat \<times> 'n) option" where
  "receiveExactly os fd buf len n = receiveExactly_loop os fd buf 0 len n"

definition tcp_receivePayload ::
  "'n os_socket \<Rightarrow> DoIPPayloadType \<Rightarrow> u32 \<Rightarrow> 'n TcpConnectionTransport
     \<Rightarrow> (DoIPMessage option \<times> 'n TcpConnectionTransport) res option" where
  "tcp_receivePayload os payloadType payloadLength t =
     (if payloadLength > 0 \<and> unat payloadLength > length (m_receiveBuffer t)
      then Some (Inr (None, t\<lparr>tcp_isActive := False\<rparr>))
      else
        (case (if payloadLength > 0
               then receiveExactly os (m_socket t) (m_receiveBuffer t) (unat payloadLength) (network t)
               else Some (m_receiveBuffer t, 0, network t)) of
           None \<Rightarrow> None
         | Some (buf, payloadBytes, n) \<Rightarrow>
             if payloadLength > 0 \<and> payloadBytes \<noteq> unat payloadLength
             then Some (Inr (None, t\<lparr>m_receiveBuffer := buf, network := n, tcp_isActive := False\<rparr>))
             else Some (rbind (message_from_ptr payloadType (Some buf) (unat payloadLength)) (\<lambda>msg.
                    Inr (Some msg, t\<lparr>m_receiveBuffer := buf, network := n\<rparr>)))))"

definition tcp_receiveMessage ::
  "'n os_socket \<Rightarrow> 'n TcpConnectionTransport \<Rightarrow> (DoIPMessage option \<times> 'n TcpConnectionTransport) res option" where
  "tcp_receiveMessage os t =
     (if \<not> tcp_isActive t then Some (Inr (None, t))
      else (case receiveExactly os (m_socket t) (replicate DOIP_HEADER_SIZE 0) DOIP_HEADER_SIZE (network t) of
          None \<Rightarrow> None
        | Some (headerBuf, headerBytes, n) \<Rightarrow>
            let t = t\<lparr>network := n\<rparr> in
            if headerBytes \<noteq> DOIP_HEADER_SIZE then Some (Inr (None, t\<lparr>tcp_isActive := False\<rparr>))
            else (case tryParseHeader (Some headerBuf) DOIP_HEADER_SIZE of
                Inl e \<Rightarrow> Some (Inl e)
              | Inr None \<Rightarrow> Some (Inr (None, t\<lparr>tcp_isActive := False\<rparr>))
              | Inr (Some (payloadType, payloadLength)) \<Rightarrow> tcp_receivePayload os payloadType payloadLength t)))"

definition tcp_close ::
  "'n os_socket \<Rightarrow> DoIPCloseReason \<Rightarrow> 'n TcpConnectionTransport \<Rightarrow> 'n TcpConnectionTransport" where
  "tcp_close os reason t =
     (if tcp_isActive t
      then t\<lparr>tcp_isActive := False, network := os_close os (m_socket t) (network t), m_socket := - 1\<rparr>
      else t)"

text \<open>The destructor.\<close>

definition tcp_shutdownSocket :: "'n os_socket \<Rightarrow> 'n TcpConnectionTransport \<Rightarrow> 'n TcpConnectionTransport" where
  "tcp_shutdownSocket os t =
     (if tcp_isActive t
      then (let t = t\<lparr>tcp_isActive := False\<rparr>
            in if m_socket t \<ge> 0
               then t\<lparr>network := os_close os (m_socket t) (network t), m_socket := - 1\<rparr> else t)
      else t)"

definition tcp_ops :: "'n os_socket \<Rightarrow> 'n TcpConnectionTransport transport_ops" where
  "tcp_ops os = \<lparr>tp_send = tcp_sendMessage os, tp_receive = tcp_receiveMessage os, tp_close = tcp_close os,
     tp_isActive = tcp_isActive, tp_getIdentifier = tcp_identifier\<rparr>"

lemma transport_ops_sel [simp]:
  "tp_receive (tcp_ops os) = tcp_receiveMessage os" "tp_isActive (tcp_ops os) = tcp_isActive"
  "tp_send (tcp_ops os) = tcp_sendMessage os" "tp_close (tcp_ops os) = tcp_close os"
  "tp_receive mock_ops = mock_receiveMessage" "tp_isActive mock_ops = mock_isActive"
  "tp_send mock_ops = mock_sendMessage" "tp_close mock_ops = mock_close"
  by (simp_all add: tcp_ops_def mock_ops_def)

section \<open>What connections rely on\<close>

datatype tp_request = TpSend DoIPMessage | TpReceive

locale connection_transport =
  fixes inv :: "'t \<Rightarrow> bool" and ops :: "'t transport_ops"
  assumes send_inactive: "\<not> tp_isActive ops t \<Longrightarrow> tp_send ops m t = (- 1, t)"
    and receive_inactive: "\<not> tp_isActive ops t \<Longrightarrow> tp_receive ops t = Some (Inr (None, t))"
    and close_inactive: "\<not> tp_isActive ops (tp_close ops r t)"
    and close_close: "tp_close ops r (tp_close ops r' t) = tp_close ops r' t"
    and receive_defined: "inv t \<Longrightarrow> tp_receive ops t \<noteq> Some (Inl e)"
    and inv_send: "inv t \<Longrightarrow> inv (snd (tp_send ops m t))"
    and inv_receive: "inv t \<Longrightarrow> tp_receive ops t = Some (Inr (x, t')) \<Longrightarrow> inv t'"
    and inv_close: "inv t \<Longrightarrow> inv (tp_close ops r t)"
begin

text \<open>A client that goes on using the transport: the results it gets.\<close>

fun use :: "tp_request list \<Rightarrow> 't \<Rightarrow> (int + DoIPMessage option) list \<times> 't" where
  "use [] t = ([], t)"
| "use (TpSend m # rs) t =
     (case tp_send ops m t of (r, t1) \<Rightarrow> case use rs t1 of (out, t2) \<Rightarrow> (Inl r # out, t2))"
| "use (TpReceive # rs) t =
     (case tp_receive ops t of
        Some (Inr (x, t1)) \<Rightarrow> (case use rs t1 of (out, t2) \<Rightarrow> (Inr x # out, t2))
      | _ \<Rightarrow> ([], t))"

fun refused :: "tp_request \<Rightarrow> int + DoIPMessage option" where
  "refused (TpSend m) = Inl (- 1)"
| "refused TpReceive = Inr None"

lemma use_inactive: "\<not> tp_isActive ops t \<Longrightarrow> use rs t = (map refused rs, t)"
proof (induction rs)
  case (Cons r rs)
  then show ?case by (cases r) (simp_all add: send_inactive receive_inactive)
qed simp

lemma use_closed: "use rs (tp_close ops r t) = (map refused rs, tp_close ops r t)"
  by (rule use_inactive) (rule close_inactive)

end

section \<open>The mock fulfils the contract\<close>

lemmas mock_defs = mock_sendMessage_def mock_receiveMessage_def mock_close_def

interpretation mock: connection_transport "\<lambda>_. True" mock_ops
  by unfold_locales (auto simp: mock_defs Let_def clear_def split: option.splits prod.splits)

section \<open>TCP fulfils the contract\<close>

lemma buffer_write_length:
  "off + length bs \<le> length buf \<Longrightarrow> length (buffer_write buf off bs) = length buf"
  by (simp add: buffer_write_def)

lemma buffer_write_write:
  assumes "off + length bs + length cs \<le> length buf"
  shows "buffer_write (buffer_write buf off bs) (off + length bs) cs = buffer_write buf off (bs @ cs)"
proof -
  have "length (take off buf @ bs) = off + length bs" using assms by simp
  then have "take (off + length bs) (buffer_write buf off bs) = take off buf @ bs"
    unfolding buffer_write_def by (metis append_assoc append_eq_conv_conj)
  moreover have "drop (off + length bs + length cs) (buffer_write buf off bs)
      = drop (off + length bs + length cs) buf"
    using assms by (simp add: buffer_write_def add.commute add.left_commute)
  ultimately show ?thesis by (simp add: buffer_write_def add.assoc)
qed

lemma buffer_write_empty [simp]: "buffer_write buf off [] = buf"
  by (simp add: buffer_write_def)

text \<open>\<open>recv\<close> never returns more bytes than it was asked for.\<close>

definition recv_bounded :: "'n os_socket \<Rightarrow> bool" where
  "recv_bounded os \<longleftrightarrow> (\<forall>fd k n bs n'. os_recv os fd k n = (RecvData bs, n') \<longrightarrow> length bs \<le> k)"

lemmas receiveExactly_induct = receiveExactly_loop.raw_induct [rotated, consumes 1, case_names step]

lemma receiveExactly_loop_length:
  "receiveExactly_loop os fd buf got remaining n = Some r \<Longrightarrow> recv_bounded os \<Longrightarrow>
     got + remaining \<le> length buf \<Longrightarrow> length (fst r) = length buf \<and> fst (snd r) \<le> got + remaining"
proof (induction os fd buf got remaining n r rule: receiveExactly_induct)
  case (step f os fd buf got remaining n r)
  show ?case
  proof (cases "0 < remaining")
    case False
    with step.hyps show ?thesis by auto
  next
    case True
    obtain res n1 where rv: "os_recv os fd remaining n = (res, n1)" by (cases "os_recv os fd remaining n")
    show ?thesis
    proof (cases res)
      case (RecvData bs)
      with rv step.prems(1) have b: "length bs \<le> remaining" unfolding recv_bounded_def by blast
      have "f os fd (buffer_write buf got bs) (got + length bs) (remaining - length bs) n1 = Some r"
        using True rv RecvData step.hyps by simp
      from step.IH [OF this step.prems(1)] b step.prems(2) show ?thesis
        by (simp add: buffer_write_length)
    qed (use True rv step.hyps step.IH step.prems in \<open>auto split: if_splits\<close>)
  qed
qed

lemma receiveExactly_length:
  "recv_bounded os \<Longrightarrow> len \<le> length buf \<Longrightarrow> receiveExactly os fd buf len n = Some (buf', k, n') \<Longrightarrow>
     length buf' = length buf \<and> k \<le> len"
  using receiveExactly_loop_length [of os fd buf 0 len n "(buf', k, n')"] by (simp add: receiveExactly_def)

lemma tryParseHeader_defined: "length bs = 8 \<Longrightarrow> \<exists>h. tryParseHeader (Some bs) 8 = Inr h"
  using bytes_8E [of bs] by (metis tryParseHeader_bytes order_refl)

lemma message_from_ptr_in:
  "n \<le> length buf \<Longrightarrow> message_from_ptr t (Some buf) n = Inr (buildMessage t (take n buf))"
  by (simp add: message_from_ptr_def ptr_copy_n_Some)

lemma tcp_receivePayload_ok:
  assumes "recv_bounded os" and r: "tcp_receivePayload os pt l t = Some r"
  shows "\<exists>x t'. r = Inr (x, t') \<and> length (m_receiveBuffer t') = length (m_receiveBuffer t)"
proof (cases "0 < l")
  case False
  then have "l = 0" by (simp add: word_greater_zero_iff)
  with r show ?thesis by (auto simp: tcp_receivePayload_def message_from_ptr_in)
next
  case True
  show ?thesis
  proof (cases "unat l > length (m_receiveBuffer t)")
    case True
    with r \<open>0 < l\<close> show ?thesis by (auto simp: tcp_receivePayload_def)
  next
    case False
    with r True obtain buf k n where
      e: "receiveExactly os (m_socket t) (m_receiveBuffer t) (unat l) (network t) = Some (buf, k, n)"
      by (auto simp: tcp_receivePayload_def split: option.splits)
    have "length buf = length (m_receiveBuffer t)"
      using receiveExactly_length [OF assms(1) _ e] False by simp
    with r True False e show ?thesis
      by (auto simp: tcp_receivePayload_def message_from_ptr_in split: if_splits)
  qed
qed

lemma tcp_receiveMessage_ok:
  assumes "recv_bounded os" and r: "tcp_receiveMessage os t = Some r"
  shows "\<exists>x t'. r = Inr (x, t') \<and> length (m_receiveBuffer t') = length (m_receiveBuffer t)"
proof (cases "tcp_isActive t")
  case False
  with r show ?thesis by (auto simp: tcp_receiveMessage_def)
next
  case True
  with r obtain buf k n where
    e: "receiveExactly os (m_socket t) (replicate DOIP_HEADER_SIZE 0) DOIP_HEADER_SIZE (network t) = Some (buf, k, n)"
    by (auto simp: tcp_receiveMessage_def split: option.splits)
  have "length buf = 8" using receiveExactly_length [OF assms(1) _ e] by (simp add: DOIP_HEADER_SIZE_def)
  then obtain h where h: "tryParseHeader (Some buf) 8 = Inr h" using tryParseHeader_defined by blast
  show ?thesis
  proof (cases "k = 8 \<and> h \<noteq> None")
    case False
    with r True e h show ?thesis
      by (cases h) (auto simp: tcp_receiveMessage_def DOIP_HEADER_SIZE_def Let_def split: if_splits)
  next
    case True
    with r \<open>tcp_isActive t\<close> e h obtain pt l where "tcp_receivePayload os pt l (t\<lparr>network := n\<rparr>) = Some r"
      by (auto simp: tcp_receiveMessage_def DOIP_HEADER_SIZE_def Let_def)
    from tcp_receivePayload_ok [OF assms(1) this] show ?thesis by simp
  qed
qed

interpretation tcp: connection_transport "\<lambda>t. recv_bounded os" "tcp_ops os" for os :: "'n os_socket"
proof (unfold_locales, goal_cases)
  case (5 t e)
  then show ?case using tcp_receiveMessage_ok [of os t "Inl e"] by auto
qed (auto simp: tcp_sendMessage_def tcp_receiveMessage_def tcp_close_def)

section \<open>Byte streams\<close>

text \<open>
  A connected stream socket, as POSIX describes \<open>recv\<close> on it: \<open>view\<close> is what the peer has
  sent and was not read yet.  A call for up to \<open>k\<close> bytes returns between 1 and \<open>k\<close> of the
  next bytes; it reports the end only when nothing is left; an error consumes nothing, and
  while bytes are pending it is a temporary one; \<open>patience\<close> bounds how often temporary
  errors repeat.
\<close>

definition stream_socket :: "'n os_socket \<Rightarrow> int \<Rightarrow> ('n \<Rightarrow> u8 list) \<Rightarrow> ('n \<Rightarrow> nat) \<Rightarrow> bool" where
  "stream_socket os fd view patience \<longleftrightarrow>
     (\<forall>n k. 0 < k \<longrightarrow>
        (case os_recv os fd k n of
           (RecvData bs, n') \<Rightarrow> bs \<noteq> [] \<and> length bs \<le> k \<and> view n = bs @ view n'
         | (RecvEof, n') \<Rightarrow> view n = [] \<and> view n' = []
         | (RecvError e, n') \<Rightarrow> view n' = view n
             \<and> (if e = EAGAIN \<or> e = EINTR then patience n' < patience n else view n = [])))"

lemma stream_socketD:
  assumes "stream_socket os fd view patience" and "0 < k" and "os_recv os fd k n = (r, n')"
  shows "case r of RecvData bs \<Rightarrow> bs \<noteq> [] \<and> length bs \<le> k \<and> view n = bs @ view n'
         | RecvEof \<Rightarrow> view n = [] \<and> view n' = []
         | RecvError e \<Rightarrow> view n' = view n
             \<and> (if e = EAGAIN \<or> e = EINTR then patience n' < patience n else view n = [])"
  using assms(1) [unfolded stream_socket_def, rule_format, OF assms(2), of n]
  by (simp only: assms(3) prod.case)

lemma receiveExactly_loop_stream:
  assumes s: "stream_socket os fd view patience"
  shows "got + remaining \<le> length buf \<Longrightarrow>
    \<exists>n'. receiveExactly_loop os fd buf got remaining n =
       Some (buffer_write buf got (take remaining (view n)), got + min remaining (length (view n)), n')
     \<and> view n' = drop remaining (view n)"
proof (induction "(length (view n), patience n)" arbitrary: n buf got remaining
    rule: wf_induct_rule [OF wf_lex_prod [OF wf_less_than wf_less_than]])
  case (1 n)
  note IH = "1.hyps" and len = "1.prems"
  show ?case
  proof (cases "0 < remaining")
    case False
    then show ?thesis by (subst receiveExactly_loop.simps) simp
  next
    case True
    obtain res n1 where rv: "os_recv os fd remaining n = (res, n1)" by (cases "os_recv os fd remaining n")
    note st = stream_socketD [OF s True rv]
    show ?thesis
    proof (cases res)
      case (RecvData bs)
      with st have d: "bs \<noteq> []" "length bs \<le> remaining" "view n = bs @ view n1" by auto
      then obtain n' where
        "receiveExactly_loop os fd (buffer_write buf got bs) (got + length bs) (remaining - length bs) n1 =
           Some (buffer_write (buffer_write buf got bs) (got + length bs) (take (remaining - length bs) (view n1)),
             got + length bs + min (remaining - length bs) (length (view n1)), n')"
        "view n' = drop (remaining - length bs) (view n1)"
        using IH [of n1 "got + length bs" "remaining - length bs" "buffer_write buf got bs"] len
        by (auto simp: buffer_write_length)
      with d len rv RecvData True show ?thesis
        by (subst receiveExactly_loop.simps)
          (auto simp: buffer_write_write min_def take_all)
    next
      case RecvEof
      with st True rv show ?thesis by (subst receiveExactly_loop.simps) auto
    next
      case (RecvError e)
      show ?thesis
      proof (cases "e = EAGAIN \<or> e = EINTR")
        case retry: True
        with RecvError st have "view n1 = view n" "patience n1 < patience n" by auto
        with IH [of n1 got remaining buf] len RecvError retry True rv show ?thesis
          by (subst receiveExactly_loop.simps) auto
      next
        case False
        with RecvError st True rv show ?thesis by (subst receiveExactly_loop.simps) auto
      qed
    qed
  qed
qed

lemma receiveExactly_stream:
  assumes "stream_socket os fd view patience" and "len \<le> length buf"
  obtains n' where "receiveExactly os fd buf len n =
       Some (take len (view n) @ drop (min len (length (view n))) buf, min len (length (view n)), n')"
    "view n' = drop len (view n)"
  using receiveExactly_loop_stream [OF assms(1), of 0 len buf n] assms(2)
  by (auto simp: receiveExactly_def buffer_write_def min.commute)

text \<open>A complete message at the head of a stream that the transport accepts.\<close>

definition frame_at_head :: "nat \<Rightarrow> u8 list \<Rightarrow> DoIPPayloadType \<Rightarrow> u8 list \<Rightarrow> u8 list \<Rightarrow> bool" where
  "frame_at_head mtu bytes pt pl rest \<longleftrightarrow>
     (\<exists>v. 1 \<le> v \<and> v \<le> 4 \<and> bytes = wire v (payloadType_code pt) pl @ rest)
     \<and> named_payloadType pt \<and> length pl \<le> mtu \<and> length pl < 2 ^ 32"

lemma take_8_wire: "take 8 (wire v c pl @ rest) = take 8 (wire v c pl)"
  by simp

lemma header_wire:
  assumes "named_payloadType pt" "1 \<le> v" "v \<le> 4"
  shows "tryParseHeader (Some (take 8 (wire v (payloadType_code pt) pl))) 8 =
     Inr (Some (pt, word_of_nat (length pl)))"
  using assms
  by (simp add: wire_def Let_def tryParseHeader_bytes byte_simps toPayloadType_code)

lemma word_len_zero: "n < 2 ^ 32 \<Longrightarrow> 0 < (word_of_nat n :: u32) \<longleftrightarrow> 0 < n"
  by (simp add: word_less_nat_alt unat_word32_len)

lemma receivePayload_stream:
  assumes s: "stream_socket os (m_socket t) view patience" and v: "view (network t) = pl @ rest"
    and l: "length pl \<le> length (m_receiveBuffer t)" "length pl < 2 ^ 32"
  shows "\<exists>t'. tcp_receivePayload os pt (word_of_nat (length pl)) t = Some (Inr (Some (buildMessage pt pl), t'))
    \<and> view (network t') = rest \<and> tcp_isActive t' = tcp_isActive t \<and> m_socket t' = m_socket t
    \<and> length (m_receiveBuffer t') = length (m_receiveBuffer t)"
proof (cases "pl = []")
  case True
  with v show ?thesis
    by (intro exI [of _ t]) (simp add: tcp_receivePayload_def message_from_ptr_def)
next
  case False
  obtain n' where "receiveExactly os (m_socket t) (m_receiveBuffer t) (length pl) (network t) =
       Some (pl @ drop (length pl) (m_receiveBuffer t), length pl, n')" "view n' = rest"
    using receiveExactly_stream [OF s l(1), of "network t"] v by (auto simp: min_def)
  with False l show ?thesis
    by (simp add: tcp_receivePayload_def word_len_zero unat_word32_len message_from_ptr_in)
qed

lemma receive_frame:
  assumes s: "stream_socket os (m_socket t) view patience" and a: "tcp_isActive t"
    and f: "frame_at_head (length (m_receiveBuffer t)) (view (network t)) pt pl rest"
  shows "\<exists>t'. tcp_receiveMessage os t = Some (Inr (Some (buildMessage pt pl), t'))
    \<and> view (network t') = rest \<and> tcp_isActive t' \<and> m_socket t' = m_socket t
    \<and> length (m_receiveBuffer t') = length (m_receiveBuffer t)"
proof -
  obtain v where v: "1 \<le> v" "v \<le> 4" "view (network t) = wire v (payloadType_code pt) pl @ rest"
    and pt: "named_payloadType pt" and l: "length pl \<le> length (m_receiveBuffer t)" "length pl < 2 ^ 32"
    using f by (auto simp: frame_at_head_def)
  obtain n' where e: "receiveExactly os (m_socket t) (replicate 8 0) 8 (network t) =
       Some (take 8 (wire v (payloadType_code pt) pl), 8, n')" and n': "view n' = pl @ rest"
    using receiveExactly_stream [OF s, of 8 "replicate 8 0" "network t"] v(3) by (auto simp: min_def)
  obtain t' where "tcp_receivePayload os pt (word_of_nat (length pl)) (t\<lparr>network := n'\<rparr>)
      = Some (Inr (Some (buildMessage pt pl), t'))"
    "view (network t') = rest" "tcp_isActive t' = tcp_isActive t" "m_socket t' = m_socket t"
    "length (m_receiveBuffer t') = length (m_receiveBuffer t)"
    using receivePayload_stream [of os "t\<lparr>network := n'\<rparr>" view patience pl rest pt] s n' l by auto
  with a e header_wire [OF pt v(1,2)] show ?thesis
    by (simp add: tcp_receiveMessage_def DOIP_HEADER_SIZE_def Let_def)
qed

lemma header_inv:
  assumes "length hb = 8" and "tryParseHeader (Some hb) 8 = Inr (Some (pt, l))"
  shows "named_payloadType pt \<and> (\<exists>v. 1 \<le> v \<and> v \<le> 4 \<and>
    (\<forall>pl. length pl = unat l \<longrightarrow> hb @ pl = wire v (payloadType_code pt) pl))"
proof -
  obtain b0 b1 b2 b3 b4 b5 b6 b7 where hb: "hb = [b0, b1, b2, b3, b4, b5, b6, b7]"
    using assms(1) by (auto simp: eval_nat_numeral length_Suc_conv)
  with assms(2) have h: "1 \<le> b0" "b0 \<le> 4" "b1 = NOT b0" "toPayloadType (join16 b2 b3) = Some pt"
    "l = join32 b4 b5 b6 b7"
    by (auto simp: tryParseHeader_bytes split: if_splits)
  then have pt: "named_payloadType pt" "payloadType_code pt = join16 b2 b3"
    by (auto simp: toPayloadType_Some_iff)
  have "hb @ pl = wire b0 (payloadType_code pt) pl" if "length pl = unat l" for pl
  proof -
    have "(word_of_nat (length pl) :: u32) = l" using that by simp
    then show ?thesis using h pt hb by (simp add: wire_def Let_def byte_simps)
  qed
  with pt h show ?thesis by blast
qed

lemma receivePayload_short:
  assumes s: "stream_socket os (m_socket t) view patience"
    and short: "length (m_receiveBuffer t) < unat l \<or> length (view (network t)) < unat l"
  shows "\<exists>t'. tcp_receivePayload os pt l t = Some (Inr (None, t')) \<and> \<not> tcp_isActive t'"
proof -
  have pos: "0 < l" using short by (auto simp: word_less_nat_alt)
  show ?thesis
  proof (cases "length (m_receiveBuffer t) < unat l")
    case True
    with pos show ?thesis by (simp add: tcp_receivePayload_def)
  next
    case False
    with short obtain n2 where "receiveExactly os (m_socket t) (m_receiveBuffer t) (unat l) (network t) =
        Some (view (network t) @ drop (length (view (network t))) (m_receiveBuffer t), length (view (network t)), n2)"
      using receiveExactly_stream [OF s, of "unat l" "m_receiveBuffer t" "network t"] by (auto simp: min_def)
    with pos False short show ?thesis by (simp add: tcp_receivePayload_def)
  qed
qed

lemma receive_no_frame:
  assumes s: "stream_socket os (m_socket t) view patience" and a: "tcp_isActive t"
    and f: "\<not> (\<exists>pt pl rest. frame_at_head (length (m_receiveBuffer t)) (view (network t)) pt pl rest)"
  shows "\<exists>t'. tcp_receiveMessage os t = Some (Inr (None, t')) \<and> \<not> tcp_isActive t'"
proof -
  let ?w = "view (network t)"
  obtain n' where e: "receiveExactly os (m_socket t) (replicate 8 0) 8 (network t) =
       Some (take 8 ?w @ drop (min 8 (length ?w)) (replicate 8 0), min 8 (length ?w), n')" and n': "view n' = drop 8 ?w"
    using receiveExactly_stream [OF s, of 8 "replicate 8 0" "network t"] by auto
  show ?thesis
  proof (cases "8 \<le> length ?w")
    case False
    with a e show ?thesis by (auto simp: tcp_receiveMessage_def DOIP_HEADER_SIZE_def Let_def min_def)
  next
    case True
    then have e8: "receiveExactly os (m_socket t) (replicate 8 0) 8 (network t) = Some (take 8 ?w, 8, n')"
      using e by (simp add: min_def)
    have l8: "length (take 8 ?w) = 8" using True by simp
    obtain h where h: "tryParseHeader (Some (take 8 ?w)) 8 = Inr h" using tryParseHeader_defined [OF l8] by blast
    show ?thesis
    proof (cases h)
      case None
      with a e8 h show ?thesis by (simp add: tcp_receiveMessage_def DOIP_HEADER_SIZE_def Let_def)
    next
      case (Some p)
      obtain pt l where p: "p = (pt, l)" by (cases p)
      let ?t = "t\<lparr>network := n'\<rparr>"
      have rp: "tcp_receiveMessage os t = tcp_receivePayload os pt l ?t"
        using a e8 h Some p by (simp add: tcp_receiveMessage_def DOIP_HEADER_SIZE_def Let_def)
      have l32: "unat l < 2 ^ 32" using unsigned_less [of l] by simp
      from header_inv [OF l8] h Some p obtain v where hv: "named_payloadType pt" "1 \<le> v" "v \<le> 4"
        "\<And>pl. length pl = unat l \<Longrightarrow> take 8 ?w @ pl = wire v (payloadType_code pt) pl" by blast
      have short: "unat l > length (m_receiveBuffer t) \<or> length (view n') < unat l"
      proof (rule ccontr)
        assume n: "\<not> ?thesis"
        let ?pl = "take (unat l) (view n')"
        have "length ?pl = unat l" using n by simp
        then have "?w = wire v (payloadType_code pt) ?pl @ drop (unat l) (view n')"
          using hv(4) [of ?pl] n' by (metis append_assoc append_take_drop_id)
        then show False using f hv n l32 unfolding frame_at_head_def by fastforce
      qed
      then show ?thesis using receivePayload_short [of os ?t view patience l pt] s rp by simp
    qed
  qed
qed

section \<open>Properties\<close>

text \<open>
  (C4) Framing over TCP.  On a stream socket (bytes arrive in order, in pieces of any size,
  with any finite number of interrupted calls between them) \<open>receiveMessage\<close> always
  returns.  If the pending bytes start with a complete message whose header is valid and
  whose payload fits the receive buffer, it returns that message (rebuilt with the own
  protocol version), consumes exactly its bytes and stays active.  In every other case
  (end of stream inside a message, bad header, oversized payload) it returns no message and
  the transport is inactive: a truncated or merged message is never delivered.
\<close>

theorem tcp_receive_framing:
  assumes "stream_socket os (m_socket t) view patience" and "tcp_isActive t"
  shows "(\<forall>pt pl rest. frame_at_head (length (m_receiveBuffer t)) (view (network t)) pt pl rest \<longrightarrow>
      (\<exists>t'. tcp_receiveMessage os t = Some (Inr (Some (buildMessage pt pl), t'))
        \<and> view (network t') = rest \<and> tcp_isActive t' \<and> m_socket t' = m_socket t
        \<and> length (m_receiveBuffer t') = length (m_receiveBuffer t)))
    \<and> ((\<nexists>pt pl rest. frame_at_head (length (m_receiveBuffer t)) (view (network t)) pt pl rest) \<longrightarrow>
      (\<exists>t'. tcp_receiveMessage os t = Some (Inr (None, t')) \<and> \<not> tcp_isActive t'))"
  using receive_frame [OF assms] receive_no_frame [OF assms] by blast

text \<open>
  A peer that sends its bytes one at a time, for the witnesses: the network state is the list
  of bytes not yet read.
\<close>

definition trickle :: "u8 list os_socket" where
  "trickle = \<lparr>os_recv = (\<lambda>fd k n. case n of [] \<Rightarrow> (RecvEof, []) | b # bs \<Rightarrow> (RecvData [b], bs)),
     os_write = (\<lambda>fd bs n. (int (length bs), n)), os_close = (\<lambda>fd n. []), os_getpeername = (\<lambda>fd n. None)\<rparr>"

lemma trickle_stream: "stream_socket trickle fd (\<lambda>n. n) (\<lambda>_. 0)"
  by (auto simp: stream_socket_def trickle_def split: list.split)

theorem tcp_receive_framing_witness:
  "\<exists>t'. tcp_receiveMessage trickle (tcp_new trickle 4095 7 (wire 2 0x8001 [1, 2, 3, 4, 5] @ [9]))
      = Some (Inr (Some (buildMessage DoIPPayloadType.DiagnosticMessage [1, 2, 3, 4, 5]), t')) \<and> network t' = [9]"
proof -
  let ?t = "tcp_new trickle 4095 7 (wire 2 0x8001 [1, 2, 3, 4, 5] @ [9])"
  have "frame_at_head (length (m_receiveBuffer ?t)) (network ?t) DoIPPayloadType.DiagnosticMessage [1, 2, 3, 4, 5] [9]"
    by (auto simp: frame_at_head_def tcp_new_def intro: exI [of _ 2])
  moreover have "tcp_isActive ?t" by (simp add: tcp_new_def)
  ultimately show ?thesis using tcp_receive_framing [OF trickle_stream] by blast
qed

definition framed :: "nat \<Rightarrow> u8 \<times> DoIPPayloadType \<times> u8 list \<Rightarrow> bool" where
  "framed mtu = (\<lambda>(v, pt, pl). 1 \<le> v \<and> v \<le> 4 \<and> named_payloadType pt \<and> length pl \<le> mtu \<and> length pl < 2 ^ 32)"

definition frame_bytes :: "u8 \<times> DoIPPayloadType \<times> u8 list \<Rightarrow> u8 list" where
  "frame_bytes = (\<lambda>(v, pt, pl). wire v (payloadType_code pt) pl)"

definition frame_message :: "u8 \<times> DoIPPayloadType \<times> u8 list \<Rightarrow> DoIPMessage" where
  "frame_message = (\<lambda>(v, pt, pl). buildMessage pt pl)"

lemma tcp_use_frames:
  "stream_socket os (m_socket t) view patience \<Longrightarrow> tcp_isActive t \<Longrightarrow>
   list_all (framed (length (m_receiveBuffer t))) fs \<Longrightarrow> view (network t) = concat (map frame_bytes fs) @ rest \<Longrightarrow>
   \<exists>t'. tcp.use os (replicate (length fs) TpReceive) t = (map (\<lambda>f. Inr (Some (frame_message f))) fs, t')
     \<and> view (network t') = rest \<and> tcp_isActive t'"
proof (induction fs arbitrary: t)
  case (Cons f fs)
  obtain v pt pl where f: "f = (v, pt, pl)" by (cases f)
  have "frame_at_head (length (m_receiveBuffer t)) (view (network t)) pt pl (concat (map frame_bytes fs) @ rest)"
    using Cons.prems(3,4) f by (auto simp: frame_at_head_def framed_def frame_bytes_def)
  from receive_frame [OF Cons.prems(1,2) this] obtain t1 where
    t1: "tcp_receiveMessage os t = Some (Inr (Some (buildMessage pt pl), t1))"
    "view (network t1) = concat (map frame_bytes fs) @ rest" "tcp_isActive t1" "m_socket t1 = m_socket t"
    "length (m_receiveBuffer t1) = length (m_receiveBuffer t)" by blast
  with Cons.IH [of t1] Cons.prems(1,3) obtain t' where
    "tcp.use os (replicate (length fs) TpReceive) t1 = (map (\<lambda>f. Inr (Some (frame_message f))) fs, t')"
    "view (network t') = rest" "tcp_isActive t'" by auto
  with t1 f show ?case by (simp add: frame_message_def)
qed simp

text \<open>
  (C11) Messages arrive in order: a stream of any number of well-formed messages, however the
  bytes are split, is received as exactly these messages, one per call, and what follows
  them is left unread.
\<close>

theorem tcp_stream_order:
  assumes "stream_socket os (m_socket t) view patience" and "tcp_isActive t"
    and "list_all (framed (length (m_receiveBuffer t))) fs"
    and "view (network t) = concat (map frame_bytes fs) @ rest"
  shows "\<exists>t'. tcp.use os (replicate (length fs) TpReceive) t = (map (\<lambda>f. Inr (Some (frame_message f))) fs, t')
     \<and> view (network t') = rest \<and> tcp_isActive t'"
  by (rule tcp_use_frames [OF assms])

theorem tcp_stream_order_witness:
  "\<exists>t'. tcp.use trickle [TpReceive, TpReceive]
        (tcp_new trickle 4095 7 (wire 2 7 [] @ wire 3 8 [0x0E, 0x80]))
     = ([Inr (Some makeAliveCheckRequest), Inr (Some (makeAliveCheckResponse 0x0E80))], t') \<and> network t' = []"
proof -
  let ?t = "tcp_new trickle 4095 7 (wire 2 7 [] @ wire 3 8 [0x0E, 0x80])"
  let ?fs = "[(2 :: u8, DoIPPayloadType.AliveCheckRequest, [] :: u8 list), (3, DoIPPayloadType.AliveCheckResponse, [0x0E, 0x80])]"
  have "tcp_isActive ?t" "list_all (framed (length (m_receiveBuffer ?t))) ?fs"
    "network ?t = concat (map frame_bytes ?fs) @ []"
    by (simp_all add: tcp_new_def framed_def frame_bytes_def)
  from tcp_stream_order [OF trickle_stream this] obtain t' where
    r: "tcp.use trickle (replicate (length ?fs) TpReceive) ?t = (map (\<lambda>f. Inr (Some (frame_message f))) ?fs, t')"
    and n: "network t' = []" by blast
  have "replicate (length ?fs) TpReceive = [TpReceive, TpReceive]" by simp
  moreover have "map (\<lambda>f. Inr (Some (frame_message f)) :: int + DoIPMessage option) ?fs
      = [Inr (Some makeAliveCheckRequest), Inr (Some (makeAliveCheckResponse 0x0E80))]"
    by (simp add: frame_message_def makeAliveCheckRequest_def makeAliveCheckResponse_def
        writeU16BE_eq hi8_def lo8_def)
  ultimately show ?thesis using r n by (simp only:) blast
qed

text \<open>
  After \<open>close\<close> a transport is dead for good: whatever its client tries, in any order,
  every send returns -1, every receive returns no message, nothing reaches the queues or
  the network, and closing again changes nothing.  This holds for the mock and for TCP.
\<close>

lemma transport_closed_forever:
  "mock.use rs (mock_close reason mt) = (map mock.refused rs, mock_close reason mt)
    \<and> tcp.use os rs (tcp_close os reason t) = (map tcp.refused rs, tcp_close os reason t)
    \<and> mock_close reason' (mock_close reason mt) = mock_close reason mt
    \<and> tcp_close os reason' (tcp_close os reason t) = tcp_close os reason t"
  using mock.use_closed [of rs reason mt] tcp.use_closed [of os rs reason t]
    mock.close_close [of reason' reason mt] tcp.close_close [of os reason' reason t]
  by simp

text \<open>
  (C38) A failed transfer leaks the socket.  When a receive finds the end of the stream, a read
  error or an invalid message, or when a write fails, the transport marks itself inactive
  but keeps the descriptor; \<open>close\<close> and the destructor act only on an active transport, so
  that neither ever closes the descriptor afterwards.
\<close>

theorem tcp_failure_leaks_socket:
  assumes "tcp_isActive t"
    and "tcp_receiveMessage os t = Some (Inr (None, t')) \<or> (\<exists>r. tcp_sendMessage os m t = (r, t') \<and> r < 0)"
  shows "m_socket t' = m_socket t \<and> \<not> tcp_isActive t'
    \<and> tcp_close os reason t' = t' \<and> tcp_shutdownSocket os (tcp_close os reason t') = t'"
proof -
  have "\<not> tcp_isActive t' \<and> m_socket t' = m_socket t"
    using assms
    by (auto simp: tcp_receiveMessage_def tcp_receivePayload_def tcp_sendMessage_def Let_def rbind_Inr_iff
        split: if_splits option.splits prod.splits sum.splits)
  then show ?thesis by (simp add: tcp_close_def tcp_shutdownSocket_def)
qed

theorem tcp_failure_leaks_socket_witness:
  "\<exists>t'. tcp_receiveMessage trickle (tcp_new trickle 4095 7 []) = Some (Inr (None, t'))
     \<and> m_socket t' = 7 \<and> tcp_shutdownSocket trickle (tcp_close trickle DoIPCloseReason.SocketError t') = t'"
proof -
  let ?t = "tcp_new trickle 4095 7 []"
  have a: "tcp_isActive ?t" and s: "m_socket ?t = 7" by (simp_all add: tcp_new_def)
  have "tcp_receiveMessage trickle ?t = Some (Inr (None, ?t\<lparr>tcp_isActive := False\<rparr>))"
    by (simp add: tcp_receiveMessage_def receiveExactly_def receiveExactly_loop.simps trickle_def tcp_new_def
        DOIP_HEADER_SIZE_def Let_def)
  then show ?thesis using tcp_failure_leaks_socket [OF a, of trickle _ _ DoIPCloseReason.SocketError] s by metis
qed

end
