(* ===== verification/DoIP_Posix.thy ===== *)
theory DoIP_Posix
  imports DoIP_Transport
begin

text \<open>
  The operating system as the server, the CAN provider and the client see it: a record of
  the calls they make, as a parameter, on an abstract state of the kernel.  The only
  documented behaviour the theorems rely on is the bookkeeping of descriptors
  (\<open>fd_ledger\<close>): \<open>socket\<close> and \<open>accept\<close> hand out a descriptor that was not open, \<open>close\<close>
  gives it back, the other calls leave the set of open descriptors alone.  The theory also
  models the owning wrapper \<open>Socket\<close> (\<^verbatim>\<open>inc/Socket.h\<close>).
\<close>

section \<open>Calls\<close>

datatype sock_kind = StreamSocket | DgramSocket | CanIsoTpSocket

datatype sock_opt =
    ReuseAddr
  | RcvTimeo nat
  | Broadcast
  | IsoTpOptions
  | IsoTpFlowControl u8 u8

datatype sock_addr =
    InetAddr string u16
  | CanAddr int u32 u32

record 'n posix =
  px_socket :: "sock_kind \<Rightarrow> 'n \<Rightarrow> int \<times> 'n"
  px_setsockopt :: "int \<Rightarrow> sock_opt \<Rightarrow> 'n \<Rightarrow> int \<times> 'n"
  px_bind :: "int \<Rightarrow> sock_addr \<Rightarrow> 'n \<Rightarrow> int \<times> 'n"
  px_nonblock :: "int \<Rightarrow> 'n \<Rightarrow> 'n"
  px_listen :: "int \<Rightarrow> nat \<Rightarrow> 'n \<Rightarrow> int \<times> 'n"
  px_accept :: "int \<Rightarrow> 'n \<Rightarrow> int \<times> 'n"
  px_connect :: "int \<Rightarrow> sock_addr \<Rightarrow> 'n \<Rightarrow> int \<times> 'n"
  px_sendto :: "int \<Rightarrow> u8 list \<Rightarrow> sock_addr \<Rightarrow> 'n \<Rightarrow> int \<times> 'n"
  px_send :: "int \<Rightarrow> u8 list \<Rightarrow> 'n \<Rightarrow> int \<times> 'n"
  px_recv :: "int \<Rightarrow> nat \<Rightarrow> 'n \<Rightarrow> recv_result \<times> 'n"
  px_ifindex :: "int \<Rightarrow> string \<Rightarrow> 'n \<Rightarrow> int option"
  px_close :: "int \<Rightarrow> 'n \<Rightarrow> 'n"
  px_strerror :: "'n \<Rightarrow> string"

text \<open>A descriptor that was handed out, or an error that changed nothing.\<close>

definition new_fd :: "('n \<Rightarrow> int set) \<Rightarrow> int \<Rightarrow> 'n \<Rightarrow> 'n \<Rightarrow> bool" where
  "new_fd fds r n n' \<longleftrightarrow>
     (if r < 0 then fds n' = fds n else r \<notin> fds n \<and> fds n' = insert r (fds n))"

definition fd_ledger :: "'n posix \<Rightarrow> ('n \<Rightarrow> int set) \<Rightarrow> bool" where
  "fd_ledger os fds \<longleftrightarrow>
     (\<forall>k n. new_fd fds (fst (px_socket os k n)) n (snd (px_socket os k n)))
     \<and> (\<forall>fd n. new_fd fds (fst (px_accept os fd n)) n (snd (px_accept os fd n)))
     \<and> (\<forall>fd o1 n. fds (snd (px_setsockopt os fd o1 n)) = fds n)
     \<and> (\<forall>fd a n. fds (snd (px_bind os fd a n)) = fds n)
     \<and> (\<forall>fd n. fds (px_nonblock os fd n) = fds n)
     \<and> (\<forall>fd k n. fds (snd (px_listen os fd k n)) = fds n)
     \<and> (\<forall>fd a n. fds (snd (px_connect os fd a n)) = fds n)
     \<and> (\<forall>fd bs a n. fds (snd (px_sendto os fd bs a n)) = fds n)
     \<and> (\<forall>fd bs n. fds (snd (px_send os fd bs n)) = fds n)
     \<and> (\<forall>fd k n. fds (snd (px_recv os fd k n)) = fds n)
     \<and> (\<forall>fd n. fds (px_close os fd n) = fds n - {fd})"

lemma fd_ledger_simps:
  assumes "fd_ledger os fds"
  shows "fds (snd (px_setsockopt os fd o1 n)) = fds n" "fds (snd (px_bind os fd a n)) = fds n"
    "fds (px_nonblock os fd n) = fds n" "fds (snd (px_listen os fd k n)) = fds n"
    "fds (snd (px_connect os fd a n)) = fds n" "fds (snd (px_sendto os fd bs a n)) = fds n"
    "fds (snd (px_send os fd bs n)) = fds n" "fds (snd (px_recv os fd j n)) = fds n"
    "fds (px_close os fd n) = fds n - {fd}"
  using assms by (simp_all add: fd_ledger_def)

text \<open>The same facts for a call whose result is bound by a tuple pattern.\<close>

lemma fd_ledger_eqs:
  assumes "fd_ledger os fds"
  shows "px_setsockopt os fd o1 n = (r, n') \<Longrightarrow> fds n' = fds n"
    "px_bind os fd a n = (r, n') \<Longrightarrow> fds n' = fds n"
    "px_listen os fd k n = (r, n') \<Longrightarrow> fds n' = fds n"
    "px_connect os fd a n = (r, n') \<Longrightarrow> fds n' = fds n"
    "px_sendto os fd bs a n = (r, n') \<Longrightarrow> fds n' = fds n"
    "px_send os fd bs n = (r, n') \<Longrightarrow> fds n' = fds n"
    "px_recv os fd j n = (rr, n') \<Longrightarrow> fds n' = fds n"
    "px_socket os kind n = (r, n') \<Longrightarrow> new_fd fds r n n'"
    "px_accept os fd n = (r, n') \<Longrightarrow> new_fd fds r n n'"
proof -
  have "new_fd fds (fst (px_socket os kind n)) n (snd (px_socket os kind n))"
    "new_fd fds (fst (px_accept os fd n)) n (snd (px_accept os fd n))"
    using assms by (simp_all add: fd_ledger_def)
  then show "px_socket os kind n = (r, n') \<Longrightarrow> new_fd fds r n n'"
    "px_accept os fd n = (r, n') \<Longrightarrow> new_fd fds r n n'" by simp_all
qed (use fd_ledger_simps [OF assms] in \<open>metis snd_conv\<close>)+

lemma new_fdD:
  "new_fd fds r n n' \<Longrightarrow> r < 0 \<Longrightarrow> fds n' = fds n"
  "new_fd fds r n n' \<Longrightarrow> \<not> r < 0 \<Longrightarrow> r \<notin> fds n \<and> fds n' = insert r (fds n)"
  by (simp_all add: new_fd_def)

section \<open>Owned descriptors (Socket.h)\<close>

text \<open>A \<open>Socket\<close> is its member \<open>m_fd\<close>; the members return the new value of it.\<close>

type_synonym Socket = int

definition socket_default :: Socket where
  "socket_default = - 1"

definition socket_new :: "int \<Rightarrow> Socket" where
  "socket_new fd = fd"

definition socket_get :: "Socket \<Rightarrow> int" where
  "socket_get m_fd = m_fd"

definition socket_valid :: "Socket \<Rightarrow> bool" where
  "socket_valid m_fd \<longleftrightarrow> m_fd \<ge> 0"

definition socket_release :: "Socket \<Rightarrow> int \<times> Socket" where
  "socket_release m_fd = (m_fd, - 1)"

definition socket_close :: "'n posix \<Rightarrow> Socket \<times> 'n \<Rightarrow> Socket \<times> 'n" where
  "socket_close os s = (case s of (m_fd, n) \<Rightarrow> if m_fd \<ge> 0 then (- 1, px_close os m_fd n) else (m_fd, n))"

definition socket_destroy :: "'n posix \<Rightarrow> Socket \<times> 'n \<Rightarrow> Socket \<times> 'n" where
  "socket_destroy os s = socket_close os s"

definition socket_reset :: "'n posix \<Rightarrow> int \<Rightarrow> Socket \<times> 'n \<Rightarrow> Socket \<times> 'n" where
  "socket_reset os fd s = (case socket_close os s of (_, n) \<Rightarrow> (fd, n))"

text \<open>Move construction: the new object and the one moved from; move assignment between two objects.\<close>

definition socket_move :: "Socket \<Rightarrow> Socket \<times> Socket" where
  "socket_move other = (other, - 1)"

definition socket_move_assign :: "'n posix \<Rightarrow> Socket \<Rightarrow> Socket \<times> 'n \<Rightarrow> Socket \<times> Socket \<times> 'n" where
  "socket_move_assign os other s = (case socket_close os s of (_, n) \<Rightarrow> (other, - 1, n))"

lemma socket_close_ledger:
  assumes "fd_ledger os fds" and "socket_close os (fd, n) = (fd', n')"
  shows "fd' < 0" and "fds n' = (if socket_valid fd then fds n - {fd} else fds n)"
  using assms by (auto simp: socket_close_def socket_valid_def fd_ledger_simps split: if_splits)

section \<open>A kernel for the witnesses\<close>

text \<open>
  The state is the number of descriptors handed out so far, the set of open ones and the
  datagrams sent; every call succeeds.
\<close>

type_synonym sim_kernel = "nat \<times> int set \<times> (u8 list \<times> sock_addr) list"

definition sim_new :: "sim_kernel \<Rightarrow> int \<times> sim_kernel" where
  "sim_new n = (case n of (k, s, out) \<Rightarrow>
     if int k \<in> s then (- 1, n) else (int k, (Suc k, insert (int k) s, out)))"

definition sim_posix :: "sim_kernel posix" where
  "sim_posix = \<lparr>
     px_socket = (\<lambda>_. sim_new), px_setsockopt = (\<lambda>_ _ n. (0, n)), px_bind = (\<lambda>_ _ n. (0, n)),
     px_nonblock = (\<lambda>_ n. n), px_listen = (\<lambda>_ _ n. (0, n)), px_accept = (\<lambda>_. sim_new),
     px_connect = (\<lambda>_ _ n. (0, n)),
     px_sendto = (\<lambda>_ bs a (k, s, out). (int (length bs), (k, s, out @ [(bs, a)]))),
     px_send = (\<lambda>_ bs n. (int (length bs), n)), px_recv = (\<lambda>_ _ n. (RecvData [0x7E, 0], n)),
     px_ifindex = (\<lambda>_ _ _. Some 1), px_close = (\<lambda>fd (k, s, out). (k, s - {fd}, out)),
     px_strerror = (\<lambda>_. ''Success'')\<rparr>"

lemma sim_ledger: "fd_ledger sim_posix (\<lambda>(k, s, out). s)"
  by (auto simp: fd_ledger_def sim_posix_def new_fd_def sim_new_def split: prod.splits)

end
