(* ===== verification/DoIP_ServerTransport.thy ===== *)
theory DoIP_ServerTransport
  imports DoIP_Posix
begin

text \<open>
  The server side of the transport layer: the interface \<^verbatim>\<open>inc/tp/IServerTransport.h\<close> with
  its in-memory implementation (\<^verbatim>\<open>src/tp/MockServerTransport.cpp\<close>) and the one on TCP and
  UDP sockets (\<^verbatim>\<open>src/tp/TcpServerTransport.cpp\<close>).  The interface is a record of
  operations, its contract the locale \<open>server_transport\<close>: a transport that is not active
  accepts and sends nothing and stays so until it is set up again.  The theorems account
  for the descriptors the TCP transport opens and closes.
\<close>

section \<open>The interface\<close>

record ('s, 't) server_ops =
  st_setup :: "u16 \<Rightarrow> 's \<Rightarrow> bool \<times> 's"
  st_acceptConnection :: "'s \<Rightarrow> 't option \<times> 's"
  st_sendBroadcast :: "DoIPMessage \<Rightarrow> u16 \<Rightarrow> 's \<Rightarrow> int \<times> 's"
  st_close :: "'s \<Rightarrow> 's"
  st_isActive :: "'s \<Rightarrow> bool"
  st_getIdentifier :: "'s \<Rightarrow> string"

section \<open>The mock (MockServerTransport)\<close>

record MockServerTransport =
  ms_identifier :: string
  ms_port :: u16
  ms_isActive :: bool
  m_connectionQueue :: "MockConnectionTransport ThreadSafeQueue"
  m_broadcastQueue :: "DoIPMessage ThreadSafeQueue"

definition ms_new :: "string \<Rightarrow> MockServerTransport" where
  "ms_new identifier = \<lparr>ms_identifier = identifier, ms_port = 0, ms_isActive = False,
     m_connectionQueue = queue_new, m_broadcastQueue = queue_new\<rparr>"

definition ms_setup :: "u16 \<Rightarrow> MockServerTransport \<Rightarrow> bool \<times> MockServerTransport" where
  "ms_setup port s = (True, s\<lparr>ms_port := port, ms_isActive := True\<rparr>)"

definition ms_acceptConnection :: "MockServerTransport \<Rightarrow> MockConnectionTransport option \<times> MockServerTransport" where
  "ms_acceptConnection s =
     (if \<not> ms_isActive s then (None, s)
      else case tryPop (m_connectionQueue s) of (conn, q) \<Rightarrow> (conn, s\<lparr>m_connectionQueue := q\<rparr>))"

definition ms_sendBroadcast :: "DoIPMessage \<Rightarrow> u16 \<Rightarrow> MockServerTransport \<Rightarrow> int \<times> MockServerTransport" where
  "ms_sendBroadcast msg port s =
     (if \<not> ms_isActive s then (- 1, s)
      else (int (getMessageSize msg), s\<lparr>m_broadcastQueue := push msg (m_broadcastQueue s)\<rparr>))"

definition ms_clearQueues :: "MockServerTransport \<Rightarrow> MockServerTransport" where
  "ms_clearQueues s = s\<lparr>m_connectionQueue := clear (m_connectionQueue s), m_broadcastQueue := clear (m_broadcastQueue s)\<rparr>"

definition ms_close :: "MockServerTransport \<Rightarrow> MockServerTransport" where
  "ms_close s = ms_clearQueues (s\<lparr>ms_isActive := False\<rparr>)"

definition ms_getIdentifier :: "MockServerTransport \<Rightarrow> string" where
  "ms_getIdentifier s = ms_identifier s @ '':'' @ show_nat (unat (ms_port s))"

definition ms_injectConnection :: "MockConnectionTransport \<Rightarrow> MockServerTransport \<Rightarrow> MockServerTransport" where
  "ms_injectConnection connection s = s\<lparr>m_connectionQueue := push connection (m_connectionQueue s)\<rparr>"

definition ms_popBroadcast :: "MockServerTransport \<Rightarrow> DoIPMessage option \<times> MockServerTransport" where
  "ms_popBroadcast s = (case tryPop (m_broadcastQueue s) of (msg, q) \<Rightarrow> (msg, s\<lparr>m_broadcastQueue := q\<rparr>))"

definition ms_hasBroadcasts :: "MockServerTransport \<Rightarrow> bool" where
  "ms_hasBroadcasts s = (\<not> queue_empty (m_broadcastQueue s))"

definition ms_broadcastCount :: "MockServerTransport \<Rightarrow> nat" where
  "ms_broadcastCount s = queue_size (m_broadcastQueue s)"

definition ms_ops :: "(MockServerTransport, MockConnectionTransport) server_ops" where
  "ms_ops = \<lparr>st_setup = ms_setup, st_acceptConnection = ms_acceptConnection, st_sendBroadcast = ms_sendBroadcast,
     st_close = ms_close, st_isActive = ms_isActive, st_getIdentifier = ms_getIdentifier\<rparr>"

section \<open>TCP and UDP (TcpServerTransport)\<close>

definition DOIP_UDP_DISCOVERY_PORT :: u16 where
  "DOIP_UDP_DISCOVERY_PORT = 13400"

definition DOIP_UDP_TEST_EQUIPMENT_REQUEST_PORT :: u16 where
  "DOIP_UDP_TEST_EQUIPMENT_REQUEST_PORT = 13401"

record 'n TcpServerTransport =
  m_tcpServerSocket :: int
  m_udpSocket :: int
  ts_port :: u16
  m_loopback :: bool
  ts_isActive :: bool
  m_broadcastAddress :: sock_addr
  ts_net :: 'n

definition ts_new :: "bool \<Rightarrow> 'n \<Rightarrow> 'n TcpServerTransport" where
  "ts_new loopback n = \<lparr>m_tcpServerSocket = - 1, m_udpSocket = - 1, ts_port = 0, m_loopback = loopback,
     ts_isActive = False, m_broadcastAddress = InetAddr ''0.0.0.0'' 0, ts_net = n\<rparr>"

text \<open>\<open>INADDR_ANY\<close>.\<close>

definition any_addr :: "u16 \<Rightarrow> sock_addr" where
  "any_addr port = InetAddr ''0.0.0.0'' port"

definition ts_setupTcpSocket :: "'n posix \<Rightarrow> 'n TcpServerTransport \<Rightarrow> bool \<times> 'n TcpServerTransport" where
  "ts_setupTcpSocket os s =
     (case px_socket os StreamSocket (ts_net s) of (fd, n) \<Rightarrow>
        let s = s\<lparr>m_tcpServerSocket := fd\<rparr> in
        if fd < 0 then (False, s\<lparr>ts_net := n\<rparr>)
        else case px_setsockopt os fd ReuseAddr n of (_, n) \<Rightarrow>
          (case px_bind os fd (any_addr (ts_port s)) n of (r, n) \<Rightarrow>
             if r < 0 then (False, s\<lparr>m_tcpServerSocket := - 1, ts_net := px_close os fd n\<rparr>)
             else case px_listen os fd 5 (px_nonblock os fd n) of (r, n) \<Rightarrow>
               if r < 0 then (False, s\<lparr>m_tcpServerSocket := - 1, ts_net := px_close os fd n\<rparr>)
               else (True, s\<lparr>ts_net := n\<rparr>)))"

definition ts_setupUdpSocket :: "'n posix \<Rightarrow> 'n TcpServerTransport \<Rightarrow> bool \<times> 'n TcpServerTransport" where
  "ts_setupUdpSocket os s =
     (case px_socket os DgramSocket (ts_net s) of (fd, n) \<Rightarrow>
        let s = s\<lparr>m_udpSocket := fd\<rparr> in
        if fd < 0 then (False, s\<lparr>ts_net := n\<rparr>)
        else case px_setsockopt os fd (RcvTimeo 1) n of (_, n) \<Rightarrow>
          (case px_setsockopt os fd ReuseAddr n of (_, n) \<Rightarrow>
            (case px_bind os fd (any_addr DOIP_UDP_DISCOVERY_PORT) n of (r, n) \<Rightarrow>
               if r < 0 then (False, s\<lparr>m_udpSocket := - 1, ts_net := px_close os fd n\<rparr>)
               else (True, s\<lparr>ts_net := n\<rparr>))))"

definition ts_configureBroadcast :: "'n posix \<Rightarrow> 'n TcpServerTransport \<Rightarrow> 'n TcpServerTransport" where
  "ts_configureBroadcast os s =
     (if m_loopback s
      then s\<lparr>m_broadcastAddress := InetAddr ''127.0.0.1'' DOIP_UDP_TEST_EQUIPMENT_REQUEST_PORT\<rparr>
      else s\<lparr>ts_net := snd (px_setsockopt os (m_udpSocket s) Broadcast (ts_net s)),
             m_broadcastAddress := InetAddr ''255.255.255.255'' DOIP_UDP_TEST_EQUIPMENT_REQUEST_PORT\<rparr>)"

definition ts_setup :: "'n posix \<Rightarrow> u16 \<Rightarrow> 'n TcpServerTransport \<Rightarrow> bool \<times> 'n TcpServerTransport" where
  "ts_setup os port s =
     (case ts_setupTcpSocket os (s\<lparr>ts_port := port\<rparr>) of (ok, s) \<Rightarrow>
        if \<not> ok then (False, s)
        else case ts_setupUdpSocket os s of (ok, s) \<Rightarrow>
          if \<not> ok then (False, s\<lparr>m_tcpServerSocket := - 1, ts_net := px_close os (m_tcpServerSocket s) (ts_net s)\<rparr>)
          else (True, (ts_configureBroadcast os s)\<lparr>ts_isActive := True\<rparr>))"

definition ts_closeSocket :: "'n posix \<Rightarrow> 'n TcpServerTransport \<Rightarrow> 'n TcpServerTransport" where
  "ts_closeSocket os s =
     (if ts_isActive s then
        let s = s\<lparr>ts_isActive := False\<rparr>;
            s = (if m_tcpServerSocket s \<ge> 0
                 then s\<lparr>m_tcpServerSocket := - 1, ts_net := px_close os (m_tcpServerSocket s) (ts_net s)\<rparr> else s)
        in if m_udpSocket s \<ge> 0 then s\<lparr>m_udpSocket := - 1, ts_net := px_close os (m_udpSocket s) (ts_net s)\<rparr> else s
      else s)"

definition ts_acceptSocket :: "'n posix \<Rightarrow> 'n TcpServerTransport \<Rightarrow> int option \<times> 'n TcpServerTransport" where
  "ts_acceptSocket os s =
     (if \<not> ts_isActive s \<or> m_tcpServerSocket s < 0 then (None, s)
      else case px_accept os (m_tcpServerSocket s) (ts_net s) of (fd, n) \<Rightarrow>
        (if fd < 0 then None else Some fd, s\<lparr>ts_net := n\<rparr>))"

text \<open>
  The accepted descriptor is wrapped in a \<open>TcpConnectionTransport\<close>, whose own view of the
  network starts with the kernel as \<open>accept\<close> left it; \<open>io\<close> are the calls of that class and
  \<open>mtu\<close> its buffer size.
\<close>

definition ts_acceptConnection ::
  "'n posix \<Rightarrow> 'n os_socket \<Rightarrow> nat \<Rightarrow> 'n TcpServerTransport \<Rightarrow> 'n TcpConnectionTransport option \<times> 'n TcpServerTransport" where
  "ts_acceptConnection os io mtu s =
     (case ts_acceptSocket os s of (fd, s) \<Rightarrow> (map_option (\<lambda>fd. tcp_new io mtu fd (ts_net s)) fd, s))"

definition with_port :: "u16 \<Rightarrow> sock_addr \<Rightarrow> sock_addr" where
  "with_port port a = (case a of InetAddr ip _ \<Rightarrow> InetAddr ip port | _ \<Rightarrow> a)"

definition ts_sendBroadcast :: "'n posix \<Rightarrow> DoIPMessage \<Rightarrow> u16 \<Rightarrow> 'n TcpServerTransport \<Rightarrow> int \<times> 'n TcpServerTransport" where
  "ts_sendBroadcast os msg port s =
     (if m_udpSocket s < 0 then (- 1, s)
      else let dest = (if port \<noteq> 0 then with_port port (m_broadcastAddress s) else m_broadcastAddress s)
           in case px_sendto os (m_udpSocket s) (m_data msg) dest (ts_net s) of (sent, n) \<Rightarrow>
                (if sent < 0 then - 1 else sent, s\<lparr>ts_net := n\<rparr>))"

definition ts_getIdentifier :: "'n TcpServerTransport \<Rightarrow> string" where
  "ts_getIdentifier s = ''TCP-Server:0.0.0.0:'' @ show_nat (unat (ts_port s))"

definition ts_ops :: "'n posix \<Rightarrow> 'n os_socket \<Rightarrow> nat \<Rightarrow> ('n TcpServerTransport, 'n TcpConnectionTransport) server_ops" where
  "ts_ops os io mtu = \<lparr>st_setup = ts_setup os, st_acceptConnection = ts_acceptConnection os io mtu,
     st_sendBroadcast = ts_sendBroadcast os, st_close = ts_closeSocket os, st_isActive = ts_isActive,
     st_getIdentifier = ts_getIdentifier\<rparr>"

section \<open>The contract\<close>

datatype server_request = SrvAccept | SrvBroadcast DoIPMessage u16 | SrvClose

locale server_transport =
  fixes sinv :: "'s \<Rightarrow> bool" and ops :: "('s, 't) server_ops"
  assumes setup_inv: "sinv s \<Longrightarrow> sinv (snd (st_setup ops port s))"
    and setup_active: "st_setup ops port s = (True, s') \<Longrightarrow> st_isActive ops s'"
    and accept_inv: "sinv s \<Longrightarrow> sinv (snd (st_acceptConnection ops s))"
    and broadcast_inv: "sinv s \<Longrightarrow> sinv (snd (st_sendBroadcast ops msg port s))"
    and close_inv: "sinv s \<Longrightarrow> sinv (st_close ops s)"
    and close_inactive: "\<not> st_isActive ops (st_close ops s)"
    and accept_inactive: "\<not> st_isActive ops s \<Longrightarrow> st_acceptConnection ops s = (None, s)"
    and broadcast_inactive: "sinv s \<Longrightarrow> \<not> st_isActive ops s \<Longrightarrow> st_sendBroadcast ops msg port s = (- 1, s)"
begin

text \<open>The answers to a list of requests: a connection or none, the result of a broadcast.\<close>

fun serve :: "server_request list \<Rightarrow> 's \<Rightarrow> ('t option + int) list \<times> 's" where
  "serve [] s = ([], s)"
| "serve (SrvAccept # rs) s = (case st_acceptConnection ops s of (c, s') \<Rightarrow>
     case serve rs s' of (as, s'') \<Rightarrow> (Inl c # as, s''))"
| "serve (SrvBroadcast m p # rs) s = (case st_sendBroadcast ops m p s of (r, s') \<Rightarrow>
     case serve rs s' of (as, s'') \<Rightarrow> (Inr r # as, s''))"
| "serve (SrvClose # rs) s = serve rs (st_close ops s)"

text \<open>After \<open>close\<close> nothing is accepted and nothing is sent.\<close>

lemma serve_inactive:
  "sinv s \<Longrightarrow> \<not> st_isActive ops s \<Longrightarrow>
     set (fst (serve rs s)) \<subseteq> {Inl None, Inr (- 1)} \<and> \<not> st_isActive ops (snd (serve rs s))"
  by (induction rs s rule: serve.induct)
    (auto simp: accept_inactive broadcast_inactive close_inv close_inactive split: prod.splits)

lemma serve_closed:
  "sinv s \<Longrightarrow> set (fst (serve rs (st_close ops s))) \<subseteq> {Inl None, Inr (- 1)}
     \<and> \<not> st_isActive ops (snd (serve rs (st_close ops s)))"
  by (rule serve_inactive) (simp_all add: close_inv close_inactive)

end

interpretation ms: server_transport "\<lambda>_. True" ms_ops
  by unfold_locales
    (auto simp: ms_ops_def ms_setup_def ms_close_def ms_clearQueues_def ms_acceptConnection_def ms_sendBroadcast_def)

text \<open>An inactive TCP transport has no UDP socket.\<close>

definition ts_inv :: "'n TcpServerTransport \<Rightarrow> bool" where
  "ts_inv s \<longleftrightarrow> (ts_isActive s \<or> m_udpSocket s < 0)"

lemma ts_setupTcp_fields:
  "ts_setupTcpSocket os s = (ok, s') \<Longrightarrow>
     m_udpSocket s' = m_udpSocket s \<and> ts_isActive s' = ts_isActive s \<and> (ok \<longrightarrow> 0 \<le> m_tcpServerSocket s')
     \<and> (\<not> ok \<longrightarrow> m_tcpServerSocket s' < 0)"
  by (auto simp: ts_setupTcpSocket_def Let_def split: prod.splits if_splits)

lemma ts_setupUdp_fields:
  "ts_setupUdpSocket os s = (ok, s') \<Longrightarrow>
     m_tcpServerSocket s' = m_tcpServerSocket s \<and> ts_isActive s' = ts_isActive s \<and> (ok \<longrightarrow> 0 \<le> m_udpSocket s')
     \<and> (\<not> ok \<longrightarrow> m_udpSocket s' < 0)"
  by (auto simp: ts_setupUdpSocket_def Let_def split: prod.splits if_splits)

lemma ts_configureBroadcast_fields [simp]:
  "m_tcpServerSocket (ts_configureBroadcast os s) = m_tcpServerSocket s"
  "m_udpSocket (ts_configureBroadcast os s) = m_udpSocket s"
  by (simp_all add: ts_configureBroadcast_def)

interpretation ts: server_transport ts_inv "ts_ops os io mtu" for os :: "'n posix" and io mtu
proof (unfold_locales, goal_cases)
  case (1 s port)
  then show ?case
    by (auto simp: ts_ops_def ts_setup_def ts_inv_def split: prod.splits dest!: ts_setupTcp_fields ts_setupUdp_fields)
qed (auto simp: ts_ops_def ts_setup_def ts_inv_def ts_closeSocket_def ts_acceptConnection_def ts_acceptSocket_def
      ts_sendBroadcast_def Let_def split: prod.splits if_splits)

section \<open>Descriptors of the TCP transport\<close>

lemma ts_setupTcp_ledger:
  assumes "fd_ledger os fds" and "ts_setupTcpSocket os s = (ok, s')"
  shows "if ok then m_tcpServerSocket s' \<notin> fds (ts_net s)
      \<and> fds (ts_net s') = insert (m_tcpServerSocket s') (fds (ts_net s)) else fds (ts_net s') = fds (ts_net s)"
proof -
  obtain fd n where so: "px_socket os StreamSocket (ts_net s) = (fd, n)" by fastforce
  note new = fd_ledger_eqs(8) [OF assms(1) so]
  show ?thesis
  proof (cases "fd < 0")
    case True
    then have "ok = False \<and> s' = s\<lparr>m_tcpServerSocket := fd, ts_net := n\<rparr>"
      using so assms(2) by (simp add: ts_setupTcpSocket_def)
    with new_fdD(1) [OF new True] show ?thesis by simp
  next
    case False
    with new_fdD(2) [OF new] have fd: "fd \<notin> fds (ts_net s)" "fds n = insert fd (fds (ts_net s))" by simp_all
    obtain r1 n1 where o1: "px_setsockopt os fd ReuseAddr n = (r1, n1)" by fastforce
    obtain r2 n2 where b: "px_bind os fd (any_addr (ts_port s)) n1 = (r2, n2)" by fastforce
    obtain r3 n3 where l: "px_listen os fd 5 (px_nonblock os fd n2) = (r3, n3)" by fastforce
    have "fds n2 = insert fd (fds (ts_net s))" "fds n3 = insert fd (fds (ts_net s))"
      using fd_ledger_eqs(1) [OF assms(1) o1] fd_ledger_eqs(2) [OF assms(1) b] fd_ledger_eqs(3) [OF assms(1) l]
        fd_ledger_simps(3) [OF assms(1)] fd(2) by simp_all
    moreover have "(ok, s') =
        (if r2 < 0 then (False, s\<lparr>m_tcpServerSocket := - 1, ts_net := px_close os fd n2\<rparr>)
         else if r3 < 0 then (False, s\<lparr>m_tcpServerSocket := - 1, ts_net := px_close os fd n3\<rparr>)
         else (True, s\<lparr>m_tcpServerSocket := fd, ts_net := n3\<rparr>))"
      using assms(2) so o1 b l False by (cases "r2 < 0"; cases "r3 < 0") (simp_all add: ts_setupTcpSocket_def Let_def)
    ultimately show ?thesis
      using fd fd_ledger_simps(9) [OF assms(1)] by (cases "r2 < 0"; cases "r3 < 0") simp_all
  qed
qed

lemma ts_setupUdp_ledger:
  assumes "fd_ledger os fds" and "ts_setupUdpSocket os s = (ok, s')"
  shows "if ok then m_udpSocket s' \<notin> fds (ts_net s)
      \<and> fds (ts_net s') = insert (m_udpSocket s') (fds (ts_net s)) else fds (ts_net s') = fds (ts_net s)"
proof -
  obtain fd n where so: "px_socket os DgramSocket (ts_net s) = (fd, n)" by fastforce
  note new = fd_ledger_eqs(8) [OF assms(1) so]
  show ?thesis
  proof (cases "fd < 0")
    case True
    then have "ok = False \<and> s' = s\<lparr>m_udpSocket := fd, ts_net := n\<rparr>"
      using so assms(2) by (simp add: ts_setupUdpSocket_def)
    with new_fdD(1) [OF new True] show ?thesis by simp
  next
    case False
    with new_fdD(2) [OF new] have fd: "fd \<notin> fds (ts_net s)" "fds n = insert fd (fds (ts_net s))" by simp_all
    obtain r1 n1 where o1: "px_setsockopt os fd (RcvTimeo 1) n = (r1, n1)" by fastforce
    obtain r2 n2 where o2: "px_setsockopt os fd ReuseAddr n1 = (r2, n2)" by fastforce
    obtain r3 n3 where b: "px_bind os fd (any_addr DOIP_UDP_DISCOVERY_PORT) n2 = (r3, n3)" by fastforce
    have "fds n3 = insert fd (fds (ts_net s))"
      using fd_ledger_eqs(1) [OF assms(1) o1] fd_ledger_eqs(1) [OF assms(1) o2] fd_ledger_eqs(2) [OF assms(1) b] fd(2)
      by simp
    moreover have "(ok, s') =
        (if r3 < 0 then (False, s\<lparr>m_udpSocket := - 1, ts_net := px_close os fd n3\<rparr>)
         else (True, s\<lparr>m_udpSocket := fd, ts_net := n3\<rparr>))"
      using assms(2) so o1 o2 b False by (cases "r3 < 0") (simp_all add: ts_setupUdpSocket_def Let_def)
    ultimately show ?thesis
      using fd fd_ledger_simps(9) [OF assms(1)] by (cases "r3 < 0") simp_all
  qed
qed

text \<open>A successful set-up opens two new descriptors, a failed one none.\<close>

lemma ts_setup_ledger:
  assumes "fd_ledger os fds" and "ts_setup os port s = (ok, s')"
  shows "if ok then ts_isActive s' \<and> 0 \<le> m_tcpServerSocket s' \<and> 0 \<le> m_udpSocket s'
      \<and> m_tcpServerSocket s' \<noteq> m_udpSocket s'
      \<and> m_tcpServerSocket s' \<notin> fds (ts_net s) \<and> m_udpSocket s' \<notin> fds (ts_net s)
      \<and> fds (ts_net s') = insert (m_tcpServerSocket s') (insert (m_udpSocket s') (fds (ts_net s)))
    else fds (ts_net s') = fds (ts_net s) \<and> m_tcpServerSocket s' < 0"
proof -
  obtain ok1 s1 where s1: "ts_setupTcpSocket os (s\<lparr>ts_port := port\<rparr>) = (ok1, s1)" by fastforce
  obtain ok2 s2 where s2: "ts_setupUdpSocket os s1 = (ok2, s2)" by fastforce
  let ?b = "(ts_configureBroadcast os s2)\<lparr>ts_isActive := True\<rparr>"
  have net: "fds (ts_net (ts_configureBroadcast os s2)) = fds (ts_net s2)"
    by (simp add: ts_configureBroadcast_def fd_ledger_simps [OF assms(1)])
  note tcp = ts_setupTcp_ledger [OF assms(1) s1] ts_setupTcp_fields [OF s1]
  note udp = ts_setupUdp_ledger [OF assms(1) s2] ts_setupUdp_fields [OF s2]
  show ?thesis
  proof (cases ok1)
    case False
    with assms(2) s1 have "ok = False \<and> s' = s1" by (simp add: ts_setup_def)
    with tcp False show ?thesis by simp
  next
    case t: True
    show ?thesis
    proof (cases ok2)
      case False
      have "ok = False \<and> s' = s2\<lparr>m_tcpServerSocket := - 1, ts_net := px_close os (m_tcpServerSocket s2) (ts_net s2)\<rparr>"
        using assms(2) s1 s2 t False by (simp add: ts_setup_def)
      moreover have "fds (ts_net s2) - {m_tcpServerSocket s2} = fds (ts_net s)"
        using tcp udp t False by simp
      ultimately show ?thesis by (simp add: fd_ledger_simps(9) [OF assms(1)])
    next
      case True
      have "ok = True \<and> s' = ?b" using assms(2) s1 s2 t True by (simp add: ts_setup_def)
      moreover have "m_udpSocket s2 \<notin> insert (m_tcpServerSocket s2) (fds (ts_net s))"
        "fds (ts_net s2) = insert (m_udpSocket s2) (insert (m_tcpServerSocket s2) (fds (ts_net s)))"
        "m_tcpServerSocket s2 \<notin> fds (ts_net s)" "0 \<le> m_tcpServerSocket s2" "0 \<le> m_udpSocket s2"
        using tcp udp t True by simp_all
      ultimately show ?thesis by (simp add: net insert_commute)
    qed
  qed
qed

lemma ts_close_ledger:
  assumes "fd_ledger os fds" and "ts_isActive s" and "0 \<le> m_tcpServerSocket s" and "0 \<le> m_udpSocket s"
  shows "fds (ts_net (ts_closeSocket os s)) = fds (ts_net s) - {m_tcpServerSocket s, m_udpSocket s}"
proof -
  have "fds (ts_net (ts_closeSocket os s)) = fds (ts_net s) - {m_tcpServerSocket s} - {m_udpSocket s}"
    using assms(2-4) by (simp add: ts_closeSocket_def Let_def fd_ledger_simps(9) [OF assms(1)])
  then show ?thesis by blast
qed

lemma ts_setup_ok_ledger:
  assumes "fd_ledger os fds" and "ts_setup os port s = (True, s')"
  shows "fds (ts_net s') = insert (m_tcpServerSocket s') (insert (m_udpSocket s') (fds (ts_net s)))"
    and "fds (ts_net (ts_closeSocket os s')) = fds (ts_net s)"
proof -
  note l = ts_setup_ledger [OF assms, unfolded if_True]
  from l show b: "fds (ts_net s') = insert (m_tcpServerSocket s') (insert (m_udpSocket s') (fds (ts_net s)))" by blast
  from l have a: "ts_isActive s'" "0 \<le> m_tcpServerSocket s'" "0 \<le> m_udpSocket s'"
    and d: "m_tcpServerSocket s' \<notin> fds (ts_net s)" "m_udpSocket s' \<notin> fds (ts_net s)" by blast+
  have *: "insert t (insert u A) - {t, u} = A" if "t \<notin> A" "u \<notin> A" for t u :: int and A using that by blast
  show "fds (ts_net (ts_closeSocket os s')) = fds (ts_net s)"
    unfolding ts_close_ledger [OF assms(1) a] b by (rule * [OF d])
qed

section \<open>Properties\<close>

text \<open>
  (C24) The TCP server transport accounts for its descriptors.  A set-up that fails, at
  whichever system call, leaves no descriptor open; one that succeeds opens exactly the two
  it stores, and closing gives exactly these back.  A second set-up without closing in
  between leaks the first pair: they stay open even after the transport is closed.
\<close>

theorem tcp_server_descriptors:
  assumes "fd_ledger os fds"
  shows "(ts_setup os port s = (False, s') \<longrightarrow> fds (ts_net s') = fds (ts_net s))
    \<and> (ts_setup os port s = (True, s') \<longrightarrow>
        fds (ts_net s') = fds (ts_net s) \<union> {m_tcpServerSocket s', m_udpSocket s'}
        \<and> fds (ts_net (ts_closeSocket os s')) = fds (ts_net s))
    \<and> (ts_setup os port s = (True, s') \<and> ts_setup os port' s' = (True, s'') \<longrightarrow>
        {m_tcpServerSocket s', m_udpSocket s'} \<subseteq> fds (ts_net (ts_closeSocket os s'')))"
proof (intro conjI impI)
  show "fds (ts_net s') = fds (ts_net s)" if "ts_setup os port s = (False, s')"
    using ts_setup_ledger [OF assms that] by simp
next
  assume a: "ts_setup os port s = (True, s')"
  show "fds (ts_net s') = fds (ts_net s) \<union> {m_tcpServerSocket s', m_udpSocket s'}"
    using ts_setup_ok_ledger(1) [OF assms a] by (rule trans) blast
  show "fds (ts_net (ts_closeSocket os s')) = fds (ts_net s)"
    by (rule ts_setup_ok_ledger(2) [OF assms a])
next
  assume a: "ts_setup os port s = (True, s') \<and> ts_setup os port' s' = (True, s'')"
  have "fds (ts_net (ts_closeSocket os s'')) = fds (ts_net s')"
    by (rule ts_setup_ok_ledger(2) [OF assms conjunct2 [OF a]])
  also have "\<dots> = insert (m_tcpServerSocket s') (insert (m_udpSocket s') (fds (ts_net s)))"
    by (rule ts_setup_ok_ledger(1) [OF assms conjunct1 [OF a]])
  finally have e: "fds (ts_net (ts_closeSocket os s''))
      = insert (m_tcpServerSocket s') (insert (m_udpSocket s') (fds (ts_net s)))" .
  show "{m_tcpServerSocket s', m_udpSocket s'} \<subseteq> fds (ts_net (ts_closeSocket os s''))"
    unfolding e by blast
qed

theorem tcp_server_descriptors_witness:
  "\<exists>s' s''. ts_setup sim_posix 13400 (ts_new True (3, {0, 1, 2}, [])) = (True, s')
    \<and> ts_setup sim_posix 13400 s' = (True, s'')
    \<and> {m_tcpServerSocket s', m_udpSocket s'} \<subseteq> fst (snd (ts_net (ts_closeSocket sim_posix s'')))"
proof -
  let ?s = "ts_new True (3, {0, 1, 2}, [])"
  have "\<exists>s' s''. ts_setup sim_posix 13400 ?s = (True, s') \<and> ts_setup sim_posix 13400 s' = (True, s'')"
    by (simp add: ts_new_def ts_setup_def ts_setupTcpSocket_def ts_setupUdpSocket_def ts_configureBroadcast_def
        sim_posix_def sim_new_def Let_def)
  then obtain s' s'' where "ts_setup sim_posix 13400 ?s = (True, s')" "ts_setup sim_posix 13400 s' = (True, s'')"
    by blast
  with tcp_server_descriptors [OF sim_ledger, of 13400 ?s s' 13400 s''] show ?thesis
    by (auto split: prod.splits)
qed

end
