(* ===== verification/DoIP_MacAddress.thy ===== *)
theory DoIP_MacAddress
  imports DoIP_Posix DoIP_Identifiers
begin

text \<open>
  The hardware address a server can take its entity identification from
  (\<^verbatim>\<open>src/MacAddress.cpp\<close>, the Linux branch).  The list of interfaces (\<open>getifaddrs\<close>) and the
  hardware address of an interface (\<open>ioctl\<close> with \<open>SIOCGIFHWADDR\<close>) are parameters.  A function
  returns its result, the new content of the out parameter \<open>mac\<close> and the state of the
  kernel.
\<close>

type_synonym MacAddress = "u8 list"

text \<open>An interface is its name and whether it has an address (\<open>ifa_addr\<close> is not null).\<close>

record 'n netif =
  nx_getifaddrs :: "'n \<Rightarrow> (string \<times> bool) list option"
  nx_hwaddr :: "int \<Rightarrow> string \<Rightarrow> 'n \<Rightarrow> u8 list option"

definition IFNAMSIZ :: nat where
  "IFNAMSIZ = 16"

text \<open>The part of \<open>getMacAddress\<close> for a name that is not null; \<open>sa_data\<close> has 14 bytes.\<close>

definition getMacAddress_of ::
  "'n posix \<Rightarrow> 'n netif \<Rightarrow> string \<Rightarrow> MacAddress \<Rightarrow> 'n \<Rightarrow> bool \<times> MacAddress \<times> 'n" where
  "getMacAddress_of os nx ifname mac n =
     (case px_socket os DgramSocket n of (sock, n) \<Rightarrow>
        if sock < 0 then (False, mac, n)
        else case nx_hwaddr nx sock (take (IFNAMSIZ - 1) ifname) n of
               None \<Rightarrow> (False, mac, px_close os sock n)
             | Some sa_data \<Rightarrow> (True, take 6 sa_data, px_close os sock n))"

fun firstMac_loop ::
  "'n posix \<Rightarrow> 'n netif \<Rightarrow> (string \<times> bool) list \<Rightarrow> MacAddress \<Rightarrow> 'n \<Rightarrow> bool \<times> MacAddress \<times> 'n" where
  "firstMac_loop os nx [] mac n = (False, mac, n)"
| "firstMac_loop os nx ((ifa_name, has_addr) # ifas) mac n =
     (if \<not> has_addr then firstMac_loop os nx ifas mac n
      else if ifa_name = ''lo'' then firstMac_loop os nx ifas mac n
      else case getMacAddress_of os nx ifa_name mac n of (ok, mac, n) \<Rightarrow>
        if ok \<and> \<not> list_all (\<lambda>b. b = 0) mac then (True, mac, n)
        else firstMac_loop os nx ifas mac n)"

definition getFirstMacAddress :: "'n posix \<Rightarrow> 'n netif \<Rightarrow> MacAddress \<Rightarrow> 'n \<Rightarrow> bool \<times> MacAddress \<times> 'n" where
  "getFirstMacAddress os nx mac n =
     (case nx_getifaddrs nx n of
        None \<Rightarrow> (False, mac, n)
      | Some ifaddr \<Rightarrow> firstMac_loop os nx ifaddr mac n)"

definition getMacAddress ::
  "'n posix \<Rightarrow> 'n netif \<Rightarrow> string option \<Rightarrow> MacAddress \<Rightarrow> 'n \<Rightarrow> bool \<times> MacAddress \<times> 'n" where
  "getMacAddress os nx ifname mac n =
     (case ifname of
        None \<Rightarrow> getFirstMacAddress os nx mac n
      | Some name \<Rightarrow> getMacAddress_of os nx name mac n)"

section \<open>What the lookup finds\<close>

text \<open>The hardware address field of a socket address has room for more than six bytes.\<close>

definition hw_sized :: "'n netif \<Rightarrow> bool" where
  "hw_sized nx \<longleftrightarrow> (\<forall>fd name n bs. nx_hwaddr nx fd name n = Some bs \<longrightarrow> 6 \<le> length bs)"

lemma getMacAddress_of_ledger:
  assumes "fd_ledger os fds" and "getMacAddress_of os nx name mac n = (ok, mac', n')"
  shows "fds n' = fds n"
proof -
  obtain sock n1 where so: "px_socket os DgramSocket n = (sock, n1)" by fastforce
  note new = fd_ledger_eqs(8) [OF assms(1) so]
  show ?thesis
  proof (cases "sock < 0")
    case True
    with assms(2) so have "n' = n1" by (simp add: getMacAddress_of_def)
    with new_fdD(1) [OF new True] show ?thesis by simp
  next
    case False
    with assms(2) so have "n' = px_close os sock n1"
      by (simp add: getMacAddress_of_def split: option.splits)
    with new_fdD(2) [OF new False] show ?thesis by (simp add: fd_ledger_simps(9) [OF assms(1)])
  qed
qed

lemma getMacAddress_of_found:
  assumes "hw_sized nx" and "getMacAddress_of os nx name mac n = (True, mac', n')"
  shows "length mac' = 6 \<and> (\<exists>fd n1 bs. nx_hwaddr nx fd (take 15 name) n1 = Some bs \<and> mac' = take 6 bs)"
proof -
  obtain sock n1 where so: "px_socket os DgramSocket n = (sock, n1)" by fastforce
  with assms(2) obtain bs where "nx_hwaddr nx sock (take 15 name) n1 = Some bs" "mac' = take 6 bs"
    by (auto simp: getMacAddress_of_def IFNAMSIZ_def split: if_splits option.splits)
  with assms(1) show ?thesis by (auto simp: hw_sized_def)
qed

definition usable_mac :: "'n netif \<Rightarrow> (string \<times> bool) list \<Rightarrow> MacAddress \<Rightarrow> bool" where
  "usable_mac nx ifas mac \<longleftrightarrow> length mac = 6 \<and> (\<exists>b \<in> set mac. b \<noteq> 0)
     \<and> (\<exists>name fd n bs. (name, True) \<in> set ifas \<and> name \<noteq> ''lo'' \<and> nx_hwaddr nx fd (take 15 name) n = Some bs
          \<and> mac = take 6 bs)"

lemma usable_mac_mono: "usable_mac nx ifas mac \<Longrightarrow> usable_mac nx (i # ifas) mac"
  by (auto simp: usable_mac_def)

lemma firstMac_loop_spec:
  assumes "fd_ledger os fds" and "hw_sized nx"
  shows "firstMac_loop os nx ifas mac n = (ok, mac', n') \<Longrightarrow>
    fds n' = fds n \<and> (ok \<longrightarrow> usable_mac nx ifas mac')"
proof (induction ifas arbitrary: mac n)
  case (Cons i ifas)
  obtain name has where i: "i = (name, has)" by fastforce
  show ?case
  proof (cases "has \<and> name \<noteq> ''lo''")
    case False
    then have "firstMac_loop os nx ifas mac n = (ok, mac', n')"
      using Cons.prems unfolding i by (simp split: if_splits)
    from Cons.IH [OF this] usable_mac_mono show ?thesis by blast
  next
    case True
    obtain ok1 mac1 n1 where g: "getMacAddress_of os nx name mac n = (ok1, mac1, n1)"
      by (cases "getMacAddress_of os nx name mac n") auto
    note l = getMacAddress_of_ledger [OF assms(1) g]
    show ?thesis
    proof (cases "ok1 \<and> \<not> list_all (\<lambda>b. b = 0) mac1")
      case f: True
      with Cons.prems i True g have r: "ok = True" "mac' = mac1" "n' = n1" by auto
      have "usable_mac nx (i # ifas) mac1"
        using getMacAddress_of_found [OF assms(2), of os name mac n mac1 n1] g f i True
        by (auto simp: usable_mac_def list_all_iff)
      with l r show ?thesis by simp
    next
      case f: False
      with Cons.prems i True g have "firstMac_loop os nx ifas mac1 n1 = (ok, mac', n')" by auto
      from Cons.IH [OF this] l usable_mac_mono show ?thesis by metis
    qed
  qed
qed simp

lemma getFirstMacAddress_spec:
  assumes "fd_ledger os fds" and "hw_sized nx" and "getFirstMacAddress os nx mac n = (ok, mac', n')"
  shows "fds n' = fds n \<and> (ok \<longrightarrow> (\<exists>ifas. nx_getifaddrs nx n = Some ifas \<and> usable_mac nx ifas mac'))"
  using assms(3) firstMac_loop_spec [OF assms(1,2)]
  by (auto simp: getFirstMacAddress_def split: option.splits)

end
