(* ===== verification/DoIP_Timer.thy ===== *)
theory DoIP_Timer
  imports DoIP_Prelude "HOL-Library.AList"
begin

text \<open>
  The timer service \<^verbatim>\<open>inc/TimerManager.h\<close>.  The map from timer ids to entries is an
  association list, in the (unspecified) order in which the \<open>unordered_map\<close> is traversed;
  time points and durations are integers in milliseconds, and \<open>now\<close> is the reading of the
  steady clock an operation takes.  Every member takes the mutex, so an execution is a
  sequence of these operations and of passes of the timer thread (\<open>run_pass\<close>).  The locale
  \<open>timer_service\<close> is what connections rely on; it is interpreted for the manager.
\<close>

section \<open>State\<close>

record ('k, 'c) TimerEntry =
  expiry :: int
  callback :: 'c
  interval :: int
  periodic :: bool
  entry_id :: 'k
  enabled :: bool

record ('k, 'c) TimerManager =
  m_timers :: "('k \<times> ('k, 'c) TimerEntry) list"
  m_running :: bool
  m_timers_changed :: bool

definition timerManager_new :: "('k, 'c) TimerManager" where
  "timerManager_new = \<lparr>m_timers = [], m_running = True, m_timers_changed = False\<rparr>"

section \<open>Members\<close>

text \<open>\<open>if (!callback)\<close>: an empty \<open>std::function\<close> is \<open>None\<close>.\<close>

definition addTimer ::
  "int \<Rightarrow> 'k \<Rightarrow> int \<Rightarrow> 'c option \<Rightarrow> bool \<Rightarrow> ('k, 'c) TimerManager \<Rightarrow> 'k option \<times> ('k, 'c) TimerManager" where
  "addTimer now i duration cb per tm =
     (case cb of
        None \<Rightarrow> (None, tm)
      | Some f \<Rightarrow>
          let entry = \<lparr>expiry = now + duration, callback = f, interval = duration, periodic = per,
                       entry_id = i, enabled = True\<rparr>
          in (Some i, tm\<lparr>m_timers := AList.update i entry (m_timers tm), m_timers_changed := True\<rparr>))"

definition removeTimer :: "'k \<Rightarrow> ('k, 'c) TimerManager \<Rightarrow> bool \<times> ('k, 'c) TimerManager" where
  "removeTimer i tm =
     (let removed = map_of (m_timers tm) i \<noteq> None;
          tm' = tm\<lparr>m_timers := AList.delete i (m_timers tm)\<rparr>
      in (removed, if removed then tm'\<lparr>m_timers_changed := True\<rparr> else tm'))"

definition restartTimer :: "int \<Rightarrow> 'k \<Rightarrow> ('k, 'c) TimerManager \<Rightarrow> bool \<times> ('k, 'c) TimerManager" where
  "restartTimer now i tm =
     (case map_of (m_timers tm) i of
        None \<Rightarrow> (False, tm)
      | Some e \<Rightarrow> (True, tm\<lparr>m_timers := AList.update i (e\<lparr>expiry := now + interval e\<rparr>) (m_timers tm),
                            m_timers_changed := True\<rparr>))"

definition updateTimer :: "int \<Rightarrow> 'k \<Rightarrow> int \<Rightarrow> ('k, 'c) TimerManager \<Rightarrow> bool \<times> ('k, 'c) TimerManager" where
  "updateTimer now i newDuration tm =
     (case map_of (m_timers tm) i of
        None \<Rightarrow> (False, tm)
      | Some e \<Rightarrow> (True, tm\<lparr>m_timers := AList.update i (e\<lparr>interval := newDuration, expiry := now + newDuration\<rparr>)
                              (m_timers tm), m_timers_changed := True\<rparr>))"

definition disableTimer :: "'k \<Rightarrow> ('k, 'c) TimerManager \<Rightarrow> bool \<times> ('k, 'c) TimerManager" where
  "disableTimer i tm =
     (case map_of (m_timers tm) i of
        None \<Rightarrow> (False, tm)
      | Some e \<Rightarrow> (True, tm\<lparr>m_timers := AList.update i (e\<lparr>enabled := False\<rparr>) (m_timers tm)\<rparr>))"

definition enableTimer :: "int \<Rightarrow> 'k \<Rightarrow> ('k, 'c) TimerManager \<Rightarrow> bool \<times> ('k, 'c) TimerManager" where
  "enableTimer now i tm =
     (case map_of (m_timers tm) i of
        None \<Rightarrow> (False, tm)
      | Some e \<Rightarrow>
          if \<not> enabled e
          then (True, tm\<lparr>m_timers := AList.update i (e\<lparr>enabled := True, expiry := now + interval e\<rparr>) (m_timers tm),
                        m_timers_changed := True\<rparr>)
          else (True, tm))"

definition resetTimer :: "int \<Rightarrow> 'k \<Rightarrow> ('k, 'c) TimerManager \<Rightarrow> bool \<times> ('k, 'c) TimerManager" where
  "resetTimer now i tm =
     (case disableTimer i tm of
        (False, tm') \<Rightarrow> (False, tm')
      | (True, tm') \<Rightarrow> enableTimer now i tm')"

definition stopAll :: "('k, 'c) TimerManager \<Rightarrow> ('k, 'c) TimerManager" where
  "stopAll tm = tm\<lparr>m_timers := [], m_timers_changed := True\<rparr>"

definition hasTimer :: "'k \<Rightarrow> ('k, 'c) TimerManager \<Rightarrow> bool" where
  "hasTimer i tm \<longleftrightarrow> map_of (m_timers tm) i \<noteq> None"

definition timerCount :: "('k, 'c) TimerManager \<Rightarrow> nat" where
  "timerCount tm = length (m_timers tm)"

definition timer_stop :: "('k, 'c) TimerManager \<Rightarrow> ('k, 'c) TimerManager" where
  "timer_stop tm = tm\<lparr>m_running := False\<rparr>"

definition timer_destroy :: "('k, 'c) TimerManager \<Rightarrow> ('k, 'c) TimerManager" where
  "timer_destroy tm = timer_stop tm"

section \<open>The timer thread\<close>

text \<open>
  \<open>next_expiry\<close> is the first loop: the minimum over the enabled timers, \<open>None\<close> for
  \<open>time_point::max()\<close>.
\<close>

fun next_expiry :: "('k \<times> ('k, 'c) TimerEntry) list \<Rightarrow> int option \<Rightarrow> int option" where
  "next_expiry [] nxt = nxt"
| "next_expiry ((i, t) # ts) nxt =
     next_expiry ts
       (if enabled t \<and> (case nxt of None \<Rightarrow> True | Some x \<Rightarrow> expiry t < x) then Some (expiry t) else nxt)"

text \<open>
  The second loop: the callbacks of the expired timers, the ids to erase, and the entries
  with the periodic timers rescheduled; \<open>clk i\<close> is the clock when timer \<open>i\<close> is rescheduled.
\<close>

fun collect ::
  "int \<Rightarrow> ('k \<Rightarrow> int) \<Rightarrow> ('k \<times> ('k, 'c) TimerEntry) list
     \<Rightarrow> ('k \<times> 'c) list \<times> 'k list \<times> ('k \<times> ('k, 'c) TimerEntry) list" where
  "collect now clk [] = ([], [], [])"
| "collect now clk ((i, t) # ts) =
     (case collect now clk ts of (cbs, rm, ts') \<Rightarrow>
        if enabled t \<and> expiry t \<le> now then
          (if periodic t then ((i, callback t) # cbs, rm, (i, t\<lparr>expiry := clk i + interval t\<rparr>) # ts')
           else ((i, callback t) # cbs, i # rm, (i, t) # ts'))
        else (cbs, rm, (i, t) # ts'))"

text \<open>
  One pass of the loop of \<open>run\<close>: the thread leaves, waits for a timer, waits until a time
  point (or a change), or has taken the callbacks it executes after releasing the lock.
\<close>

datatype ('k, 'c) run_outcome =
    RunExit
  | WaitNonEmpty
  | WaitUntil "int option"
  | Fire "('k \<times> 'c) list"

definition run_pass ::
  "int \<Rightarrow> ('k \<Rightarrow> int) \<Rightarrow> ('k, 'c) TimerManager \<Rightarrow> ('k, 'c) run_outcome \<times> ('k, 'c) TimerManager" where
  "run_pass now clk tm =
     (if \<not> m_running tm then (RunExit, tm)
      else if m_timers tm = [] then (WaitNonEmpty, tm\<lparr>m_timers_changed := False\<rparr>)
      else
        let nextExpiry = next_expiry (m_timers tm) None
        in if (case nextExpiry of None \<Rightarrow> True | Some x \<Rightarrow> x > now)
           then (WaitUntil nextExpiry, tm\<lparr>m_timers_changed := False\<rparr>)
           else (case collect now clk (m_timers tm) of (cbs, toRemove, ts) \<Rightarrow>
                   (Fire cbs, tm\<lparr>m_timers := fold AList.delete toRemove ts\<rparr>)))"

section \<open>Lemmas\<close>

definition timers_ok :: "('k, 'c) TimerManager \<Rightarrow> bool" where
  "timers_ok tm \<longleftrightarrow> distinct (map fst (m_timers tm)) \<and> (\<forall>i e. map_of (m_timers tm) i = Some e \<longrightarrow> entry_id e = i)"

definition expired :: "int \<Rightarrow> ('k, 'c) TimerEntry \<Rightarrow> bool" where
  "expired now t \<longleftrightarrow> enabled t \<and> expiry t \<le> now"

lemma next_expiry_le:
  "(\<forall>x. nxt = Some x \<longrightarrow> (\<exists>y. next_expiry ts nxt = Some y \<and> y \<le> x))
   \<and> (\<forall>(i, t) \<in> set ts. enabled t \<longrightarrow> (\<exists>y. next_expiry ts nxt = Some y \<and> y \<le> expiry t))"
proof (induction ts arbitrary: nxt)
  case (Cons a ts)
  obtain i t where a: "a = (i, t)" by (cases a)
  let ?n = "if enabled t \<and> (case nxt of None \<Rightarrow> True | Some x \<Rightarrow> expiry t < x) then Some (expiry t) else nxt"
  have IH1: "\<forall>x. ?n = Some x \<longrightarrow> (\<exists>y. next_expiry ts ?n = Some y \<and> y \<le> x)"
    and IH2: "\<forall>(i, t) \<in> set ts. enabled t \<longrightarrow> (\<exists>y. next_expiry ts ?n = Some y \<and> y \<le> expiry t)"
    using Cons.IH [of ?n] by blast+
  have "\<exists>z. ?n = Some z \<and> z \<le> x" if "nxt = Some x" for x using that by auto
  moreover have "\<exists>z. ?n = Some z \<and> z \<le> expiry t" if "enabled t" using that by (cases nxt) auto
  ultimately show ?case
    using IH1 IH2 unfolding a next_expiry.simps by (fastforce dest: order_trans)
qed simp

lemma next_expiry_in:
  "next_expiry ts nxt = Some y \<Longrightarrow> nxt = Some y \<or> (\<exists>(i, t) \<in> set ts. enabled t \<and> expiry t = y)"
proof (induction ts nxt rule: next_expiry.induct)
  case (2 i t ts nxt)
  then show ?case by (fastforce split: if_splits)
qed simp

lemma next_expiry_Some_iff:
  "next_expiry ts None = Some y \<longleftrightarrow>
     (\<exists>(i, t) \<in> set ts. enabled t \<and> expiry t = y) \<and> (\<forall>(i, t) \<in> set ts. enabled t \<longrightarrow> y \<le> expiry t)"
proof
  assume h: "next_expiry ts None = Some y"
  then show "(\<exists>(i, t) \<in> set ts. enabled t \<and> expiry t = y) \<and> (\<forall>(i, t) \<in> set ts. enabled t \<longrightarrow> y \<le> expiry t)"
    using next_expiry_in [OF h] next_expiry_le [where ts = ts and nxt = None] by fastforce
next
  assume h: "(\<exists>(i, t) \<in> set ts. enabled t \<and> expiry t = y) \<and> (\<forall>(i, t) \<in> set ts. enabled t \<longrightarrow> y \<le> expiry t)"
  then obtain z where z: "next_expiry ts None = Some z" "z \<le> y"
    using next_expiry_le [where ts = ts and nxt = None] by fastforce
  with h next_expiry_in [OF z(1)] have "y \<le> z" by fastforce
  with z show "next_expiry ts None = Some y" by simp
qed

lemma next_expiry_None_iff:
  "next_expiry ts None = None \<longleftrightarrow> (\<forall>(i, t) \<in> set ts. \<not> enabled t)"
proof
  assume "next_expiry ts None = None"
  then show "\<forall>(i, t) \<in> set ts. \<not> enabled t"
    using next_expiry_le [where ts = ts and nxt = None] by fastforce
next
  assume h: "\<forall>(i, t) \<in> set ts. \<not> enabled t"
  show "next_expiry ts None = None"
    using next_expiry_in [of ts None] h by (cases "next_expiry ts None") fastforce+
qed

text \<open>What the second loop and the erasures amount to.\<close>

definition reschedule :: "int \<Rightarrow> ('k \<Rightarrow> int) \<Rightarrow> 'k \<Rightarrow> ('k, 'c) TimerEntry \<Rightarrow> ('k, 'c) TimerEntry" where
  "reschedule now clk i t = (if expired now t \<and> periodic t then t\<lparr>expiry := clk i + interval t\<rparr> else t)"

lemma collect_eq:
  "collect now clk ts =
     (map (\<lambda>(i, t). (i, callback t)) (filter (\<lambda>(i, t). expired now t) ts),
      map fst (filter (\<lambda>(i, t). expired now t \<and> \<not> periodic t) ts),
      map (\<lambda>(i, t). (i, reschedule now clk i t)) ts)"
  by (induction now clk ts rule: collect.induct) (auto simp: expired_def reschedule_def)

lemma map_of_fold_delete:
  "map_of (fold AList.delete ks ts) i = (if i \<in> set ks then None else map_of ts i)"
  by (induction ks arbitrary: ts) (auto simp: delete_conv restrict_map_def)

lemma map_of_map_reschedule:
  "map_of (map (\<lambda>(i, t). (i, f i t)) ts) i = map_option (f i) (map_of ts i)"
  by (induction ts) auto

lemma fold_delete_keys: "map fst (fold AList.delete ks ts) = filter (\<lambda>i. i \<notin> set ks) (map fst ts)"
  by (induction ks arbitrary: ts) (auto simp: AList.delete_eq filter_map comp_def case_prod_unfold intro!: arg_cong [where f = "map fst"] filter_cong)

lemma set_fold_delete: "set (fold AList.delete ks ts) \<subseteq> set ts"
proof (induction ks arbitrary: ts)
  case (Cons k ks)
  have "set (AList.delete k ts) \<subseteq> set ts" by (simp add: AList.delete_eq)
  with Cons [of "AList.delete k ts"] show ?case by auto
qed simp

lemma removed_iff:
  assumes "distinct (map fst ts)"
  shows "i \<in> set (map fst (filter (\<lambda>(i, t). P t) ts)) \<longleftrightarrow> (\<exists>t. map_of ts i = Some t \<and> P t)"
  using assms by (force simp: map_of_eq_Some_iff image_iff)

section \<open>What clients rely on\<close>

text \<open>
  A client sees the deadline and the handler of each timer id.  \<open>arm\<close> is the pattern of a
  state machine that keeps one timer for its current state.
\<close>

locale timer_service =
  fixes deadline :: "'s \<Rightarrow> 'k \<Rightarrow> (int \<times> 'c) option"
    and add :: "int \<Rightarrow> 'k \<Rightarrow> int \<Rightarrow> 'c \<Rightarrow> 's \<Rightarrow> 's"
    and clear_all :: "'s \<Rightarrow> 's"
    and restart :: "int \<Rightarrow> 'k \<Rightarrow> 's \<Rightarrow> bool \<times> 's"
  assumes add_deadline: "deadline (add now i d f s) = (deadline s)(i \<mapsto> (now + d, f))"
    and clear_deadline: "deadline (clear_all s) = Map.empty"
    and restart_dom: "dom (deadline (snd (restart now i s))) = dom (deadline s)"
    and restart_handler: "map_option snd (deadline (snd (restart now i s)) j) = map_option snd (deadline s j)"
    and restart_ok: "fst (restart now i s) \<longleftrightarrow> i \<in> dom (deadline s)"
begin

definition arm :: "int \<Rightarrow> 'k \<Rightarrow> int \<Rightarrow> 'c \<Rightarrow> 's \<Rightarrow> 's" where
  "arm now i d f s = add now i d f (clear_all s)"

lemma arm_deadline: "deadline (arm now i d f s) = [i \<mapsto> (now + d, f)]"
  by (simp add: arm_def add_deadline clear_deadline)

definition owned :: "'k \<Rightarrow> 'c \<Rightarrow> 's \<Rightarrow> bool" where
  "owned i f s \<longleftrightarrow> (\<forall>j x. deadline s j = Some x \<longrightarrow> j = i \<and> snd x = f)"

lemma owned_arm: "owned i f (arm now i d f s)"
  by (simp add: owned_def arm_deadline)

lemma owned_clear: "owned i f (clear_all s)"
  by (simp add: owned_def clear_deadline)

lemma owned_restart: "owned i f s \<Longrightarrow> owned i f (snd (restart now j s))"
proof -
  assume o: "owned i f s"
  have "\<exists>y. deadline s k = Some y \<and> snd y = snd x" if "deadline (snd (restart now j s)) k = Some x" for k x
    using restart_handler [of now j s k] that by (cases "deadline s k") auto
  with o show ?thesis by (fastforce simp: owned_def)
qed

end

definition deadline_of :: "('k, 'c) TimerManager \<Rightarrow> 'k \<Rightarrow> (int \<times> 'c) option" where
  "deadline_of tm i = map_option (\<lambda>e. (expiry e, callback e)) (map_of (m_timers tm) i)"

definition add_oneshot :: "int \<Rightarrow> 'k \<Rightarrow> int \<Rightarrow> 'c \<Rightarrow> ('k, 'c) TimerManager \<Rightarrow> ('k, 'c) TimerManager" where
  "add_oneshot now i d f tm = snd (addTimer now i d (Some f) False tm)"

interpretation tms: timer_service deadline_of add_oneshot stopAll restartTimer
proof (unfold_locales, goal_cases)
  case (1 now i d f s)
  then show ?case
    by (rule ext) (simp add: deadline_of_def add_oneshot_def addTimer_def Let_def update_conv')
next
  case (2 s)
  then show ?case by (rule ext) (simp add: deadline_of_def stopAll_def)
next
  case (3 now i s)
  then show ?case
    by (auto simp: deadline_of_def restartTimer_def update_conv' split: option.splits if_splits)
next
  case (4 now i s j)
  then show ?case
    by (auto simp: deadline_of_def restartTimer_def update_conv' option.map_comp split: option.splits)
next
  case (5 now i s)
  then show ?case
    by (auto simp: deadline_of_def restartTimer_def split: option.splits)
qed

lemma owned_remove: "tms.owned i f tm \<Longrightarrow> tms.owned i f (snd (removeTimer j tm))"
  by (auto simp: tms.owned_def deadline_of_def removeTimer_def Let_def delete_conv' split: if_splits)

section \<open>Properties\<close>

lemma timers_ok_update:
  "timers_ok tm \<Longrightarrow> m_timers tm' = AList.update i e (m_timers tm) \<Longrightarrow> entry_id e = i \<Longrightarrow> timers_ok tm'"
  by (auto simp: timers_ok_def distinct_update update_conv')

lemma timers_ok_known: "timers_ok tm \<Longrightarrow> map_of (m_timers tm) i = Some e \<Longrightarrow> entry_id e = i"
  unfolding timers_ok_def by blast

lemma timers_ok_sub:
  assumes "timers_ok tm" and "distinct (map fst (m_timers tm'))"
    and "\<And>i e. map_of (m_timers tm') i = Some e \<Longrightarrow> \<exists>e'. map_of (m_timers tm) i = Some e' \<and> entry_id e = entry_id e'"
  shows "timers_ok tm'"
  using assms unfolding timers_ok_def by metis

lemma timers_ok_adjusted:
  assumes "timers_ok tm" and "\<And>e. entry_id (g e) = entry_id e"
    and "m_timers tm' = (case map_of (m_timers tm) i of None \<Rightarrow> m_timers tm
      | Some e \<Rightarrow> AList.update i (g e) (m_timers tm))"
  shows "timers_ok tm'"
proof (cases "map_of (m_timers tm) i")
  case None
  with assms(3) have "m_timers tm' = m_timers tm" by simp
  with assms(1) show ?thesis unfolding timers_ok_def by metis
next
  case (Some e)
  with assms(3) have "m_timers tm' = AList.update i (g e) (m_timers tm)" by simp
  moreover have "entry_id (g e) = i" using assms(2) timers_ok_known [OF assms(1) Some] by simp
  ultimately show ?thesis by (rule timers_ok_update [OF assms(1)])
qed

lemma timers_ok_members:
  assumes "timers_ok tm"
  shows "timers_ok (snd (addTimer now i d cb per tm))" "timers_ok (snd (removeTimer i tm))"
    "timers_ok (snd (restartTimer now i tm))" "timers_ok (snd (updateTimer now i d tm))"
    "timers_ok (snd (disableTimer i tm))" "timers_ok (snd (enableTimer now i tm))" "timers_ok (stopAll tm)"
proof -
  show "timers_ok (snd (addTimer now i d cb per tm))"
    using assms by (cases cb) (auto simp: addTimer_def Let_def intro!: timers_ok_update [OF assms])
  have "distinct (map fst (m_timers tm))" using assms by (simp add: timers_ok_def)
  then show "timers_ok (snd (removeTimer i tm))"
    by (intro timers_ok_sub [OF assms])
      (auto simp: removeTimer_def Let_def distinct_delete delete_conv' split: if_splits simp del: map_of_eq_Some_iff)
  show "timers_ok (stopAll tm)" by (simp add: timers_ok_def stopAll_def)
  note adj = timers_ok_adjusted [OF assms, where i = i]
  show "timers_ok (snd (restartTimer now i tm))"
    by (rule adj [where g = "\<lambda>e. e\<lparr>expiry := now + interval e\<rparr>"])
      (simp_all add: restartTimer_def split: option.split)
  show "timers_ok (snd (updateTimer now i d tm))"
    by (rule adj [where g = "\<lambda>e. e\<lparr>interval := d, expiry := now + d\<rparr>"])
      (simp_all add: updateTimer_def split: option.split)
  show "timers_ok (snd (disableTimer i tm))"
    by (rule adj [where g = "\<lambda>e. e\<lparr>enabled := False\<rparr>"])
      (simp_all add: disableTimer_def split: option.split)
  show "timers_ok (snd (enableTimer now i tm))"
    by (rule adj [where g = "\<lambda>e. if enabled e then e else e\<lparr>enabled := True, expiry := now + interval e\<rparr>"])
      (auto simp: enableTimer_def update_triv split: option.split)
qed

lemma timers_ok_reset: "timers_ok tm \<Longrightarrow> timers_ok (snd (resetTimer now i tm))"
  using timers_ok_members(5) [of tm i] timers_ok_members(6) [of "snd (disableTimer i tm)" now i]
  by (auto simp: resetTimer_def split: prod.split bool.split)

lemma run_pass_Fire:
  assumes "run_pass now clk tm = (Fire cbs, tm')"
  shows "cbs = map (\<lambda>(i, t). (i, callback t)) (filter (\<lambda>(i, t). expired now t) (m_timers tm))"
    "m_timers tm' = fold AList.delete (map fst (filter (\<lambda>(i, t). expired now t \<and> \<not> periodic t) (m_timers tm)))
       (map (\<lambda>(i, t). (i, reschedule now clk i t)) (m_timers tm))"
  using assms by (auto simp: run_pass_def Let_def collect_eq split: if_splits)

lemma run_pass_keys:
  "run_pass now clk tm = (r, tm') \<Longrightarrow> \<exists>P. map fst (m_timers tm') = filter P (map fst (m_timers tm))"
  by (cases r)
    (auto simp: run_pass_def Let_def collect_eq fold_delete_keys comp_def case_prod_unfold
      split: if_splits intro: exI [of _ "\<lambda>_. True"])

lemma reschedule_id [simp]: "entry_id (reschedule now clk i t) = entry_id t"
  by (simp add: reschedule_def)

lemma timers_ok_pass:
  assumes "timers_ok tm" and r: "run_pass now clk tm = (r, tm')"
  shows "timers_ok tm'"
proof -
  have d: "distinct (map fst (m_timers tm'))"
    using run_pass_keys [OF r] assms(1) by (auto simp: timers_ok_def)
  show ?thesis
  proof (cases "\<exists>cbs. r = Fire cbs")
    case True
    then obtain cbs where "run_pass now clk tm = (Fire cbs, tm')" using r by blast
    from run_pass_Fire(2) [OF this]
    have sub: "set (m_timers tm') \<subseteq> set (map (\<lambda>(i, t). (i, reschedule now clk i t)) (m_timers tm))"
      by (simp only: set_fold_delete)
    show ?thesis
    proof (rule timers_ok_sub [OF assms(1) d])
      fix i e assume "map_of (m_timers tm') i = Some e"
      with sub obtain t where "(i, t) \<in> set (m_timers tm)" "e = reschedule now clk i t"
        by (auto dest!: map_of_SomeD)
      then show "\<exists>e'. map_of (m_timers tm) i = Some e' \<and> entry_id e = entry_id e'"
        using assms(1) by (intro exI [of _ t]) (simp add: timers_ok_def)
    qed
  next
    case False
    with r have "m_timers tm' = m_timers tm"
      by (auto simp: run_pass_def Let_def split: if_splits prod.splits)
    with assms(1) show ?thesis unfolding timers_ok_def by metis
  qed
qed

text \<open>
  The abstract service: a finite map from timer ids to entries.  \<open>spec_op\<close> says what each
  member does to it and which flag it returns; \<open>impl_op\<close> calls the members.
\<close>

datatype ('k, 'c) timer_op =
    Add 'k int 'c bool
  | Remove 'k
  | Restart 'k
  | Update 'k int
  | Disable 'k
  | Enable 'k
  | Reset 'k
  | StopAll

definition modify :: "('e \<Rightarrow> 'e) \<Rightarrow> 'k \<Rightarrow> ('k \<rightharpoonup> 'e) \<Rightarrow> bool \<times> ('k \<rightharpoonup> 'e)" where
  "modify f i m = (m i \<noteq> None, m(i := map_option f (m i)))"

fun spec_op :: "int \<Rightarrow> ('k, 'c) timer_op \<Rightarrow> ('k \<rightharpoonup> ('k, 'c) TimerEntry) \<Rightarrow> bool \<times> ('k \<rightharpoonup> ('k, 'c) TimerEntry)" where
  "spec_op now (Add i d f per) m =
     (True, m(i \<mapsto> \<lparr>expiry = now + d, callback = f, interval = d, periodic = per, entry_id = i, enabled = True\<rparr>))"
| "spec_op now (Remove i) m = (m i \<noteq> None, m(i := None))"
| "spec_op now (Restart i) m = modify (\<lambda>e. e\<lparr>expiry := now + interval e\<rparr>) i m"
| "spec_op now (Update i d) m = modify (\<lambda>e. e\<lparr>interval := d, expiry := now + d\<rparr>) i m"
| "spec_op now (Disable i) m = modify (\<lambda>e. e\<lparr>enabled := False\<rparr>) i m"
| "spec_op now (Enable i) m =
     modify (\<lambda>e. if enabled e then e else e\<lparr>enabled := True, expiry := now + interval e\<rparr>) i m"
| "spec_op now (Reset i) m = modify (\<lambda>e. e\<lparr>enabled := True, expiry := now + interval e\<rparr>) i m"
| "spec_op now StopAll m = (True, Map.empty)"

fun impl_op :: "int \<Rightarrow> ('k, 'c) timer_op \<Rightarrow> ('k, 'c) TimerManager \<Rightarrow> bool \<times> ('k, 'c) TimerManager" where
  "impl_op now (Add i d f per) tm = (case addTimer now i d (Some f) per tm of (r, tm') \<Rightarrow> (r \<noteq> None, tm'))"
| "impl_op now (Remove i) tm = removeTimer i tm"
| "impl_op now (Restart i) tm = restartTimer now i tm"
| "impl_op now (Update i d) tm = updateTimer now i d tm"
| "impl_op now (Disable i) tm = disableTimer i tm"
| "impl_op now (Enable i) tm = enableTimer now i tm"
| "impl_op now (Reset i) tm = resetTimer now i tm"
| "impl_op now StopAll tm = (True, stopAll tm)"

lemma impl_op_refines:
  "fst (impl_op now op tm) = fst (spec_op now op (map_of (m_timers tm)))
   \<and> map_of (m_timers (snd (impl_op now op tm))) = snd (spec_op now op (map_of (m_timers tm)))"
  by (cases op)
    (auto simp: addTimer_def Let_def removeTimer_def restartTimer_def updateTimer_def disableTimer_def
      enableTimer_def resetTimer_def stopAll_def modify_def update_conv' delete_conv' restrict_map_def
      fun_eq_iff split: option.split)

lemma impl_op_ok: "timers_ok tm \<Longrightarrow> timers_ok (snd (impl_op now op tm))"
  using timers_ok_members [of tm] timers_ok_reset [of tm] by (cases op) (auto simp: case_prod_unfold)

lemma timerCount_card: "timers_ok tm \<Longrightarrow> timerCount tm = card (dom (map_of (m_timers tm)))"
  unfolding timerCount_def timers_ok_def
  by (metis distinct_card dom_map_of_conv_image_fst length_map list.set_map)



text \<open>
  (C14) A pass of the timer thread fires exactly the timers that are due: when some enabled
  timer has expired it takes the callback of every enabled timer whose deadline is reached,
  each once, and of no other (none fires early, disabled timers do not fire); a one-shot
  timer is gone afterwards, a periodic one has its next deadline one interval after the
  clock, and every other timer is untouched.
\<close>

theorem run_pass_fires_due:
  assumes "timers_ok tm" and "m_running tm" and "map_of (m_timers tm) j = Some e" and "expired now e"
  shows "\<exists>cbs tm'. run_pass now clk tm = (Fire cbs, tm') \<and> distinct (map fst cbs)
    \<and> set cbs = {(i, callback t) | i t. map_of (m_timers tm) i = Some t \<and> enabled t \<and> expiry t \<le> now}
    \<and> timers_ok tm'
    \<and> (\<forall>i. map_of (m_timers tm') i =
         (case map_of (m_timers tm) i of None \<Rightarrow> None
          | Some t \<Rightarrow> if \<not> (enabled t \<and> expiry t \<le> now) then Some t
                      else if periodic t then Some (t\<lparr>expiry := clk i + interval t\<rparr>) else None))"
proof -
  let ?ts = "m_timers tm"
  have d: "distinct (map fst ?ts)" using assms(1) by (simp add: timers_ok_def)
  have "(j, e) \<in> set ?ts" using assms(3) by (rule map_of_SomeD)
  moreover from this obtain x where x: "next_expiry ?ts None = Some x" "x \<le> expiry e"
    using next_expiry_le [of None ?ts] assms(4) by (fastforce simp: expired_def)
  ultimately have "\<exists>cbs tm'. run_pass now clk tm = (Fire cbs, tm')"
    using assms(2,4) by (auto simp: run_pass_def expired_def split: prod.split)
  then obtain cbs tm' where r: "run_pass now clk tm = (Fire cbs, tm')" by blast
  note F = run_pass_Fire [OF r]
  have 1: "distinct (map fst cbs)"
    unfolding F(1) using d by (simp add: comp_def case_prod_unfold distinct_map_filter)
  have 2: "set cbs = {(i, callback t) | i t. map_of ?ts i = Some t \<and> enabled t \<and> expiry t \<le> now}"
    unfolding F(1) using d by (auto simp: expired_def image_iff) 
  have 3: "map_of (m_timers tm') i = (case map_of ?ts i of None \<Rightarrow> None
          | Some t \<Rightarrow> if \<not> (enabled t \<and> expiry t \<le> now) then Some t
                      else if periodic t then Some (t\<lparr>expiry := clk i + interval t\<rparr>) else None)" for i
    unfolding F(2) map_of_fold_delete map_of_map_reschedule removed_iff [OF d]
    by (auto simp: expired_def reschedule_def simp del: map_of_eq_Some_iff split: option.split)
  show ?thesis using r 1 2 3 timers_ok_pass [OF assms(1) r] by blast
qed

theorem run_pass_fires_due_witness:
  "\<exists>cbs tm'. run_pass 105 (\<lambda>_. 106) (snd (addTimer 5 (1::nat) 100 (Some ''cb'') False timerManager_new)) = (Fire cbs, tm')
     \<and> map_of (m_timers tm') 1 = None"
proof -
  let ?tm = "snd (addTimer 5 (1::nat) 100 (Some ''cb'') False timerManager_new)"
  let ?e = "\<lparr>expiry = 105, callback = ''cb'', interval = 100, periodic = False, entry_id = 1::nat, enabled = True\<rparr>"
  have "timers_ok ?tm" "m_running ?tm" and e: "map_of (m_timers ?tm) 1 = Some ?e" and "expired 105 ?e"
    by (auto simp: addTimer_def Let_def timerManager_new_def timers_ok_def expired_def)
  from run_pass_fires_due [OF this, of "\<lambda>_. 106"] obtain cbs tm' where
    "run_pass 105 (\<lambda>_. 106) ?tm = (Fire cbs, tm')"
    and "map_of (m_timers tm') 1 = (case map_of (m_timers ?tm) 1 of None \<Rightarrow> None
          | Some t \<Rightarrow> if \<not> (enabled t \<and> expiry t \<le> 105) then Some t
                      else if periodic t then Some (t\<lparr>expiry := 106 + interval t\<rparr>) else None)"
    by blast
  then show ?thesis using e by (intro exI conjI) simp_all
qed

text \<open>
  (C15) The timer thread sleeps exactly as long as it may.  While no enabled timer is due it
  fires nothing and leaves the table alone; it then waits until the earliest deadline of
  an enabled timer, or, when no timer is enabled, until the table changes.
\<close>

theorem run_pass_waits:
  assumes "m_running tm" and "m_timers tm \<noteq> []"
    and "\<forall>i t. (i, t) \<in> set (m_timers tm) \<longrightarrow> \<not> expired now t"
  shows "\<exists>nxt. run_pass now clk tm = (WaitUntil nxt, tm\<lparr>m_timers_changed := False\<rparr>)
    \<and> (nxt = None \<longleftrightarrow> (\<forall>(i, t) \<in> set (m_timers tm). \<not> enabled t))
    \<and> (\<forall>x. nxt = Some x \<longleftrightarrow> (\<exists>(i, t) \<in> set (m_timers tm). enabled t \<and> expiry t = x)
         \<and> (\<forall>(i, t) \<in> set (m_timers tm). enabled t \<longrightarrow> x \<le> expiry t))
    \<and> (\<forall>x. nxt = Some x \<longrightarrow> now < x)"
proof -
  let ?n = "next_expiry (m_timers tm) None"
  have gt: "now < x" if "?n = Some x" for x
    using next_expiry_in [OF that] assms(3) by (fastforce simp: expired_def)
  then have "run_pass now clk tm = (WaitUntil ?n, tm\<lparr>m_timers_changed := False\<rparr>)"
    using assms(1,2) by (cases ?n) (auto simp: run_pass_def Let_def)
  then show ?thesis
    by (intro exI [of _ ?n] conjI allI impI next_expiry_None_iff next_expiry_Some_iff gt)
qed

theorem run_pass_waits_witness:
  "\<exists>nxt. run_pass 50 (\<lambda>_. 0) (snd (addTimer 5 (1::nat) 100 (Some ''cb'') False timerManager_new))
     = (WaitUntil nxt, (snd (addTimer 5 1 100 (Some ''cb'') False timerManager_new))\<lparr>m_timers_changed := False\<rparr>)"
proof -
  let ?tm = "snd (addTimer 5 (1::nat) 100 (Some ''cb'') False timerManager_new)"
  have "m_running ?tm" "m_timers ?tm \<noteq> []" "\<forall>i t. (i, t) \<in> set (m_timers ?tm) \<longrightarrow> \<not> expired 50 t"
    by (auto simp: addTimer_def Let_def timerManager_new_def expired_def)
  from run_pass_waits [OF this, of "\<lambda>_. 0"] show ?thesis by blast
qed

end
