(* ===== verification/DoIP_Connection.thy ===== *)
theory DoIP_Connection
  imports DoIP_Transport DoIP_Timer
begin

text \<open>
  The server side of a connection: the state machine \<open>DoIPDefaultConnection\<close>
  (\<^verbatim>\<open>inc/DoIPDefaultConnection.h\<close>, \<^verbatim>\<open>src/DoIPDefaultConnection.cpp\<close>), its subclass
  \<open>DoIPConnection\<close> for TCP (\<^verbatim>\<open>src/DoIPConnection.cpp\<close>) and the application's callbacks
  (\<^verbatim>\<open>inc/DoIPServerModel.h\<close>).

  An object is a record that holds its members, the transport and the timer manager it
  works on, and a chronological \<open>trace\<close> of what it did to the outside: messages handed to
  the transport, addresses registered, callbacks invoked, downstream responses received.  The application is a parameter:
  a callback maps the object it is called on to its result and the list of calls it makes
  on the connection context (\<open>ctx_call\<close>); as it sees the whole object including the trace,
  this covers callbacks with a state of their own.  Handlers return an \<open>outcome\<close>: a value
  and the new object, an exception and the object as it was left, or \<open>NoReturn\<close> when the call has not returned
  (it blocks, or the nesting of calls is deeper than the fuel).
\<close>

section \<open>Outcomes\<close>

datatype ('a, 's) outcome = Ok 'a 's | Throw cxx_error 's | NoReturn

fun obind :: "('a, 's) outcome \<Rightarrow> ('a \<Rightarrow> 's \<Rightarrow> ('b, 's) outcome) \<Rightarrow> ('b, 's) outcome" where
  "obind (Ok a s) f = f a s"
| "obind (Throw e s) f = Throw e s"
| "obind NoReturn f = NoReturn"

fun lift_res :: "'a res \<Rightarrow> 's \<Rightarrow> ('a, 's) outcome" where
  "lift_res (Inl e) s = Throw e s"
| "lift_res (Inr a) s = Ok a s"

text \<open>\<open>catch (const std::exception &)\<close> does not see undefined behaviour.\<close>

definition is_exception :: "cxx_error \<Rightarrow> bool" where
  "is_exception e \<longleftrightarrow> e \<noteq> UndefinedRead"

section \<open>The connection object\<close>

datatype conn_event =
    EvSend DoIPMessage int
  | EvClientAddress DoIPAddress
  | EvTransportClose DoIPCloseReason
  | EvOpened
  | EvClosed DoIPCloseReason
  | EvDiagnostic DoIPMessage
  | EvAckSent DoIPDiagnosticAck
  | EvDownstream DoIPMessage
  | EvDownstreamResponse

record 't connection =
  this_id :: nat
  m_transport :: 't
  m_timerManager :: "(ConnectionTimers, nat) TimerManager"
  m_routedClientAddress :: DoIPAddress
  m_isOpen :: bool
  m_closeReason :: DoIPCloseReason
  m_state :: DoIPServerState
  m_aliveCheckRetry :: u8
  m_aliveCheckRetryCount :: u8
  m_initialInactivityTimeout :: int
  m_generalInactivityTimeout :: int
  m_aliveCheckTimeout :: int
  m_downstreamResponseTimeout :: int
  m_isClosing :: bool
  trace :: "conn_event list"

definition emit :: "conn_event \<Rightarrow> 't connection \<Rightarrow> 't connection" where
  "emit e c = c\<lparr>trace := trace c @ [e]\<rparr>"

datatype ctx_call =
    CtxSend DoIPMessage
  | CtxReceive
  | CtxClose DoIPCloseReason
  | CtxSetClientAddress DoIPAddress
  | CtxDownstreamResponse ByteArray DoIPDownstreamResult
  | CtxThrow cxx_error

section \<open>The application (DoIPServerModel)\<close>

record 't DoIPServerModel =
  onOpenConnection :: "('t connection \<Rightarrow> ctx_call list) option"
  onCloseConnection :: "('t connection \<Rightarrow> DoIPCloseReason \<Rightarrow> ctx_call list) option"
  onDiagnosticMessage :: "('t connection \<Rightarrow> DoIPMessage \<Rightarrow> DoIPDiagnosticAck \<times> ctx_call list) option"
  onDiagnosticNotification :: "('t connection \<Rightarrow> DoIPDiagnosticAck \<Rightarrow> ctx_call list) option"
  onDownstreamRequest :: "('t connection \<Rightarrow> DoIPMessage \<Rightarrow> DoIPDownstreamResult \<times> ctx_call list) option"
  serverAddress :: DoIPAddress

definition model_hasDownstreamHandler :: "'t DoIPServerModel \<Rightarrow> bool" where
  "model_hasDownstreamHandler m \<longleftrightarrow> onDownstreamRequest m \<noteq> None"

definition DefaultDoIPServerModel :: "'t DoIPServerModel" where
  "DefaultDoIPServerModel = \<lparr>
     onOpenConnection = Some (\<lambda>ctx. []),
     onCloseConnection = Some (\<lambda>ctx reason. []),
     onDiagnosticMessage = Some (\<lambda>ctx msg. (None, [])),
     onDiagnosticNotification = Some (\<lambda>ctx ack. []),
     onDownstreamRequest = None,
     serverAddress = 0x0E00\<rparr>"

text \<open>
  What a member function works with: the transport class, the application, the reading of
  the steady clock during the call, and whether the object is a \<open>DoIPConnection\<close> (with its
  guard against recursive closing) or a plain \<open>DoIPDefaultConnection\<close>.
\<close>

record 't conn_env =
  env_tp :: "'t transport_ops"
  env_model :: "'t DoIPServerModel"
  env_now :: int
  env_guarded :: bool

section \<open>The state machine\<close>

record 't StateDescriptor =
  sd_state :: DoIPServerState
  stateAfterTimeout :: DoIPServerState
  sd_timer :: ConnectionTimers
  enterStateHandler :: "('t connection \<Rightarrow> 't connection) option"
  timeoutDurationUser :: int

fun STATE_DESCRIPTORS :: "DoIPServerState \<Rightarrow> 't StateDescriptor" where
  "STATE_DESCRIPTORS DoIPServerState.SocketInitialized =
     \<lparr>sd_state = DoIPServerState.SocketInitialized, stateAfterTimeout = DoIPServerState.WaitRoutingActivation,
      sd_timer = ConnectionTimers.UserDefined, enterStateHandler = None, timeoutDurationUser = 0\<rparr>"
| "STATE_DESCRIPTORS DoIPServerState.WaitRoutingActivation =
     \<lparr>sd_state = DoIPServerState.WaitRoutingActivation, stateAfterTimeout = DoIPServerState.Finalize,
      sd_timer = ConnectionTimers.InitialInactivity, enterStateHandler = None, timeoutDurationUser = 0\<rparr>"
| "STATE_DESCRIPTORS DoIPServerState.RoutingActivated =
     \<lparr>sd_state = DoIPServerState.RoutingActivated, stateAfterTimeout = DoIPServerState.Finalize,
      sd_timer = ConnectionTimers.GeneralInactivity,
      enterStateHandler = Some (\<lambda>c. c\<lparr>m_aliveCheckRetry := 0\<rparr>), timeoutDurationUser = 0\<rparr>"
| "STATE_DESCRIPTORS DoIPServerState.WaitAliveCheckResponse =
     \<lparr>sd_state = DoIPServerState.WaitAliveCheckResponse, stateAfterTimeout = DoIPServerState.Finalize,
      sd_timer = ConnectionTimers.AliveCheck,
      enterStateHandler = Some (\<lambda>c. c\<lparr>m_aliveCheckRetry := m_aliveCheckRetry c + 1\<rparr>), timeoutDurationUser = 0\<rparr>"
| "STATE_DESCRIPTORS DoIPServerState.WaitDownstreamResponse =
     \<lparr>sd_state = DoIPServerState.WaitDownstreamResponse, stateAfterTimeout = DoIPServerState.Finalize,
      sd_timer = ConnectionTimers.UserDefined, enterStateHandler = None, timeoutDurationUser = 2000\<rparr>"
| "STATE_DESCRIPTORS DoIPServerState.Finalize =
     \<lparr>sd_state = DoIPServerState.Finalize, stateAfterTimeout = DoIPServerState.Closed,
      sd_timer = ConnectionTimers.UserDefined, enterStateHandler = None, timeoutDurationUser = 0\<rparr>"
| "STATE_DESCRIPTORS DoIPServerState.Closed =
     \<lparr>sd_state = DoIPServerState.Closed, stateAfterTimeout = DoIPServerState.Closed,
      sd_timer = ConnectionTimers.UserDefined, enterStateHandler = None, timeoutDurationUser = 0\<rparr>"

definition getTimerDuration :: "'t StateDescriptor \<Rightarrow> 't connection \<Rightarrow> int" where
  "getTimerDuration stateDesc c =
     (case sd_timer stateDesc of
        ConnectionTimers.AliveCheck \<Rightarrow> m_aliveCheckTimeout c
      | ConnectionTimers.InitialInactivity \<Rightarrow> m_initialInactivityTimeout c
      | ConnectionTimers.GeneralInactivity \<Rightarrow> m_generalInactivityTimeout c
      | ConnectionTimers.DownstreamResponse \<Rightarrow> m_downstreamResponseTimeout c
      | ConnectionTimers.UserDefined \<Rightarrow> timeoutDurationUser stateDesc)"

text \<open>The descriptor \<open>m_state\<close> points to.\<close>

definition cur_desc :: "'t connection \<Rightarrow> 't StateDescriptor" where
  "cur_desc c = STATE_DESCRIPTORS (m_state c)"

text \<open>
  A state whose timer duration is zero is left at once, so \<open>transitionTo\<close> and
  \<open>startStateTimer\<close> call each other; the chain follows \<open>stateAfterTimeout\<close> and ends.
\<close>

fun state_rank :: "DoIPServerState \<Rightarrow> nat" where
  "state_rank DoIPServerState.Closed = 0"
| "state_rank DoIPServerState.Finalize = 1"
| "state_rank DoIPServerState.SocketInitialized = 3"
| "state_rank _ = 2"

definition transition_measure ::
  "(int \<times> DoIPServerState \<times> 't connection) + (int \<times> DoIPServerState \<times> 't connection) \<Rightarrow> nat" where
  "transition_measure x =
     (case x of
        Inl (_, s, c) \<Rightarrow> if m_state c = s then 0 else 4 * state_rank s + 3
      | Inr (_, s, c) \<Rightarrow> if s = DoIPServerState.Closed
          then (if m_state c = DoIPServerState.Closed then 1 else 4) else 4 * state_rank s + 1)"

function (sequential) transitionTo :: "int \<Rightarrow> DoIPServerState \<Rightarrow> 't connection \<Rightarrow> 't connection"
and startStateTimer :: "int \<Rightarrow> DoIPServerState \<Rightarrow> 't connection \<Rightarrow> 't connection" where
  "transitionTo now newState c =
     (if m_state c = newState then c
      else let c = c\<lparr>m_state := newState\<rparr>;
               c = startStateTimer now newState c
           in (case enterStateHandler (cur_desc c) of None \<Rightarrow> c | Some h \<Rightarrow> h c))"
| "startStateTimer now s c =
     (let c = c\<lparr>m_timerManager := stopAll (m_timerManager c)\<rparr>;
          duration = getTimerDuration (cur_desc c) c
      in if duration = 0
         then transitionTo now (stateAfterTimeout (STATE_DESCRIPTORS s :: 't StateDescriptor)) c
         else c\<lparr>m_timerManager :=
                snd (addTimer now (sd_timer (cur_desc c)) duration (Some (this_id c)) False (m_timerManager c))\<rparr>)"
  by pat_completeness auto

termination
  by (relation "measure transition_measure")
    (auto simp: transition_measure_def split: if_splits, (case_tac s; simp split: if_splits)+)

declare transitionTo.simps [simp del] startStateTimer.simps [simp del]

definition restartStateTimer :: "int \<Rightarrow> 't connection \<Rightarrow> 't connection" where
  "restartStateTimer now c =
     c\<lparr>m_timerManager := snd (restartTimer now (sd_timer (cur_desc c)) (m_timerManager c))\<rparr>"

section \<open>Operations of the connection context\<close>

definition sendProtocolMessage :: "'t conn_env \<Rightarrow> DoIPMessage \<Rightarrow> 't connection \<Rightarrow> int \<times> 't connection" where
  "sendProtocolMessage env msg c =
     (case tp_send (env_tp env) msg (m_transport c) of
        (r, t) \<Rightarrow> (r, emit (EvSend msg r) (c\<lparr>m_transport := t\<rparr>)))"

definition receiveProtocolMessage :: "'t conn_env \<Rightarrow> 't connection \<Rightarrow> (DoIPMessage option, 't connection) outcome" where
  "receiveProtocolMessage env c =
     (case tp_receive (env_tp env) (m_transport c) of
        None \<Rightarrow> NoReturn
      | Some (Inl e) \<Rightarrow> Throw e c
      | Some (Inr (m, t)) \<Rightarrow> Ok m (c\<lparr>m_transport := t\<rparr>))"

definition getServerAddress :: "'t conn_env \<Rightarrow> DoIPAddress" where
  "getServerAddress env = serverAddress (env_model env)"

definition getClientAddress :: "'t connection \<Rightarrow> DoIPAddress" where
  "getClientAddress c = m_routedClientAddress c"

definition setClientAddress :: "DoIPAddress \<Rightarrow> 't connection \<Rightarrow> 't connection" where
  "setClientAddress address c = emit (EvClientAddress address) (c\<lparr>m_routedClientAddress := address\<rparr>)"

definition receiveDownstreamResponse ::
  "'t conn_env \<Rightarrow> ByteArray \<Rightarrow> DoIPDownstreamResult \<Rightarrow> 't connection \<Rightarrow> 't connection" where
  "receiveDownstreamResponse env response result c =
     (let sa = getServerAddress env;
          ta = getClientAddress c;
          msg = (if result = DoIPDownstreamResult.Handled then makeDiagnosticMessage sa ta response
                 else makeDiagnosticNegativeResponse sa ta DoIPNegativeDiagnosticAck.TargetUnreachable []);
          c = snd (sendProtocolMessage env msg (emit EvDownstreamResponse c))
      in transitionTo (env_now env) DoIPServerState.RoutingActivated c)"

text \<open>
  The calls a callback makes, in order.  \<open>closing\<close> is \<open>closeConnection\<close>, which calls back
  into the application and so is defined below with a bound on the nesting.
\<close>

type_synonym 't closing = "DoIPCloseReason \<Rightarrow> 't connection \<Rightarrow> (unit, 't connection) outcome"

fun ctx_exec :: "'t conn_env \<Rightarrow> 't closing \<Rightarrow> ctx_call \<Rightarrow> 't connection \<Rightarrow> (unit, 't connection) outcome" where
  "ctx_exec env closing (CtxSend msg) c = Ok () (snd (sendProtocolMessage env msg c))"
| "ctx_exec env closing CtxReceive c = obind (receiveProtocolMessage env c) (\<lambda>_ c. Ok () c)"
| "ctx_exec env closing (CtxClose reason) c = closing reason c"
| "ctx_exec env closing (CtxSetClientAddress a) c = Ok () (setClientAddress a c)"
| "ctx_exec env closing (CtxDownstreamResponse response result) c =
     Ok () (receiveDownstreamResponse env response result c)"
| "ctx_exec env closing (CtxThrow e) c = Throw e c"

fun ctx_execs :: "'t conn_env \<Rightarrow> 't closing \<Rightarrow> ctx_call list \<Rightarrow> 't connection \<Rightarrow> (unit, 't connection) outcome" where
  "ctx_execs env closing [] c = Ok () c"
| "ctx_execs env closing (call # calls) c =
     obind (ctx_exec env closing call c) (\<lambda>_ c. ctx_execs env closing calls c)"

definition notifyConnectionClosed ::
  "'t conn_env \<Rightarrow> 't closing \<Rightarrow> DoIPCloseReason \<Rightarrow> 't connection \<Rightarrow> (unit, 't connection) outcome" where
  "notifyConnectionClosed env closing reason c =
     (case onCloseConnection (env_model env) of
        None \<Rightarrow> Ok () c
      | Some f \<Rightarrow> ctx_execs env closing (f c reason) (emit (EvClosed reason) c))"

definition default_closeConnection :: "'t conn_env \<Rightarrow> 't closing \<Rightarrow> 't closing" where
  "default_closeConnection env closing reason c =
     (let c = transitionTo (env_now env) DoIPServerState.Closed c;
          c = c\<lparr>m_closeReason := reason\<rparr>;
          c = c\<lparr>m_timerManager := stopAll (m_timerManager c)\<rparr>;
          c = emit (EvTransportClose reason) (c\<lparr>m_transport := tp_close (env_tp env) reason (m_transport c)\<rparr>)
      in (case notifyConnectionClosed env closing reason c of
            Ok _ c \<Rightarrow> Ok () (c\<lparr>m_isOpen := False\<rparr>)
          | Throw e c \<Rightarrow> if is_exception e then Ok () (c\<lparr>m_isOpen := False\<rparr>) else Throw e c
          | NoReturn \<Rightarrow> NoReturn))"

fun closeConnection :: "nat \<Rightarrow> 't conn_env \<Rightarrow> 't closing" where
  "closeConnection 0 env reason c = NoReturn"
| "closeConnection (Suc fuel) env reason c =
     (if env_guarded env
      then (if m_isClosing c then Ok () c
            else default_closeConnection env (closeConnection fuel env) reason (c\<lparr>m_isClosing := True\<rparr>))
      else default_closeConnection env (closeConnection fuel env) reason c)"

definition notifyDiagnosticMessage ::
  "nat \<Rightarrow> 't conn_env \<Rightarrow> DoIPMessage \<Rightarrow> 't connection \<Rightarrow> (DoIPDiagnosticAck, 't connection) outcome" where
  "notifyDiagnosticMessage fuel env msg c =
     (case onDiagnosticMessage (env_model env) of
        None \<Rightarrow> Ok None c
      | Some f \<Rightarrow> (case f c msg of (ack, calls) \<Rightarrow>
          obind (ctx_execs env (closeConnection fuel env) calls (emit (EvDiagnostic msg) c)) (\<lambda>_ c. Ok ack c)))"

definition notifyDiagnosticAckSent ::
  "nat \<Rightarrow> 't conn_env \<Rightarrow> DoIPDiagnosticAck \<Rightarrow> 't connection \<Rightarrow> (unit, 't connection) outcome" where
  "notifyDiagnosticAckSent fuel env ack c =
     (case onDiagnosticNotification (env_model env) of
        None \<Rightarrow> Ok () c
      | Some f \<Rightarrow> ctx_execs env (closeConnection fuel env) (f c ack) (emit (EvAckSent ack) c))"

definition hasDownstreamHandler :: "'t conn_env \<Rightarrow> bool" where
  "hasDownstreamHandler env = model_hasDownstreamHandler (env_model env)"

definition notifyDownstreamRequest ::
  "nat \<Rightarrow> 't conn_env \<Rightarrow> DoIPMessage \<Rightarrow> 't connection \<Rightarrow> (DoIPDownstreamResult, 't connection) outcome" where
  "notifyDownstreamRequest fuel env msg c =
     (case onDownstreamRequest (env_model env) of
        None \<Rightarrow> Ok DoIPDownstreamResult.Error c
      | Some f \<Rightarrow> (case f c msg of (result, calls) \<Rightarrow>
          obind (ctx_execs env (closeConnection fuel env) calls (emit (EvDownstream msg) c)) (\<lambda>_ c. Ok result c)))"

section \<open>Messages the server sends\<close>

definition sendRoutingActivationResponse ::
  "'t conn_env \<Rightarrow> DoIPAddress \<Rightarrow> DoIPRoutingActivationResult \<Rightarrow> 't connection \<Rightarrow> int \<times> 't connection" where
  "sendRoutingActivationResponse env source_address response_code c =
     (let serverAddr = getServerAddress env;
          payload = writeU16BE [] source_address;
          payload = writeU16BE payload serverAddr;
          payload = payload @ [activationResult_code response_code];
          payload = payload @ [0, 0, 0, 0]
      in sendProtocolMessage env (buildMessage DoIPPayloadType.RoutingActivationResponse payload) c)"

definition sendAliveCheckRequest :: "'t conn_env \<Rightarrow> 't connection \<Rightarrow> int \<times> 't connection" where
  "sendAliveCheckRequest env c = sendProtocolMessage env makeAliveCheckRequest c"

definition diagnosticMessageResponse :: "'t conn_env \<Rightarrow> DoIPAddress \<Rightarrow> DoIPDiagnosticAck \<Rightarrow> DoIPMessage" where
  "diagnosticMessageResponse env sourceAddress ack =
     (let targetAddress = getServerAddress env
      in case ack of
           Some nack \<Rightarrow> makeDiagnosticNegativeResponse sourceAddress targetAddress nack []
         | None \<Rightarrow> makeDiagnosticPositiveResponse sourceAddress targetAddress [])"

definition sendDiagnosticMessageResponse ::
  "nat \<Rightarrow> 't conn_env \<Rightarrow> DoIPAddress \<Rightarrow> DoIPDiagnosticAck \<Rightarrow> 't connection \<Rightarrow> (int, 't connection) outcome" where
  "sendDiagnosticMessageResponse fuel env sourceAddress ack c =
     (case sendProtocolMessage env (diagnosticMessageResponse env sourceAddress ack) c of
        (sentBytes, c) \<Rightarrow> obind (notifyDiagnosticAckSent fuel env ack c) (\<lambda>_ c. Ok sentBytes c))"

definition sendDownstreamResponse ::
  "'t conn_env \<Rightarrow> DoIPAddress \<Rightarrow> ByteArray \<Rightarrow> 't connection \<Rightarrow> int \<times> 't connection" where
  "sendDownstreamResponse env sourceAddress payload c =
     sendProtocolMessage env (makeDiagnosticMessage sourceAddress (getServerAddress env) payload) c"

section \<open>State handlers\<close>

type_synonym 't handler = "DoIPMessage option \<Rightarrow> 't connection \<Rightarrow> (unit, 't connection) outcome"

definition handleSocketInitialized :: "'t conn_env \<Rightarrow> 't handler" where
  "handleSocketInitialized env msg c =
     Ok () (transitionTo (env_now env) DoIPServerState.WaitRoutingActivation c)"

definition handleWaitRoutingActivation :: "nat \<Rightarrow> 't conn_env \<Rightarrow> 't handler" where
  "handleWaitRoutingActivation fuel env msg c =
     (case msg of
        None \<Rightarrow> closeConnection fuel env DoIPCloseReason.SocketError c
      | Some m \<Rightarrow>
          obind (lift_res (getSourceAddress m) c) (\<lambda>sourceAddress c.
            if sourceAddress = None \<or> getPayloadType m \<noteq> DoIPPayloadType.RoutingActivationRequest
            then closeConnection fuel env DoIPCloseReason.InvalidMessage c
            else
              let sa = the sourceAddress;
                  c = setClientAddress sa c;
                  c = snd (sendRoutingActivationResponse env sa DoIPRoutingActivationResult.RouteActivated c)
              in Ok () (transitionTo (env_now env) DoIPServerState.RoutingActivated c)))"

text \<open>The part of \<open>handleRoutingActivated\<close> after the positive acknowledgement.\<close>

definition handleDownstream ::
  "nat \<Rightarrow> 't conn_env \<Rightarrow> DoIPAddress \<Rightarrow> DoIPMessage \<Rightarrow> 't connection \<Rightarrow> (unit, 't connection) outcome" where
  "handleDownstream fuel env sa message c =
     (if hasDownstreamHandler env then
        obind (notifyDownstreamRequest fuel env message c) (\<lambda>result c.
          case result of
            DoIPDownstreamResult.Pending \<Rightarrow>
              Ok () (transitionTo (env_now env) DoIPServerState.WaitDownstreamResponse c)
          | DoIPDownstreamResult.Handled \<Rightarrow>
              Ok () (transitionTo (env_now env) DoIPServerState.RoutingActivated c)
          | DoIPDownstreamResult.Error \<Rightarrow>
              obind (sendDiagnosticMessageResponse fuel env sa (Some DoIPNegativeDiagnosticAck.TargetUnreachable) c)
                (\<lambda>_ c. Ok () (transitionTo (env_now env) DoIPServerState.RoutingActivated c)))
      else Ok () c)"

definition handleDiagnosticMessage :: "nat \<Rightarrow> 't conn_env \<Rightarrow> DoIPMessage \<Rightarrow> 't connection \<Rightarrow> (unit, 't connection) outcome" where
  "handleDiagnosticMessage fuel env message c =
     obind (lift_res (getSourceAddress message) c) (\<lambda>sourceAddress c.
       case sourceAddress of
         None \<Rightarrow> closeConnection fuel env DoIPCloseReason.InvalidMessage c
       | Some sa \<Rightarrow>
           if sa \<noteq> getClientAddress c
           then obind (sendDiagnosticMessageResponse fuel env sa (Some DoIPNegativeDiagnosticAck.InvalidSourceAddress) c)
                  (\<lambda>_ c. Ok () c)
           else
             obind (notifyDiagnosticMessage fuel env message c) (\<lambda>ack c.
             obind (sendDiagnosticMessageResponse fuel env sa ack c) (\<lambda>_ c.
               let c = restartStateTimer (env_now env) c
               in case ack of
                    Some _ \<Rightarrow> Ok () (transitionTo (env_now env) DoIPServerState.RoutingActivated c)
                  | None \<Rightarrow> handleDownstream fuel env sa message c)))"

definition handleRoutingActivated :: "nat \<Rightarrow> 't conn_env \<Rightarrow> 't handler" where
  "handleRoutingActivated fuel env msg c =
     (case msg of
        None \<Rightarrow> closeConnection fuel env DoIPCloseReason.SocketError c
      | Some message \<Rightarrow>
          (case getPayloadType message of
             DoIPPayloadType.DiagnosticMessage \<Rightarrow> handleDiagnosticMessage fuel env message c
           | DoIPPayloadType.AliveCheckResponse \<Rightarrow> Ok () (restartStateTimer (env_now env) c)
           | _ \<Rightarrow> obind (sendDiagnosticMessageResponse fuel env ZERO_ADDRESS
                           (Some DoIPNegativeDiagnosticAck.TransportProtocolError) c) (\<lambda>_ c. Ok () c)))"

definition handleWaitAliveCheckResponse :: "nat \<Rightarrow> 't conn_env \<Rightarrow> 't handler" where
  "handleWaitAliveCheckResponse fuel env msg c =
     (case msg of
        None \<Rightarrow> closeConnection fuel env DoIPCloseReason.SocketError c
      | Some message \<Rightarrow>
          if getPayloadType message = DoIPPayloadType.DiagnosticMessage
            \<or> getPayloadType message = DoIPPayloadType.AliveCheckResponse
          then Ok () (transitionTo (env_now env) DoIPServerState.RoutingActivated c)
          else obind (sendDiagnosticMessageResponse fuel env ZERO_ADDRESS
                        (Some DoIPNegativeDiagnosticAck.TransportProtocolError) c) (\<lambda>_ c. Ok () c))"

definition handleWaitDownstreamResponse :: "'t handler" where
  "handleWaitDownstreamResponse msg c = Ok () c"

definition handleFinalize :: "'t conn_env \<Rightarrow> 't handler" where
  "handleFinalize env msg c = Ok () (transitionTo (env_now env) DoIPServerState.Closed c)"

text \<open>
  Dispatch through the message handler of the current descriptor; the handler of \<open>Closed\<close> is
  an empty \<open>std::function\<close>.
\<close>

definition handleMessage :: "nat \<Rightarrow> 't conn_env \<Rightarrow> DoIPMessage \<Rightarrow> 't connection \<Rightarrow> (unit, 't connection) outcome" where
  "handleMessage fuel env message c =
     (case m_state c of
        DoIPServerState.SocketInitialized \<Rightarrow> handleSocketInitialized env (Some message) c
      | DoIPServerState.WaitRoutingActivation \<Rightarrow> handleWaitRoutingActivation fuel env (Some message) c
      | DoIPServerState.RoutingActivated \<Rightarrow> handleRoutingActivated fuel env (Some message) c
      | DoIPServerState.WaitAliveCheckResponse \<Rightarrow> handleWaitAliveCheckResponse fuel env (Some message) c
      | DoIPServerState.WaitDownstreamResponse \<Rightarrow> handleWaitDownstreamResponse (Some message) c
      | DoIPServerState.Finalize \<Rightarrow> handleFinalize env (Some message) c
      | DoIPServerState.Closed \<Rightarrow> Throw BadFunctionCall c)"

definition handleTimeout :: "nat \<Rightarrow> 't conn_env \<Rightarrow> ConnectionTimers \<Rightarrow> 't connection \<Rightarrow> (unit, 't connection) outcome" where
  "handleTimeout fuel env timer_id c =
     (case timer_id of
        ConnectionTimers.InitialInactivity \<Rightarrow> closeConnection fuel env DoIPCloseReason.InitialInactivityTimeout c
      | ConnectionTimers.GeneralInactivity \<Rightarrow>
          (let c = snd (sendAliveCheckRequest env c)
           in Ok () (transitionTo (env_now env) DoIPServerState.WaitAliveCheckResponse c))
      | ConnectionTimers.AliveCheck \<Rightarrow>
          if m_aliveCheckRetry c < m_aliveCheckRetryCount c
          then Ok () (transitionTo (env_now env) DoIPServerState.WaitAliveCheckResponse c)
          else closeConnection fuel env DoIPCloseReason.AliveCheckTimeout c
      | ConnectionTimers.DownstreamResponse \<Rightarrow>
          Ok () (transitionTo (env_now env) DoIPServerState.RoutingActivated c)
      | ConnectionTimers.UserDefined \<Rightarrow> Ok () c)"

section \<open>Construction and reception\<close>

text \<open>
  During construction \<open>m_state\<close> is still a null pointer when \<open>onOpenConnection\<close> runs:
  closing or answering from there dereferences it.
\<close>

fun open_exec :: "'t conn_env \<Rightarrow> ctx_call list \<Rightarrow> 't connection \<Rightarrow> (unit, 't connection) outcome" where
  "open_exec env [] c = Ok () c"
| "open_exec env (CtxClose reason # calls) c = Throw UndefinedRead c"
| "open_exec env (CtxDownstreamResponse response result # calls) c = Throw UndefinedRead c"
| "open_exec env (call # calls) c =
     obind (ctx_exec env (\<lambda>_ c. Throw UndefinedRead c) call c) (\<lambda>_ c. open_exec env calls c)"

text \<open>
  \<open>client\<close> is the value of the uninitialised member \<open>m_routedClientAddress\<close>, \<open>retries\<close> the
  configured \<open>DOIP_ALIVE_CHECK_RETRIES\<close>.
\<close>

definition connection_new ::
  "'t conn_env \<Rightarrow> nat \<Rightarrow> 't \<Rightarrow> (ConnectionTimers, nat) TimerManager \<Rightarrow> DoIPAddress \<Rightarrow> u8
     \<Rightarrow> (unit, 't connection) outcome" where
  "connection_new env this tp timerManager client retries =
     (let c = \<lparr>this_id = this, m_transport = tp, m_timerManager = timerManager, m_routedClientAddress = client,
               m_isOpen = True, m_closeReason = DoIPCloseReason.NoReason, m_state = DoIPServerState.SocketInitialized,
               m_aliveCheckRetry = 0, m_aliveCheckRetryCount = retries, m_initialInactivityTimeout = 2000,
               m_generalInactivityTimeout = 300000, m_aliveCheckTimeout = 500, m_downstreamResponseTimeout = 10000,
               m_isClosing = False, trace = []\<rparr>
      in (case onOpenConnection (env_model env) of
            None \<Rightarrow> Throw BadFunctionCall c
          | Some f \<Rightarrow> obind (open_exec env (f c) (emit EvOpened c)) (\<lambda>_ c.
              Ok () (transitionTo (env_now env) DoIPServerState.WaitRoutingActivation c))))"

definition receiveMessage :: "nat \<Rightarrow> 't conn_env \<Rightarrow> 't connection \<Rightarrow> (int, 't connection) outcome" where
  "receiveMessage fuel env c =
     obind (receiveProtocolMessage env c) (\<lambda>optMessage c.
       case optMessage of
         None \<Rightarrow> Ok (- 1) c
       | Some message \<Rightarrow> obind (handleMessage fuel env message c) (\<lambda>_ c. Ok 1 c))"

definition setAliveCheckRetryCount :: "u8 \<Rightarrow> 't connection \<Rightarrow> 't connection" where
  "setAliveCheckRetryCount count c = c\<lparr>m_aliveCheckRetryCount := count\<rparr>"

definition setInitialInactivityTimeout :: "int \<Rightarrow> 't connection \<Rightarrow> 't connection" where
  "setInitialInactivityTimeout timeout c = c\<lparr>m_initialInactivityTimeout := timeout\<rparr>"

definition setGeneralInactivityTimeout :: "int \<Rightarrow> 't connection \<Rightarrow> 't connection" where
  "setGeneralInactivityTimeout timeout c = c\<lparr>m_generalInactivityTimeout := timeout\<rparr>"

definition setAliveCheckTimeout :: "int \<Rightarrow> 't connection \<Rightarrow> 't connection" where
  "setAliveCheckTimeout timeout c = c\<lparr>m_aliveCheckTimeout := timeout\<rparr>"

definition setDownstreamResponseTimeout :: "int \<Rightarrow> 't connection \<Rightarrow> 't connection" where
  "setDownstreamResponseTimeout timeout c = c\<lparr>m_downstreamResponseTimeout := timeout\<rparr>"

definition isRoutingActivated :: "'t connection \<Rightarrow> bool" where
  "isRoutingActivated c \<longleftrightarrow> m_state c = DoIPServerState.RoutingActivated"

end
