(* ===== verification/DoIP_ConnectionInv.thy ===== *)
theory DoIP_ConnectionInv
  imports DoIP_Connection
begin

text \<open>
  Invariants of a connection.  The locale \<open>connection_invariant\<close> proves once, for any
  predicate kept by the elementary actions (sending, changing the state, restarting the
  timer, registering the client, invoking a callback, the steps of closing), that every
  handler keeps it, whatever the application does in its callbacks and wherever an
  exception leaves the handler; it builds on the transport contract.  Its instances are the
  timer discipline, the authorisation of diagnostic messages and the silence of a closed
  connection, over all reachable states.
\<close>

section \<open>State transitions in closed form\<close>

lemma stopAll_idem [simp]: "stopAll (stopAll tm) = stopAll tm"
  by (simp add: stopAll_def)

lemma transitionTo_same [simp]: "m_state c = s \<Longrightarrow> transitionTo now s c = c"
  by (simp add: transitionTo.simps)

lemma transitionTo_Closed:
  "transitionTo now DoIPServerState.Closed c =
     (if m_state c = DoIPServerState.Closed then c
      else c\<lparr>m_state := DoIPServerState.Closed, m_timerManager := stopAll (m_timerManager c)\<rparr>)"
  by (simp add: transitionTo.simps [of now DoIPServerState.Closed] startStateTimer.simps Let_def
      getTimerDuration_def cur_desc_def)

lemma transitionTo_Finalize:
  "m_state c \<noteq> DoIPServerState.Finalize \<Longrightarrow> transitionTo now DoIPServerState.Finalize c =
     c\<lparr>m_state := DoIPServerState.Closed, m_timerManager := stopAll (m_timerManager c)\<rparr>"
  by (simp add: transitionTo.simps [of now DoIPServerState.Finalize] startStateTimer.simps Let_def
      getTimerDuration_def cur_desc_def transitionTo_Closed)

definition timed_state :: "DoIPServerState \<Rightarrow> bool" where
  "timed_state s \<longleftrightarrow> s \<in> {DoIPServerState.WaitRoutingActivation, DoIPServerState.RoutingActivated,
     DoIPServerState.WaitAliveCheckResponse, DoIPServerState.WaitDownstreamResponse}"

definition state_timer :: "DoIPServerState \<Rightarrow> ConnectionTimers" where
  "state_timer s = sd_timer (STATE_DESCRIPTORS s :: unit StateDescriptor)"

definition state_duration :: "DoIPServerState \<Rightarrow> 't connection \<Rightarrow> int" where
  "state_duration s c = getTimerDuration (STATE_DESCRIPTORS s) c"

fun enter_retry :: "DoIPServerState \<Rightarrow> u8 \<Rightarrow> u8" where
  "enter_retry DoIPServerState.RoutingActivated r = 0"
| "enter_retry DoIPServerState.WaitAliveCheckResponse r = r + 1"
| "enter_retry _ r = r"

lemma sd_timer_state: "sd_timer (STATE_DESCRIPTORS s) = state_timer s"
  by (cases s) (simp_all add: state_timer_def)

lemma arm_eq:
  "snd (addTimer now i d (Some f) False (stopAll tm)) = tms.arm now i d f tm"
  by (simp add: tms.arm_def add_oneshot_def)

text \<open>
  Entering a state with a timer: the retry counter, the new state and a timer manager that
  holds the timer of this state and nothing else; with a zero duration the connection
  falls through to \<open>Closed\<close>.
\<close>

lemma startStateTimer_timed:
  assumes "timed_state s" and "m_state c = s"
  shows "startStateTimer now s c =
    (if state_duration s c = 0
     then c\<lparr>m_state := DoIPServerState.Closed, m_timerManager := stopAll (m_timerManager c)\<rparr>
     else c\<lparr>m_timerManager := tms.arm now (state_timer s) (state_duration s c) (this_id c) (m_timerManager c)\<rparr>)"
proof -
  have a: "stateAfterTimeout (STATE_DESCRIPTORS s :: 'a StateDescriptor) = DoIPServerState.Finalize"
    and f: "s \<noteq> DoIPServerState.Finalize"
    using assms(1) by (auto simp: timed_state_def)
  have d: "getTimerDuration (cur_desc (c\<lparr>m_timerManager := tm\<rparr>)) (c\<lparr>m_timerManager := tm\<rparr>) = state_duration s c" for tm
    using assms(2) by (cases s) (simp_all add: cur_desc_def state_duration_def getTimerDuration_def)
  show ?thesis
    unfolding startStateTimer.simps [of now s] Let_def d a
    using f assms(2) by (simp add: transitionTo_Finalize arm_eq cur_desc_def sd_timer_state)
qed

lemma enter_handler:
  "(case enterStateHandler (STATE_DESCRIPTORS s :: 't StateDescriptor) of None \<Rightarrow> c | Some h \<Rightarrow> h c) =
     c\<lparr>m_aliveCheckRetry := enter_retry s (m_aliveCheckRetry c)\<rparr>"
  by (cases s) simp_all

lemma transitionTo_timed:
  assumes "timed_state s" and "m_state c \<noteq> s"
  shows "transitionTo now s c =
    (if state_duration s c = 0
     then c\<lparr>m_state := DoIPServerState.Closed, m_timerManager := stopAll (m_timerManager c)\<rparr>
     else c\<lparr>m_state := s, m_timerManager := tms.arm now (state_timer s) (state_duration s c) (this_id c) (m_timerManager c),
            m_aliveCheckRetry := enter_retry s (m_aliveCheckRetry c)\<rparr>)"
proof -
  let ?c = "c\<lparr>m_state := s\<rparr>"
  have d: "state_duration s ?c = state_duration s c"
    by (cases s) (simp_all add: state_duration_def getTimerDuration_def)
  have t: "startStateTimer now s ?c = (if state_duration s c = 0
     then ?c\<lparr>m_state := DoIPServerState.Closed, m_timerManager := stopAll (m_timerManager c)\<rparr>
     else ?c\<lparr>m_timerManager := tms.arm now (state_timer s) (state_duration s c) (this_id c) (m_timerManager c)\<rparr>)"
    using startStateTimer_timed [OF assms(1), of ?c now] d by simp
  have "transitionTo now s c = (let c' = startStateTimer now s ?c in
      c'\<lparr>m_aliveCheckRetry := enter_retry (m_state c') (m_aliveCheckRetry c')\<rparr>)"
    using assms(2) by (simp add: transitionTo.simps [of now s c] cur_desc_def enter_handler Let_def)
  then show ?thesis by (simp add: t)
qed

lemma transitionTo_shape:
  assumes "timed_state s \<or> s = DoIPServerState.Closed"
  obtains s' tm r where "s' \<in> {s, DoIPServerState.Closed}"
    "transitionTo now s c = c\<lparr>m_state := s', m_timerManager := tm, m_aliveCheckRetry := r\<rparr>"
proof (cases "m_state c = s")
  case True
  then show ?thesis using that [where s' = s and tm = "m_timerManager c" and r = "m_aliveCheckRetry c"] by simp
next
  case False
  show ?thesis
  proof (cases "s = DoIPServerState.Closed")
    case True
    with False show ?thesis
      using that [where s' = s and tm = "stopAll (m_timerManager c)" and r = "m_aliveCheckRetry c"] by (simp add: transitionTo_Closed)
  next
    case nc: False
    with assms have t: "timed_state s" by simp
    show ?thesis
    proof (cases "state_duration s c = 0")
      case True
      with t False show ?thesis
        using that [where s' = DoIPServerState.Closed and tm = "stopAll (m_timerManager c)" and r = "m_aliveCheckRetry c"]
        by (simp add: transitionTo_timed)
    next
      case nz: False
      with t False show ?thesis
        using that [where s' = s
            and tm = "tms.arm now (state_timer s) (state_duration s c) (this_id c) (m_timerManager c)"
            and r = "enter_retry s (m_aliveCheckRetry c)"]
        by (simp add: transitionTo_timed)
    qed
  qed
qed

lemma transitionTo_fields [simp]:
  assumes "timed_state s \<or> s = DoIPServerState.Closed"
  shows "trace (transitionTo now s c) = trace c" "m_transport (transitionTo now s c) = m_transport c"
    "m_isOpen (transitionTo now s c) = m_isOpen c" "m_isClosing (transitionTo now s c) = m_isClosing c"
    "m_routedClientAddress (transitionTo now s c) = m_routedClientAddress c"
    "this_id (transitionTo now s c) = this_id c" "m_closeReason (transitionTo now s c) = m_closeReason c"
  by (rule transitionTo_shape [OF assms, of now c], simp)+

lemma transitionTo_state:
  assumes "timed_state s \<or> s = DoIPServerState.Closed"
  shows "m_state (transitionTo now s c) \<in> {s, DoIPServerState.Closed}"
  by (rule transitionTo_shape [OF assms, of now c]) simp

lemma timed_states [simp]:
  "timed_state DoIPServerState.WaitRoutingActivation" "timed_state DoIPServerState.RoutingActivated"
  "timed_state DoIPServerState.WaitAliveCheckResponse" "timed_state DoIPServerState.WaitDownstreamResponse"
  by (simp_all add: timed_state_def)

section \<open>Predicates on outcomes\<close>

fun post :: "('s \<Rightarrow> bool) \<Rightarrow> ('a, 's) outcome \<Rightarrow> bool" where
  "post P (Ok a s) = P s"
| "post P (Throw e s) = P s"
| "post P NoReturn = True"

lemma post_bind: "post P m \<Longrightarrow> (\<And>a s. P s \<Longrightarrow> post P (f a s)) \<Longrightarrow> post P (obind m f)"
  by (cases m) auto

lemma post_lift_res [simp]: "post P (lift_res r s) \<longleftrightarrow> P s"
  by (cases r) simp_all

lemma post_bind_value:
  assumes "post P m" and "\<And>a s. m = Ok a s \<Longrightarrow> P s \<Longrightarrow> post P (f a s)"
  shows "post P (obind m f)"
  using assms by (cases m) auto

section \<open>Invariants kept by the elementary actions\<close>

definition tp_active :: "'t conn_env \<Rightarrow> 't connection \<Rightarrow> bool" where
  "tp_active env c = tp_isActive (env_tp env) (m_transport c)"

text \<open>The messages a connection hands to the diagnostic callback.\<close>

definition authorised :: "DoIPMessage \<Rightarrow> 't connection \<Rightarrow> bool" where
  "authorised m c \<longleftrightarrow> getPayloadType m = DoIPPayloadType.DiagnosticMessage
     \<and> getSourceAddress m = Inr (Some (m_routedClientAddress c)) \<and> m_state c = DoIPServerState.RoutingActivated"

fun plain_event :: "conn_event \<Rightarrow> bool" where
  "plain_event (EvClosed r) = True"
| "plain_event (EvAckSent a) = True"
| "plain_event (EvDownstream m) = True"
| "plain_event e = False"

locale callback_actions = connection_transport inv "env_tp env"
  for inv :: "'t \<Rightarrow> bool" and env :: "'t conn_env" +
  fixes I :: "'t connection \<Rightarrow> bool"
  assumes I_send: "I c \<Longrightarrow> I (snd (sendProtocolMessage env m c))"
    and I_receive: "I c \<Longrightarrow> receiveProtocolMessage env c = Ok x c' \<Longrightarrow> I c'"
    and I_downstream: "I c \<Longrightarrow> I (receiveDownstreamResponse env b res c)"
    and I_client: "I c \<Longrightarrow> I (setClientAddress a c)"
    and I_plain: "I c \<Longrightarrow> plain_event e \<Longrightarrow> I (emit e c)"
begin

lemma inactive_send: "\<not> tp_active env c \<Longrightarrow> \<not> tp_active env (snd (sendProtocolMessage env m c))"
  by (simp add: tp_active_def sendProtocolMessage_def send_inactive emit_def)

lemma inactive_emit: "\<not> tp_active env c \<Longrightarrow> \<not> tp_active env (emit e c)"
  by (simp add: tp_active_def emit_def)

lemma inactive_client: "\<not> tp_active env c \<Longrightarrow> \<not> tp_active env (setClientAddress a c)"
  by (simp add: tp_active_def setClientAddress_def emit_def)

lemma inactive_receive:
  "\<not> tp_active env c \<Longrightarrow> post (\<lambda>c'. \<not> tp_active env c') (receiveProtocolMessage env c)"
  by (simp add: tp_active_def receiveProtocolMessage_def receive_inactive)

lemma inactive_transition:
  "\<not> tp_active env c \<Longrightarrow> timed_state s \<or> s = DoIPServerState.Closed \<Longrightarrow> \<not> tp_active env (transitionTo now s c)"
  by (simp add: tp_active_def)

definition keeps :: "'t closing \<Rightarrow> bool" where
  "keeps closing \<longleftrightarrow> (\<forall>r c. I c \<longrightarrow> post I (closing r c))"

lemma I_receive_post: "I c \<Longrightarrow> post I (receiveProtocolMessage env c)"
  using I_receive [of c]
  by (cases "receiveProtocolMessage env c")
    (auto simp: receiveProtocolMessage_def split: option.splits sum.splits)

lemma ctx_exec_I: "keeps closing \<Longrightarrow> I c \<Longrightarrow> post I (ctx_exec env closing call c)"
  by (cases call)
    (auto simp: keeps_def I_send I_client I_downstream intro!: post_bind I_receive_post)

lemma ctx_execs_I: "keeps closing \<Longrightarrow> I c \<Longrightarrow> post I (ctx_execs env closing calls c)"
  by (induction calls arbitrary: c) (auto intro!: post_bind ctx_exec_I)

end

text \<open>
  The handlers: the predicate is also kept by closing, by every change of state, by
  restarting the timer and by handing an authorised message to the application.
\<close>

locale handler_invariant = callback_actions inv env I
  for inv :: "'t \<Rightarrow> bool" and env :: "'t conn_env" and I :: "'t connection \<Rightarrow> bool" +
  assumes closing_I: "I c \<Longrightarrow> post I (closeConnection fuel env r c)"
    and to_state_I: "I c \<Longrightarrow> timed_state s \<or> s = DoIPServerState.Closed \<and> m_state c = DoIPServerState.Finalize \<Longrightarrow>
      I (transitionTo (env_now env) s c)"
    and restart_I: "I c \<Longrightarrow> I (restartStateTimer (env_now env) c)"
    and diagnostic_I: "I c \<Longrightarrow> authorised m c \<Longrightarrow> I (emit (EvDiagnostic m) c)"
begin

lemma closing_keeps: "keeps (closeConnection fuel env)"
  by (simp add: keeps_def closing_I)

lemma ackSent_I: "I c \<Longrightarrow> post I (notifyDiagnosticAckSent fuel env ack c)"
  by (auto simp: notifyDiagnosticAckSent_def I_plain split: option.split
      intro!: ctx_execs_I closing_keeps)

lemma sendDiagnosticMessageResponse_I:
  "I c \<Longrightarrow> post I (sendDiagnosticMessageResponse fuel env sa ack c)"
  using I_send [of c "diagnosticMessageResponse env sa ack"]
  by (cases "sendProtocolMessage env (diagnosticMessageResponse env sa ack) c")
    (auto simp: sendDiagnosticMessageResponse_def intro!: post_bind ackSent_I)

lemma notifyDownstreamRequest_I: "I c \<Longrightarrow> post I (notifyDownstreamRequest fuel env m c)"
  by (auto simp: notifyDownstreamRequest_def I_plain split: option.split prod.split
      intro!: post_bind ctx_execs_I closing_keeps)

lemma notifyDiagnosticMessage_I:
  "I c \<Longrightarrow> authorised m c \<Longrightarrow> post I (notifyDiagnosticMessage fuel env m c)"
  by (auto simp: notifyDiagnosticMessage_def diagnostic_I split: option.split prod.split
      intro!: post_bind ctx_execs_I closing_keeps)

lemma handleDownstream_I: "I c \<Longrightarrow> post I (handleDownstream fuel env sa m c)"
  by (auto simp: handleDownstream_def to_state_I split: DoIPDownstreamResult.split
      intro!: post_bind notifyDownstreamRequest_I sendDiagnosticMessageResponse_I)

lemma handleDiagnosticMessage_I:
  assumes "I c" and "getPayloadType m = DoIPPayloadType.DiagnosticMessage"
    and "m_state c = DoIPServerState.RoutingActivated"
  shows "post I (handleDiagnosticMessage fuel env m c)"
proof (cases "getSourceAddress m")
  case (Inl e)
  with assms(1) show ?thesis by (simp add: handleDiagnosticMessage_def)
next
  case (Inr r)
  show ?thesis
  proof (cases r)
    case None
    with Inr assms(1) show ?thesis by (simp add: handleDiagnosticMessage_def closing_I)
  next
    case (Some sa)
    show ?thesis
    proof (cases "sa = getClientAddress c")
      case False
      with Inr Some assms(1) show ?thesis
        by (simp add: handleDiagnosticMessage_def)
          (rule post_bind, simp_all add: sendDiagnosticMessageResponse_I)
    next
      case True
      with Inr Some assms have "authorised m c" by (simp add: authorised_def getClientAddress_def)
      then have n: "post I (notifyDiagnosticMessage fuel env m c)" by (rule notifyDiagnosticMessage_I [OF assms(1)])
      show ?thesis using True Inr Some n
        by (auto simp: handleDiagnosticMessage_def Let_def restart_I to_state_I split: option.split
            intro!: post_bind sendDiagnosticMessageResponse_I handleDownstream_I)
    qed
  qed
qed

lemma handleWaitRoutingActivation_I: "I c \<Longrightarrow> post I (handleWaitRoutingActivation fuel env msg c)"
  by (auto simp: handleWaitRoutingActivation_def sendRoutingActivationResponse_def Let_def to_state_I I_send
      I_client closing_I split: option.split intro!: post_bind)

lemma handleRoutingActivated_I:
  assumes "I c" and "m_state c = DoIPServerState.RoutingActivated"
  shows "post I (handleRoutingActivated fuel env msg c)"
proof -
  have r: "post I (obind (sendDiagnosticMessageResponse fuel env a k c) (\<lambda>_ c. Ok () c))" for a k
    by (rule post_bind, rule sendDiagnosticMessageResponse_I [OF assms(1)]) simp
  show ?thesis
  proof (cases msg)
    case None
    with assms show ?thesis by (simp add: handleRoutingActivated_def closing_I)
  next
    case (Some m)
    with assms r show ?thesis
      by (cases "getPayloadType m")
        (simp_all add: handleRoutingActivated_def restart_I handleDiagnosticMessage_I)
  qed
qed

lemma handleWaitAliveCheckResponse_I: "I c \<Longrightarrow> post I (handleWaitAliveCheckResponse fuel env msg c)"
  by (auto simp: handleWaitAliveCheckResponse_def to_state_I closing_I split: option.split
      intro!: post_bind sendDiagnosticMessageResponse_I)

lemma handleMessage_I: "I c \<Longrightarrow> post I (handleMessage fuel env m c)"
  by (cases "m_state c")
    (simp_all add: handleMessage_def handleSocketInitialized_def to_state_I handleWaitRoutingActivation_I
      handleRoutingActivated_I handleWaitAliveCheckResponse_I handleWaitDownstreamResponse_def handleFinalize_def)

lemma handleTimeout_I: "I c \<Longrightarrow> post I (handleTimeout fuel env timer c)"
  by (cases timer) (simp_all add: handleTimeout_def sendAliveCheckRequest_def Let_def to_state_I I_send closing_I)

lemma receiveMessage_I: "I c \<Longrightarrow> post I (receiveMessage fuel env c)"
  by (auto simp: receiveMessage_def split: option.split intro!: post_bind I_receive_post handleMessage_I)

end

text \<open>
  Closing: a predicate that each step of closing keeps is kept by closing as a whole, as
  deep as the application nests it.
\<close>

locale callback_invariant = callback_actions inv env I
  for inv :: "'t \<Rightarrow> bool" and env :: "'t conn_env" and I :: "'t connection \<Rightarrow> bool" +
  assumes I_to_Closed: "I c \<Longrightarrow> I (transitionTo (env_now env) DoIPServerState.Closed c)"
    and I_closing: "I c \<Longrightarrow> I (c\<lparr>m_isClosing := True\<rparr>)"
    and I_shutdown: "I c \<Longrightarrow> m_state c = DoIPServerState.Closed \<Longrightarrow>
      I (emit (EvTransportClose r) (c\<lparr>m_closeReason := r, m_timerManager := stopAll (m_timerManager c),
           m_transport := tp_close (env_tp env) r (m_transport c)\<rparr>))"
    and I_closed: "I c \<Longrightarrow> \<not> tp_active env c \<Longrightarrow> I (c\<lparr>m_isOpen := False\<rparr>)"
begin

definition calm :: "'t closing \<Rightarrow> bool" where
  "calm closing \<longleftrightarrow> keeps closing
     \<and> (\<forall>r c. \<not> tp_active env c \<longrightarrow> post (\<lambda>c. \<not> tp_active env c) (closing r c))"

lemma calm_keeps: "calm closing \<Longrightarrow> keeps closing"
  by (simp add: calm_def)

lemma ctx_exec_inactive:
  "calm closing \<Longrightarrow> \<not> tp_active env c \<Longrightarrow> post (\<lambda>c. \<not> tp_active env c) (ctx_exec env closing call c)"
proof (cases call)
  case CtxReceive
  then show "\<not> tp_active env c \<Longrightarrow> ?thesis"
    by (auto intro!: post_bind inactive_receive)
qed (auto simp: calm_def inactive_send receiveDownstreamResponse_def Let_def inactive_emit inactive_client
      inactive_transition)

lemma ctx_execs_inactive:
  "calm closing \<Longrightarrow> \<not> tp_active env c \<Longrightarrow> post (\<lambda>c. \<not> tp_active env c) (ctx_execs env closing calls c)"
  by (induction calls arbitrary: c) (auto intro!: post_bind ctx_exec_inactive)

lemma notifyClosed_both:
  assumes "calm closing" and "I c" and "\<not> tp_active env c"
  shows "post (\<lambda>c. I c \<and> \<not> tp_active env c) (notifyConnectionClosed env closing r c)"
proof (cases "onCloseConnection (env_model env)")
  case None
  with assms show ?thesis by (simp add: notifyConnectionClosed_def)
next
  case (Some f)
  let ?c = "emit (EvClosed r) c"
  have a: "\<not> tp_active env ?c" using assms(3) by (simp add: tp_active_def emit_def)
  have i: "I ?c" using assms(2) by (simp add: I_plain)
  have "post I (ctx_execs env closing (f c r) ?c)" "post (\<lambda>c. \<not> tp_active env c) (ctx_execs env closing (f c r) ?c)"
    by (rule ctx_execs_I [OF calm_keeps [OF assms(1)] i], rule ctx_execs_inactive [OF assms(1) a])
  with Some show ?thesis
    by (cases "ctx_execs env closing (f c r) ?c") (simp_all add: notifyConnectionClosed_def)
qed

lemma default_close_I:
  assumes "calm closing" and "I c"
  shows "post I (default_closeConnection env closing r c)"
proof -
  let ?c1 = "transitionTo (env_now env) DoIPServerState.Closed c"
  let ?c2 = "emit (EvTransportClose r) (?c1\<lparr>m_closeReason := r, m_timerManager := stopAll (m_timerManager ?c1),
       m_transport := tp_close (env_tp env) r (m_transport ?c1)\<rparr>)"
  have "m_state ?c1 = DoIPServerState.Closed" by (simp add: transitionTo_Closed)
  then have i: "I ?c2" using assms(2) by (intro I_shutdown I_to_Closed) simp_all
  have a: "\<not> tp_active env ?c2" by (simp add: tp_active_def emit_def close_inactive)
  have "default_closeConnection env closing r c =
      (case notifyConnectionClosed env closing r ?c2 of
            Ok _ c \<Rightarrow> Ok () (c\<lparr>m_isOpen := False\<rparr>)
          | Throw e c \<Rightarrow> if is_exception e then Ok () (c\<lparr>m_isOpen := False\<rparr>) else Throw e c
          | NoReturn \<Rightarrow> NoReturn)"
    by (simp add: default_closeConnection_def Let_def)
  with notifyClosed_both [OF assms(1) i a, of r] show ?thesis
    by (auto simp: I_closed split: outcome.split)
qed

lemma default_close_inactive:
  assumes "calm closing"
  shows "post (\<lambda>c. \<not> tp_active env c) (default_closeConnection env closing r c)"
proof -
  let ?c1 = "transitionTo (env_now env) DoIPServerState.Closed c"
  let ?c2 = "emit (EvTransportClose r) (?c1\<lparr>m_closeReason := r, m_timerManager := stopAll (m_timerManager ?c1),
       m_transport := tp_close (env_tp env) r (m_transport ?c1)\<rparr>)"
  have a: "\<not> tp_active env ?c2" by (simp add: tp_active_def emit_def close_inactive)
  then have e: "\<not> tp_active env (emit (EvClosed r) ?c2)" by (simp add: tp_active_def emit_def)
  have "post (\<lambda>c. \<not> tp_active env c) (notifyConnectionClosed env closing r ?c2)"
    using a ctx_execs_inactive [OF assms e]
    by (simp add: notifyConnectionClosed_def split: option.split)
  moreover have "default_closeConnection env closing r c =
      (case notifyConnectionClosed env closing r ?c2 of
            Ok _ c \<Rightarrow> Ok () (c\<lparr>m_isOpen := False\<rparr>)
          | Throw e c \<Rightarrow> if is_exception e then Ok () (c\<lparr>m_isOpen := False\<rparr>) else Throw e c
          | NoReturn \<Rightarrow> NoReturn)"
    by (simp add: default_closeConnection_def Let_def)
  ultimately show ?thesis
    by (auto simp: tp_active_def split: outcome.split)
qed

lemma closeConnection_calm: "calm (closeConnection fuel env)"
proof (induction fuel)
  case 0
  then show ?case by (simp add: calm_def keeps_def)
next
  case (Suc fuel)
  show ?case unfolding calm_def keeps_def
    by (auto simp: I_closing intro!: default_close_I [OF Suc] default_close_inactive [OF Suc])
qed

lemma close_I: "I c \<Longrightarrow> post I (closeConnection fuel env r c)"
  using closeConnection_calm [of fuel] by (simp add: calm_def keeps_def)

end

locale connection_invariant = callback_invariant inv env I
  for inv :: "'t \<Rightarrow> bool" and env :: "'t conn_env" and I :: "'t connection \<Rightarrow> bool" +
  assumes I_transition: "I c \<Longrightarrow> timed_state s \<or> s = DoIPServerState.Closed \<Longrightarrow> I (transitionTo (env_now env) s c)"
    and I_restart: "I c \<Longrightarrow> I (restartStateTimer (env_now env) c)"
    and I_diagnostic: "I c \<Longrightarrow> authorised m c \<Longrightarrow> I (emit (EvDiagnostic m) c)"

sublocale connection_invariant \<subseteq> handler_invariant
  by unfold_locales (auto simp: close_I I_transition I_restart I_diagnostic)

end
