(* ===== verification/DoIP_ConnectionReach.thy ===== *)
theory DoIP_ConnectionReach
  imports DoIP_ConnectionInv
begin

text \<open>
  The life of a connection as a sequence of stimuli: messages, expiring timers, downstream
  responses and requests of the application, at any time, with any application.  The
  theorems hold in every reachable state, also in the states an exception leaves behind.
\<close>

section \<open>Stimuli and reachable states\<close>

datatype stimulus =
    Received DoIPMessage
  | ReceiveCall
  | TimerFired ConnectionTimers
  | DownstreamArrived ByteArray DoIPDownstreamResult
  | CloseRequest DoIPCloseReason
  | SendRequest DoIPMessage

text \<open>
  A one-shot timer that expires is taken out of the table before its callback runs
  (\<open>run_pass\<close>); it can expire when its deadline is reached and its callback is bound to this
  object.
\<close>

fun react :: "nat \<Rightarrow> 't conn_env \<Rightarrow> stimulus \<Rightarrow> 't connection \<Rightarrow> (unit, 't connection) outcome" where
  "react fuel env (Received m) c = handleMessage fuel env m c"
| "react fuel env ReceiveCall c = obind (receiveMessage fuel env c) (\<lambda>_ c. Ok () c)"
| "react fuel env (TimerFired t) c =
     handleTimeout fuel env t (c\<lparr>m_timerManager := snd (removeTimer t (m_timerManager c))\<rparr>)"
| "react fuel env (DownstreamArrived b r) c = Ok () (receiveDownstreamResponse env b r c)"
| "react fuel env (CloseRequest r) c = closeConnection fuel env r c"
| "react fuel env (SendRequest m) c = Ok () (snd (sendProtocolMessage env m c))"

fun enabled_at :: "int \<Rightarrow> stimulus \<Rightarrow> 't connection \<Rightarrow> bool" where
  "enabled_at now (TimerFired t) c =
     (case deadline_of (m_timerManager c) t of None \<Rightarrow> False | Some (x, i) \<Rightarrow> x \<le> now \<and> i = this_id c)"
| "enabled_at now _ c = True"

fun leaves :: "('a, 's) outcome \<Rightarrow> 's \<Rightarrow> bool" where
  "leaves (Ok a s) s' = (s' = s)"
| "leaves (Throw e s) s' = (s' = s)"
| "leaves NoReturn s' = False"

definition mk_env :: "'t transport_ops \<Rightarrow> 't DoIPServerModel \<Rightarrow> bool \<Rightarrow> int \<Rightarrow> 't conn_env" where
  "mk_env tp model g now = \<lparr>env_tp = tp, env_model = model, env_now = now, env_guarded = g\<rparr>"

lemma mk_env_sel [simp]:
  "env_tp (mk_env tp model g now) = tp" "env_model (mk_env tp model g now) = model"
  "env_now (mk_env tp model g now) = now" "env_guarded (mk_env tp model g now) = g"
  by (simp_all add: mk_env_def)

inductive conn_reach ::
  "'t transport_ops \<Rightarrow> 't DoIPServerModel \<Rightarrow> bool \<Rightarrow> 't connection \<Rightarrow> 't connection \<Rightarrow> bool"
  for tp :: "'t transport_ops" and model :: "'t DoIPServerModel" and g :: bool and c0 :: "'t connection" where
  start: "conn_reach tp model g c0 c0"
| step: "conn_reach tp model g c0 c \<Longrightarrow> enabled_at now stim c \<Longrightarrow>
     leaves (react fuel (mk_env tp model g now) stim c) c' \<Longrightarrow> conn_reach tp model g c0 c'"

lemma post_leaves: "post P m \<Longrightarrow> leaves m s \<Longrightarrow> P s"
  by (cases m) auto

lemma post_mono: "post P m \<Longrightarrow> (\<And>s. P s \<Longrightarrow> Q s) \<Longrightarrow> post Q m"
  by (cases m) auto

lemma conn_reach_invariant:
  assumes "conn_reach tp model g c0 c" and "I c0"
    and "\<And>fuel now stim c. I c \<Longrightarrow> enabled_at now stim c \<Longrightarrow> post I (react fuel (mk_env tp model g now) stim c)"
  shows "I c"
  using assms(1,2)
proof (induction rule: conn_reach.induct)
  case (step c now stim fuel c')
  from assms(3) [OF step.IH [OF step.prems] step.hyps(2)] step.hyps(3) show ?case by (rule post_leaves)
qed

context handler_invariant
begin

lemma react_keeps:
  assumes "I c" and "\<And>t. stim = TimerFired t \<Longrightarrow> I (c\<lparr>m_timerManager := snd (removeTimer t (m_timerManager c))\<rparr>)"
  shows "post I (react fuel env stim c)"
proof (cases stim)
  case ReceiveCall
  then show ?thesis using assms(1) by (auto intro!: post_bind receiveMessage_I)
qed (use assms in \<open>auto simp: handleMessage_I I_downstream closing_I I_send intro!: handleTimeout_I\<close>)

end

context connection_invariant
begin

lemmas react_I = react_keeps

end

section \<open>Timer discipline and silence after closing\<close>

definition sound_inv :: "'t transport_ops \<Rightarrow> 't connection \<Rightarrow> bool" where
  "sound_inv tp c \<longleftrightarrow>
     (m_state c \<noteq> DoIPServerState.SocketInitialized
        \<longrightarrow> tms.owned (state_timer (m_state c)) (this_id c) (m_timerManager c))
     \<and> m_state c \<noteq> DoIPServerState.Finalize
     \<and> (\<not> m_isOpen c \<longrightarrow> \<not> tp_isActive tp (m_transport c))"

lemma sound_inv_cong:
  "m_state c' = m_state c \<Longrightarrow> this_id c' = this_id c \<Longrightarrow> m_timerManager c' = m_timerManager c \<Longrightarrow>
   m_isOpen c' = m_isOpen c \<Longrightarrow> (tp_isActive tp (m_transport c') \<longrightarrow> tp_isActive tp (m_transport c)) \<Longrightarrow>
   sound_inv tp c \<Longrightarrow> sound_inv tp c'"
  by (auto simp: sound_inv_def)

lemma sound_inv_transition:
  assumes "sound_inv tp c" and "timed_state s \<or> s = DoIPServerState.Closed"
  shows "sound_inv tp (transitionTo now s c)"
proof (cases "m_state c = s")
  case True
  with assms show ?thesis by simp
next
  case False
  have "s \<noteq> DoIPServerState.SocketInitialized" "s \<noteq> DoIPServerState.Finalize"
    using assms(2) by (auto simp: timed_state_def)
  with False assms show ?thesis
    by (cases "s = DoIPServerState.Closed")
      (auto simp: sound_inv_def transitionTo_Closed transitionTo_timed tms.owned_arm tms.owned_clear)
qed

context connection_transport
begin

lemma send_active: "tp_isActive ops (snd (tp_send ops m t)) \<Longrightarrow> tp_isActive ops t"
  using send_inactive [of t m] by (cases "tp_isActive ops t") auto

lemma receive_active: "tp_receive ops t = Some (Inr (x, t')) \<Longrightarrow> tp_isActive ops t' \<Longrightarrow> tp_isActive ops t"
  using receive_inactive [of t] by (cases "tp_isActive ops t") auto

end

lemma sound_inv_send:
  assumes "connection_transport ti tp" and "sound_inv tp c"
  shows "sound_inv tp (snd (sendProtocolMessage (mk_env tp model g now) m c))"
proof -
  obtain r t where s: "tp_send tp m (m_transport c) = (r, t)" by (cases "tp_send tp m (m_transport c)")
  have "tp_isActive tp t \<longrightarrow> tp_isActive tp (m_transport c)"
    using connection_transport.send_active [OF assms(1), of m "m_transport c"] s by simp
  then show ?thesis
    by (intro sound_inv_cong [OF _ _ _ _ _ assms(2)]) (simp_all add: sendProtocolMessage_def emit_def s)
qed

lemma sound_inv_receive:
  assumes "connection_transport ti tp" and "sound_inv tp c"
    and "receiveProtocolMessage (mk_env tp model g now) c = Ok x c'"
  shows "sound_inv tp c'"
  using assms(3) connection_transport.receive_active [OF assms(1)]
  by (intro sound_inv_cong [OF _ _ _ _ _ assms(2)])
    (auto simp: receiveProtocolMessage_def split: option.splits sum.splits)

lemma sound_inv_emit: "sound_inv tp c \<Longrightarrow> sound_inv tp (emit e c)"
  by (rule sound_inv_cong) (simp_all add: emit_def)

lemma mk_env_transport:
  "connection_transport ti tp \<Longrightarrow> connection_transport ti (env_tp (mk_env tp model g now))"
  by simp

lemma sound_inv_locale:
  assumes ct: "connection_transport ti tp"
  shows "connection_invariant ti (mk_env tp model g now) (sound_inv tp)"
proof (intro connection_invariant.intro callback_invariant.intro connection_invariant_axioms.intro
    callback_invariant_axioms.intro callback_actions.intro callback_actions_axioms.intro mk_env_transport [OF ct])
  fix c :: "'a connection" and m s e r a x c' b res
  assume I: "sound_inv tp c"
  show "sound_inv tp (snd (sendProtocolMessage (mk_env tp model g now) m c))" by (rule sound_inv_send [OF ct I])
  show "receiveProtocolMessage (mk_env tp model g now) c = Ok x c' \<Longrightarrow> sound_inv tp c'"
    by (rule sound_inv_receive [OF ct I])
  show "sound_inv tp (transitionTo (env_now (mk_env tp model g now)) DoIPServerState.Closed c)"
    by (rule sound_inv_transition [OF I]) simp
  show "sound_inv tp (receiveDownstreamResponse (mk_env tp model g now) b res c)"
    by (simp add: receiveDownstreamResponse_def Let_def I sound_inv_transition sound_inv_send [OF ct] sound_inv_emit)
  show "timed_state s \<or> s = DoIPServerState.Closed \<Longrightarrow>
      sound_inv tp (transitionTo (env_now (mk_env tp model g now)) s c)"
    by (rule sound_inv_transition [OF I])
  show "sound_inv tp (restartStateTimer (env_now (mk_env tp model g now)) c)"
    using I by (simp add: restartStateTimer_def sound_inv_def tms.owned_restart)
  show "sound_inv tp (setClientAddress a c)"
    by (rule sound_inv_cong [OF _ _ _ _ _ I]) (simp_all add: setClientAddress_def emit_def)
  show "sound_inv tp (emit e c)" by (rule sound_inv_emit [OF I])
  show "sound_inv tp (emit (EvDiagnostic m) c)" by (rule sound_inv_emit [OF I])
  show "sound_inv tp (c\<lparr>m_isClosing := True\<rparr>)" by (rule sound_inv_cong [OF _ _ _ _ _ I]) simp_all
  show "m_state c = DoIPServerState.Closed \<Longrightarrow>
      sound_inv tp (emit (EvTransportClose r) (c\<lparr>m_closeReason := r, m_timerManager := stopAll (m_timerManager c),
           m_transport := tp_close (env_tp (mk_env tp model g now)) r (m_transport c)\<rparr>))"
    using connection_transport.close_inactive [OF ct]
    by (simp add: sound_inv_def emit_def tms.owned_clear)
  show "\<not> tp_active (mk_env tp model g now) c \<Longrightarrow> sound_inv tp (c\<lparr>m_isOpen := False\<rparr>)"
    using I by (simp add: sound_inv_def tp_active_def)
qed

lemma sound_inv_react:
  assumes "connection_transport ti tp" and "sound_inv tp c"
  shows "post (sound_inv tp) (react fuel (mk_env tp model g now) stim c)"
  by (rule connection_invariant.react_I [OF sound_inv_locale [OF assms(1)] assms(2)])
    (use assms(2) in \<open>auto simp: sound_inv_def owned_remove\<close>)

context callback_actions
begin

lemma open_exec_I: "I c \<Longrightarrow> post I (open_exec env calls c)"
proof (induction calls arbitrary: c)
  case (Cons call calls)
  then show ?case
    by (cases call) (auto simp: I_send I_client intro!: post_bind I_receive_post)
qed simp

lemma connection_new_I:
  assumes "\<And>c0. trace c0 = [EvOpened] \<Longrightarrow> m_state c0 = DoIPServerState.SocketInitialized \<Longrightarrow> m_isOpen c0 \<Longrightarrow>
      m_routedClientAddress c0 = client \<Longrightarrow> \<not> m_isClosing c0 \<Longrightarrow> m_initialInactivityTimeout c0 = 2000 \<Longrightarrow>
      m_generalInactivityTimeout c0 = 300000 \<Longrightarrow> m_aliveCheckTimeout c0 = 500 \<Longrightarrow>
      m_aliveCheckRetryCount c0 = retries \<Longrightarrow> this_id c0 = this \<Longrightarrow> m_timerManager c0 = tm \<Longrightarrow> m_transport c0 = t \<Longrightarrow> I c0"
    and "\<And>c. I c \<Longrightarrow> I (transitionTo (env_now env) DoIPServerState.WaitRoutingActivation c)"
    and "connection_new env this t tm client retries = Ok () c"
  shows "I c"
proof -
  define c0 where "c0 = \<lparr>this_id = this, m_transport = t, m_timerManager = tm, m_routedClientAddress = client,
               m_isOpen = True, m_closeReason = DoIPCloseReason.NoReason, m_state = DoIPServerState.SocketInitialized,
               m_aliveCheckRetry = 0, m_aliveCheckRetryCount = retries, m_initialInactivityTimeout = 2000,
               m_generalInactivityTimeout = 300000, m_aliveCheckTimeout = 500, m_downstreamResponseTimeout = 10000,
               m_isClosing = False, trace = []\<rparr>"
  obtain f where f: "onOpenConnection (env_model env) = Some f"
    using assms(3) by (cases "onOpenConnection (env_model env)") (simp_all add: connection_new_def Let_def)
  then have e: "obind (open_exec env (f c0) (emit EvOpened c0)) (\<lambda>_ c.
              Ok () (transitionTo (env_now env) DoIPServerState.WaitRoutingActivation c)) = Ok () c"
    using assms(3) by (simp add: connection_new_def Let_def c0_def)
  have "I (emit EvOpened c0)" by (rule assms(1)) (simp_all add: emit_def c0_def)
  then have "post I (open_exec env (f c0) (emit EvOpened c0))" by (rule open_exec_I)
  with e assms(2) show ?thesis by (cases "open_exec env (f c0) (emit EvOpened c0)") auto
qed

end

lemma sound_inv_new:
  assumes "connection_transport ti tp" and "connection_new (mk_env tp model g now) this t tm client retries = Ok () c"
  shows "sound_inv tp c"
proof -
  note loc = sound_inv_locale [OF assms(1), of model g now]
  show ?thesis
    by (rule callback_actions.connection_new_I [OF callback_invariant.axioms(1) [OF connection_invariant.axioms(1) [OF loc]] _ _ assms(2)])
      (simp add: sound_inv_def, rule sound_inv_transition, simp_all)
qed

lemma sound_inv_reach:
  assumes "connection_transport ti tp" and "connection_new (mk_env tp model g now0) this t tm client retries = Ok () c0"
    and "conn_reach tp model g c0 c"
  shows "sound_inv tp c"
  by (rule conn_reach_invariant [where I = "sound_inv tp", OF assms(3) sound_inv_new [OF assms(1,2)]])
    (rule sound_inv_react [OF assms(1)])

interpretation mock_sound: connection_invariant "\<lambda>_. True" "mk_env mock_ops model g now" "sound_inv mock_ops"
  for model g now
  by (rule sound_inv_locale) (rule mock.connection_transport_axioms)

interpretation tcp_sound: connection_invariant "\<lambda>_. recv_bounded os" "mk_env (tcp_ops os) model g now" "sound_inv (tcp_ops os)"
  for os model g now
  by (rule sound_inv_locale) (rule tcp.connection_transport_axioms)

text \<open>Nothing more is sent: every attempt after a point in the trace is refused.\<close>

definition silent_since :: "'t transport_ops \<Rightarrow> conn_event list \<Rightarrow> 't connection \<Rightarrow> bool" where
  "silent_since tp tr c \<longleftrightarrow> \<not> tp_isActive tp (m_transport c)
     \<and> (\<exists>l. trace c = tr @ l \<and> (\<forall>m r. EvSend m r \<in> set l \<longrightarrow> r = - 1))"

lemma silent_emit: "silent_since tp tr c \<Longrightarrow> (\<And>m r. e = EvSend m r \<Longrightarrow> r = - 1) \<Longrightarrow> silent_since tp tr (emit e c)"
proof -
  assume h: "silent_since tp tr c" and e: "\<And>m r. e = EvSend m r \<Longrightarrow> r = - 1"
  then obtain l where l: "trace c = tr @ l" "\<forall>m r. EvSend m r \<in> set l \<longrightarrow> r = - 1" by (auto simp: silent_since_def)
  with h e show ?thesis
    unfolding silent_since_def by (intro conjI exI [of _ "l @ [e]"]) (auto simp: emit_def)
qed

lemma silent_cong:
  "silent_since tp tr c \<Longrightarrow> m_transport c' = m_transport c \<Longrightarrow> trace c' = trace c \<Longrightarrow> silent_since tp tr c'"
  by (simp add: silent_since_def)

lemma silent_send:
  assumes "connection_transport ti tp" and "silent_since tp tr c"
  shows "silent_since tp tr (snd (sendProtocolMessage (mk_env tp model g now) m c))"
proof -
  have "tp_send tp m (m_transport c) = (- 1, m_transport c)"
    using assms by (auto simp: silent_since_def intro: connection_transport.send_inactive)
  then show ?thesis
    using silent_emit [OF assms(2), of "EvSend m (- 1)"] by (simp add: sendProtocolMessage_def)
qed

lemma silent_locale:
  assumes ct: "connection_transport ti tp"
  shows "connection_invariant ti (mk_env tp model g now) (silent_since tp tr)"
proof (intro connection_invariant.intro callback_invariant.intro connection_invariant_axioms.intro
    callback_invariant_axioms.intro callback_actions.intro callback_actions_axioms.intro mk_env_transport [OF ct])
  fix c :: "'a connection" and m s e r a x c' b res
  assume I: "silent_since tp tr c"
  then have off: "\<not> tp_isActive tp (m_transport c)" by (simp add: silent_since_def)
  note cong = silent_cong [OF I] and emit = silent_emit [OF I]
  show "silent_since tp tr (snd (sendProtocolMessage (mk_env tp model g now) m c))" by (rule silent_send [OF ct I])
  show "receiveProtocolMessage (mk_env tp model g now) c = Ok x c' \<Longrightarrow> silent_since tp tr c'"
    using connection_transport.receive_inactive [OF ct off] by (auto simp: receiveProtocolMessage_def intro: cong)
  show "silent_since tp tr (transitionTo (env_now (mk_env tp model g now)) DoIPServerState.Closed c)"
    by (rule cong) simp_all
  show "silent_since tp tr (receiveDownstreamResponse (mk_env tp model g now) b res c)"
    unfolding receiveDownstreamResponse_def Let_def
    by (rule silent_cong [OF silent_send [OF ct emit]]) simp_all
  show "timed_state s \<or> s = DoIPServerState.Closed \<Longrightarrow>
      silent_since tp tr (transitionTo (env_now (mk_env tp model g now)) s c)" by (rule cong) simp_all
  show "silent_since tp tr (restartStateTimer (env_now (mk_env tp model g now)) c)"
    "silent_since tp tr (c\<lparr>m_isClosing := True\<rparr>)" "silent_since tp tr (c\<lparr>m_isOpen := False\<rparr>)"
    by (rule cong; simp add: restartStateTimer_def)+
  show "silent_since tp tr (setClientAddress a c)"
    unfolding setClientAddress_def by (rule silent_emit [OF cong]) simp_all
  show "plain_event e \<Longrightarrow> silent_since tp tr (emit e c)" by (rule emit) auto
  show "silent_since tp tr (emit (EvDiagnostic m) c)" by (rule emit) simp
  show "silent_since tp tr (emit (EvTransportClose r) (c\<lparr>m_closeReason := r,
      m_timerManager := stopAll (m_timerManager c), m_transport := tp_close (env_tp (mk_env tp model g now)) r (m_transport c)\<rparr>))"
    using I connection_transport.close_inactive [OF ct]
    by (intro silent_emit) (simp_all add: silent_since_def)
qed

lemma silent_reach:
  assumes "connection_transport ti tp" and "silent_since tp tr c" and "conn_reach tp model g c c'"
  shows "silent_since tp tr c'"
  by (rule conn_reach_invariant [where I = "silent_since tp tr", OF assms(3,2)])
    (rule connection_invariant.react_I [OF silent_locale [OF assms(1)]], auto intro: silent_cong)

section \<open>Authorisation of diagnostic messages\<close>

text \<open>
  \<open>client_of\<close> is the client address registered last (at first the uninitialised member);
  \<open>registered\<close> says that a client was registered by a routing activation or by the
  application, or that the application delivered a downstream response.
\<close>

fun client_of :: "DoIPAddress \<Rightarrow> conn_event list \<Rightarrow> DoIPAddress" where
  "client_of a [] = a"
| "client_of a (EvClientAddress b # es) = client_of b es"
| "client_of a (_ # es) = client_of a es"

fun registers :: "conn_event \<Rightarrow> bool" where
  "registers (EvClientAddress a) = True"
| "registers EvDownstreamResponse = True"
| "registers _ = False"

definition registered :: "conn_event list \<Rightarrow> bool" where
  "registered es \<longleftrightarrow> list_ex registers es"

definition auth_ok :: "DoIPAddress \<Rightarrow> conn_event list \<Rightarrow> bool" where
  "auth_ok a es \<longleftrightarrow> (\<forall>pre m suf. es = pre @ EvDiagnostic m # suf \<longrightarrow>
     getPayloadType m = DoIPPayloadType.DiagnosticMessage
     \<and> getSourceAddress m = Inr (Some (client_of a pre)) \<and> registered pre)"

lemma client_of_append: "client_of a (es @ fs) = client_of (client_of a es) fs"
  by (induction a es rule: client_of.induct) simp_all

lemma registered_append [simp]: "registered (es @ fs) \<longleftrightarrow> registered es \<or> registered fs"
  by (simp add: registered_def)

lemma auth_ok_snoc:
  "auth_ok a (es @ [e]) \<longleftrightarrow> auth_ok a es \<and> (\<forall>m. e = EvDiagnostic m \<longrightarrow>
     getPayloadType m = DoIPPayloadType.DiagnosticMessage
     \<and> getSourceAddress m = Inr (Some (client_of a es)) \<and> registered es)"
proof (intro iffI conjI allI impI)
  assume A: "auth_ok a (es @ [e])"
  show "auth_ok a es"
    unfolding auth_ok_def
  proof (intro allI impI)
    fix pre m suf assume "es = pre @ EvDiagnostic m # suf"
    then have "es @ [e] = pre @ EvDiagnostic m # (suf @ [e])" by simp
    with A show "getPayloadType m = DoIPPayloadType.DiagnosticMessage
        \<and> getSourceAddress m = Inr (Some (client_of a pre)) \<and> registered pre"
      unfolding auth_ok_def by metis
  qed
  fix m assume "e = EvDiagnostic m"
  then have "es @ [e] = es @ EvDiagnostic m # []" by simp
  with A have "getPayloadType m = DoIPPayloadType.DiagnosticMessage
      \<and> getSourceAddress m = Inr (Some (client_of a es)) \<and> registered es"
    unfolding auth_ok_def by metis
  then show "getPayloadType m = DoIPPayloadType.DiagnosticMessage"
    "getSourceAddress m = Inr (Some (client_of a es))" "registered es" by simp_all
next
  assume A: "auth_ok a es \<and> (\<forall>m. e = EvDiagnostic m \<longrightarrow> getPayloadType m = DoIPPayloadType.DiagnosticMessage
     \<and> getSourceAddress m = Inr (Some (client_of a es)) \<and> registered es)"
  show "auth_ok a (es @ [e])"
    unfolding auth_ok_def
  proof (intro allI impI)
    fix pre m suf assume e: "es @ [e] = pre @ EvDiagnostic m # suf"
    show "getPayloadType m = DoIPPayloadType.DiagnosticMessage
        \<and> getSourceAddress m = Inr (Some (client_of a pre)) \<and> registered pre"
    proof (cases suf rule: rev_cases)
      case Nil
      with e A show ?thesis by simp
    next
      case (snoc suf' x)
      with e have "es = pre @ EvDiagnostic m # suf'" by simp
      with A show ?thesis unfolding auth_ok_def by metis
    qed
  qed
qed

definition auth_base :: "DoIPAddress \<Rightarrow> 't connection \<Rightarrow> bool" where
  "auth_base a c \<longleftrightarrow> auth_ok a (trace c) \<and> m_routedClientAddress c = client_of a (trace c)"

text \<open>Before anyone is registered the connection is in one of the states that accept no diagnostics.\<close>

definition auth_inv :: "DoIPAddress \<Rightarrow> 't connection \<Rightarrow> bool" where
  "auth_inv a c \<longleftrightarrow> auth_base a c \<and> (registered (trace c)
     \<or> m_state c \<in> {DoIPServerState.SocketInitialized, DoIPServerState.WaitRoutingActivation, DoIPServerState.Closed})"

definition auth_reg :: "DoIPAddress \<Rightarrow> 't connection \<Rightarrow> bool" where
  "auth_reg a c \<longleftrightarrow> auth_base a c \<and> registered (trace c)"

lemma auth_base_cong:
  "auth_base a c \<Longrightarrow> trace c' = trace c \<Longrightarrow> m_routedClientAddress c' = m_routedClientAddress c \<Longrightarrow> auth_base a c'"
  by (simp add: auth_base_def)

lemma auth_base_emit:
  "auth_base a c \<Longrightarrow> (\<And>m. e \<noteq> EvDiagnostic m) \<Longrightarrow> (\<And>b. e \<noteq> EvClientAddress b) \<Longrightarrow> auth_base a (emit e c)"
  by (cases e) (auto simp: auth_base_def emit_def auth_ok_snoc client_of_append)

lemma auth_base_client: "auth_base a c \<Longrightarrow> auth_base a (setClientAddress b c)"
  by (simp add: auth_base_def setClientAddress_def emit_def auth_ok_snoc client_of_append)

lemma registered_client: "registered (trace (setClientAddress b c))"
  by (simp add: setClientAddress_def emit_def registered_def)

lemma send_trace:
  "\<exists>r. trace (snd (sendProtocolMessage env m c)) = trace c @ [EvSend m r]"
  "m_routedClientAddress (snd (sendProtocolMessage env m c)) = m_routedClientAddress c"
  "m_state (snd (sendProtocolMessage env m c)) = m_state c"
  by (cases "tp_send (env_tp env) m (m_transport c)"; simp add: sendProtocolMessage_def emit_def)+

lemma auth_base_send: "auth_base a c \<Longrightarrow> auth_base a (snd (sendProtocolMessage env m c))"
  using send_trace [of env m c] by (auto simp: auth_base_def auth_ok_snoc client_of_append)

lemma registered_send: "registered (trace c) \<Longrightarrow> registered (trace (snd (sendProtocolMessage env m c)))"
  using send_trace(1) [of env m c] by auto

lemma receive_fields:
  assumes "receiveProtocolMessage env c = Ok x c'"
  shows "trace c' = trace c" "m_routedClientAddress c' = m_routedClientAddress c" "m_state c' = m_state c"
  using assms by (auto simp: receiveProtocolMessage_def split: option.splits sum.splits)

lemma auth_base_transition [simp]:
  "timed_state s \<or> s = DoIPServerState.Closed \<Longrightarrow> auth_base a (transitionTo now s c) = auth_base a c"
  by (simp add: auth_base_def)

lemma auth_reg_downstream:
  assumes "auth_base a c" shows "auth_reg a (receiveDownstreamResponse env b r c)"
proof -
  have "auth_base a (emit EvDownstreamResponse c)" by (rule auth_base_emit [OF assms]) simp_all
  moreover have "registered (trace (emit EvDownstreamResponse c))" by (simp add: emit_def registered_def)
  ultimately have "auth_base a (snd (sendProtocolMessage env m (emit EvDownstreamResponse c)))"
    and "registered (trace (snd (sendProtocolMessage env m (emit EvDownstreamResponse c))))" for m
    by (simp_all add: auth_base_send registered_send)
  then show ?thesis
    by (simp add: receiveDownstreamResponse_def Let_def auth_reg_def)
qed

lemma auth_reg_locale:
  assumes ct: "connection_transport ti tp"
  shows "connection_invariant ti (mk_env tp model g now) (auth_reg a)"
proof (intro connection_invariant.intro callback_invariant.intro connection_invariant_axioms.intro
    callback_invariant_axioms.intro callback_actions.intro callback_actions_axioms.intro mk_env_transport [OF ct])
  fix c :: "'a connection" and m s e r b x c' bs res
  assume I: "auth_reg a c"
  then have B: "auth_base a c" and R: "registered (trace c)" by (simp_all add: auth_reg_def)
  have cong: "auth_reg a d" if "trace d = trace c" "m_routedClientAddress d = m_routedClientAddress c" for d
    using that auth_base_cong [OF B] R by (simp add: auth_reg_def)
  show "auth_reg a (snd (sendProtocolMessage (mk_env tp model g now) m c))"
    by (simp add: auth_reg_def auth_base_send [OF B] registered_send [OF R])
  show "receiveProtocolMessage (mk_env tp model g now) c = Ok x c' \<Longrightarrow> auth_reg a c'"
    by (rule cong) (simp_all add: receive_fields)
  show "auth_reg a (transitionTo (env_now (mk_env tp model g now)) DoIPServerState.Closed c)"
    by (rule cong) simp_all
  show "auth_reg a (receiveDownstreamResponse (mk_env tp model g now) bs res c)" by (rule auth_reg_downstream [OF B])
  show "auth_reg a (setClientAddress b c)" by (simp add: auth_reg_def auth_base_client [OF B] registered_client)
  show "plain_event e \<Longrightarrow> auth_reg a (emit e c)"
    using R by (auto simp: auth_reg_def emit_def intro!: auth_base_emit [OF B, unfolded emit_def])
  show "auth_reg a (c\<lparr>m_isClosing := True\<rparr>)" "auth_reg a (c\<lparr>m_isOpen := False\<rparr>)"
    "auth_reg a (restartStateTimer (env_now (mk_env tp model g now)) c)"
    by (rule cong; simp add: restartStateTimer_def)+
  show "timed_state s \<or> s = DoIPServerState.Closed \<Longrightarrow>
      auth_reg a (transitionTo (env_now (mk_env tp model g now)) s c)" by (rule cong) simp_all
  show "auth_reg a (emit (EvTransportClose r) (c\<lparr>m_closeReason := r, m_timerManager := stopAll (m_timerManager c),
      m_transport := tp_close (env_tp (mk_env tp model g now)) r (m_transport c)\<rparr>))"
    using I by (simp add: auth_reg_def auth_base_def emit_def auth_ok_snoc client_of_append)
  show "authorised m c \<Longrightarrow> auth_reg a (emit (EvDiagnostic m) c)"
    using I by (auto simp: auth_reg_def auth_base_def emit_def auth_ok_snoc client_of_append authorised_def)
qed

lemma auth_reg_inv: "auth_reg a c \<Longrightarrow> auth_inv a c"
  by (simp add: auth_reg_def auth_inv_def)

lemma auth_inv_state:
  "auth_inv a c \<Longrightarrow> m_state c \<in> {DoIPServerState.RoutingActivated, DoIPServerState.WaitAliveCheckResponse,
     DoIPServerState.WaitDownstreamResponse, DoIPServerState.Finalize} \<Longrightarrow> auth_reg a c"
  by (auto simp: auth_inv_def auth_reg_def)

lemma auth_inv_cong:
  "auth_inv a c \<Longrightarrow> trace c' = trace c \<Longrightarrow> m_routedClientAddress c' = m_routedClientAddress c \<Longrightarrow>
   m_state c' \<in> {m_state c, DoIPServerState.WaitRoutingActivation, DoIPServerState.Closed} \<Longrightarrow> auth_inv a c'"
  by (auto simp: auth_inv_def auth_base_def)

lemma auth_inv_emit:
  assumes "auth_inv a c" and "\<And>m. e \<noteq> EvDiagnostic m" and "\<And>b. e \<noteq> EvClientAddress b"
  shows "auth_inv a (emit e c)"
proof -
  have "auth_base a (emit e c)" using assms by (intro auth_base_emit) (simp_all add: auth_inv_def)
  then show ?thesis using assms(1) by (auto simp: auth_inv_def emit_def)
qed

lemma auth_inv_locale:
  assumes ct: "connection_transport ti tp"
  shows "callback_invariant ti (mk_env tp model g now) (auth_inv a)"
proof (intro callback_invariant.intro callback_invariant_axioms.intro callback_actions.intro callback_actions_axioms.intro mk_env_transport [OF ct])
  fix c :: "'a connection" and m s e r b x c' bs res
  assume I: "auth_inv a c"
  then have B: "auth_base a c" by (simp add: auth_inv_def)
  note cong = auth_inv_cong [OF I]
  show "auth_inv a (snd (sendProtocolMessage (mk_env tp model g now) m c))"
    using I by (auto simp: auth_inv_def auth_base_send [OF B] send_trace(3) intro: registered_send)
  show "receiveProtocolMessage (mk_env tp model g now) c = Ok x c' \<Longrightarrow> auth_inv a c'"
    by (rule cong) (simp_all add: receive_fields)
  show "auth_inv a (transitionTo (env_now (mk_env tp model g now)) DoIPServerState.Closed c)"
    by (rule cong) (simp_all add: transitionTo_Closed)
  show "auth_inv a (receiveDownstreamResponse (mk_env tp model g now) bs res c)"
    by (rule auth_reg_inv [OF auth_reg_downstream [OF B]])
  show "auth_inv a (setClientAddress b c)"
    by (simp add: auth_inv_def auth_base_client [OF B] registered_client)
  show "plain_event e \<Longrightarrow> auth_inv a (emit e c)" by (rule auth_inv_emit [OF I]) auto
  show "auth_inv a (c\<lparr>m_isClosing := True\<rparr>)" "auth_inv a (c\<lparr>m_isOpen := False\<rparr>)" by (rule cong; simp)+
  show "auth_inv a (emit (EvTransportClose r) (c\<lparr>m_closeReason := r, m_timerManager := stopAll (m_timerManager c),
      m_transport := tp_close (env_tp (mk_env tp model g now)) r (m_transport c)\<rparr>))"
    by (rule auth_inv_emit [OF cong]) simp_all
qed

lemmas auth_reg_react = connection_invariant.react_I [OF auth_reg_locale]
lemmas auth_inv_close = callback_invariant.close_I [OF auth_inv_locale]

lemma auth_inv_waiting:
  assumes ct: "connection_transport ti tp" and I: "auth_inv a c"
  shows "post (auth_inv a) (handleWaitRoutingActivation fuel (mk_env tp model g now) msg c)"
proof -
  let ?env = "mk_env tp model g now"
  note close = auth_inv_close [OF ct I, of fuel model g now]
  have B: "auth_base a c" using I by (simp add: auth_inv_def)
  have act: "auth_inv a (transitionTo now DoIPServerState.RoutingActivated
      (snd (sendRoutingActivationResponse ?env sa code (setClientAddress sa c))))" for sa code
  proof -
    have "auth_base a (snd (sendRoutingActivationResponse ?env sa code (setClientAddress sa c)))"
      "registered (trace (snd (sendRoutingActivationResponse ?env sa code (setClientAddress sa c))))"
      by (simp_all add: sendRoutingActivationResponse_def Let_def auth_base_send auth_base_client [OF B]
          registered_send registered_client)
    then show ?thesis by (simp add: auth_inv_def)
  qed
  show ?thesis
  proof (cases msg)
    case None
    then show ?thesis by (simp add: handleWaitRoutingActivation_def close)
  next
    case (Some m)
    obtain r where "getSourceAddress m = Inr r" using getSourceAddress_safe by blast
    with Some close act show ?thesis by (auto simp: handleWaitRoutingActivation_def Let_def)
  qed
qed

lemma auth_inv_message:
  assumes ct: "connection_transport ti tp" and I: "auth_inv a c" and "\<not> registered (trace c)"
  shows "post (auth_inv a) (handleMessage fuel (mk_env tp model g now) m c)"
proof -
  have "m_state c \<in> {DoIPServerState.SocketInitialized, DoIPServerState.WaitRoutingActivation, DoIPServerState.Closed}"
    using I assms(3) by (simp add: auth_inv_def)
  moreover have "auth_inv a (transitionTo now DoIPServerState.WaitRoutingActivation c)"
    using auth_inv_cong [OF I, of "transitionTo now DoIPServerState.WaitRoutingActivation c"]
      transitionTo_state [of DoIPServerState.WaitRoutingActivation now c] by auto
  ultimately show ?thesis
    using I by (auto simp: handleMessage_def handleSocketInitialized_def auth_inv_waiting [OF ct I])
qed

lemma auth_inv_timer:
  assumes ct: "connection_transport ti tp" and I: "auth_inv a c" and S: "sound_inv tp c"
    and "m_state c \<noteq> DoIPServerState.SocketInitialized"
    and "\<not> registered (trace c)" and e: "enabled_at now (TimerFired t) c"
  shows "post (auth_inv a) (react fuel (mk_env tp model g now) (TimerFired t) c)"
proof -
  let ?c = "c\<lparr>m_timerManager := snd (removeTimer t (m_timerManager c))\<rparr>"
  have "m_state c = DoIPServerState.WaitRoutingActivation \<or> m_state c = DoIPServerState.Closed"
    using I assms(4,5) by (auto simp: auth_inv_def)
  moreover have "t = state_timer (m_state c)"
    using e S assms(4) by (auto simp: sound_inv_def tms.owned_def split: option.splits)
  ultimately have t: "t = ConnectionTimers.InitialInactivity \<or> t = ConnectionTimers.UserDefined"
    by (auto simp: state_timer_def)
  have c: "auth_inv a ?c" by (rule auth_inv_cong [OF I]) simp_all
  with t show ?thesis by (auto simp: handleTimeout_def auth_inv_close [OF ct])
qed

lemma auth_inv_react:
  assumes ct: "connection_transport ti tp" and I: "auth_inv a c" and S: "sound_inv tp c"
    and st: "m_state c \<noteq> DoIPServerState.SocketInitialized" and e: "enabled_at now stim c"
  shows "post (auth_inv a) (react fuel (mk_env tp model g now) stim c)"
proof (cases "registered (trace c)")
  case True
  then have R: "auth_reg a c" using I by (simp add: auth_inv_def auth_reg_def)
  show ?thesis
    by (rule post_mono [OF auth_reg_react [OF ct R] auth_reg_inv])
      (use R in \<open>auto simp: auth_reg_def intro: auth_base_cong\<close>)
next
  case False
  note cb = auth_inv_locale [OF ct, of model g now a]
  show ?thesis
  proof (cases stim)
    case ReceiveCall
    have "post (auth_inv a) (receiveMessage fuel (mk_env tp model g now) c)"
      unfolding receiveMessage_def
    proof (rule post_bind_value [OF callback_actions.I_receive_post [OF callback_invariant.axioms(1) [OF cb] I]])
      fix x c' assume r: "receiveProtocolMessage (mk_env tp model g now) c = Ok x c'" and I': "auth_inv a c'"
      then have "\<not> registered (trace c')" using False by (simp add: receive_fields)
      from auth_inv_message [OF ct I' this] I'
      show "post (auth_inv a) (case x of None \<Rightarrow> Ok (- 1) c'
          | Some message \<Rightarrow> obind (handleMessage fuel (mk_env tp model g now) message c') (\<lambda>_. Ok 1))"
        by (auto split: option.split intro!: post_bind)
    qed
    then show ?thesis using ReceiveCall by (auto intro!: post_bind)
  next
    case (TimerFired t)
    with auth_inv_timer [OF ct I S st False] e show ?thesis by simp
  qed (use auth_inv_message [OF ct I False] callback_actions.I_downstream [OF callback_invariant.axioms(1) [OF cb] I] auth_inv_close [OF ct I]
      callback_actions.I_send [OF callback_invariant.axioms(1) [OF cb] I] in simp_all)
qed

lemma started_locale:
  assumes ct: "connection_transport ti tp"
  shows "connection_invariant ti (mk_env tp model g now) (\<lambda>c. m_state c \<noteq> DoIPServerState.SocketInitialized)"
proof -
  have tr: "m_state (transitionTo now s c) \<noteq> DoIPServerState.SocketInitialized"
    if "timed_state s \<or> s = DoIPServerState.Closed" for s now and c :: "'a connection"
    using transitionTo_state [OF that, of now c] that by (auto simp: timed_state_def)
  show ?thesis
    by (intro connection_invariant.intro callback_invariant.intro connection_invariant_axioms.intro
        callback_invariant_axioms.intro callback_actions.intro callback_actions_axioms.intro mk_env_transport [OF ct])
      (simp_all add: send_trace(3) receive_fields(3) tr receiveDownstreamResponse_def Let_def
        setClientAddress_def emit_def restartStateTimer_def)
qed

lemma started_new:
  assumes "connection_new (mk_env tp model g now) this t tm client retries = Ok () c"
  shows "m_state c \<noteq> DoIPServerState.SocketInitialized"
proof -
  obtain c1 where "c = transitionTo now DoIPServerState.WaitRoutingActivation c1"
    using assms by (auto simp: connection_new_def Let_def split: option.splits elim!: obind.elims)
  then show ?thesis
    using transitionTo_state [of DoIPServerState.WaitRoutingActivation now c1] by auto
qed

lemma started_reach:
  assumes "connection_transport ti tp" and "connection_new (mk_env tp model g now0) this t tm client retries = Ok () c0"
    and "conn_reach tp model g c0 c"
  shows "m_state c \<noteq> DoIPServerState.SocketInitialized"
  by (rule conn_reach_invariant [where I = "\<lambda>c. m_state c \<noteq> DoIPServerState.SocketInitialized",
        OF assms(3) started_new [OF assms(2)]])
    (rule connection_invariant.react_I [OF started_locale [OF assms(1)]], simp_all)

lemma auth_inv_new:
  assumes ct: "connection_transport ti tp" and "connection_new (mk_env tp model g now) this t tm client retries = Ok () c"
  shows "auth_inv client c"
proof (rule callback_actions.connection_new_I [OF callback_invariant.axioms(1) [OF auth_inv_locale [OF ct]] _ _ assms(2)])
  fix c :: "'a connection" assume I: "auth_inv client c"
  show "auth_inv client (transitionTo (env_now (mk_env tp model g now)) DoIPServerState.WaitRoutingActivation c)"
    by (rule auth_inv_cong [OF I]) (use transitionTo_state [of DoIPServerState.WaitRoutingActivation now c] in auto)
next
  fix c0 :: "'a connection"
  assume t: "trace c0 = [EvOpened]" and "m_state c0 = DoIPServerState.SocketInitialized" "m_routedClientAddress c0 = client"
  moreover have "auth_ok client ([] @ [EvOpened])" unfolding auth_ok_snoc by (simp add: auth_ok_def)
  ultimately show "auth_inv client c0" by (simp add: auth_inv_def auth_base_def)
qed

lemma auth_inv_reach:
  assumes "connection_transport ti tp" and "connection_new (mk_env tp model g now0) this t tm client retries = Ok () c0"
    and "conn_reach tp model g c0 c"
  shows "auth_inv client c"
proof -
  let ?I = "\<lambda>c. auth_inv client c \<and> sound_inv tp c \<and> m_state c \<noteq> DoIPServerState.SocketInitialized"
  have "?I c"
  proof (rule conn_reach_invariant [where I = ?I, OF assms(3)])
    show "?I c0" using auth_inv_new [OF assms(1,2)] sound_inv_new [OF assms(1,2)] started_new [OF assms(2)] by blast
    fix fuel now stim c assume h: "?I c" and e: "enabled_at now stim c"
    then have "post (auth_inv client) (react fuel (mk_env tp model g now) stim c)"
      "post (sound_inv tp) (react fuel (mk_env tp model g now) stim c)"
      "post (\<lambda>c. m_state c \<noteq> DoIPServerState.SocketInitialized) (react fuel (mk_env tp model g now) stim c)"
      by (auto intro!: auth_inv_react [OF assms(1)] sound_inv_react [OF assms(1)]
          connection_invariant.react_I [OF started_locale [OF assms(1)]])
    then show "post ?I (react fuel (mk_env tp model g now) stim c)"
      by (cases "react fuel (mk_env tp model g now) stim c") simp_all
  qed
  then show ?thesis by blast
qed

end
