(* ===== verification/DoIP_ConnectionBehaviour.thy ===== *)
theory DoIP_ConnectionBehaviour
  imports DoIP_ConnectionReach
begin

text \<open>
  What the handlers of a connection do, branch by branch: routing activation, diagnostic
  messages, the alive check, waiting for a downstream response, closing.  The theorems also
  record where the state machine gets stuck or comes back to life.
\<close>

section \<open>Quiet applications\<close>

text \<open>An application whose callbacks return without calling the connection.\<close>

definition quiet_app :: "'t DoIPServerModel \<Rightarrow> bool" where
  "quiet_app model \<longleftrightarrow>
     (\<forall>f c r. onCloseConnection model = Some f \<longrightarrow> f c r = [])
     \<and> (\<forall>f c m. onDiagnosticMessage model = Some f \<longrightarrow> snd (f c m) = [])
     \<and> (\<forall>f c a. onDiagnosticNotification model = Some f \<longrightarrow> f c a = [])
     \<and> (\<forall>f c m. onDownstreamRequest model = Some f \<longrightarrow> snd (f c m) = [])"

lemma quiet_default: "quiet_app DefaultDoIPServerModel"
  by (simp add: quiet_app_def DefaultDoIPServerModel_def)

text \<open>The acknowledgement and the downstream result the application gives for a message.\<close>

definition app_ack :: "'t DoIPServerModel \<Rightarrow> 't connection \<Rightarrow> DoIPMessage \<Rightarrow> DoIPDiagnosticAck" where
  "app_ack model c m = (case onDiagnosticMessage model of None \<Rightarrow> None | Some f \<Rightarrow> fst (f c m))"

definition ev_diag :: "'t DoIPServerModel \<Rightarrow> DoIPMessage \<Rightarrow> conn_event list" where
  "ev_diag model m = (if onDiagnosticMessage model = None then [] else [EvDiagnostic m])"

definition ev_ack :: "'t DoIPServerModel \<Rightarrow> DoIPDiagnosticAck \<Rightarrow> conn_event list" where
  "ev_ack model a = (if onDiagnosticNotification model = None then [] else [EvAckSent a])"

lemma emits: "c\<lparr>trace := trace c @ [e]\<rparr> = emit e c"
  by (simp add: emit_def)

lemma notifyDiagnosticMessage_quiet:
  "quiet_app (env_model env) \<Longrightarrow> notifyDiagnosticMessage fuel env m c =
     Ok (app_ack (env_model env) c m) (c\<lparr>trace := trace c @ ev_diag (env_model env) m\<rparr>)"
  by (cases "onDiagnosticMessage (env_model env)")
    (auto simp: notifyDiagnosticMessage_def app_ack_def ev_diag_def quiet_app_def emit_def split: prod.split,
     metis ctx_execs.simps(1) obind.simps(1) snd_conv)

lemma notifyDiagnosticAckSent_quiet:
  "quiet_app (env_model env) \<Longrightarrow>
     notifyDiagnosticAckSent fuel env a c = Ok () (c\<lparr>trace := trace c @ ev_ack (env_model env) a\<rparr>)"
  by (cases "onDiagnosticNotification (env_model env)")
    (simp_all add: notifyDiagnosticAckSent_def ev_ack_def quiet_app_def emit_def)

definition send_result :: "'t conn_env \<Rightarrow> DoIPMessage \<Rightarrow> 't connection \<Rightarrow> int" where
  "send_result env m c = fst (tp_send (env_tp env) m (m_transport c))"

lemma sendProtocolMessage_eq:
  "sendProtocolMessage env m c = (send_result env m c,
     c\<lparr>m_transport := snd (tp_send (env_tp env) m (m_transport c)), trace := trace c @ [EvSend m (send_result env m c)]\<rparr>)"
  by (cases "tp_send (env_tp env) m (m_transport c)") (simp add: sendProtocolMessage_def send_result_def emit_def)

lemma sendDiagnosticMessageResponse_quiet:
  "quiet_app (env_model env) \<Longrightarrow> sendDiagnosticMessageResponse fuel env sa a c =
     (let m = diagnosticMessageResponse env sa a
      in Ok (send_result env m c) (c\<lparr>m_transport := snd (tp_send (env_tp env) m (m_transport c)),
           trace := trace c @ [EvSend m (send_result env m c)] @ ev_ack (env_model env) a\<rparr>))"
  by (simp add: sendDiagnosticMessageResponse_def sendProtocolMessage_eq Let_def notifyDiagnosticAckSent_quiet)

section \<open>Routing activation\<close>

definition routingActivationResponse :: "'t conn_env \<Rightarrow> DoIPAddress \<Rightarrow> DoIPMessage" where
  "routingActivationResponse env sa = buildMessage DoIPPayloadType.RoutingActivationResponse
     (writeU16BE (writeU16BE [] sa) (getServerAddress env) @ [0x10, 0, 0, 0, 0])"

lemma handleWaitRoutingActivation_accept:
  assumes "getPayloadType m = DoIPPayloadType.RoutingActivationRequest" and "getSourceAddress m = Inr (Some sa)"
  shows "handleWaitRoutingActivation fuel env (Some m) c =
    Ok () (transitionTo (env_now env) DoIPServerState.RoutingActivated
      (snd (sendProtocolMessage env (routingActivationResponse env sa) (setClientAddress sa c))))"
  using assms
  by (simp add: handleWaitRoutingActivation_def Let_def sendRoutingActivationResponse_def routingActivationResponse_def)

lemma handleWaitRoutingActivation_reject:
  assumes "getPayloadType m \<noteq> DoIPPayloadType.RoutingActivationRequest \<or> getPayloadSize m < 2"
  shows "handleWaitRoutingActivation fuel env (Some m) c = closeConnection fuel env DoIPCloseReason.InvalidMessage c"
proof -
  obtain a where a: "getSourceAddress m = Inr (if hasSourceAddress m then Some a else None)"
    using getSourceAddress_safe by blast
  show ?thesis using assms a by (auto simp: handleWaitRoutingActivation_def hasSourceAddress_iff)
qed

lemma request_address:
  "getPayloadType m = DoIPPayloadType.RoutingActivationRequest \<Longrightarrow> 2 \<le> getPayloadSize m \<Longrightarrow>
     \<exists>sa. getSourceAddress m = Inr (Some sa)"
  using getSourceAddress_safe [of m] by (auto simp: hasSourceAddress_iff)

section \<open>A run with the mock transport\<close>

text \<open>
  A concrete server for the witnesses: mock transport, default application, a client that
  activates routing and sends a diagnostic message.
\<close>

definition demo_env :: "int \<Rightarrow> MockConnectionTransport conn_env" where
  "demo_env now = mk_env mock_ops DefaultDoIPServerModel True now"

definition demo_diag :: DoIPMessage where
  "demo_diag = makeDiagnosticMessage 0x0E80 0x0E00 [0x3E, 0x00]"

lemma demo_new:
  "\<exists>c. connection_new (demo_env 0) 1 (mock_new ''m'') timerManager_new 0 1 = Ok () c
     \<and> m_state c = DoIPServerState.WaitRoutingActivation \<and> trace c = [EvOpened] \<and> m_isOpen c
     \<and> m_generalInactivityTimeout c = 300000 \<and> \<not> m_isClosing c \<and> mock_isActive (m_transport c)
     \<and> m_aliveCheckTimeout c = 500 \<and> m_aliveCheckRetryCount c = 1"
  by (simp add: connection_new_def demo_env_def DefaultDoIPServerModel_def Let_def transitionTo_timed
      state_duration_def getTimerDuration_def emit_def mock_new_def)

lemma demo_activate:
  assumes "m_state c = DoIPServerState.WaitRoutingActivation" and "m_generalInactivityTimeout c \<noteq> 0"
  shows "\<exists>c' r. react fuel (demo_env now) (Received (makeRoutingActivationRequest sa act)) c = Ok () c'
    \<and> m_state c' = DoIPServerState.RoutingActivated \<and> m_routedClientAddress c' = sa
    \<and> trace c' = trace c @ [EvClientAddress sa, EvSend (routingActivationResponse (demo_env now) sa) r]
    \<and> m_isOpen c' = m_isOpen c"
proof -
  have "getPayloadType (makeRoutingActivationRequest sa act) = DoIPPayloadType.RoutingActivationRequest"
    "getSourceAddress (makeRoutingActivationRequest sa act) = Inr (Some sa)"
    by (simp_all add: makeRoutingActivationRequest_def Let_def writeU16BE_eq getSourceAddress_build byte_simps)
  note h = handleWaitRoutingActivation_accept [OF this]
  show ?thesis using assms
    by (simp add: handleMessage_def h sendProtocolMessage_eq setClientAddress_def emit_def transitionTo_timed
        state_duration_def getTimerDuration_def)
qed

section \<open>Diagnostic messages\<close>

text \<open>The connection after the acknowledgement of a diagnostic message was sent.\<close>

definition acked :: "'t conn_env \<Rightarrow> DoIPAddress \<Rightarrow> DoIPMessage \<Rightarrow> 't connection \<Rightarrow> 't connection" where
  "acked env sa m c =
     (let ack = app_ack (env_model env) c m;
          rsp = diagnosticMessageResponse env sa ack
      in restartStateTimer (env_now env)
           (c\<lparr>m_transport := snd (tp_send (env_tp env) rsp (m_transport c)),
              trace := trace c @ ev_diag (env_model env) m @ [EvSend rsp (send_result env rsp c)]
                @ ev_ack (env_model env) ack\<rparr>))"

lemma acked_fields [simp]:
  "m_state (acked env sa m c) = m_state c" "m_routedClientAddress (acked env sa m c) = m_routedClientAddress c"
  by (simp_all add: acked_def Let_def restartStateTimer_def)

lemma handleDiagnosticMessage_quiet:
  assumes "quiet_app (env_model env)" and "getSourceAddress m = Inr (Some (m_routedClientAddress c))"
    and "m_state c = DoIPServerState.RoutingActivated"
  shows "handleDiagnosticMessage fuel env m c =
    (if app_ack (env_model env) c m = None
     then handleDownstream fuel env (m_routedClientAddress c) m (acked env (m_routedClientAddress c) m c)
     else Ok () (acked env (m_routedClientAddress c) m c))"
proof -
  let ?c = "c\<lparr>trace := trace c @ ev_diag (env_model env) m\<rparr>"
  have s: "send_result env r ?c = send_result env r c" for r by (simp add: send_result_def)
  show ?thesis
    using assms(2,3) acked_fields(1) [of env "m_routedClientAddress c" m c]
    by (auto simp: handleDiagnosticMessage_def getClientAddress_def notifyDiagnosticMessage_quiet [OF assms(1)]
        sendDiagnosticMessageResponse_quiet [OF assms(1)] Let_def s acked_def split: option.split)
qed

lemma handleDownstream_none:
  "onDownstreamRequest (env_model env) = None \<Longrightarrow> handleDownstream fuel env sa m c = Ok () c"
  by (simp add: handleDownstream_def hasDownstreamHandler_def model_hasDownstreamHandler_def)

lemma demo_diag_fields:
  "getPayloadType demo_diag = DoIPPayloadType.DiagnosticMessage" "getSourceAddress demo_diag = Inr (Some 0x0E80)"
  by (simp_all add: demo_diag_def makeDiagnosticMessage_def Let_def writeU16BE_eq getSourceAddress_build byte_simps)

lemma demo_diagnose:
  assumes "m_state c = DoIPServerState.RoutingActivated" and "m_routedClientAddress c = 0x0E80"
  shows "react fuel (demo_env now) (Received demo_diag) c = Ok () (acked (demo_env now) 0x0E80 demo_diag c)"
proof -
  have q: "quiet_app (env_model (demo_env now))" and n: "onDownstreamRequest (env_model (demo_env now)) = None"
    by (simp_all add: demo_env_def quiet_default) (simp add: DefaultDoIPServerModel_def)
  have a: "app_ack (env_model (demo_env now)) c demo_diag = None"
    by (simp add: app_ack_def demo_env_def DefaultDoIPServerModel_def)
  show ?thesis
    using assms handleDiagnosticMessage_quiet [OF q, of demo_diag c fuel] a
    by (simp add: handleMessage_def handleRoutingActivated_def demo_diag_fields handleDownstream_none [OF n])
qed

lemma demo_acked_trace:
  "\<exists>suf. trace (acked (demo_env now) sa demo_diag c) = trace c @ EvDiagnostic demo_diag # suf"
  by (simp add: acked_def Let_def restartStateTimer_def ev_diag_def demo_env_def DefaultDoIPServerModel_def)

text \<open>A state the demo reaches in which the application has seen a diagnostic message.\<close>

lemma demo_reach:
  "\<exists>c0 c pre suf. connection_new (demo_env 0) 1 (mock_new ''m'') timerManager_new 0 1 = Ok () c0
     \<and> conn_reach mock_ops DefaultDoIPServerModel True c0 c \<and> trace c = pre @ EvDiagnostic demo_diag # suf
     \<and> m_state c = DoIPServerState.RoutingActivated"
proof -
  obtain c0 where c0: "connection_new (demo_env 0) 1 (mock_new ''m'') timerManager_new 0 1 = Ok () c0"
    "m_state c0 = DoIPServerState.WaitRoutingActivation" "m_generalInactivityTimeout c0 = 300000"
    using demo_new by blast
  obtain c1 where c1: "react 2 (demo_env 10) (Received (makeRoutingActivationRequest 0x0E80 DoIPRoutingActivationType.Default)) c0
      = Ok () c1" "m_state c1 = DoIPServerState.RoutingActivated" "m_routedClientAddress c1 = 0x0E80"
    using demo_activate [OF c0(2), of 2 10 "0x0E80" DoIPRoutingActivationType.Default] c0(3) by auto
  let ?c = "acked (demo_env 20) 0x0E80 demo_diag c1"
  have "conn_reach mock_ops DefaultDoIPServerModel True c0 c1"
    by (rule conn_reach.step [OF conn_reach.start, where fuel = 2 and now = 10
          and stim = "Received (makeRoutingActivationRequest 0x0E80 DoIPRoutingActivationType.Default)"])
      (simp, use c1(1) in \<open>simp add: demo_env_def del: react.simps\<close>)
  then have "conn_reach mock_ops DefaultDoIPServerModel True c0 ?c"
    by (rule conn_reach.step [where fuel = 2 and now = 20 and stim = "Received demo_diag"])
      (simp, use demo_diagnose [OF c1(2,3), of 2 20] in \<open>simp add: demo_env_def del: react.simps\<close>)
  moreover obtain suf where "trace ?c = trace c1 @ EvDiagnostic demo_diag # suf" using demo_acked_trace by blast
  ultimately show ?thesis using c0(1) c1(2) by (metis acked_fields(1))
qed

section \<open>Closing\<close>

text \<open>While the application is told that the connection closes.\<close>

definition closing_phase ::
  "'t transport_ops \<Rightarrow> DoIPCloseReason \<Rightarrow> conn_event list \<Rightarrow> 't connection \<Rightarrow> bool" where
  "closing_phase tp r tr c \<longleftrightarrow> m_isClosing c \<and> m_closeReason c = r \<and> \<not> tp_isActive tp (m_transport c)
     \<and> (\<exists>l. trace c = tr @ l \<and> (\<forall>q. EvTransportClose q \<notin> set l))"

definition returns :: "('s \<Rightarrow> bool) \<Rightarrow> ('a, 's) outcome \<Rightarrow> bool" where
  "returns P m \<longleftrightarrow> m \<noteq> NoReturn \<and> post P m"

lemma returns_simps [simp]:
  "returns P (Ok a s) = P s" "returns P (Throw e s) = P s" "returns P NoReturn = False"
  by (simp_all add: returns_def)

lemma returns_bind: "returns P m \<Longrightarrow> (\<And>a s. P s \<Longrightarrow> returns P (f a s)) \<Longrightarrow> returns P (obind m f)"
  by (cases m) auto

lemma closing_phase_cong:
  "closing_phase tp r tr c \<Longrightarrow> m_isClosing c' = m_isClosing c \<Longrightarrow> m_closeReason c' = m_closeReason c \<Longrightarrow>
   m_transport c' = m_transport c \<Longrightarrow> trace c' = trace c \<Longrightarrow> closing_phase tp r tr c'"
  by (simp add: closing_phase_def)

lemma closing_phase_transition [simp]:
  "timed_state s \<or> s = DoIPServerState.Closed \<Longrightarrow> closing_phase tp r tr (transitionTo now s c) = closing_phase tp r tr c"
  by (simp add: closing_phase_def)

lemma closing_phase_emit:
  assumes "closing_phase tp r tr c" and "\<And>q. e \<noteq> EvTransportClose q" shows "closing_phase tp r tr (emit e c)"
proof -
  obtain l where "trace c = tr @ l" "\<forall>q. EvTransportClose q \<notin> set l" using assms(1) by (auto simp: closing_phase_def)
  then have "trace (emit e c) = tr @ (l @ [e])" "\<forall>q. EvTransportClose q \<notin> set (l @ [e])"
    using assms(2) by (auto simp: emit_def)
  then show ?thesis using assms(1) unfolding closing_phase_def by (auto simp: emit_def)
qed

lemma closing_phase_send:
  assumes "connection_transport ti (env_tp env)" and "closing_phase (env_tp env) r tr c"
  shows "closing_phase (env_tp env) r tr (snd (sendProtocolMessage env m c))"
proof -
  have "tp_send (env_tp env) m (m_transport c) = (- 1, m_transport c)"
    using assms by (auto simp: closing_phase_def intro: connection_transport.send_inactive)
  then show ?thesis
    using closing_phase_emit [OF assms(2), of "EvSend m (- 1)"] by (simp add: sendProtocolMessage_def)
qed

lemma closing_phase_exec:
  assumes ct: "connection_transport ti (env_tp env)" and g: "env_guarded env" and c: "closing_phase (env_tp env) r tr c"
  shows "returns (closing_phase (env_tp env) r tr) (ctx_exec env (closeConnection (Suc n) env) call c)"
proof (cases call)
  case CtxReceive
  have "\<not> tp_isActive (env_tp env) (m_transport c)" using c by (simp add: closing_phase_def)
  then have "tp_receive (env_tp env) (m_transport c) = Some (Inr (None, m_transport c))"
    by (rule connection_transport.receive_inactive [OF ct])
  then show ?thesis using CtxReceive c by (simp add: receiveProtocolMessage_def)
next
  case (CtxDownstreamResponse b res)
  have "closing_phase (env_tp env) r tr (snd (sendProtocolMessage env m (emit EvDownstreamResponse c)))" for m
    by (rule closing_phase_send [OF ct closing_phase_emit [OF c]]) simp
  then show ?thesis
    using CtxDownstreamResponse
    by (simp add: receiveDownstreamResponse_def Let_def)
next
  case (CtxSetClientAddress a)
  then show ?thesis
    using closing_phase_emit [OF closing_phase_cong [OF c], of "c\<lparr>m_routedClientAddress := a\<rparr>" "EvClientAddress a"]
    by (simp add: setClientAddress_def)
qed (use c g closing_phase_send [OF ct c] in \<open>simp_all add: closing_phase_def\<close>)

lemma closing_phase_execs:
  assumes "connection_transport ti (env_tp env)" and "env_guarded env"
  shows "closing_phase (env_tp env) r tr c \<Longrightarrow>
    returns (closing_phase (env_tp env) r tr) (ctx_execs env (closeConnection (Suc n) env) calls c)"
  by (induction calls arbitrary: c) (auto intro!: returns_bind closing_phase_exec [OF assms])

lemma closeConnection_guarded:
  assumes ct: "connection_transport ti (env_tp env)" and g: "env_guarded env" and "\<not> m_isClosing c"
    and o: "closeConnection (Suc (Suc n)) env r c = out"
  shows "(\<exists>c'. out = Ok () c' \<and> \<not> m_isOpen c' \<and> closing_phase (env_tp env) r (trace c @ [EvTransportClose r]) c')
    \<or> (\<exists>c'. out = Throw UndefinedRead c')"
proof -
  let ?c1 = "transitionTo (env_now env) DoIPServerState.Closed (c\<lparr>m_isClosing := True\<rparr>)"
  let ?c2 = "emit (EvTransportClose r) (?c1\<lparr>m_closeReason := r, m_timerManager := stopAll (m_timerManager ?c1),
       m_transport := tp_close (env_tp env) r (m_transport ?c1)\<rparr>)"
  let ?tr = "trace c @ [EvTransportClose r]"
  have ph: "closing_phase (env_tp env) r ?tr ?c2"
    using connection_transport.close_inactive [OF ct] by (simp add: closing_phase_def emit_def)
  have n: "returns (closing_phase (env_tp env) r ?tr) (notifyConnectionClosed env (closeConnection (Suc n) env) r ?c2)"
    using ph closing_phase_execs [OF ct g closing_phase_emit [OF ph]]
    by (auto simp: notifyConnectionClosed_def split: option.split)
  have "out = (case notifyConnectionClosed env (closeConnection (Suc n) env) r ?c2 of
            Ok _ c \<Rightarrow> Ok () (c\<lparr>m_isOpen := False\<rparr>)
          | Throw e c \<Rightarrow> if is_exception e then Ok () (c\<lparr>m_isOpen := False\<rparr>) else Throw e c
          | NoReturn \<Rightarrow> NoReturn)"
    using o g assms(3) by (simp add: default_closeConnection_def Let_def)
  with n show ?thesis
    by (auto simp: is_exception_def closing_phase_def split: outcome.splits if_splits)
qed

text \<open>With a quiet application closing runs straight through.\<close>

lemma closeConnection_quiet:
  assumes "quiet_app (env_model env)" and "\<not> (env_guarded env \<and> m_isClosing c)"
  shows "\<exists>c'. closeConnection (Suc n) env r c = Ok () c' \<and> m_state c' = DoIPServerState.Closed \<and> \<not> m_isOpen c'
    \<and> m_closeReason c' = r \<and> m_transport c' = tp_close (env_tp env) r (m_transport c)
    \<and> deadline_of (m_timerManager c') = Map.empty
    \<and> (\<exists>l. trace c' = trace c @ EvTransportClose r # l)
    \<and> m_generalInactivityTimeout c' = m_generalInactivityTimeout c \<and> this_id c' = this_id c"
proof -
  have "ctx_execs env cl [] d = Ok () d" for cl d by simp
  then show ?thesis using assms
    by (cases "onCloseConnection (env_model env)")
      (auto simp: default_closeConnection_def notifyConnectionClosed_def Let_def quiet_app_def transitionTo_Closed
        emit_def tms.clear_deadline)
qed

section \<open>Timeouts\<close>

lemma timeout_general:
  assumes "m_state c = DoIPServerState.RoutingActivated" and "m_aliveCheckTimeout c \<noteq> 0"
  shows "\<exists>c' r. react fuel env (TimerFired ConnectionTimers.GeneralInactivity) c = Ok () c'
    \<and> m_state c' = DoIPServerState.WaitAliveCheckResponse
    \<and> trace c' = trace c @ [EvSend makeAliveCheckRequest r]
    \<and> deadline_of (m_timerManager c') = [ConnectionTimers.AliveCheck \<mapsto> (env_now env + m_aliveCheckTimeout c, this_id c)]
    \<and> m_aliveCheckRetry c' = m_aliveCheckRetry c + 1 \<and> m_aliveCheckRetryCount c' = m_aliveCheckRetryCount c
    \<and> m_isClosing c' = m_isClosing c \<and> this_id c' = this_id c"
  using assms
  by (simp add: handleTimeout_def sendAliveCheckRequest_def sendProtocolMessage_eq Let_def transitionTo_timed
      state_duration_def getTimerDuration_def state_timer_def tms.arm_deadline)

lemma deadline_removed:
  "deadline_of tm = [t \<mapsto> x] \<Longrightarrow> deadline_of (snd (removeTimer t tm)) = Map.empty"
  by (rule ext) (auto simp: deadline_of_def removeTimer_def Let_def delete_conv' fun_eq_iff split: if_splits)

section \<open>Handlers of quiet applications return\<close>

lemma close_Ok: "quiet_app (env_model env) \<Longrightarrow> \<exists>c'. closeConnection (Suc n) env r c = Ok () c'"
  using closeConnection_quiet [of env c n r] by (cases "env_guarded env \<and> m_isClosing c") auto

lemma notifyDownstreamRequest_quiet:
  "quiet_app (env_model env) \<Longrightarrow> \<exists>res c'. notifyDownstreamRequest fuel env m c = Ok res c'"
  by (cases "onDownstreamRequest (env_model env)")
    (auto simp: notifyDownstreamRequest_def quiet_app_def split: prod.split,
     metis ctx_execs.simps(1) obind.simps(1) snd_conv)

lemma handleDownstream_Ok:
  assumes "quiet_app (env_model env)" shows "\<exists>c'. handleDownstream fuel env sa m c = Ok () c'"
proof -
  obtain res c1 where "notifyDownstreamRequest fuel env m c = Ok res c1"
    using notifyDownstreamRequest_quiet [OF assms] by blast
  then show ?thesis
    by (cases res) (simp_all add: handleDownstream_def sendDiagnosticMessageResponse_quiet [OF assms] Let_def)
qed

lemma handleDiagnosticMessage_Ok:
  assumes "quiet_app (env_model env)" and "m_state c = DoIPServerState.RoutingActivated"
  shows "\<exists>c'. handleDiagnosticMessage (Suc n) env m c = Ok () c'"
proof -
  obtain r where r: "getSourceAddress m = Inr r" using getSourceAddress_safe by blast
  show ?thesis
  proof (cases "r = Some (m_routedClientAddress c)")
    case True
    with r handleDiagnosticMessage_quiet [OF assms(1) _ assms(2), of m "Suc n"] handleDownstream_Ok [OF assms(1)]
    show ?thesis by (cases "app_ack (env_model env) c m = None") auto
  next
    case False
    with r show ?thesis
      using close_Ok [OF assms(1), of n DoIPCloseReason.InvalidMessage c]
      by (cases r) (simp_all add: handleDiagnosticMessage_def getClientAddress_def
          sendDiagnosticMessageResponse_quiet [OF assms(1)] Let_def del: closeConnection.simps)
  qed
qed

lemma handleMessage_Ok:
  assumes q: "quiet_app (env_model env)" and "m_state c \<noteq> DoIPServerState.Closed"
  shows "\<exists>c'. handleMessage (Suc n) env m c = Ok () c'"
proof (cases "m_state c")
  case WaitRoutingActivation
  obtain r where "getSourceAddress m = Inr r" using getSourceAddress_safe by blast
  then show ?thesis
    using WaitRoutingActivation close_Ok [OF q, of n DoIPCloseReason.InvalidMessage c]
    by (auto simp: handleMessage_def handleWaitRoutingActivation_def Let_def simp del: closeConnection.simps)
next
  case RoutingActivated
  then show ?thesis
    using handleDiagnosticMessage_Ok [OF q RoutingActivated, of n m]
    by (cases "getPayloadType m")
      (simp_all add: handleMessage_def handleRoutingActivated_def sendDiagnosticMessageResponse_quiet [OF q] Let_def)
next
  case WaitAliveCheckResponse
  then show ?thesis
    by (simp add: handleMessage_def handleWaitAliveCheckResponse_def sendDiagnosticMessageResponse_quiet [OF q] Let_def)
qed (use assms in \<open>simp_all add: handleMessage_def handleSocketInitialized_def handleFinalize_def
    handleWaitDownstreamResponse_def\<close>)

section \<open>Properties\<close>

text \<open>
  (C1) Only the registered client reaches the application.  In every state a connection can
  reach from its construction, under any application, any messages, timeouts, downstream
  responses and requests in any order: whenever the diagnostic callback was invoked with a
  message, that message is a diagnostic message whose source address is the client address
  registered last at that moment, and before it a client had been registered (by a routing
  activation or by the application) or the application had itself delivered a downstream
  response.
\<close>

theorem diagnostic_authorised:
  assumes "connection_transport ti tp"
    and "connection_new (mk_env tp model g now0) this t tm client retries = Ok () c0"
    and "conn_reach tp model g c0 c" and "trace c = pre @ EvDiagnostic m # suf"
  shows "getPayloadType m = DoIPPayloadType.DiagnosticMessage
    \<and> getSourceAddress m = Inr (Some (client_of client pre)) \<and> registered pre"
  using auth_inv_reach [OF assms(1-3)] assms(4) by (auto simp: auth_inv_def auth_base_def auth_ok_def)

theorem diagnostic_authorised_witness:
  "\<exists>pre. getSourceAddress demo_diag = Inr (Some (client_of 0 pre)) \<and> registered pre"
proof -
  obtain c0 c pre suf where
    "connection_new (mk_env mock_ops DefaultDoIPServerModel True 0) 1 (mock_new ''m'') timerManager_new 0 1 = Ok () c0"
    "conn_reach mock_ops DefaultDoIPServerModel True c0 c" "trace c = pre @ EvDiagnostic demo_diag # suf"
    using demo_reach unfolding demo_env_def by blast
  from diagnostic_authorised [OF mock.connection_transport_axioms this] show ?thesis by blast
qed



text \<open>
  (C7) A closed connection is silent: once \<open>closeConnection\<close> has finished (\<open>isOpen()\<close> is
  false), in every later state each message the connection or the application tried to
  send since then was refused by the transport.
\<close>

theorem closed_connection_silent:
  assumes "connection_transport ti tp"
    and "connection_new (mk_env tp model g now0) this t tm client retries = Ok () c0"
    and "conn_reach tp model g c0 c" and "\<not> m_isOpen c" and "conn_reach tp model g c c'"
  shows "\<exists>l. trace c' = trace c @ l \<and> (\<forall>m r. EvSend m r \<in> set l \<longrightarrow> r = - 1)
    \<and> \<not> tp_isActive tp (m_transport c')"
proof -
  have "\<not> tp_isActive tp (m_transport c)"
    using sound_inv_reach [OF assms(1-3)] assms(4) by (simp add: sound_inv_def)
  then have "silent_since tp (trace c) c" by (simp add: silent_since_def)
  from silent_reach [OF assms(1) this assms(5)] show ?thesis by (auto simp: silent_since_def)
qed

theorem closed_connection_silent_witness:
  "\<exists>c c' l. \<not> m_isOpen c \<and> conn_reach mock_ops DefaultDoIPServerModel True c c' \<and> trace c' = trace c @ l
     \<and> (\<forall>m r. EvSend m r \<in> set l \<longrightarrow> r = - 1)"
proof -
  obtain c0 where n: "connection_new (mk_env mock_ops DefaultDoIPServerModel True 0) 1 (mock_new ''m'') timerManager_new 0 1 = Ok () c0"
    and "\<not> m_isClosing c0" using demo_new unfolding demo_env_def by blast
  then obtain c where cl: "closeConnection (Suc 0) (mk_env mock_ops DefaultDoIPServerModel True 5) DoIPCloseReason.ApplicationRequest c0 = Ok () c"
    and o: "\<not> m_isOpen c"
    using closeConnection_quiet [of "mk_env mock_ops DefaultDoIPServerModel True 5" c0 0 DoIPCloseReason.ApplicationRequest]
    by (auto simp: quiet_default)
  have r: "conn_reach mock_ops DefaultDoIPServerModel True c0 c"
    by (rule conn_reach.step [OF conn_reach.start, where fuel = "Suc 0" and now = 5
          and stim = "CloseRequest DoIPCloseReason.ApplicationRequest"]) (simp_all add: cl del: closeConnection.simps)
  from closed_connection_silent [OF mock.connection_transport_axioms n r o conn_reach.start] o show ?thesis
    using conn_reach.start by blast
qed

text \<open>
  Routing activation.  In state \<open>WaitRoutingActivation\<close> a routing activation request with a
  source address registers that address, is answered with exactly one positive routing
  activation response carrying client address, server address and code 0x10, and leads to
  \<open>RoutingActivated\<close> with the general inactivity timer running; any other message closes the
  connection with reason \<open>InvalidMessage\<close>.
\<close>

lemma routing_activation_handled:
  assumes "m_state c = DoIPServerState.WaitRoutingActivation" and "m_generalInactivityTimeout c \<noteq> 0"
  shows "(getPayloadType m = DoIPPayloadType.RoutingActivationRequest \<and> getSourceAddress m = Inr (Some sa) \<longrightarrow>
      (\<exists>c' r. handleMessage fuel env m c = Ok () c' \<and> m_state c' = DoIPServerState.RoutingActivated
        \<and> m_routedClientAddress c' = sa
        \<and> trace c' = trace c @ [EvClientAddress sa, EvSend (routingActivationResponse env sa) r]
        \<and> deadline_of (m_timerManager c')
            = [ConnectionTimers.GeneralInactivity \<mapsto> (env_now env + m_generalInactivityTimeout c, this_id c)]))
    \<and> (getPayloadType m \<noteq> DoIPPayloadType.RoutingActivationRequest \<or> getPayloadSize m < 2 \<longrightarrow>
      handleMessage fuel env m c = closeConnection fuel env DoIPCloseReason.InvalidMessage c)"
proof (intro conjI impI)
  assume "getPayloadType m = DoIPPayloadType.RoutingActivationRequest \<and> getSourceAddress m = Inr (Some sa)"
  then show "\<exists>c' r. handleMessage fuel env m c = Ok () c' \<and> m_state c' = DoIPServerState.RoutingActivated
        \<and> m_routedClientAddress c' = sa
        \<and> trace c' = trace c @ [EvClientAddress sa, EvSend (routingActivationResponse env sa) r]
        \<and> deadline_of (m_timerManager c')
            = [ConnectionTimers.GeneralInactivity \<mapsto> (env_now env + m_generalInactivityTimeout c, this_id c)]"
    using assms handleWaitRoutingActivation_accept [of m sa fuel env c]
    by (simp add: handleMessage_def sendProtocolMessage_eq setClientAddress_def emit_def transitionTo_timed
        state_duration_def getTimerDuration_def state_timer_def tms.arm_deadline)
qed (use assms handleWaitRoutingActivation_reject [of m fuel env c] in \<open>simp add: handleMessage_def\<close>)

text \<open>
  Acknowledging diagnostics.  In state \<open>RoutingActivated\<close>, with an application that does
  not call back into the connection: a diagnostic message of the registered client is given
  to the application once, then exactly one acknowledgement is sent, positive or negative
  as the application decided; a message with another source address is not given to the
  application and is answered with the negative code \<open>InvalidSourceAddress\<close>; in both cases
  the connection stays in \<open>RoutingActivated\<close> when no downstream handler is set.
\<close>

lemma diagnostic_message_acknowledged:
  assumes "quiet_app (env_model env)" and "m_state c = DoIPServerState.RoutingActivated"
    and "getPayloadType m = DoIPPayloadType.DiagnosticMessage" and "getSourceAddress m = Inr (Some sa)"
    and "onDownstreamRequest (env_model env) = None"
  shows "\<exists>c' r. handleMessage fuel env m c = Ok () c' \<and> m_state c' = DoIPServerState.RoutingActivated
    \<and> trace c' = trace c
        @ (if sa = m_routedClientAddress c then ev_diag (env_model env) m else [])
        @ [EvSend (diagnosticMessageResponse env sa
             (if sa = m_routedClientAddress c then app_ack (env_model env) c m
              else Some DoIPNegativeDiagnosticAck.InvalidSourceAddress)) r]
        @ ev_ack (env_model env) (if sa = m_routedClientAddress c then app_ack (env_model env) c m
              else Some DoIPNegativeDiagnosticAck.InvalidSourceAddress)"
proof (cases "sa = m_routedClientAddress c")
  case True
  then have "handleMessage fuel env m c = Ok () (acked env sa m c)"
    using assms handleDiagnosticMessage_quiet [OF assms(1), of m c fuel]
    by (simp add: handleMessage_def handleRoutingActivated_def handleDownstream_none)
  then show ?thesis using True assms(2) by (simp add: acked_def Let_def restartStateTimer_def)
next
  case False
  then show ?thesis
    using assms
    by (simp add: handleMessage_def handleRoutingActivated_def handleDiagnosticMessage_def getClientAddress_def
        sendDiagnosticMessageResponse_quiet Let_def)
qed


text \<open>An application that closes the connection again when it is told that it closes.\<close>

definition reclosing_app :: "'t DoIPServerModel" where
  "reclosing_app = DefaultDoIPServerModel\<lparr>onCloseConnection := Some (\<lambda>ctx reason. [CtxClose reason])\<rparr>"


text \<open>
  Without the guard closing need not end: on a plain \<open>DoIPDefaultConnection\<close> an application
  that calls \<open>closeConnection\<close> from its close callback recurses without bound.
\<close>

lemma unguarded_close_recurses:
  "closeConnection fuel (mk_env tp reclosing_app False now) r c = NoReturn"
proof (induction fuel arbitrary: r c)
  case (Suc fuel)
  then show ?case
    by (simp add: default_closeConnection_def notifyConnectionClosed_def reclosing_app_def
        DefaultDoIPServerModel_def Let_def)
qed simp

text \<open>
  (C30) The alive check.  When the general inactivity timer expires in \<open>RoutingActivated\<close> the
  server sends an alive check request and waits with the alive check timer armed.  If that
  expires too and the configured number of retries is at most the number of checks made,
  the connection is closed with reason \<open>AliveCheckTimeout\<close>.  With more retries configured
  nothing is retried: no message is sent, no timer is left running and the connection stays
  in \<open>WaitAliveCheckResponse\<close>, so that a silent client is never dropped.
\<close>

theorem alive_check_cycle:
  assumes "m_state c = DoIPServerState.RoutingActivated" and "m_aliveCheckTimeout c \<noteq> 0"
    and "react fuel env (TimerFired ConnectionTimers.GeneralInactivity) c = Ok () c1"
  shows "m_state c1 = DoIPServerState.WaitAliveCheckResponse
    \<and> (\<exists>r. trace c1 = trace c @ [EvSend makeAliveCheckRequest r])
    \<and> deadline_of (m_timerManager c1) = [ConnectionTimers.AliveCheck \<mapsto> (env_now env + m_aliveCheckTimeout c, this_id c)]
    \<and> (if m_aliveCheckRetryCount c \<le> m_aliveCheckRetry c + 1
       then react fuel env' (TimerFired ConnectionTimers.AliveCheck) c1
          = closeConnection fuel env' DoIPCloseReason.AliveCheckTimeout
              (c1\<lparr>m_timerManager := snd (removeTimer ConnectionTimers.AliveCheck (m_timerManager c1))\<rparr>)
       else \<exists>c2. react fuel env' (TimerFired ConnectionTimers.AliveCheck) c1 = Ok () c2
          \<and> m_state c2 = DoIPServerState.WaitAliveCheckResponse \<and> trace c2 = trace c1
          \<and> deadline_of (m_timerManager c2) = Map.empty)"
proof -
  obtain r where 1: "m_state c1 = DoIPServerState.WaitAliveCheckResponse"
    "trace c1 = trace c @ [EvSend makeAliveCheckRequest r]"
    "deadline_of (m_timerManager c1) = [ConnectionTimers.AliveCheck \<mapsto> (env_now env + m_aliveCheckTimeout c, this_id c)]"
    "m_aliveCheckRetry c1 = m_aliveCheckRetry c + 1" "m_aliveCheckRetryCount c1 = m_aliveCheckRetryCount c"
    using timeout_general [OF assms(1,2), of fuel env] assms(3) by auto
  then show ?thesis
    using deadline_removed [OF 1(3)] by (auto simp: handleTimeout_def not_less)
qed

theorem alive_check_cycle_witness:
  "\<exists>c c1. react 2 (demo_env 300010) (TimerFired ConnectionTimers.GeneralInactivity) c = Ok () c1
     \<and> m_state c1 = DoIPServerState.WaitAliveCheckResponse"
proof -
  obtain c0 :: "MockConnectionTransport connection" where
    c0: "m_state c0 = DoIPServerState.WaitRoutingActivation" "m_aliveCheckTimeout c0 = 500"
    using demo_new by blast
  let ?c = "c0\<lparr>m_state := DoIPServerState.RoutingActivated\<rparr>"
  have s: "m_state ?c = DoIPServerState.RoutingActivated" "m_aliveCheckTimeout ?c \<noteq> 0" using c0 by simp_all
  then obtain c1 where r: "react 2 (demo_env 300010) (TimerFired ConnectionTimers.GeneralInactivity) ?c = Ok () c1"
    using timeout_general by blast
  from alive_check_cycle [OF s r] r show ?thesis by blast
qed

text \<open>
  (C31) Every message is handled, except after closing.  With an application that does not call
  back into the connection, \<open>handleMessage\<close> returns normally for every message, well-formed
  or not, in every state but \<open>Closed\<close>; there the handler is an empty \<open>std::function\<close> and the
  call throws \<open>std::bad_function_call\<close>, which nothing on the receiving path catches.
\<close>

theorem handleMessage_total:
  assumes "quiet_app (env_model env)" and "1 \<le> fuel"
  shows "(m_state c \<noteq> DoIPServerState.Closed \<longrightarrow> (\<exists>c'. handleMessage fuel env m c = Ok () c'))
    \<and> (m_state c = DoIPServerState.Closed \<longrightarrow> handleMessage fuel env m c = Throw BadFunctionCall c)"
proof -
  obtain n where "fuel = Suc n" using assms(2) by (cases fuel) auto
  then show ?thesis using handleMessage_Ok [OF assms(1)] by (auto simp: handleMessage_def)
qed

theorem handleMessage_total_witness:
  "\<exists>c c'. handleMessage 1 (demo_env 5) (buildMessage DoIPPayloadType.NegativeAck []) c = Ok () c'"
proof -
  obtain c :: "MockConnectionTransport connection" where c: "m_state c = DoIPServerState.WaitRoutingActivation"
    using demo_new by blast
  have "quiet_app (env_model (demo_env 5))" by (simp add: demo_env_def quiet_default)
  from handleMessage_total [OF this, of 1 c "buildMessage DoIPPayloadType.NegativeAck []"] c show ?thesis by auto
qed

text \<open>
  Waiting for a downstream response is a dead end: in \<open>WaitDownstreamResponse\<close> every message
  of the client is dropped without an answer, and the expiry of the timer of this state (or
  of any timer that still refers to it) changes neither state nor trace.  Only a downstream
  response or a request to close leaves the state; the configured
  \<open>m_downstreamResponseTimeout\<close> is not used by any state.
\<close>

lemma waitDownstreamResponse_dead_end:
  assumes "m_state c = DoIPServerState.WaitDownstreamResponse"
  shows "handleMessage fuel env m c = Ok () c
    \<and> (\<exists>c'. react fuel env (TimerFired (state_timer (m_state c))) c = Ok () c'
        \<and> m_state c' = m_state c \<and> trace c' = trace c \<and> m_isOpen c' = m_isOpen c)
    \<and> state_timer s \<noteq> ConnectionTimers.DownstreamResponse"
  using assms
  by (cases s) (simp_all add: handleMessage_def handleWaitDownstreamResponse_def handleTimeout_def state_timer_def)

text \<open>
  (C36) A late downstream response revives a closed connection: after \<open>closeConnection\<close> has
  finished, a response delivered by the application puts the state machine back into
  \<open>RoutingActivated\<close> and arms the general inactivity timer with a callback into this object,
  although \<open>isOpen()\<close> is false and the response cannot be sent any more.
\<close>

theorem late_response_revives_closed_connection:
  assumes "connection_transport ti (env_tp env)" and "quiet_app (env_model env)"
    and "\<not> (env_guarded env \<and> m_isClosing c)" and "m_generalInactivityTimeout c \<noteq> 0"
  shows "\<exists>c1 c2. closeConnection (Suc n) env r c = Ok () c1 \<and> m_state c1 = DoIPServerState.Closed \<and> \<not> m_isOpen c1
    \<and> react fuel env (DownstreamArrived b res) c1 = Ok () c2 \<and> \<not> m_isOpen c2
    \<and> m_state c2 = DoIPServerState.RoutingActivated
    \<and> (\<exists>m. trace c2 = trace c1 @ [EvDownstreamResponse, EvSend m (- 1)])
    \<and> (\<exists>x. deadline_of (m_timerManager c2) ConnectionTimers.GeneralInactivity = Some (x, this_id c))"
proof -
  obtain c1 where c1: "closeConnection (Suc n) env r c = Ok () c1" "m_state c1 = DoIPServerState.Closed" "\<not> m_isOpen c1"
    "m_generalInactivityTimeout c1 = m_generalInactivityTimeout c" "this_id c1 = this_id c"
    "m_transport c1 = tp_close (env_tp env) r (m_transport c)"
    using closeConnection_quiet [OF assms(2,3), of n r] by blast
  have "tp_send (env_tp env) m (m_transport c1) = (- 1, m_transport c1)" for m
    unfolding c1(6)
    by (rule connection_transport.send_inactive [OF assms(1) connection_transport.close_inactive [OF assms(1)]])
  then have "\<exists>c2. react fuel env (DownstreamArrived b res) c1 = Ok () c2 \<and> \<not> m_isOpen c2
    \<and> m_state c2 = DoIPServerState.RoutingActivated
    \<and> (\<exists>m. trace c2 = trace c1 @ [EvDownstreamResponse, EvSend m (- 1)])
    \<and> (\<exists>x. deadline_of (m_timerManager c2) ConnectionTimers.GeneralInactivity = Some (x, this_id c))"
    using c1(2-5) assms(4)
    by (simp add: receiveDownstreamResponse_def Let_def sendProtocolMessage_def emit_def transitionTo_timed
        state_duration_def getTimerDuration_def state_timer_def tms.arm_deadline)
  with c1(1-3) show ?thesis by blast
qed

theorem late_response_revives_closed_connection_witness:
  "\<exists>c1 c2. react 1 (demo_env 5) (DownstreamArrived [0x7E] DoIPDownstreamResult.Handled) c1 = Ok () c2
     \<and> \<not> m_isOpen c2 \<and> m_state c2 = DoIPServerState.RoutingActivated"
proof -
  obtain c where c: "\<not> m_isClosing c" "m_generalInactivityTimeout c = 300000"
    and "trace (c :: MockConnectionTransport connection) = [EvOpened]" using demo_new by blast
  have "connection_transport (\<lambda>_. True) (env_tp (demo_env 5))" "quiet_app (env_model (demo_env 5))"
    by (simp_all add: demo_env_def mock.connection_transport_axioms quiet_default)
  from late_response_revives_closed_connection [OF this, of c 0 DoIPCloseReason.SocketError 1 "[0x7E]" DoIPDownstreamResult.Handled] c
  show ?thesis by (auto simp del: react.simps)
qed

text \<open>
  Connections that share a timer manager disturb each other: timers are keyed by their
  kind only, and every change of state clears the whole table, so that after one connection
  changes its state no timer of another connection is left (its timeouts never happen).
\<close>

lemma shared_timer_manager_interference:
  assumes "timed_state s \<or> s = DoIPServerState.Closed" and "m_state c \<noteq> s"
    and "deadline_of (m_timerManager c) t = Some (x, other)" and "other \<noteq> this_id c"
  shows "\<forall>i y j. deadline_of (m_timerManager (transitionTo now s c)) i = Some (y, j) \<longrightarrow> j \<noteq> other"
  using assms
  by (cases "s = DoIPServerState.Closed")
    (auto simp: transitionTo_Closed transitionTo_timed tms.clear_deadline tms.arm_deadline)

end
