(* ===== verification/DoIP_Server.thy ===== *)
theory DoIP_Server
  imports DoIP_ServerTransport DoIP_MacAddress DoIP_ConnectionBehaviour
begin

text \<open>
  The server (\<^verbatim>\<open>inc/DoIPServer.h\<close>, \<^verbatim>\<open>src/DoIPServer.cpp\<close>): its configuration, the
  announcement of the vehicle, the listener that accepts connections, the thread that
  serves a connection, and stopping.  The server transport and the transport of the
  connections are arbitrary (records of operations).

  The threads interleave: a state of the whole server (\<open>server_system\<close>) holds the object, the
  connections accepted so far and where each thread stands; \<open>sys_exec\<close> is one step of one
  thread.  A step reaches from one blocking or shared access to the next: reading the
  running flag, accepting, receiving and handling a message, sending an announcement,
  joining a thread.  All connections work on the one timer manager of the server.  Logging
  is left out, and the transport pointer, which the constructor sets, is never null.
\<close>

section \<open>Configuration\<close>

record ServerConfig =
  cfg_eid :: fixed_id
  cfg_gid :: fixed_id
  cfg_vin :: fixed_id
  cfg_logicalAddress :: DoIPAddress
  cfg_loopback :: bool
  cfg_daemonize :: bool
  cfg_announceCount :: int
  cfg_announceInterval :: u32

definition DefaultServerConfig :: ServerConfig where
  "DefaultServerConfig = \<lparr>cfg_eid = id_default eid_type, cfg_gid = id_default eid_type, cfg_vin = vin_default,
     cfg_logicalAddress = 0x0028, cfg_loopback = False, cfg_daemonize = False, cfg_announceCount = 3,
     cfg_announceInterval = 500\<rparr>"

definition DOIP_SERVER_TCP_PORT :: u16 where
  "DOIP_SERVER_TCP_PORT = 13400"

section \<open>The object\<close>

datatype server_thread = TcpListener | UdpAnnouncer | ConnectionHandler nat

text \<open>A model factory is given the number of the connection it is called for.\<close>

record ('s, 't) DoIPServer =
  m_config :: ServerConfig
  srv_transport :: 's
  m_clientIp :: string
  m_clientPort :: int
  m_FurtherActionReq :: DoIPFurtherAction
  m_TimerManager :: "(ConnectionTimers, nat) TimerManager"
  m_udpRunning :: bool
  m_tcpRunning :: bool
  m_workerThreads :: "server_thread list"
  m_modelFactory :: "(nat \<Rightarrow> 't DoIPServerModel) option"

definition setLoopbackMode :: "bool \<Rightarrow> ('s, 't) DoIPServer \<Rightarrow> ('s, 't) DoIPServer" where
  "setLoopbackMode useLoopback srv = srv\<lparr>m_config := (m_config srv)\<lparr>cfg_loopback := useLoopback\<rparr>\<rparr>"

text \<open>\<open>mk\<close> is the constructor of the server transport, called with the loopback flag.\<close>

definition server_new :: "(bool \<Rightarrow> 's) \<Rightarrow> ServerConfig \<Rightarrow> ('s, 't) DoIPServer" where
  "server_new mk config =
     setLoopbackMode (cfg_loopback config)
       \<lparr>m_config = config, srv_transport = mk (cfg_loopback config), m_clientIp = [], m_clientPort = 0,
        m_FurtherActionReq = DoIPFurtherAction.NoFurtherAction, m_TimerManager = timerManager_new,
        m_udpRunning = False, m_tcpRunning = False, m_workerThreads = [], m_modelFactory = None\<rparr>"

definition isRunning :: "('s, 't) DoIPServer \<Rightarrow> bool" where
  "isRunning srv = m_udpRunning srv"

definition setAnnounceNum :: "int \<Rightarrow> ('s, 't) DoIPServer \<Rightarrow> ('s, 't) DoIPServer" where
  "setAnnounceNum num srv = srv\<lparr>m_config := (m_config srv)\<lparr>cfg_announceCount := num\<rparr>\<rparr>"

definition setAnnounceInterval :: "u32 \<Rightarrow> ('s, 't) DoIPServer \<Rightarrow> ('s, 't) DoIPServer" where
  "setAnnounceInterval ms srv = srv\<lparr>m_config := (m_config srv)\<lparr>cfg_announceInterval := ms\<rparr>\<rparr>"

definition getLogicalGatewayAddress :: "('s, 't) DoIPServer \<Rightarrow> DoIPAddress" where
  "getLogicalGatewayAddress srv = cfg_logicalAddress (m_config srv)"

definition setLogicalGatewayAddress :: "DoIPAddress \<Rightarrow> ('s, 't) DoIPServer \<Rightarrow> ('s, 't) DoIPServer" where
  "setLogicalGatewayAddress logicalAddress srv =
     srv\<lparr>m_config := (m_config srv)\<lparr>cfg_logicalAddress := logicalAddress\<rparr>\<rparr>"

definition setDefaultEid ::
  "'n posix \<Rightarrow> 'n netif \<Rightarrow> ('s, 't) DoIPServer \<Rightarrow> 'n \<Rightarrow> (bool \<times> ('s, 't) DoIPServer \<times> 'n) res" where
  "setDefaultEid os nx srv n =
     (case getFirstMacAddress os nx (replicate 6 0) n of (ok, mac, n) \<Rightarrow>
        if \<not> ok then Inr (False, srv\<lparr>m_config := (m_config srv)\<lparr>cfg_eid := id_default eid_type\<rparr>\<rparr>, n)
        else rbind (id_from_bytes eid_type (Some mac) (IdLength eid_type)) (\<lambda>eid.
               Inr (True, srv\<lparr>m_config := (m_config srv)\<lparr>cfg_eid := eid\<rparr>\<rparr>, n)))"

definition setVin_string :: "string \<Rightarrow> ('s, 't) DoIPServer \<Rightarrow> ('s, 't) DoIPServer" where
  "setVin_string VINString srv = srv\<lparr>m_config := (m_config srv)\<lparr>cfg_vin := vin_from_string VINString\<rparr>\<rparr>"

text \<open>An invalid VIN is only logged.\<close>

definition setVin :: "fixed_id \<Rightarrow> ('s, 't) DoIPServer \<Rightarrow> ('s, 't) DoIPServer" where
  "setVin vin srv = srv\<lparr>m_config := (m_config srv)\<lparr>cfg_vin := vin\<rparr>\<rparr>"

definition setEid :: "u64 \<Rightarrow> ('s, 't) DoIPServer \<Rightarrow> ('s, 't) DoIPServer" where
  "setEid inputEID srv = srv\<lparr>m_config := (m_config srv)\<lparr>cfg_eid := id_from_integral eid_type 8 (uint inputEID)\<rparr>\<rparr>"

definition setGid :: "u64 \<Rightarrow> ('s, 't) DoIPServer \<Rightarrow> ('s, 't) DoIPServer" where
  "setGid inputGID srv = srv\<lparr>m_config := (m_config srv)\<lparr>cfg_gid := id_from_integral eid_type 8 (uint inputGID)\<rparr>\<rparr>"

definition setFurtherActionRequired :: "DoIPFurtherAction \<Rightarrow> ('s, 't) DoIPServer \<Rightarrow> ('s, 't) DoIPServer" where
  "setFurtherActionRequired furtherActionRequired srv = srv\<lparr>m_FurtherActionReq := furtherActionRequired\<rparr>"

section \<open>Sockets\<close>

definition setupTcpSocket ::
  "('s, 't) server_ops \<Rightarrow> (nat \<Rightarrow> 't DoIPServerModel) option \<Rightarrow> ('s, 't) DoIPServer \<Rightarrow> bool \<times> ('s, 't) DoIPServer" where
  "setupTcpSocket ops modelFactory srv =
     (case st_setup ops DOIP_SERVER_TCP_PORT (srv_transport srv) of (ok, s) \<Rightarrow>
        let srv = srv\<lparr>srv_transport := s\<rparr> in
        if \<not> ok then (False, srv)
        else (True, srv\<lparr>m_modelFactory := modelFactory, m_tcpRunning := True,
                m_workerThreads := m_workerThreads srv @ [TcpListener]\<rparr>))"

definition closeTcpSocket :: "('s, 't) server_ops \<Rightarrow> ('s, 't) DoIPServer \<Rightarrow> ('s, 't) DoIPServer" where
  "closeTcpSocket ops srv = srv\<lparr>srv_transport := st_close ops (srv_transport srv)\<rparr>"

definition setupUdpSocket :: "('s, 't) DoIPServer \<Rightarrow> bool \<times> ('s, 't) DoIPServer" where
  "setupUdpSocket srv = (True, srv\<lparr>m_udpRunning := True, m_workerThreads := m_workerThreads srv @ [UdpAnnouncer]\<rparr>)"

definition closeUdpSocket :: "('s, 't) DoIPServer \<Rightarrow> ('s, 't) DoIPServer" where
  "closeUdpSocket srv = srv\<lparr>m_udpRunning := False\<rparr>"

section \<open>Announcements\<close>

text \<open>
  \<open>makeVehicleIdentificationResponse\<close> is called with its default arguments for the further
  action and the synchronisation status.
\<close>

definition announcement :: "ServerConfig \<Rightarrow> DoIPMessage" where
  "announcement cfg = makeVehicleIdentificationResponse (cfg_vin cfg) (cfg_logicalAddress cfg) (cfg_eid cfg) (cfg_gid cfg)
     DoIPFurtherAction.NoFurtherAction DoIPSyncStatus.GidVinSynchronized"

definition announce_once :: "('s, 't) server_ops \<Rightarrow> ('s, 't) DoIPServer \<Rightarrow> int \<times> ('s, 't) DoIPServer" where
  "announce_once ops srv =
     (case st_sendBroadcast ops (announcement (m_config srv)) DOIP_UDP_TEST_EQUIPMENT_REQUEST_PORT (srv_transport srv) of
        (sentBytes, s) \<Rightarrow> (sentBytes, srv\<lparr>srv_transport := s\<rparr>))"

text \<open>The argument of \<open>usleep\<close>, computed in \<open>unsigned int\<close>.\<close>

definition announce_delay :: "ServerConfig \<Rightarrow> u32" where
  "announce_delay cfg = cfg_announceInterval cfg * 1000"

text \<open>
  The loop of \<open>udpAnnouncementThread\<close>; \<open>flags\<close> are the values of \<open>m_udpRunning\<close> it reads, and
  the result lists what \<open>sendBroadcast\<close> returned and how long the thread slept.  \<open>None\<close>: the
  thread is still running after these readings.
\<close>

fun announce_loop ::
  "('s, 't) server_ops \<Rightarrow> bool list \<Rightarrow> int \<Rightarrow> ('s, 't) DoIPServer \<Rightarrow> ((int \<times> u32) list \<times> ('s, 't) DoIPServer) option" where
  "announce_loop ops flags i srv =
     (if i < cfg_announceCount (m_config srv) then
        (case flags of
           [] \<Rightarrow> None
         | running # flags \<Rightarrow>
             if running then
               (case announce_once ops srv of (sentBytes, srv) \<Rightarrow>
                  map_option (apfst (Cons (sentBytes, announce_delay (m_config srv)))) (announce_loop ops flags (i + 1) srv))
             else Some ([], srv))
      else Some ([], srv))"

declare announce_loop.simps [simp del]

definition udpAnnouncementThread ::
  "('s, 't) server_ops \<Rightarrow> bool list \<Rightarrow> ('s, 't) DoIPServer \<Rightarrow> ((int \<times> u32) list \<times> ('s, 't) DoIPServer) option" where
  "udpAnnouncementThread ops flags srv = announce_loop ops flags 0 srv"

section \<open>Accepting\<close>

text \<open>
  \<open>this\<close>, \<open>client\<close> and \<open>retries\<close> are those of the connection's constructor; the new connection
  comes with the model it was given.
\<close>

definition acceptTcpConnection ::
  "('s, 't) server_ops \<Rightarrow> 't transport_ops \<Rightarrow> int \<Rightarrow> nat \<Rightarrow> DoIPAddress \<Rightarrow> u8 \<Rightarrow> (nat \<Rightarrow> 't DoIPServerModel) option
     \<Rightarrow> ('s, 't) DoIPServer \<Rightarrow> (('t connection \<times> 't DoIPServerModel) option, ('s, 't) DoIPServer) outcome" where
  "acceptTcpConnection ops tp now this client retries modelFactory srv =
     (case st_acceptConnection ops (srv_transport srv) of (connectionTransport, s) \<Rightarrow>
        let srv = srv\<lparr>srv_transport := s\<rparr> in
        case connectionTransport of
          None \<Rightarrow> Ok None srv
        | Some t \<Rightarrow>
            let model = (case modelFactory of Some f \<Rightarrow> f this | None \<Rightarrow> DefaultDoIPServerModel) in
            case connection_new (mk_env tp model True now) this t (m_TimerManager srv) client retries of
              Ok _ c \<Rightarrow> Ok (Some (c, model)) (srv\<lparr>m_TimerManager := m_timerManager c\<rparr>)
            | Throw e c \<Rightarrow> Throw e (srv\<lparr>m_TimerManager := m_timerManager c\<rparr>)
            | NoReturn \<Rightarrow> NoReturn)"

definition waitForTcpConnection ::
  "('s, 't) server_ops \<Rightarrow> 't transport_ops \<Rightarrow> int \<Rightarrow> nat \<Rightarrow> DoIPAddress \<Rightarrow> u8 \<Rightarrow> (nat \<Rightarrow> 't DoIPServerModel) option
     \<Rightarrow> ('s, 't) DoIPServer \<Rightarrow> (('t connection \<times> 't DoIPServerModel) option, ('s, 't) DoIPServer) outcome" where
  "waitForTcpConnection ops tp now this client retries modelFactory srv =
     (if \<not> m_tcpRunning srv then Ok None srv
      else acceptTcpConnection ops tp now this client retries modelFactory srv)"

section \<open>Serving a connection\<close>

text \<open>
  Where a connection thread stands: at the head of its loop, in \<open>receiveProtocolMessage\<close>, or
  at its end.
\<close>

datatype handler_pc = HandlerHead | HandlerReceive | HandlerDone

fun connectionHandler_step ::
  "nat \<Rightarrow> 't conn_env \<Rightarrow> bool \<Rightarrow> handler_pc \<Rightarrow> 't connection \<Rightarrow> (handler_pc, 't connection) outcome" where
  "connectionHandler_step fuel env running HandlerHead c =
     (if running then Ok HandlerReceive c
      else obind (closeConnection fuel env DoIPCloseReason.ApplicationRequest c) (\<lambda>_ c. Ok HandlerDone c))"
| "connectionHandler_step fuel env running HandlerReceive c =
     obind (receiveProtocolMessage env c) (\<lambda>msg c.
       case msg of
         None \<Rightarrow> obind (closeConnection fuel env DoIPCloseReason.SocketError c) (\<lambda>_ c. Ok HandlerDone c)
       | Some m \<Rightarrow> obind (handleMessage fuel env m c) (\<lambda>_ c. Ok HandlerHead c))"
| "connectionHandler_step fuel env running HandlerDone c = Ok HandlerDone c"

section \<open>The threads together\<close>

datatype listener_pc = ListenerHead | ListenerAccept | ListenerDone

datatype announcer_pc = AnnouncerAt int | AnnouncerDone

text \<open>
  \<open>stop\<close> walks over the thread objects that were there when its loop began; \<open>StopJoin k n\<close>:
  \<open>k\<close> of these \<open>n\<close> threads are joined.
\<close>

datatype stop_pc = NotStopping | StopJoin nat nat | Stopped

record ('s, 't) server_system =
  sys_server :: "('s, 't) DoIPServer"
  sys_conns :: "('t connection \<times> 't DoIPServerModel) list"
  sys_handlers :: "handler_pc list"
  sys_listener :: listener_pc
  sys_announcer :: announcer_pc
  sys_stop :: stop_pc
  sys_terminated :: bool

text \<open>\<open>sys_terminated\<close>: the process is gone (\<open>std::terminate\<close>, or undefined behaviour).\<close>

definition system_start :: "('s, 't) DoIPServer \<Rightarrow> ('s, 't) server_system" where
  "system_start srv = \<lparr>sys_server = srv, sys_conns = [], sys_handlers = [],
     sys_listener = (if TcpListener \<in> set (m_workerThreads srv) then ListenerHead else ListenerDone),
     sys_announcer = (if UdpAnnouncer \<in> set (m_workerThreads srv) then AnnouncerAt 0 else AnnouncerDone),
     sys_stop = NotStopping, sys_terminated = False\<rparr>"

fun thread_done :: "('s, 't) server_system \<Rightarrow> server_thread \<Rightarrow> bool" where
  "thread_done sys TcpListener = (sys_listener sys = ListenerDone)"
| "thread_done sys UdpAnnouncer = (sys_announcer sys = AnnouncerDone)"
| "thread_done sys (ConnectionHandler i) = (i < length (sys_handlers sys) \<and> sys_handlers sys ! i = HandlerDone)"

text \<open>
  A new connection: its thread object is appended to \<open>m_workerThreads\<close> without a lock.  While
  \<open>stop\<close> iterates over the vector this either moves the objects under it or puts one behind
  the end it has fixed, which is then destroyed unjoined; both end the process.
\<close>

definition spawn_handler :: "'t connection \<times> 't DoIPServerModel \<Rightarrow> ('s, 't) server_system \<Rightarrow> ('s, 't) server_system" where
  "spawn_handler cm sys =
     (let srv = sys_server sys;
          i = length (sys_conns sys)
      in sys\<lparr>sys_server := srv\<lparr>m_workerThreads := m_workerThreads srv @ [ConnectionHandler i]\<rparr>,
             sys_conns := sys_conns sys @ [cm], sys_handlers := sys_handlers sys @ [HandlerHead],
             sys_listener := ListenerHead,
             sys_terminated := (case sys_stop sys of StopJoin k n \<Rightarrow> True | _ \<Rightarrow> False)\<rparr>)"

text \<open>
  \<open>tcpListenerThread\<close>: from the flag to the call of \<open>acceptConnection\<close>, then accepting and
  spawning.  (A flag that changes between the two readings of it leads back to the head.)
\<close>

definition listener_step ::
  "('s, 't) server_ops \<Rightarrow> 't transport_ops \<Rightarrow> u8 \<Rightarrow> int \<Rightarrow> DoIPAddress \<Rightarrow> ('s, 't) server_system \<Rightarrow> ('s, 't) server_system option" where
  "listener_step ops tp retries now client sys =
     (case sys_listener sys of
        ListenerHead \<Rightarrow>
          Some (sys\<lparr>sys_listener := if m_tcpRunning (sys_server sys) then ListenerAccept else ListenerDone\<rparr>)
      | ListenerAccept \<Rightarrow>
          (case acceptTcpConnection ops tp now (length (sys_conns sys)) client retries
                  (m_modelFactory (sys_server sys)) (sys_server sys) of
             Ok None srv \<Rightarrow> Some (sys\<lparr>sys_server := srv, sys_listener := ListenerHead\<rparr>)
           | Ok (Some cm) srv \<Rightarrow> Some (spawn_handler cm (sys\<lparr>sys_server := srv\<rparr>))
           | Throw e srv \<Rightarrow> Some (sys\<lparr>sys_server := srv, sys_terminated := True\<rparr>)
           | NoReturn \<Rightarrow> None)
      | ListenerDone \<Rightarrow> None)"

text \<open>A connection seen with the shared timer manager, and what is written back after a step on it.\<close>

definition conn_of :: "('s, 't) server_system \<Rightarrow> nat \<Rightarrow> 't connection" where
  "conn_of sys i = (fst (sys_conns sys ! i))\<lparr>m_timerManager := m_TimerManager (sys_server sys)\<rparr>"

definition model_of :: "('s, 't) server_system \<Rightarrow> nat \<Rightarrow> 't DoIPServerModel" where
  "model_of sys i = snd (sys_conns sys ! i)"

definition put_conn :: "nat \<Rightarrow> 't connection \<Rightarrow> handler_pc \<Rightarrow> ('s, 't) server_system \<Rightarrow> ('s, 't) server_system" where
  "put_conn i c pc sys = sys\<lparr>sys_conns := (sys_conns sys)[i := (c, model_of sys i)],
     sys_handlers := (sys_handlers sys)[i := pc],
     sys_server := (sys_server sys)\<lparr>m_TimerManager := m_timerManager c\<rparr>\<rparr>"

definition handler_step ::
  "nat \<Rightarrow> 't transport_ops \<Rightarrow> nat \<Rightarrow> int \<Rightarrow> ('s, 't) server_system \<Rightarrow> ('s, 't) server_system option" where
  "handler_step fuel tp i now sys =
     (if i < length (sys_conns sys) \<and> sys_handlers sys ! i \<noteq> HandlerDone then
        (case connectionHandler_step fuel (mk_env tp (model_of sys i) True now) (m_tcpRunning (sys_server sys))
                (sys_handlers sys ! i) (conn_of sys i) of
           Ok pc c \<Rightarrow> Some (put_conn i c pc sys)
         | Throw e c \<Rightarrow> Some ((put_conn i c (sys_handlers sys ! i) sys)\<lparr>sys_terminated := True\<rparr>)
         | NoReturn \<Rightarrow> None)
      else None)"

text \<open>
  The timer thread calls back into the connection whose timer expired and catches its
  exceptions; when the thread of the connection has ended the object is gone.
\<close>

definition timer_step ::
  "nat \<Rightarrow> 't transport_ops \<Rightarrow> nat \<Rightarrow> ConnectionTimers \<Rightarrow> int \<Rightarrow> ('s, 't) server_system \<Rightarrow> ('s, 't) server_system option" where
  "timer_step fuel tp i t now sys =
     (case deadline_of (m_TimerManager (sys_server sys)) t of
        Some (x, j) \<Rightarrow>
          if j = i \<and> x \<le> now \<and> i < length (sys_conns sys) then
            (if sys_handlers sys ! i = HandlerDone then Some (sys\<lparr>sys_terminated := True\<rparr>)
             else case react fuel (mk_env tp (model_of sys i) True now) (TimerFired t) (conn_of sys i) of
               Ok _ c \<Rightarrow> Some (put_conn i c (sys_handlers sys ! i) sys)
             | Throw e c \<Rightarrow> Some ((put_conn i c (sys_handlers sys ! i) sys)\<lparr>sys_terminated := \<not> is_exception e\<rparr>)
             | NoReturn \<Rightarrow> None)
          else None
      | None \<Rightarrow> None)"

definition announcer_step :: "('s, 't) server_ops \<Rightarrow> ('s, 't) server_system \<Rightarrow> ('s, 't) server_system option" where
  "announcer_step ops sys =
     (case sys_announcer sys of
        AnnouncerAt i \<Rightarrow>
          if i < cfg_announceCount (m_config (sys_server sys)) \<and> m_udpRunning (sys_server sys)
          then Some (sys\<lparr>sys_server := snd (announce_once ops (sys_server sys)), sys_announcer := AnnouncerAt (i + 1)\<rparr>)
          else Some (sys\<lparr>sys_announcer := AnnouncerDone\<rparr>)
      | AnnouncerDone \<Rightarrow> None)"

text \<open>
  \<open>stop\<close>: clear the flags, join the threads one after the other, clear the vector (a thread
  object that was not joined terminates the process), close the transport.
\<close>

definition stop_step :: "('s, 't) server_ops \<Rightarrow> ('s, 't) server_system \<Rightarrow> ('s, 't) server_system option" where
  "stop_step ops sys =
     (let srv = sys_server sys in
      case sys_stop sys of
        NotStopping \<Rightarrow>
          Some (sys\<lparr>sys_server := srv\<lparr>m_udpRunning := False, m_tcpRunning := False\<rparr>,
                    sys_stop := StopJoin 0 (length (m_workerThreads srv))\<rparr>)
      | StopJoin k n \<Rightarrow>
          if k < n then
            (if thread_done sys (m_workerThreads srv ! k) then Some (sys\<lparr>sys_stop := StopJoin (k + 1) n\<rparr>) else None)
          else
            Some (sys\<lparr>sys_server := srv\<lparr>m_workerThreads := [], srv_transport := st_close ops (srv_transport srv)\<rparr>,
                      sys_stop := Stopped, sys_terminated := length (m_workerThreads srv) \<noteq> n\<rparr>)
      | Stopped \<Rightarrow> None)"

datatype sys_action =
    ActListener int DoIPAddress
  | ActHandler nat int
  | ActTimer nat ConnectionTimers int
  | ActAnnouncer
  | ActStop

fun sys_exec ::
  "nat \<Rightarrow> ('s, 't) server_ops \<Rightarrow> 't transport_ops \<Rightarrow> u8 \<Rightarrow> sys_action \<Rightarrow> ('s, 't) server_system \<Rightarrow> ('s, 't) server_system option" where
  "sys_exec fuel ops tp retries a sys =
     (if sys_terminated sys then None
      else case a of
             ActListener now client \<Rightarrow> listener_step ops tp retries now client sys
           | ActHandler i now \<Rightarrow> handler_step fuel tp i now sys
           | ActTimer i t now \<Rightarrow> timer_step fuel tp i t now sys
           | ActAnnouncer \<Rightarrow> announcer_step ops sys
           | ActStop \<Rightarrow> stop_step ops sys)"

inductive sys_reach ::
  "nat \<Rightarrow> ('s, 't) server_ops \<Rightarrow> 't transport_ops \<Rightarrow> u8 \<Rightarrow> ('s, 't) server_system \<Rightarrow> ('s, 't) server_system \<Rightarrow> bool"
  for fuel ops tp retries sys0 where
  sys_start: "sys_reach fuel ops tp retries sys0 sys0"
| sys_step: "sys_reach fuel ops tp retries sys0 sys \<Longrightarrow> sys_exec fuel ops tp retries a sys = Some sys' \<Longrightarrow>
     sys_reach fuel ops tp retries sys0 sys'"

text \<open>The destructor stops a server that still runs.\<close>

definition server_destroy_stops :: "('s, 't) DoIPServer \<Rightarrow> bool" where
  "server_destroy_stops srv \<longleftrightarrow> m_udpRunning srv \<or> m_tcpRunning srv"

end
