(* ===== verification/DoIP_ServerSystem.thy ===== *)
theory DoIP_ServerSystem
  imports DoIP_Server
begin

text \<open>
  What the threads of the server guarantee together.  A predicate on single connections that
  the handlers keep (\<open>served_inv\<close>, an instance of the locale \<open>handler_invariant\<close>) is lifted to
  the interleaving of all threads; an inductive invariant of the whole system relates the
  progress of \<open>stop\<close> to the threads that have ended.
\<close>

section \<open>Connections between two steps\<close>

definition timed_durations :: "'t connection \<Rightarrow> bool" where
  "timed_durations c \<longleftrightarrow> m_initialInactivityTimeout c \<noteq> 0 \<and> m_generalInactivityTimeout c \<noteq> 0
     \<and> m_aliveCheckTimeout c \<noteq> 0 \<and> m_state c \<noteq> DoIPServerState.Finalize"

definition served_inv :: "'t transport_ops \<Rightarrow> 't connection \<Rightarrow> bool" where
  "served_inv tp c \<longleftrightarrow> timed_durations c
     \<and> (m_state c = DoIPServerState.Closed \<or> m_isClosing c \<longrightarrow> \<not> tp_isActive tp (m_transport c))"

lemma state_duration_nz: "timed_durations c \<Longrightarrow> timed_state s \<Longrightarrow> state_duration s c \<noteq> 0"
  by (auto simp: timed_state_def state_duration_def getTimerDuration_def timed_durations_def)

lemma transitionTo_durations:
  "m_initialInactivityTimeout (transitionTo now s c) = m_initialInactivityTimeout c \<and>
   m_generalInactivityTimeout (transitionTo now s c) = m_generalInactivityTimeout c \<and>
   m_aliveCheckTimeout (transitionTo now s c) = m_aliveCheckTimeout c \<and>
   m_isClosing (transitionTo now s c) = m_isClosing c"
  if "timed_state s \<or> s = DoIPServerState.Closed"
  by (rule transitionTo_shape [OF that, where now = now and c = c]) simp

lemma timed_durations_transition:
  assumes "timed_durations c" and "timed_state s \<or> s = DoIPServerState.Closed"
  shows "timed_durations (transitionTo now s c)"
proof -
  have "m_state (transitionTo now s c) \<noteq> DoIPServerState.Finalize"
    using transitionTo_state [OF assms(2), of now c] assms(2) by (auto simp: timed_state_def)
  with assms(1) transitionTo_durations [OF assms(2), of now c] show ?thesis by (simp add: timed_durations_def)
qed

lemma timed_durations_cong:
  "timed_durations c \<Longrightarrow> m_initialInactivityTimeout c' = m_initialInactivityTimeout c \<Longrightarrow>
   m_generalInactivityTimeout c' = m_generalInactivityTimeout c \<Longrightarrow> m_aliveCheckTimeout c' = m_aliveCheckTimeout c \<Longrightarrow>
   m_state c' = m_state c \<Longrightarrow> timed_durations c'"
  by (simp add: timed_durations_def)

lemma send_config [simp]:
  "m_initialInactivityTimeout (snd (sendProtocolMessage env m c)) = m_initialInactivityTimeout c"
  "m_generalInactivityTimeout (snd (sendProtocolMessage env m c)) = m_generalInactivityTimeout c"
  "m_aliveCheckTimeout (snd (sendProtocolMessage env m c)) = m_aliveCheckTimeout c"
  "m_isClosing (snd (sendProtocolMessage env m c)) = m_isClosing c"
  "m_state (snd (sendProtocolMessage env m c)) = m_state c"
  by (simp_all add: sendProtocolMessage_def emit_def split: prod.split)

lemma receive_config:
  assumes "receiveProtocolMessage env c = Ok x c'"
  shows "m_initialInactivityTimeout c' = m_initialInactivityTimeout c"
    "m_generalInactivityTimeout c' = m_generalInactivityTimeout c"
    "m_aliveCheckTimeout c' = m_aliveCheckTimeout c" "m_isClosing c' = m_isClosing c" "m_state c' = m_state c"
  using assms by (auto simp: receiveProtocolMessage_def split: option.splits sum.splits)

lemma timed_durations_locale:
  assumes "connection_transport ti tp"
  shows "connection_invariant ti (mk_env tp model g now) timed_durations"
proof (intro connection_invariant.intro callback_invariant.intro connection_invariant_axioms.intro
    callback_invariant_axioms.intro callback_actions.intro callback_actions_axioms.intro mk_env_transport [OF assms])
  fix c :: "'a connection" and m s e r a x c' b res
  assume I: "timed_durations c"
  show "timed_durations (snd (sendProtocolMessage (mk_env tp model g now) m c))"
    by (rule timed_durations_cong [OF I]) simp_all
  show "receiveProtocolMessage (mk_env tp model g now) c = Ok x c' \<Longrightarrow> timed_durations c'"
    by (rule timed_durations_cong [OF I]) (auto dest: receive_config)
  show "timed_durations (receiveDownstreamResponse (mk_env tp model g now) b res c)"
    unfolding receiveDownstreamResponse_def Let_def
    by (rule timed_durations_transition, rule timed_durations_cong [OF I]) (simp_all add: emit_def)
  show "timed_durations (transitionTo (env_now (mk_env tp model g now)) DoIPServerState.Closed c)"
    by (rule timed_durations_transition [OF I]) simp
  show "timed_state s \<or> s = DoIPServerState.Closed \<Longrightarrow> timed_durations (transitionTo (env_now (mk_env tp model g now)) s c)"
    by (rule timed_durations_transition [OF I])
qed (simp_all add: timed_durations_def setClientAddress_def emit_def restartStateTimer_def)

lemma served_inv_cong:
  "served_inv tp c \<Longrightarrow> timed_durations c' \<Longrightarrow> m_isClosing c' = m_isClosing c \<Longrightarrow>
   (m_state c' = DoIPServerState.Closed \<longrightarrow> m_state c = DoIPServerState.Closed) \<Longrightarrow>
   (tp_isActive tp (m_transport c') \<longrightarrow> tp_isActive tp (m_transport c)) \<Longrightarrow> served_inv tp c'"
  by (auto simp: served_inv_def)

lemma served_inv_transition:
  assumes "served_inv tp c" and "timed_state s"
  shows "served_inv tp (transitionTo now s c)"
proof (cases "m_state c = s")
  case False
  have d: "timed_durations c" using assms(1) by (simp add: served_inv_def)
  have "s \<noteq> DoIPServerState.Closed" "s \<noteq> DoIPServerState.Finalize" using assms(2) by (auto simp: timed_state_def)
  then show ?thesis
    using False d assms(1)
    by (simp add: transitionTo_timed [OF assms(2) False] state_duration_nz [OF d assms(2)] served_inv_def timed_durations_def)
qed (use assms in simp)

lemma closeConnection_shut:
  assumes "connection_transport ti tp" and "\<not> m_isClosing c"
  shows "post (\<lambda>c. \<not> tp_isActive tp (m_transport c)) (closeConnection fuel (mk_env tp model True now) r c)"
proof (cases fuel)
  case (Suc n)
  note loc = connection_invariant.axioms(1) [OF timed_durations_locale [OF assms(1), of model True now]]
  show ?thesis
    using assms(2) callback_invariant.default_close_inactive [OF loc callback_invariant.closeConnection_calm [OF loc],
        of n r "c\<lparr>m_isClosing := True\<rparr>"] Suc
    by (simp add: tp_active_def)
qed simp

lemma post_conj: "post P m \<Longrightarrow> post Q m \<Longrightarrow> post (\<lambda>c. P c \<and> Q c) m"
  by (cases m) simp_all

lemma served_inv_close:
  assumes "connection_transport ti tp" and "served_inv tp c"
  shows "post (served_inv tp) (closeConnection fuel (mk_env tp model True now) r c)"
proof (cases "m_isClosing c")
  case True
  with assms(2) show ?thesis by (cases fuel) simp_all
next
  case False
  have "timed_durations c" using assms(2) by (simp add: served_inv_def)
  then have "post timed_durations (closeConnection fuel (mk_env tp model True now) r c)"
    by (rule callback_invariant.close_I [OF connection_invariant.axioms(1) [OF timed_durations_locale [OF assms(1)]]])
  from post_conj [OF this closeConnection_shut [OF assms(1) False]] show ?thesis
    by (rule post_mono) (simp add: served_inv_def)
qed

lemma served_inv_send:
  assumes "connection_transport ti tp" and "served_inv tp c"
  shows "served_inv tp (snd (sendProtocolMessage (mk_env tp model g now) m c))"
proof -
  obtain r t where s: "tp_send tp m (m_transport c) = (r, t)" by (cases "tp_send tp m (m_transport c)")
  have "tp_isActive tp t \<longrightarrow> tp_isActive tp (m_transport c)"
    using connection_transport.send_active [OF assms(1), of m "m_transport c"] s by simp
  then show ?thesis using assms(2)
    by (auto simp: sendProtocolMessage_def emit_def s served_inv_def timed_durations_def)
qed

lemma served_inv_receive:
  assumes "connection_transport ti tp" and "served_inv tp c"
    and r: "receiveProtocolMessage (mk_env tp model g now) c = Ok x c'"
  shows "served_inv tp c'"
proof -
  obtain t where t: "tp_receive tp (m_transport c) = Some (Inr (x, t))" "c' = c\<lparr>m_transport := t\<rparr>"
    using r by (auto simp: receiveProtocolMessage_def split: option.splits sum.splits)
  with connection_transport.receive_active [OF assms(1) t(1)] assms(2) show ?thesis
    by (auto simp: served_inv_def timed_durations_def)
qed

lemma served_inv_handlers:
  assumes ct: "connection_transport ti tp"
  shows "handler_invariant ti (mk_env tp model True now) (served_inv tp)"
proof (intro handler_invariant.intro handler_invariant_axioms.intro callback_actions.intro
    callback_actions_axioms.intro mk_env_transport [OF ct])
  fix c :: "'a connection" and m s e r a x c' b res fuel
  let ?env = "mk_env tp model True now"
  assume I: "served_inv tp c"
  then have d: "timed_durations c" by (simp add: served_inv_def)
  show "served_inv tp (snd (sendProtocolMessage ?env m c))" by (rule served_inv_send [OF ct I])
  show "receiveProtocolMessage ?env c = Ok x c' \<Longrightarrow> served_inv tp c'"
    by (rule served_inv_receive [OF ct I])
  have e: "served_inv tp (emit e c)" for e using I by (simp add: served_inv_def timed_durations_def emit_def)
  show "served_inv tp (receiveDownstreamResponse ?env b res c)"
    unfolding receiveDownstreamResponse_def Let_def by (intro served_inv_transition served_inv_send [OF ct] e) simp
  show "served_inv tp (setClientAddress a c)"
    using I by (simp add: served_inv_def timed_durations_def setClientAddress_def emit_def)
  show "served_inv tp (emit e c)" "served_inv tp (emit (EvDiagnostic m) c)" by (rule e)+
  show "post (served_inv tp) (closeConnection fuel ?env r c)" by (rule served_inv_close [OF ct I])
  show "timed_state s \<or> s = DoIPServerState.Closed \<and> m_state c = DoIPServerState.Finalize \<Longrightarrow>
      served_inv tp (transitionTo (env_now ?env) s c)"
    using served_inv_transition [OF I] d by (auto simp: timed_durations_def)
  show "served_inv tp (restartStateTimer (env_now ?env) c)"
    using I by (simp add: served_inv_def timed_durations_def restartStateTimer_def)
qed

interpretation mock_served: handler_invariant "\<lambda>_. True" "mk_env mock_ops model True now" "served_inv mock_ops"
  for model now
  by (rule served_inv_handlers) (rule mock.connection_transport_axioms)

interpretation tcp_served: handler_invariant "\<lambda>_. recv_bounded os" "mk_env (tcp_ops os) model True now" "served_inv (tcp_ops os)"
  for os :: "'n os_socket" and model now
  by (rule served_inv_handlers) (rule tcp.connection_transport_axioms)

lemma served_inv_new:
  assumes ct: "connection_transport ti tp"
    and "connection_new (mk_env tp model True now) this t tm client retries = Ok () c"
  shows "served_inv tp c"
  by (rule callback_actions.connection_new_I [OF handler_invariant.axioms(1) [OF served_inv_handlers [OF ct]] _ _ assms(2)])
    (simp add: served_inv_def timed_durations_def, rule served_inv_transition, simp_all)

text \<open>Other connections may change the shared timer manager at any time.\<close>

lemma served_inv_timers [simp]: "served_inv tp (c\<lparr>m_timerManager := tm\<rparr>) = served_inv tp c"
  by (simp add: served_inv_def timed_durations_def)

section \<open>Invariant of the threads\<close>

definition conns_inv :: "'t transport_ops \<Rightarrow> ('s, 't) server_system \<Rightarrow> bool" where
  "conns_inv tp sys \<longleftrightarrow> length (sys_handlers sys) = length (sys_conns sys)
     \<and> (\<forall>i < length (sys_conns sys). served_inv tp (fst (sys_conns sys ! i))
          \<and> (sys_handlers sys ! i = HandlerDone \<longrightarrow> \<not> tp_isActive tp (m_transport (fst (sys_conns sys ! i)))))"

text \<open>Every thread that has not ended is owned by a thread object.\<close>

definition threads_owned :: "('s, 't) server_system \<Rightarrow> bool" where
  "threads_owned sys \<longleftrightarrow>
     (sys_listener sys \<noteq> ListenerDone \<longrightarrow> TcpListener \<in> set (m_workerThreads (sys_server sys)))
     \<and> (sys_announcer sys \<noteq> AnnouncerDone \<longrightarrow> UdpAnnouncer \<in> set (m_workerThreads (sys_server sys)))
     \<and> (\<forall>i < length (sys_handlers sys). ConnectionHandler i \<in> set (m_workerThreads (sys_server sys)))"

definition all_done :: "('s, 't) server_system \<Rightarrow> bool" where
  "all_done sys \<longleftrightarrow> sys_listener sys = ListenerDone \<and> sys_announcer sys = AnnouncerDone
     \<and> (\<forall>i < length (sys_handlers sys). sys_handlers sys ! i = HandlerDone)"

definition flags_off :: "('s, 't) server_system \<Rightarrow> bool" where
  "flags_off sys \<longleftrightarrow> \<not> m_tcpRunning (sys_server sys) \<and> \<not> m_udpRunning (sys_server sys)"

fun stop_inv :: "('s, 't) server_ops \<Rightarrow> stop_pc \<Rightarrow> ('s, 't) server_system \<Rightarrow> bool" where
  "stop_inv ops NotStopping sys = threads_owned sys"
| "stop_inv ops (StopJoin k n) sys \<longleftrightarrow> threads_owned sys \<and> flags_off sys \<and> n = length (m_workerThreads (sys_server sys))
     \<and> k \<le> n \<and> (\<forall>j < k. thread_done sys (m_workerThreads (sys_server sys) ! j))"
| "stop_inv ops Stopped sys \<longleftrightarrow> all_done sys \<and> flags_off sys \<and> m_workerThreads (sys_server sys) = []
     \<and> \<not> st_isActive ops (srv_transport (sys_server sys))"

definition sys_inv :: "('s, 't) server_ops \<Rightarrow> 't transport_ops \<Rightarrow> ('s, 't) server_system \<Rightarrow> bool" where
  "sys_inv ops tp sys \<longleftrightarrow> conns_inv tp sys \<and> (\<not> sys_terminated sys \<longrightarrow> stop_inv ops (sys_stop sys) sys)"

lemma joined_all:
  assumes "threads_owned sys" and "\<forall>t \<in> set (m_workerThreads (sys_server sys)). thread_done sys t"
  shows "all_done sys"
  using assms by (fastforce simp: threads_owned_def all_done_def)

lemma conns_inv_put:
  assumes "conns_inv tp sys" and "i < length (sys_conns sys)" and "served_inv tp c"
    and "pc = HandlerDone \<longrightarrow> \<not> tp_isActive tp (m_transport c)"
  shows "conns_inv tp (put_conn i c pc sys)"
  using assms by (auto simp: conns_inv_def put_conn_def nth_list_update)

lemma stop_inv_put:
  assumes "stop_inv ops (sys_stop sys) sys" and "i < length (sys_handlers sys)"
    and "sys_handlers sys ! i = HandlerDone \<longrightarrow> pc = HandlerDone"
  shows "stop_inv ops (sys_stop (put_conn i c pc sys)) (put_conn i c pc sys)"
proof -
  have "thread_done sys t \<Longrightarrow> thread_done (put_conn i c pc sys) t" for t
    using assms(2,3) by (cases t) (auto simp: put_conn_def nth_list_update)
  with assms show ?thesis
    by (cases "sys_stop sys")
      (auto simp: put_conn_def threads_owned_def flags_off_def all_done_def nth_list_update)
qed

lemma stop_inv_terminated [simp]: "stop_inv ops pc (sys\<lparr>sys_terminated := b\<rparr>) = stop_inv ops pc sys"
proof -
  have "thread_done (sys\<lparr>sys_terminated := b\<rparr>) t = thread_done sys t" for t by (cases t) simp_all
  then show ?thesis by (cases pc) (simp_all add: threads_owned_def flags_off_def all_done_def)
qed

text \<open>After closing a guarded connection its transport is inactive.\<close>

lemma close_served:
  assumes "connection_transport ti tp" and "served_inv tp c"
  shows "post (\<lambda>c. served_inv tp c \<and> \<not> tp_isActive tp (m_transport c)) (closeConnection fuel (mk_env tp model True now) r c)"
proof (cases "m_isClosing c")
  case True
  with assms(2) show ?thesis by (cases fuel) (simp_all add: served_inv_def)
qed (intro post_conj served_inv_close [OF assms] closeConnection_shut [OF assms(1)])

lemma handler_served:
  assumes ct: "connection_transport ti tp" and I: "served_inv tp c"
    and "pc = HandlerDone \<longrightarrow> \<not> tp_isActive tp (m_transport c)"
  shows "case connectionHandler_step fuel (mk_env tp model True now) running pc c of
      Ok pc' c' \<Rightarrow> served_inv tp c' \<and> (pc' = HandlerDone \<longrightarrow> \<not> tp_isActive tp (m_transport c'))
    | Throw e c' \<Rightarrow> served_inv tp c'
    | NoReturn \<Rightarrow> True"
proof -
  let ?env = "mk_env tp model True now"
  let ?P = "\<lambda>x. case x of Ok pc' c' \<Rightarrow> served_inv tp c' \<and> (pc' = HandlerDone \<longrightarrow> \<not> tp_isActive tp (m_transport c'))
    | Throw e c' \<Rightarrow> served_inv tp c' | NoReturn \<Rightarrow> True"
  have close: "?P (obind (closeConnection fuel ?env r c) (\<lambda>_ c. Ok HandlerDone c))" if "served_inv tp c" for c r
    using close_served [OF ct that, of fuel model now r] by (cases "closeConnection fuel ?env r c") simp_all
  note hi = served_inv_handlers [OF ct, of model now]
  have msg: "?P (obind (handleMessage fuel ?env m c) (\<lambda>_ c. Ok HandlerHead c))" if "served_inv tp c" for c m
    using handler_invariant.handleMessage_I [OF hi that, of fuel m] by (cases "handleMessage fuel ?env m c") simp_all
  show ?thesis
  proof (cases pc)
    case HandlerHead
    with I close [OF I] show ?thesis by simp
  next
    case HandlerReceive
    have r: "post (served_inv tp) (receiveProtocolMessage ?env c)"
      by (rule callback_actions.I_receive_post [OF handler_invariant.axioms(1) [OF hi] I])
    show ?thesis
    proof (cases "receiveProtocolMessage ?env c")
      case (Ok x c')
      with r close [of c'] msg [of c'] HandlerReceive show ?thesis by (cases x) simp_all
    qed (use r HandlerReceive in simp_all)
  next
    case HandlerDone
    with I assms(3) show ?thesis by simp
  qed
qed

subsection \<open>Steps\<close>

lemma conn_of_served: "conns_inv tp sys \<Longrightarrow> i < length (sys_conns sys) \<Longrightarrow> served_inv tp (conn_of sys i)"
  by (simp add: conns_inv_def conn_of_def)

lemma conn_of_done:
  "conns_inv tp sys \<Longrightarrow> i < length (sys_conns sys) \<Longrightarrow> sys_handlers sys ! i = HandlerDone \<Longrightarrow>
   \<not> tp_isActive tp (m_transport (conn_of sys i))"
  by (simp add: conns_inv_def conn_of_def)

lemma handler_step_inv:
  assumes ct: "connection_transport ti tp" and I: "sys_inv ops tp sys" and nt: "\<not> sys_terminated sys"
    and st: "handler_step fuel tp i now sys = Some sys'"
  shows "sys_inv ops tp sys'"
proof -
  have i: "i < length (sys_conns sys)" "i < length (sys_handlers sys)" and nd: "sys_handlers sys ! i \<noteq> HandlerDone"
    and c: "conns_inv tp sys" and s: "stop_inv ops (sys_stop sys) sys"
    using st I nt by (auto simp: handler_step_def sys_inv_def conns_inv_def split: if_splits)
  note h = handler_served [OF ct conn_of_served [OF c i(1)], of "sys_handlers sys ! i" fuel "model_of sys i" now
      "m_tcpRunning (sys_server sys)"]
  show ?thesis
  proof (cases "connectionHandler_step fuel (mk_env tp (model_of sys i) True now) (m_tcpRunning (sys_server sys))
      (sys_handlers sys ! i) (conn_of sys i)")
    case (Ok pc c')
    with st i nd have e: "sys' = put_conn i c' pc sys" by (simp add: handler_step_def)
    from h nd Ok have "served_inv tp c'" "pc = HandlerDone \<longrightarrow> \<not> tp_isActive tp (m_transport c')" by simp_all
    from conns_inv_put [OF c i(1) this] stop_inv_put [OF s i(2), of pc c'] nd show ?thesis
      by (simp add: sys_inv_def e)
  next
    case (Throw e c')
    with st i nd have e: "sys' = (put_conn i c' (sys_handlers sys ! i) sys)\<lparr>sys_terminated := True\<rparr>"
      by (simp add: handler_step_def)
    from h nd Throw have "served_inv tp c'" by simp
    from conns_inv_put [OF c i(1) this, of "sys_handlers sys ! i"] nd show ?thesis
      by (simp add: sys_inv_def e conns_inv_def)
  qed (use st i nd in \<open>simp add: handler_step_def\<close>)
qed

lemma timer_step_inv:
  assumes ct: "connection_transport ti tp" and I: "sys_inv ops tp sys" and nt: "\<not> sys_terminated sys"
    and st: "timer_step fuel tp i t now sys = Some sys'"
  shows "sys_inv ops tp sys'"
proof -
  let ?c = "conn_of sys i" and ?pc = "sys_handlers sys ! i"
  have i: "i < length (sys_conns sys)" "i < length (sys_handlers sys)"
    and c: "conns_inv tp sys" and s: "stop_inv ops (sys_stop sys) sys"
    and r: "?pc = HandlerDone \<Longrightarrow> sys' = sys\<lparr>sys_terminated := True\<rparr>"
    and q: "?pc \<noteq> HandlerDone \<Longrightarrow> case react fuel (mk_env tp (model_of sys i) True now) (TimerFired t) ?c of
        Ok _ c \<Rightarrow> sys' = put_conn i c ?pc sys
      | Throw e c \<Rightarrow> sys' = (put_conn i c ?pc sys)\<lparr>sys_terminated := \<not> is_exception e\<rparr>
      | NoReturn \<Rightarrow> False"
    using st I nt by (auto simp: timer_step_def sys_inv_def conns_inv_def
        split: option.splits if_splits outcome.splits)
  note hi = served_inv_handlers [OF ct, of "model_of sys i" now]
  have p: "post (served_inv tp) (react fuel (mk_env tp (model_of sys i) True now) (TimerFired t) ?c)"
    using conn_of_served [OF c i(1)] by (intro handler_invariant.react_keeps [OF hi]) simp_all
  show ?thesis
  proof (cases "?pc = HandlerDone")
    case True
    with r I show ?thesis by (simp add: sys_inv_def conns_inv_def)
  next
    case nd: False
    show ?thesis
    proof (cases "react fuel (mk_env tp (model_of sys i) True now) (TimerFired t) ?c")
      case (Ok x c')
      with q [OF nd] p have "sys' = put_conn i c' ?pc sys" "served_inv tp c'" by simp_all
      with conns_inv_put [OF c i(1), of c' ?pc] stop_inv_put [OF s i(2), of ?pc c'] nd show ?thesis
        by (simp add: sys_inv_def)
    next
      case (Throw e c')
      let ?s = "put_conn i c' ?pc sys"
      from Throw q [OF nd] p have e: "sys' = ?s\<lparr>sys_terminated := \<not> is_exception e\<rparr>" "served_inv tp c'" by simp_all
      have "conns_inv tp ?s" using conns_inv_put [OF c i(1) e(2), of ?pc] nd by simp
      moreover have "stop_inv ops (sys_stop ?s) ?s" by (rule stop_inv_put [OF s i(2)]) simp
      ultimately show ?thesis unfolding e(1) sys_inv_def by (simp add: conns_inv_def stop_inv_terminated)
    qed (use q [OF nd] in simp)
  qed
qed

text \<open>Accepting changes the transport and the timers of the server and yields a sound connection.\<close>

lemma accept_fields:
  assumes "connection_transport ti tp"
    and "acceptTcpConnection ops tp now this client retries mf srv = Ok cm srv'"
  shows "\<exists>s tm. srv' = srv\<lparr>srv_transport := s, m_TimerManager := tm\<rparr>"
    and "cm = Some (c, model) \<Longrightarrow> served_inv tp c"
proof -
  show "\<exists>s tm. srv' = srv\<lparr>srv_transport := s, m_TimerManager := tm\<rparr>"
  proof (cases "st_acceptConnection ops (srv_transport srv)")
    case (Pair t s)
    show ?thesis
    proof (cases t)
      case None
      with assms(2) Pair have "srv' = srv\<lparr>srv_transport := s, m_TimerManager := m_TimerManager srv\<rparr>"
        by (auto simp: acceptTcpConnection_def)
      then show ?thesis by blast
    next
      case (Some x)
      with assms(2) Pair show ?thesis by (auto simp: acceptTcpConnection_def Let_def split: outcome.splits)
    qed
  qed
  show "cm = Some (c, model) \<Longrightarrow> served_inv tp c"
    using assms(2) served_inv_new [OF assms(1)]
    by (auto simp: acceptTcpConnection_def Let_def split: prod.splits option.splits outcome.splits)
qed

lemma accept_throws:
  assumes "acceptTcpConnection ops tp now this client retries mf srv = Throw e srv'"
  shows "\<exists>s tm. srv' = srv\<lparr>srv_transport := s, m_TimerManager := tm\<rparr>"
  using assms by (auto simp: acceptTcpConnection_def Let_def split: prod.splits option.splits outcome.splits)

lemma spawn_inv:
  assumes "sys_inv ops tp sys" and "\<not> sys_terminated sys" and "sys_listener sys = ListenerAccept"
    and "served_inv tp c"
    and "srv' = (sys_server sys)\<lparr>srv_transport := s, m_TimerManager := tm\<rparr>"
  shows "sys_inv ops tp (spawn_handler (c, model) (sys\<lparr>sys_server := srv'\<rparr>))"
proof -
  have c: "conns_inv tp sys" and s: "stop_inv ops (sys_stop sys) sys" using assms(1,2) by (auto simp: sys_inv_def)
  then have "conns_inv tp (spawn_handler (c, model) (sys\<lparr>sys_server := srv'\<rparr>))"
    using assms(4) by (auto simp: conns_inv_def spawn_handler_def Let_def nth_append)
  moreover have "sys_stop sys \<noteq> Stopped" using s assms(3) by (auto simp: all_done_def)
  ultimately show ?thesis using s c assms(3,5)
    by (cases "sys_stop sys")
      (auto simp: sys_inv_def spawn_handler_def Let_def threads_owned_def conns_inv_def less_Suc_eq)
qed

lemma server_update_inv:
  assumes "sys_inv ops tp sys" and "\<not> sys_terminated sys"
    and "srv' = (sys_server sys)\<lparr>srv_transport := s, m_TimerManager := tm\<rparr>"
    and "sys_stop sys = Stopped \<longrightarrow> \<not> st_isActive ops s"
    and "l = ListenerDone \<or> sys_listener sys \<noteq> ListenerDone" and "a = AnnouncerDone \<or> sys_announcer sys \<noteq> AnnouncerDone"
  shows "sys_inv ops tp (sys\<lparr>sys_server := srv', sys_listener := l, sys_announcer := a\<rparr>)"
proof -
  let ?s = "sys\<lparr>sys_server := srv', sys_listener := l, sys_announcer := a\<rparr>"
  have "thread_done sys t \<Longrightarrow> thread_done ?s t" for t using assms(5,6) by (cases t) auto
  with assms show ?thesis
    by (cases "sys_stop sys") (auto simp: sys_inv_def conns_inv_def threads_owned_def flags_off_def all_done_def)
qed

lemma listener_step_inv:
  assumes ct: "connection_transport ti tp" and I: "sys_inv ops tp sys" and nt: "\<not> sys_terminated sys"
    and st: "listener_step ops tp retries now client sys = Some sys'"
  shows "sys_inv ops tp sys'"
proof (cases "sys_listener sys")
  case ListenerHead
  let ?l = "if m_tcpRunning (sys_server sys) then ListenerAccept else ListenerDone"
  have "sys_stop sys \<noteq> Stopped" using I nt ListenerHead by (auto simp: sys_inv_def all_done_def)
  then have "sys_inv ops tp (sys\<lparr>sys_server := sys_server sys, sys_listener := ?l, sys_announcer := sys_announcer sys\<rparr>)"
    using ListenerHead
    by (intro server_update_inv [OF I nt, where s = "srv_transport (sys_server sys)" and tm = "m_TimerManager (sys_server sys)"])
      simp_all
  with st ListenerHead show ?thesis by (auto simp: listener_step_def)
next
  case ListenerAccept
  have ns: "sys_stop sys \<noteq> Stopped" using I nt ListenerAccept by (auto simp: sys_inv_def all_done_def)
  let ?o = "acceptTcpConnection ops tp now (length (sys_conns sys)) client retries
                  (m_modelFactory (sys_server sys)) (sys_server sys)"
  show ?thesis
  proof (cases ?o)
    case (Ok cm srv')
    then obtain s tm where e: "srv' = (sys_server sys)\<lparr>srv_transport := s, m_TimerManager := tm\<rparr>"
      using accept_fields(1) [OF ct] by blast
    show ?thesis
    proof (cases cm)
      case None
      with st Ok ListenerAccept have "sys' = sys\<lparr>sys_server := srv', sys_listener := ListenerHead, sys_announcer := sys_announcer sys\<rparr>"
        by (auto simp: listener_step_def)
      with server_update_inv [OF I nt e, of ListenerHead "sys_announcer sys"] ns ListenerAccept show ?thesis by auto
    next
      case (Some cmv)
      then obtain c model where cm: "cm = Some (c, model)" by (cases cmv) simp
      from accept_fields(2) [OF ct Ok cm] have "served_inv tp c" .
      from spawn_inv [OF I nt ListenerAccept this e, of model] st Ok ListenerAccept cm show ?thesis
        by (simp add: listener_step_def)
    qed
  next
    case (Throw e srv')
    with st ListenerAccept have "sys' = sys\<lparr>sys_server := srv', sys_terminated := True\<rparr>" by (simp add: listener_step_def)
    with I show ?thesis by (simp add: sys_inv_def conns_inv_def)
  qed (use st ListenerAccept in \<open>simp add: listener_step_def\<close>)
qed (use st in \<open>simp add: listener_step_def\<close>)

lemma announcer_step_inv:
  assumes I: "sys_inv ops tp sys" and nt: "\<not> sys_terminated sys" and st: "announcer_step ops sys = Some sys'"
  shows "sys_inv ops tp sys'"
proof (cases "sys_announcer sys")
  case (AnnouncerAt i)
  have ns: "sys_stop sys \<noteq> Stopped" using I nt AnnouncerAt by (auto simp: sys_inv_def all_done_def)
  obtain s where "snd (announce_once ops (sys_server sys)) = (sys_server sys)\<lparr>srv_transport := s\<rparr>"
    by (cases "st_sendBroadcast ops (announcement (m_config (sys_server sys))) DOIP_UDP_TEST_EQUIPMENT_REQUEST_PORT
        (srv_transport (sys_server sys))") (simp add: announce_once_def)
  then have e: "snd (announce_once ops (sys_server sys)) =
      (sys_server sys)\<lparr>srv_transport := s, m_TimerManager := m_TimerManager (sys_server sys)\<rparr>" by simp
  note u = server_update_inv [OF I nt e, of "sys_listener sys"]
    server_update_inv [OF I nt, where srv' = "sys_server sys" and s = "srv_transport (sys_server sys)"
      and tm = "m_TimerManager (sys_server sys)" and l = "sys_listener sys" and a = AnnouncerDone]
  show ?thesis
    using st AnnouncerAt ns u(1) [of "AnnouncerAt (i + 1)"] u(2) by (auto simp: announcer_step_def split: if_splits)
qed (use st in \<open>simp add: announcer_step_def\<close>)

lemma stop_step_inv:
  assumes so: "server_transport sinv ops" and I: "sys_inv ops tp sys" and nt: "\<not> sys_terminated sys"
    and st: "stop_step ops sys = Some sys'"
  shows "sys_inv ops tp sys'"
proof -
  have c: "conns_inv tp sys" and s: "stop_inv ops (sys_stop sys) sys" using I nt by (auto simp: sys_inv_def)
  note cl = server_transport.close_inactive [OF so]
  show ?thesis
  proof (cases "sys_stop sys")
    case NotStopping
    with st c s show ?thesis
      by (auto simp: stop_step_def Let_def sys_inv_def conns_inv_def threads_owned_def flags_off_def)
  next
    case (StopJoin k n)
    have td: "thread_done (sys\<lparr>sys_stop := x\<rparr>) t = thread_done sys t" for x t by (cases t) simp_all
    show ?thesis
    proof (cases "k < n")
      case True
      with st StopJoin have "sys' = sys\<lparr>sys_stop := StopJoin (k + 1) n\<rparr>" "thread_done sys (m_workerThreads (sys_server sys) ! k)"
        by (auto simp: stop_step_def Let_def split: if_splits)
      with c s StopJoin True td show ?thesis
        by (auto simp: sys_inv_def conns_inv_def threads_owned_def flags_off_def less_Suc_eq)
    next
      case False
      with s StopJoin have n: "n = length (m_workerThreads (sys_server sys))" "k = n" by simp_all
      have "all_done sys"
        by (rule joined_all) (use s StopJoin n in \<open>auto simp: in_set_conv_nth\<close>)
      with st StopJoin False s c cl n show ?thesis
        by (auto simp: stop_step_def Let_def sys_inv_def conns_inv_def all_done_def flags_off_def)
    qed
  qed (use st in \<open>simp add: stop_step_def\<close>)
qed

lemma sys_reach_inv:
  assumes "connection_transport ti tp" and "server_transport sinv ops"
    and "sys_reach fuel ops tp retries (system_start srv) sys"
  shows "sys_inv ops tp sys"
  using assms(3)
proof (induction rule: sys_reach.induct)
  case sys_start
  then show ?case by (simp add: sys_inv_def system_start_def conns_inv_def threads_owned_def)
next
  case (sys_step sys a sys')
  then have nt: "\<not> sys_terminated sys" by (auto split: if_splits)
  with sys_step show ?case
    by (cases a) (auto intro: listener_step_inv [OF assms(1)] handler_step_inv [OF assms(1)]
        timer_step_inv [OF assms(1)] announcer_step_inv stop_step_inv [OF assms(2)])
qed

end
