(* ===== verification/DoIP_ProtocolRefinement.thy ===== *)
theory DoIP_ProtocolRefinement
  imports DoIP_Protocol DoIP_ServerSystem
begin

text \<open>
  The connection refines the protocol: every run of \<open>DoIPConnection\<close> with an application
  that does not call back into the connection is a run of the specification \<open>protocol\<close>, with
  the same outputs.  The state is abstracted to a phase, the trace to the visible outputs; each
  handler is shown to make one step of the specification, and the simulation is
  interpreted for the mock transport and for TCP.
\<close>

section \<open>What the connection shows\<close>

definition service_of :: "'t DoIPServerModel \<Rightarrow> u8 \<Rightarrow> service" where
  "service_of model retries = \<lparr>svc_address = serverAddress model, svc_listens = (onDiagnosticMessage model \<noteq> None),
     svc_forwards = (onDownstreamRequest model \<noteq> None), svc_retries = retries\<rparr>"

definition phase_of :: "'t connection \<Rightarrow> phase" where
  "phase_of c = (case m_state c of
     DoIPServerState.WaitRoutingActivation \<Rightarrow> Unrouted
   | DoIPServerState.RoutingActivated \<Rightarrow> Routed (m_routedClientAddress c)
   | DoIPServerState.WaitAliveCheckResponse \<Rightarrow> Probing (m_routedClientAddress c)
   | DoIPServerState.WaitDownstreamResponse \<Rightarrow> Forwarding (m_routedClientAddress c)
   | _ \<Rightarrow> Ended)"

fun shown :: "conn_event \<Rightarrow> protocol_output list" where
  "shown (EvSend m r) = [Answer m]"
| "shown (EvDiagnostic m) = [Deliver m]"
| "shown (EvDownstream m) = [Forward m]"
| "shown (EvTransportClose r) = [Disconnect r]"
| "shown _ = []"

definition outputs :: "'t connection \<Rightarrow> protocol_output list" where
  "outputs c = concat (map shown (trace c))"

fun observed :: "'t transport_ops \<Rightarrow> stimulus \<Rightarrow> 't connection \<Rightarrow> protocol_input option" where
  "observed tp (Received m) c = Some (Request m)"
| "observed tp ReceiveCall c =
     (case tp_receive tp (m_transport c) of Some (Inr (Some m, _)) \<Rightarrow> Some (Request m) | _ \<Rightarrow> None)"
| "observed tp (TimerFired t) c = Some Expired"
| "observed tp (DownstreamArrived b res) c = Some (Reply b res)"
| "observed tp (CloseRequest r) c = Some (Shutdown r)"
| "observed tp (SendRequest m) c = Some (Outgoing m)"

text \<open>
  An answer from downstream is only due after a request was forwarded; before the activation and after
  the end it would put the connection into \<open>RoutingActivated\<close>.
\<close>

fun due :: "stimulus \<Rightarrow> 't connection \<Rightarrow> bool" where
  "due (DownstreamArrived b res) c \<longleftrightarrow> phase_of c \<noteq> Unrouted \<and> phase_of c \<noteq> Ended"
| "due _ c \<longleftrightarrow> True"

definition conn_step ::
  "'t transport_ops \<Rightarrow> 't DoIPServerModel \<Rightarrow> 't connection \<Rightarrow> protocol_input option \<Rightarrow> 't connection \<Rightarrow> bool" where
  "conn_step tp model c l c' \<longleftrightarrow> (\<exists>fuel now stim. enabled_at now stim c \<and> due stim c \<and> l = observed tp stim c
     \<and> leaves (react (Suc fuel) (mk_env tp model True now) stim c) c')"

section \<open>The simulation invariant\<close>

text \<open>
  Between two handlers: no timeout is configured to zero, the closing flag marks the closed
  state, and the counter of alive checks is zero in \<open>RoutingActivated\<close> and one while a check is
  running.
\<close>

definition settled :: "u8 \<Rightarrow> 't connection \<Rightarrow> bool" where
  "settled n c \<longleftrightarrow> timed_durations c \<and> m_state c \<noteq> DoIPServerState.SocketInitialized
     \<and> (m_isClosing c \<longleftrightarrow> m_state c = DoIPServerState.Closed) \<and> m_aliveCheckRetryCount c = n
     \<and> (m_state c = DoIPServerState.RoutingActivated \<longrightarrow> m_aliveCheckRetry c = 0)
     \<and> (m_state c = DoIPServerState.WaitAliveCheckResponse \<longrightarrow> m_aliveCheckRetry c = 1)"

definition refined :: "u8 \<Rightarrow> service \<Rightarrow> 't connection \<Rightarrow> protocol_input \<Rightarrow> 't connection \<Rightarrow> bool" where
  "refined n S c i c' \<longleftrightarrow> settled n c'
     \<and> (\<exists>os. protocol S (phase_of c) i os (phase_of c') \<and> outputs c' = outputs c @ os)"

definition yields :: "('s \<Rightarrow> bool) \<Rightarrow> ('a, 's) outcome \<Rightarrow> bool" where
  "yields P m \<longleftrightarrow> (\<exists>s. leaves m s \<and> P s)"

lemma yields_simps [simp]: "yields P (Ok a s) \<longleftrightarrow> P s" "yields P (Throw e s) \<longleftrightarrow> P s" "\<not> yields P NoReturn"
  by (auto simp: yields_def)

lemma yields_leaves: "yields P m \<Longrightarrow> leaves m s \<Longrightarrow> P s"
  by (cases m) auto

lemma yields_bind_Ok: "yields P m \<Longrightarrow> yields P (obind m (\<lambda>_ s. Ok x s))"
  by (cases m) simp_all

lemma transitionTo_settled:
  assumes "timed_durations c" and "timed_state s" and "m_state c \<noteq> s"
  shows "transitionTo now s c = c\<lparr>m_state := s,
     m_timerManager := tms.arm now (state_timer s) (state_duration s c) (this_id c) (m_timerManager c),
     m_aliveCheckRetry := enter_retry s (m_aliveCheckRetry c)\<rparr>"
  by (simp add: transitionTo_timed [OF assms(2,3)] state_duration_nz [OF assms(1,2)])

lemma closeConnection_exact:
  assumes "quiet_app model" and "m_state c \<noteq> DoIPServerState.Closed" and "\<not> m_isClosing c"
  shows "closeConnection (Suc n) (mk_env tp model True now) r c = Ok () (c\<lparr>m_isClosing := True,
     m_state := DoIPServerState.Closed, m_timerManager := stopAll (m_timerManager c), m_closeReason := r,
     m_transport := tp_close tp r (m_transport c), m_isOpen := False,
     trace := trace c @ EvTransportClose r # (if onCloseConnection model = None then [] else [EvClosed r])\<rparr>)"
  using assms
  by (cases "onCloseConnection model")
    (auto simp: default_closeConnection_def notifyConnectionClosed_def Let_def quiet_app_def transitionTo_Closed emit_def)

lemma close_refined:
  assumes "quiet_app model" and "settled k c" and "m_state c \<noteq> DoIPServerState.Closed"
    and "protocol S (phase_of c) i [Disconnect r] Ended"
  shows "yields (refined k S c i) (closeConnection (Suc n) (mk_env tp model True now) r c)"
proof -
  have "\<not> m_isClosing c" using assms(2,3) by (simp add: settled_def)
  from closeConnection_exact [OF assms(1,3) this] assms(2,4) show ?thesis
    by (auto simp: refined_def settled_def timed_durations_def phase_of_def outputs_def simp del: closeConnection.simps)
qed

lemma answers_model [simp]:
  "Answer (diagnosticMessageResponse (mk_env tp model g now) a ack) = ack_answer (service_of model n) a ack"
  "Answer (routingActivationResponse (mk_env tp model g now) a) = activation_answer (service_of model n) a"
  by (simp_all add: diagnosticMessageResponse_def ack_answer_def service_of_def getServerAddress_def Let_def
      routingActivationResponse_def activation_answer_def split: option.split)

text \<open>Sending a message and telling the application leaves everything else as it is.\<close>

lemma settled_cong:
  "settled n c \<Longrightarrow> m_state c' = m_state c \<Longrightarrow> m_isClosing c' = m_isClosing c \<Longrightarrow>
   m_aliveCheckRetryCount c' = m_aliveCheckRetryCount c \<Longrightarrow> m_aliveCheckRetry c' = m_aliveCheckRetry c \<Longrightarrow>
   m_initialInactivityTimeout c' = m_initialInactivityTimeout c \<Longrightarrow>
   m_generalInactivityTimeout c' = m_generalInactivityTimeout c \<Longrightarrow> m_aliveCheckTimeout c' = m_aliveCheckTimeout c \<Longrightarrow>
   settled n c'"
  by (simp add: settled_def timed_durations_def)

lemma phase_of_cong:
  "m_state c' = m_state c \<Longrightarrow> m_routedClientAddress c' = m_routedClientAddress c \<Longrightarrow> phase_of c' = phase_of c"
  by (simp add: phase_of_def split: DoIPServerState.split)

definition answered :: "'t conn_env \<Rightarrow> DoIPAddress \<Rightarrow> DoIPDiagnosticAck \<Rightarrow> 't connection \<Rightarrow> 't connection" where
  "answered env a ack c = (let m = diagnosticMessageResponse env a ack
     in c\<lparr>m_transport := snd (tp_send (env_tp env) m (m_transport c)),
          trace := trace c @ [EvSend m (send_result env m c)] @ ev_ack (env_model env) ack\<rparr>)"

lemma sendDiagnosticMessageResponse_answered:
  "quiet_app model \<Longrightarrow> \<exists>r. sendDiagnosticMessageResponse fuel (mk_env tp model g now) a ack c
     = Ok r (answered (mk_env tp model g now) a ack c)"
  by (simp add: sendDiagnosticMessageResponse_quiet answered_def Let_def)

lemma answered_keeps:
  assumes "settled n c"
  shows "settled n (answered env a ack c)" "phase_of (answered env a ack c) = phase_of c"
    "m_state (answered env a ack c) = m_state c"
    "outputs (answered (mk_env tp model g now) a ack c) = outputs c @ [ack_answer (service_of model n) a ack]"
proof -
  show "settled n (answered env a ack c)" by (rule settled_cong [OF assms]) (simp_all add: answered_def Let_def)
  show "phase_of (answered env a ack c) = phase_of c" by (rule phase_of_cong) (simp_all add: answered_def Let_def)
  show "m_state (answered env a ack c) = m_state c" by (simp add: answered_def Let_def)
  show "outputs (answered (mk_env tp model g now) a ack c) = outputs c @ [ack_answer (service_of model n) a ack]"
    by (simp add: answered_def Let_def outputs_def ev_ack_def answers_model(1) [of tp model g now a ack n])
qed

lemma answer_refined:
  assumes "quiet_app model" and "settled n c"
    and "protocol (service_of model n) (phase_of c) i [ack_answer (service_of model n) a ack] (phase_of c)"
  shows "yields (refined n (service_of model n) c i)
    (obind (sendDiagnosticMessageResponse fuel (mk_env tp model g now) a ack c) (\<lambda>_ c. Ok () c))"
  using sendDiagnosticMessageResponse_answered [OF assms(1), of fuel tp g now a ack c] answered_keeps [OF assms(2)] assms(3)
  by (auto simp: refined_def)

section \<open>Messages of the client\<close>

lemma source_cases:
  obtains "getSourceAddress m = Inr None" | a where "getSourceAddress m = Inr (Some a)"
  using getSourceAddress_safe [of m] by (auto split: if_splits)

lemma enter_refined:
  assumes "settled n c" and "settled n c1" and "m_state c1 \<noteq> DoIPServerState.Closed"
    and "timed_state s" and "m_state c1 \<noteq> s" and "s \<noteq> DoIPServerState.WaitAliveCheckResponse"
    and "protocol S (phase_of c) i os (phase_of (c1\<lparr>m_state := s\<rparr>))" and "outputs c1 = outputs c @ os"
  shows "refined n S c i (transitionTo now s c1)"
proof -
  have d: "timed_durations c1" using assms(2) by (simp add: settled_def)
  note t = transitionTo_settled [OF d assms(4,5), of now]
  have "s \<noteq> DoIPServerState.Closed" "s \<noteq> DoIPServerState.SocketInitialized" "s \<noteq> DoIPServerState.Finalize"
    using assms(4) by (auto simp: timed_state_def)
  then have "settled n (transitionTo now s c1)"
    using assms(2,3,6) by (auto simp: t settled_def timed_durations_def)
  moreover have "phase_of (transitionTo now s c1) = phase_of (c1\<lparr>m_state := s\<rparr>)"
    by (rule phase_of_cong) (simp_all add: t)
  moreover have "outputs (transitionTo now s c1) = outputs c1" by (simp add: t outputs_def)
  ultimately show ?thesis using assms(7,8) by (auto simp: refined_def)
qed

lemma waiting_refined:
  assumes "quiet_app model" and "settled n c" and "m_state c = DoIPServerState.WaitRoutingActivation"
  shows "yields (refined n (service_of model n) c (Request m))
    (handleWaitRoutingActivation (Suc fuel) (mk_env tp model True now) (Some m) c)"
proof (cases "getPayloadType m = DoIPPayloadType.RoutingActivationRequest \<and> getSourceAddress m \<noteq> Inr None")
  case True
  then obtain a where a: "getSourceAddress m = Inr (Some a)" by (cases m rule: source_cases) auto
  let ?env = "mk_env tp model True now"
  let ?c = "snd (sendProtocolMessage ?env (routingActivationResponse ?env a) (setClientAddress a c))"
  have "settled n ?c"
    by (rule settled_cong [OF assms(2)]) (simp_all add: sendProtocolMessage_eq setClientAddress_def emit_def)
  moreover have "outputs ?c = outputs c @ [activation_answer (service_of model n) a]"
    by (simp add: outputs_def sendProtocolMessage_eq setClientAddress_def emit_def
        answers_model(2) [of tp model True now a n])
  moreover have "phase_of (?c\<lparr>m_state := DoIPServerState.RoutingActivated\<rparr>) = Routed a"
    by (simp add: phase_of_def sendProtocolMessage_eq setClientAddress_def emit_def)
  moreover have "m_state ?c = DoIPServerState.WaitRoutingActivation" "phase_of c = Unrouted"
    using assms(3) by (simp_all add: setClientAddress_def emit_def phase_of_def)
  ultimately have "refined n (service_of model n) c (Request m) (transitionTo now DoIPServerState.RoutingActivated ?c)"
    using True a by (intro enter_refined [OF assms(2)]) (auto intro: protocol.activated)
  with True a show ?thesis by (simp add: handleWaitRoutingActivation_accept)
next
  case False
  have p: "phase_of c = Unrouted" and c: "m_state c \<noteq> DoIPServerState.Closed"
    using assms(3) by (simp_all add: phase_of_def)
  have "protocol (service_of model n) (phase_of c) (Request m) [Disconnect DoIPCloseReason.InvalidMessage] Ended"
    unfolding p using False by (auto intro: protocol.refused)
  from close_refined [OF assms(1,2) c this, of fuel tp now] False show ?thesis
    by (cases m rule: source_cases) (auto simp: handleWaitRoutingActivation_def)
qed

lemma acked_refined:
  fixes m c n tp model g now
  defines "d \<equiv> acked (mk_env tp model g now) (m_routedClientAddress c) m c"
  assumes "settled n c"
  shows "settled n d" "phase_of d = phase_of c" "m_state d = m_state c"
    "outputs d = outputs c @ deliver (service_of model n) m
       @ [ack_answer (service_of model n) (m_routedClientAddress c) (app_ack model c m)]"
proof -
  show "settled n d" unfolding d_def
    by (rule settled_cong [OF assms(2)]) (simp_all add: acked_def Let_def restartStateTimer_def)
  show "phase_of d = phase_of c" unfolding d_def by (rule phase_of_cong) simp_all
  show "m_state d = m_state c" by (simp add: d_def)
  show "outputs d = outputs c @ deliver (service_of model n) m
       @ [ack_answer (service_of model n) (m_routedClientAddress c) (app_ack model c m)]"
    by (simp add: d_def acked_def Let_def restartStateTimer_def outputs_def ev_diag_def ev_ack_def deliver_def
        service_of_def answers_model(1) [of tp model g now _ _ n, unfolded service_of_def])
qed

lemma notifyDownstreamRequest_exact:
  assumes "quiet_app model" and "onDownstreamRequest model = Some f"
  shows "notifyDownstreamRequest fuel (mk_env tp model g now) m c = Ok (fst (f c m)) (emit (EvDownstream m) c)"
proof -
  have "snd (f c m) = []" using assms by (simp add: quiet_app_def)
  then show ?thesis using assms(2) by (cases "f c m") (simp add: notifyDownstreamRequest_def)
qed

lemma handleDownstream_exact:
  assumes "quiet_app model" and "onDownstreamRequest model = Some f"
  shows "handleDownstream fuel (mk_env tp model g now) a m d =
    (let e = emit (EvDownstream m) d in
     Ok () (case fst (f d m) of
        DoIPDownstreamResult.Pending \<Rightarrow> transitionTo now DoIPServerState.WaitDownstreamResponse e
      | DoIPDownstreamResult.Handled \<Rightarrow> transitionTo now DoIPServerState.RoutingActivated e
      | DoIPDownstreamResult.Error \<Rightarrow> transitionTo now DoIPServerState.RoutingActivated
          (answered (mk_env tp model g now) a (Some DoIPNegativeDiagnosticAck.TargetUnreachable) e)))"
  using assms sendDiagnosticMessageResponse_answered [OF assms(1), of fuel tp g now a
      "Some DoIPNegativeDiagnosticAck.TargetUnreachable" "emit (EvDownstream m) d"]
  by (auto simp: handleDownstream_def hasDownstreamHandler_def model_hasDownstreamHandler_def Let_def
      notifyDownstreamRequest_exact split: DoIPDownstreamResult.split)

text \<open>After the positive acknowledgement: the connection \<open>d\<close> has already sent it.\<close>

lemma downstream_refined:
  assumes q: "quiet_app model" and c: "settled n c" and d: "settled n d"
    and st: "m_state d = DoIPServerState.RoutingActivated" and p: "phase_of c = Routed a" "phase_of d = Routed a"
    and out: "outputs d = outputs c @ deliver (service_of model n) m @ [ack_answer (service_of model n) a None]"
    and m: "diagnostic m" "getSourceAddress m = Inr (Some a)"
  shows "yields (refined n (service_of model n) c (Request m)) (handleDownstream fuel (mk_env tp model True now) a m d)"
proof (cases "onDownstreamRequest model")
  case None
  then have "\<not> svc_forwards (service_of model n)" by (simp add: service_of_def)
  with d p out m have "refined n (service_of model n) c (Request m) d"
    by (auto simp: refined_def intro: protocol.accepted)
  then show ?thesis using None by (simp add: handleDownstream_none)
next
  case (Some f)
  let ?S = "service_of model n" and ?e = "emit (EvDownstream m) d"
  have fw: "svc_forwards ?S" using Some by (simp add: service_of_def)
  have e: "settled n ?e" by (rule settled_cong [OF d]) (simp_all add: emit_def)
  have ste: "m_state ?e = DoIPServerState.RoutingActivated" using st by (simp add: emit_def)
  have pe: "phase_of ?e = Routed a" using p(2) phase_of_cong [of ?e d] by (simp add: emit_def)
  have oe: "outputs ?e = outputs c @ (deliver ?S m @ [ack_answer ?S a None, Forward m])"
    using out by (simp add: outputs_def emit_def)
  have "m_routedClientAddress d = a" using st p(2) by (simp add: phase_of_def)
  then have w: "phase_of (?e\<lparr>m_state := DoIPServerState.WaitDownstreamResponse\<rparr>) = Forwarding a"
    by (simp add: phase_of_def emit_def)
  have "refined n ?S c (Request m) ?e"
    using e oe p(1) pe protocol.forwarded [OF m fw, of "Routed a"] by (auto simp: refined_def)
  moreover have "refined n ?S c (Request m) (transitionTo now DoIPServerState.WaitDownstreamResponse ?e)"
    using p(1) ste e oe w by (intro enter_refined [OF c]) (auto intro: protocol.forwarded [OF m fw])
  moreover have "refined n ?S c (Request m)
      (answered (mk_env tp model True now) a (Some DoIPNegativeDiagnosticAck.TargetUnreachable) ?e)"
    using oe p(1) pe protocol.unreachable [OF m fw] by (auto simp: refined_def answered_keeps [OF e])
  ultimately show ?thesis
    using ste answered_keeps(3) [OF e]
    by (simp add: handleDownstream_exact [OF q Some] Let_def split: DoIPDownstreamResult.split)
qed

lemma diagnostic_refined:
  assumes q: "quiet_app model" and c: "settled n c" and st: "m_state c = DoIPServerState.RoutingActivated"
    and m: "diagnostic m"
  shows "yields (refined n (service_of model n) c (Request m))
    (handleDiagnosticMessage (Suc fuel) (mk_env tp model True now) m c)"
proof -
  let ?a = "m_routedClientAddress c" and ?env = "mk_env tp model True now" and ?S = "service_of model n"
  have p: "phase_of c = Routed ?a" using st by (simp add: phase_of_def)
  consider (none) "getSourceAddress m = Inr None" | (foreign) b where "getSourceAddress m = Inr (Some b)" "b \<noteq> ?a"
    | (own) "getSourceAddress m = Inr (Some ?a)"
    by (cases m rule: source_cases) auto
  then show ?thesis
  proof cases
    case none
    then have "protocol ?S (phase_of c) (Request m) [Disconnect DoIPCloseReason.InvalidMessage] Ended"
      unfolding p by (rule protocol.truncated [OF m])
    from close_refined [OF q c _ this, of fuel tp now] none st show ?thesis
      by (simp add: handleDiagnosticMessage_def del: closeConnection.simps)
  next
    case foreign
    then show ?thesis
      using answer_refined [OF q c protocol.foreign [OF m foreign, of ?S, folded p]]
      by (simp add: handleDiagnosticMessage_def getClientAddress_def)
  next
    case own
    let ?d = "acked ?env ?a m c"
    note d = acked_refined [OF c, of tp model True now m]
    have q': "quiet_app (env_model ?env)" using q by simp
    show ?thesis
    proof (cases "app_ack model c m")
      case None
      with d st have "yields (refined n ?S c (Request m)) (handleDownstream (Suc fuel) ?env ?a m ?d)"
        by (intro downstream_refined [OF q c d(1) _ p _ _ m own]) (simp_all add: p)
      then show ?thesis using None by (simp add: handleDiagnosticMessage_quiet [OF q' own st])
    next
      case (Some code)
      then have "svc_listens ?S" by (auto simp: app_ack_def service_of_def split: option.splits)
      then have "refined n ?S c (Request m) ?d"
        using d Some p protocol.rejected [OF m own, of ?S code] by (auto simp: refined_def)
      then show ?thesis using Some by (simp add: handleDiagnosticMessage_quiet [OF q' own st])
    qed
  qed
qed

lemma restart_refined:
  assumes "settled n c" and "protocol S (phase_of c) i [] (phase_of c)"
  shows "refined n S c i (restartStateTimer now c)"
proof -
  have "settled n (restartStateTimer now c)" by (rule settled_cong [OF assms(1)]) (simp_all add: restartStateTimer_def)
  moreover have "phase_of (restartStateTimer now c) = phase_of c"
    by (rule phase_of_cong) (simp_all add: restartStateTimer_def)
  ultimately show ?thesis using assms(2) by (auto simp: refined_def outputs_def restartStateTimer_def)
qed

lemma stay_refined: "settled n c \<Longrightarrow> protocol S (phase_of c) i [] (phase_of c) \<Longrightarrow> refined n S c i c"
  by (auto simp: refined_def)

lemma routed_refined:
  assumes q: "quiet_app model" and c: "settled n c" and st: "m_state c = DoIPServerState.RoutingActivated"
  shows "yields (refined n (service_of model n) c (Request m))
    (handleRoutingActivated (Suc fuel) (mk_env tp model True now) (Some m) c)"
proof -
  let ?S = "service_of model n"
  have p: "phase_of c = Routed (m_routedClientAddress c)" using st by (simp add: phase_of_def)
  have "alive m \<Longrightarrow> refined n ?S c (Request m) (restartStateTimer now c)"
    by (rule restart_refined [OF c]) (simp add: p protocol.kept_alive)
  moreover have "\<not> diagnostic m \<Longrightarrow> \<not> alive m \<Longrightarrow> yields (refined n ?S c (Request m))
      (obind (sendDiagnosticMessageResponse (Suc fuel) (mk_env tp model True now) ZERO_ADDRESS
        (Some DoIPNegativeDiagnosticAck.TransportProtocolError) c) (\<lambda>_ c. Ok () c))"
    by (rule answer_refined [OF q c]) (simp add: p protocol.unexpected)
  ultimately show ?thesis
    using diagnostic_refined [OF q c st, of m fuel tp now]
    by (cases "getPayloadType m") (simp_all add: handleRoutingActivated_def)
qed

lemma probing_refined:
  assumes q: "quiet_app model" and c: "settled n c" and st: "m_state c = DoIPServerState.WaitAliveCheckResponse"
  shows "yields (refined n (service_of model n) c (Request m))
    (handleWaitAliveCheckResponse fuel (mk_env tp model True now) (Some m) c)"
proof -
  let ?S = "service_of model n" and ?a = "m_routedClientAddress c"
  have p: "phase_of c = Probing ?a" using st by (simp add: phase_of_def)
  have "diagnostic m \<or> alive m \<Longrightarrow> refined n ?S c (Request m) (transitionTo now DoIPServerState.RoutingActivated c)"
    by (rule enter_refined [OF c c, where os = "[]"])
      (simp_all add: st p, simp add: phase_of_def protocol.recovered)
  moreover have "\<not> diagnostic m \<Longrightarrow> \<not> alive m \<Longrightarrow> yields (refined n ?S c (Request m))
      (obind (sendDiagnosticMessageResponse fuel (mk_env tp model True now) ZERO_ADDRESS
        (Some DoIPNegativeDiagnosticAck.TransportProtocolError) c) (\<lambda>_ c. Ok () c))"
    by (rule answer_refined [OF q c]) (simp add: p protocol.unexpected)
  ultimately show ?thesis by (auto simp: handleWaitAliveCheckResponse_def)
qed

lemma message_refined:
  assumes q: "quiet_app model" and c: "settled n c"
  shows "yields (refined n (service_of model n) c (Request m)) (handleMessage (Suc fuel) (mk_env tp model True now) m c)"
proof (cases "m_state c")
  case WaitRoutingActivation
  then show ?thesis using waiting_refined [OF q c] by (simp add: handleMessage_def)
next
  case RoutingActivated
  then show ?thesis using routed_refined [OF q c] by (simp add: handleMessage_def)
next
  case WaitAliveCheckResponse
  then show ?thesis using probing_refined [OF q c] by (simp add: handleMessage_def)
next
  case WaitDownstreamResponse
  have "refined n (service_of model n) c (Request m) c"
    by (rule stay_refined [OF c]) (simp add: WaitDownstreamResponse phase_of_def protocol.deaf)
  then show ?thesis using WaitDownstreamResponse by (simp add: handleMessage_def handleWaitDownstreamResponse_def)
next
  case Closed
  have "refined n (service_of model n) c (Request m) c"
    by (rule stay_refined [OF c]) (simp add: Closed phase_of_def protocol.ended)
  then show ?thesis using Closed by (simp add: handleMessage_def)
qed (use c in \<open>simp_all add: settled_def timed_durations_def\<close>)

section \<open>Timers, downstream answers and closing\<close>

lemma probe_refined:
  assumes c: "settled n c" and st: "m_state c = DoIPServerState.RoutingActivated"
  shows "refined n (service_of model n) c Expired (transitionTo now DoIPServerState.WaitAliveCheckResponse
    (snd (sendProtocolMessage (mk_env tp model True now) makeAliveCheckRequest c)))"
proof -
  let ?d = "snd (sendProtocolMessage (mk_env tp model True now) makeAliveCheckRequest c)"
  have d: "settled n ?d" by (rule settled_cong [OF c]) (simp_all add: sendProtocolMessage_eq)
  have r: "m_aliveCheckRetry ?d = 0" using c st by (simp add: settled_def sendProtocolMessage_eq)
  have s: "m_state ?d = DoIPServerState.RoutingActivated" using st by simp
  have e: "transitionTo now DoIPServerState.WaitAliveCheckResponse ?d = ?d\<lparr>m_state := DoIPServerState.WaitAliveCheckResponse,
     m_timerManager := tms.arm now ConnectionTimers.AliveCheck (state_duration DoIPServerState.WaitAliveCheckResponse ?d)
       (this_id ?d) (m_timerManager ?d), m_aliveCheckRetry := 1\<rparr>"
    using transitionTo_settled [of ?d DoIPServerState.WaitAliveCheckResponse now] d s r
    by (simp add: settled_def state_timer_def)
  show ?thesis
    unfolding e using d s st protocol.probed [of "service_of model n" "m_routedClientAddress c"]
    by (auto simp: refined_def settled_def timed_durations_def phase_of_def outputs_def sendProtocolMessage_eq)
qed

lemma expiry_refined:
  assumes q: "quiet_app model" and c: "settled n c" and t: "t = state_timer (m_state c)"
  shows "yields (refined n (service_of model n) c Expired) (handleTimeout (Suc fuel) (mk_env tp model True now) t c)"
proof (cases "m_state c")
  case WaitRoutingActivation
  then have "protocol (service_of model n) (phase_of c) Expired [Disconnect DoIPCloseReason.InitialInactivityTimeout] Ended"
    by (simp add: phase_of_def protocol.silent)
  from close_refined [OF q c _ this, of fuel tp now] WaitRoutingActivation show ?thesis
    by (simp add: handleTimeout_def t state_timer_def del: closeConnection.simps)
next
  case RoutingActivated
  then show ?thesis using probe_refined [OF c, of model now tp]
    by (simp add: handleTimeout_def t state_timer_def sendAliveCheckRequest_def)
next
  case WaitAliveCheckResponse
  have r: "m_aliveCheckRetry c = 1" "m_aliveCheckRetryCount c = n"
    and p: "phase_of c = Probing (m_routedClientAddress c)"
    using c WaitAliveCheckResponse by (simp_all add: settled_def phase_of_def)
  show ?thesis
  proof (cases "1 < n")
    case True
    then have "refined n (service_of model n) c Expired c"
      by (intro stay_refined [OF c]) (simp add: p protocol.stalled service_of_def)
    then show ?thesis using WaitAliveCheckResponse r True by (simp add: handleTimeout_def t state_timer_def)
  next
    case False
    then have "protocol (service_of model n) (phase_of c) Expired [Disconnect DoIPCloseReason.AliveCheckTimeout] Ended"
      by (simp add: p protocol.lost service_of_def not_less)
    from close_refined [OF q c _ this, of fuel tp now] WaitAliveCheckResponse r False show ?thesis
      by (simp add: handleTimeout_def t state_timer_def del: closeConnection.simps)
  qed
next
  case WaitDownstreamResponse
  have "refined n (service_of model n) c Expired c"
    by (rule stay_refined [OF c]) (simp add: WaitDownstreamResponse phase_of_def protocol.overdue)
  then show ?thesis using WaitDownstreamResponse by (simp add: handleTimeout_def t state_timer_def)
next
  case Closed
  have "refined n (service_of model n) c Expired c"
    by (rule stay_refined [OF c]) (simp add: Closed phase_of_def protocol.overdue)
  then show ?thesis using Closed by (simp add: handleTimeout_def t state_timer_def)
qed (use c in \<open>simp_all add: settled_def timed_durations_def\<close>)

lemma reply_refined:
  assumes c: "settled n c" and p: "phase_of c \<noteq> Unrouted" "phase_of c \<noteq> Ended"
  shows "refined n (service_of model n) c (Reply b res) (receiveDownstreamResponse (mk_env tp model True now) b res c)"
proof -
  let ?env = "mk_env tp model True now" and ?a = "m_routedClientAddress c" and ?S = "service_of model n"
  define m where "m = (if res = DoIPDownstreamResult.Handled then makeDiagnosticMessage (serverAddress model) ?a b
    else makeDiagnosticNegativeResponse (serverAddress model) ?a DoIPNegativeDiagnosticAck.TargetUnreachable [])"
  let ?d = "snd (sendProtocolMessage ?env m (emit EvDownstreamResponse c))"
  have d: "settled n ?d" by (rule settled_cong [OF c]) (simp_all add: sendProtocolMessage_eq emit_def)
  have o: "outputs ?d = outputs c @ [reply_answer ?S ?a b res]"
    by (simp add: outputs_def sendProtocolMessage_eq emit_def reply_answer_def m_def service_of_def)
  have s: "m_state ?d = m_state c" "m_routedClientAddress ?d = ?a" by (simp_all add: sendProtocolMessage_eq emit_def)
  have pa: "phase_of c \<in> {Forwarding ?a, Routed ?a, Probing ?a}" and nc: "m_state c \<noteq> DoIPServerState.Closed"
    using p by (auto simp: phase_of_def split: DoIPServerState.splits)
  have a: "protocol ?S (phase_of c) (Reply b res) [reply_answer ?S ?a b res] (Routed ?a)" using pa by (rule protocol.replied)
  have "refined n ?S c (Reply b res) (transitionTo now DoIPServerState.RoutingActivated ?d)"
  proof (cases "m_state c = DoIPServerState.RoutingActivated")
    case True
    then have "phase_of ?d = Routed ?a" using s by (simp add: phase_of_def)
    with d o a True s show ?thesis by (auto simp: refined_def)
  next
    case False
    show ?thesis
      by (rule enter_refined [OF c d _ _ _ _ _ o]) (use False nc s a in \<open>simp_all add: phase_of_def\<close>)
  qed
  then show ?thesis by (simp add: receiveDownstreamResponse_def Let_def getServerAddress_def getClientAddress_def m_def)
qed

lemma shutdown_refined:
  assumes q: "quiet_app model" and c: "settled n c"
  shows "yields (refined n (service_of model n) c (Shutdown r)) (closeConnection (Suc fuel) (mk_env tp model True now) r c)"
proof (cases "m_state c = DoIPServerState.Closed")
  case True
  then have "m_isClosing c" using c by (simp add: settled_def)
  moreover have "refined n (service_of model n) c (Shutdown r) c"
    by (rule stay_refined [OF c]) (simp add: True phase_of_def protocol.ended)
  ultimately show ?thesis by simp
next
  case False
  then have "phase_of c \<noteq> Ended"
    using c by (auto simp: phase_of_def settled_def timed_durations_def split: DoIPServerState.splits)
  from close_refined [OF q c False protocol.shut [OF this]] show ?thesis .
qed

lemma push_refined:
  assumes c: "settled n c"
  shows "refined n S c (Outgoing m) (snd (sendProtocolMessage env m c))"
proof -
  have "settled n (snd (sendProtocolMessage env m c))"
    by (rule settled_cong [OF c]) (simp_all add: sendProtocolMessage_eq)
  moreover have "phase_of (snd (sendProtocolMessage env m c)) = phase_of c"
    by (rule phase_of_cong) (simp_all add: sendProtocolMessage_eq)
  moreover have "outputs (snd (sendProtocolMessage env m c)) = outputs c @ [Answer m]"
    by (simp add: outputs_def sendProtocolMessage_eq)
  ultimately show ?thesis using protocol.pushed [of S "phase_of c" m] by (auto simp: refined_def)
qed

section \<open>Every step of the connection is a step of the specification\<close>

lemma refined_cong:
  assumes "settled n c1 \<Longrightarrow> yields (refined n S c1 i) m" and "settled n c"
    and "m_state c1 = m_state c" "m_routedClientAddress c1 = m_routedClientAddress c" "trace c1 = trace c"
    and "settled n c \<Longrightarrow> settled n c1"
  shows "yields (refined n S c i) m"
proof -
  have "phase_of c1 = phase_of c" by (rule phase_of_cong [OF assms(3,4)])
  moreover have "outputs c1 = outputs c" by (simp add: outputs_def assms(5))
  ultimately show ?thesis using assms(1,2,6) by (simp add: refined_def yields_def)
qed

lemma react_refined:
  assumes q: "quiet_app model" and c: "settled n c" and s: "sound_inv tp c"
    and e: "enabled_at now stim c" and d: "due stim c" and i: "observed tp stim c = Some i"
  shows "yields (refined n (service_of model n) c i) (react (Suc fuel) (mk_env tp model True now) stim c)"
proof (cases stim)
  case (Received m)
  with i message_refined [OF q c, of m] show ?thesis by auto
next
  case ReceiveCall
  with i obtain m t where r: "tp_receive tp (m_transport c) = Some (Inr (Some m, t))" and i': "i = Request m"
    by (auto split: option.splits sum.splits)
  let ?c = "c\<lparr>m_transport := t\<rparr>"
  have "yields (refined n (service_of model n) c i) (handleMessage (Suc fuel) (mk_env tp model True now) m ?c)"
    unfolding i' by (rule refined_cong [OF message_refined [OF q] c])
      (simp_all, rule settled_cong [OF c], simp_all)
  then show ?thesis using ReceiveCall r
    by (auto simp: receiveMessage_def receiveProtocolMessage_def intro!: yields_bind_Ok)
next
  case (TimerFired t)
  let ?c = "c\<lparr>m_timerManager := snd (removeTimer t (m_timerManager c))\<rparr>"
  have "m_state c \<noteq> DoIPServerState.SocketInitialized" using c by (simp add: settled_def)
  then have "t = state_timer (m_state ?c)"
    using e s TimerFired by (auto simp: sound_inv_def tms.owned_def split: option.splits)
  then have "yields (refined n (service_of model n) c Expired) (handleTimeout (Suc fuel) (mk_env tp model True now) t ?c)"
    by (intro refined_cong [OF expiry_refined [OF q] c]) (simp_all, rule settled_cong [OF c], simp_all)
  with TimerFired i show ?thesis by auto
next
  case (DownstreamArrived b res)
  with i d reply_refined [OF c] show ?thesis by auto
next
  case (CloseRequest r)
  with i shutdown_refined [OF q c, of r] show ?thesis by (auto simp del: closeConnection.simps)
next
  case (SendRequest m)
  with i push_refined [OF c] show ?thesis by auto
qed

definition protocol_inv :: "'t transport_ops \<Rightarrow> 't DoIPServerModel \<Rightarrow> u8 \<Rightarrow> 't connection \<Rightarrow> bool" where
  "protocol_inv tp model n c \<longleftrightarrow> quiet_app model \<and> sound_inv tp c \<and> settled n c"

lemma conn_step_shown:
  assumes "protocol_inv tp model n c" and "conn_step tp model c (Some i) c'"
  shows "refined n (service_of model n) c i c'"
proof -
  obtain fuel now stim where "enabled_at now stim c" "due stim c" "observed tp stim c = Some i"
    and l: "leaves (react (Suc fuel) (mk_env tp model True now) stim c) c'"
    using assms(2) by (auto simp: conn_step_def)
  then have "yields (refined n (service_of model n) c i) (react (Suc fuel) (mk_env tp model True now) stim c)"
    using assms(1) by (intro react_refined) (simp_all add: protocol_inv_def)
  from yields_leaves [OF this l] show ?thesis .
qed

lemma conn_step_hidden:
  assumes "conn_step tp model c None c'"
  shows "\<exists>t. c' = c\<lparr>m_transport := t\<rparr>"
proof -
  obtain fuel now stim where "observed tp stim c = None"
    and l: "leaves (react (Suc fuel) (mk_env tp model True now) stim c) c'"
    using assms unfolding conn_step_def by metis
  moreover have "\<exists>t. c = c\<lparr>m_transport := t\<rparr>" by (rule exI [of _ "m_transport c"]) simp
  ultimately show ?thesis
    by (cases stim) (auto simp: receiveMessage_def receiveProtocolMessage_def split: option.splits sum.splits)
qed

lemma conn_step_sound:
  assumes "connection_transport ti tp" and "sound_inv tp c" and "conn_step tp model c l c'"
  shows "sound_inv tp c'"
  using assms(3) post_leaves [OF sound_inv_react [OF assms(1,2)]] by (auto simp: conn_step_def)

lemma conn_step_settled:
  assumes "protocol_inv tp model n c" and "conn_step tp model c l c'"
  shows "settled n c'"
proof (cases l)
  case None
  then obtain t where "c' = c\<lparr>m_transport := t\<rparr>" using assms(2) conn_step_hidden by blast
  moreover have "settled n c" using assms(1) by (simp add: protocol_inv_def)
  ultimately show ?thesis by (auto intro: settled_cong)
next
  case (Some i)
  then show ?thesis using conn_step_shown [OF assms(1)] assms(2) by (simp add: refined_def)
qed

lemma connection_simulation:
  assumes "connection_transport ti tp"
  shows "forward_simulation (conn_step tp model) (protocol (service_of model n)) phase_of outputs (protocol_inv tp model n)"
proof
  fix s l t assume I: "protocol_inv tp model n s" and st: "conn_step tp model s l t"
  then show "protocol_inv tp model n t"
    using conn_step_settled [OF I st] conn_step_sound [OF assms _ st] by (simp add: protocol_inv_def)
next
  fix s i t assume "protocol_inv tp model n s" and "conn_step tp model s (Some i) t"
  from conn_step_shown [OF this]
  show "\<exists>os. protocol (service_of model n) (phase_of s) i os (phase_of t) \<and> outputs t = outputs s @ os"
    by (simp add: refined_def)
next
  fix s t assume "conn_step tp model s None t"
  then obtain tr where "t = s\<lparr>m_transport := tr\<rparr>" using conn_step_hidden by blast
  then show "phase_of t = phase_of s \<and> outputs t = outputs s"
    using phase_of_cong [of t s] by (simp add: outputs_def)
qed

interpretation mock_protocol: forward_simulation "conn_step mock_ops model" "protocol (service_of model n)"
  phase_of outputs "protocol_inv mock_ops model n" for model n
  by (rule connection_simulation [OF mock.connection_transport_axioms])

interpretation tcp_protocol: forward_simulation "conn_step (tcp_ops os) model" "protocol (service_of model n)"
  phase_of outputs "protocol_inv (tcp_ops os) model n" for os :: "'n os_socket" and model n
  by (rule connection_simulation [OF tcp.connection_transport_axioms])

text \<open>While the application is told of the new connection it cannot close it.\<close>

definition fresh_conn :: "u8 \<Rightarrow> 't connection \<Rightarrow> bool" where
  "fresh_conn n c \<longleftrightarrow> timed_durations c \<and> \<not> m_isClosing c \<and> m_aliveCheckRetryCount c = n \<and> m_state c \<noteq> DoIPServerState.Closed"

lemma fresh_conn_cong:
  "fresh_conn n c \<Longrightarrow> timed_durations c' \<Longrightarrow> m_isClosing c' = m_isClosing c \<Longrightarrow>
   m_aliveCheckRetryCount c' = m_aliveCheckRetryCount c \<Longrightarrow> m_state c' = m_state c \<Longrightarrow> fresh_conn n c'"
  by (simp add: fresh_conn_def)

lemma fresh_conn_transition: "fresh_conn n c \<Longrightarrow> timed_state s \<Longrightarrow> fresh_conn n (transitionTo now s c)"
  by (cases "m_state c = s") (auto simp: fresh_conn_def transitionTo_settled timed_durations_def timed_state_def)

lemma fresh_conn_actions:
  assumes "connection_transport ti tp"
  shows "callback_actions ti (mk_env tp model g now) (fresh_conn n)"
proof (intro callback_actions.intro callback_actions_axioms.intro mk_env_transport [OF assms])
  fix c :: "'a connection" and m x c' b res a e
  assume I: "fresh_conn n c"
  then have d: "timed_durations c" by (simp add: fresh_conn_def)
  note cong = fresh_conn_cong [OF I timed_durations_cong [OF d]]
  show "fresh_conn n (snd (sendProtocolMessage (mk_env tp model g now) m c))" by (rule cong) (simp_all add: sendProtocolMessage_eq)
  show "receiveProtocolMessage (mk_env tp model g now) c = Ok x c' \<Longrightarrow> fresh_conn n c'"
    by (rule cong) (auto simp: receiveProtocolMessage_def split: option.splits sum.splits)
  show "fresh_conn n (receiveDownstreamResponse (mk_env tp model g now) b res c)"
    unfolding receiveDownstreamResponse_def Let_def
    by (rule fresh_conn_transition, rule cong) (simp_all add: sendProtocolMessage_eq emit_def)
  show "fresh_conn n (setClientAddress a c)" "fresh_conn n (emit e c)" by (rule cong; simp add: setClientAddress_def emit_def)+
qed

lemma protocol_inv_new:
  assumes ct: "connection_transport ti tp" and q: "quiet_app model"
    and new: "connection_new (mk_env tp model True now) this t tm client retries = Ok () c"
  shows "protocol_inv tp model retries c \<and> phase_of c = Unrouted"
proof -
  have o: "fresh_conn retries c"
    by (rule callback_actions.connection_new_I [OF fresh_conn_actions [OF ct] _ _ new])
      (simp add: fresh_conn_def timed_durations_def, rule fresh_conn_transition, simp_all)
  obtain c1 where "c = transitionTo now DoIPServerState.WaitRoutingActivation c1"
    using new by (auto simp: connection_new_def Let_def split: option.splits elim!: obind.elims)
  then have "m_state c = DoIPServerState.WaitRoutingActivation"
    using o transitionTo_state [of DoIPServerState.WaitRoutingActivation now c1] by (auto simp: fresh_conn_def)
  with o q sound_inv_new [OF ct new] show ?thesis
    by (auto simp: protocol_inv_def settled_def fresh_conn_def phase_of_def)
qed

lemma connection_run_simulated:
  assumes "connection_transport ti tp" and "quiet_app model"
    and "connection_new (mk_env tp model True now0) this t tm client retries = Ok () c0"
    and "shown_run (conn_step tp model) c0 is c"
  shows "protocol_inv tp model retries c"
    "\<exists>os. spec_run (protocol (service_of model retries)) Unrouted is os (phase_of c) \<and> outputs c = outputs c0 @ os"
proof -
  have new: "protocol_inv tp model retries c0" "phase_of c0 = Unrouted"
    using protocol_inv_new [OF assms(1-3)] by simp_all
  from forward_simulation.run_simulated [OF connection_simulation [OF assms(1)] assms(4) new(1)] new(2)
  show "protocol_inv tp model retries c"
    "\<exists>os. spec_run (protocol (service_of model retries)) Unrouted is os (phase_of c) \<and> outputs c = outputs c0 @ os"
    by simp_all
qed

text \<open>A guarantee of the specification carried over to the code.\<close>

lemma connection_delivers_after_activation:
  assumes "connection_transport ti tp" and "quiet_app model"
    and "connection_new (mk_env tp model True now0) this t tm client retries = Ok () c0"
    and "shown_run (conn_step tp model) c0 is c" and "outputs c = outputs c0 @ pre @ Deliver m # suf"
  shows "\<exists>a. getSourceAddress m = Inr (Some a) \<and> activation_answer (service_of model retries) a \<in> set pre"
  using connection_run_simulated(2) [OF assms(1-4)] assms(5) spec_delivered by fastforce

section \<open>A demo run\<close>

text \<open>The demo client activates routing and sends a diagnostic message.\<close>

definition demo_requests :: "protocol_input list" where
  "demo_requests = [Request (makeRoutingActivationRequest 0x0E80 DoIPRoutingActivationType.Default), Request demo_diag]"

lemma demo_step:
  "conn_step mock_ops DefaultDoIPServerModel c (observed mock_ops stim c) c'"
  if "enabled_at now stim c" "due stim c" "react (Suc fuel) (demo_env now) stim c = Ok () c'"
  using that unfolding conn_step_def demo_env_def by (metis leaves.simps(1))

lemma demo_protocol_run:
  "\<exists>c0 c. connection_new (mk_env mock_ops DefaultDoIPServerModel True 0) 1 (mock_new ''m'') timerManager_new 0 1 = Ok () c0
     \<and> shown_run (conn_step mock_ops DefaultDoIPServerModel) c0 demo_requests c \<and> phase_of c = Routed 0x0E80"
proof -
  obtain c0 where c0: "connection_new (demo_env 0) 1 (mock_new ''m'') timerManager_new 0 1 = Ok () c0"
    "m_state c0 = DoIPServerState.WaitRoutingActivation" "m_generalInactivityTimeout c0 = 300000"
    using demo_new by blast
  obtain c1 where c1: "react 2 (demo_env 10) (Received (makeRoutingActivationRequest 0x0E80 DoIPRoutingActivationType.Default)) c0
      = Ok () c1" "m_state c1 = DoIPServerState.RoutingActivated" "m_routedClientAddress c1 = 0x0E80"
    using demo_activate [OF c0(2), of 2 10 "0x0E80" DoIPRoutingActivationType.Default] c0(3) by auto
  let ?c2 = "acked (demo_env 20) 0x0E80 demo_diag c1"
  have c2: "react 2 (demo_env 20) (Received demo_diag) c1 = Ok () ?c2" by (rule demo_diagnose [OF c1(2,3)])
  have "shown_run (conn_step mock_ops DefaultDoIPServerModel) c0
      ([] @ [Request (makeRoutingActivationRequest 0x0E80 DoIPRoutingActivationType.Default)]) c1"
    using c1(1) by (intro shown_run.shown_step [OF shown_run.shown_start] demo_step
        [where stim = "Received m" and now = 10 and fuel = 1 for m, simplified observed.simps])
      (simp_all add: numeral_2_eq_2 del: react.simps)
  then have "shown_run (conn_step mock_ops DefaultDoIPServerModel) c0
      (([] @ [Request (makeRoutingActivationRequest 0x0E80 DoIPRoutingActivationType.Default)]) @ [Request demo_diag]) ?c2"
    by (rule shown_run.shown_step, use c2 in \<open>intro demo_step
        [where stim = "Received m" and now = 20 and fuel = 1 for m, simplified observed.simps]\<close>)
      (simp_all add: numeral_2_eq_2 del: react.simps)
  moreover have "phase_of ?c2 = Routed 0x0E80" using c1(2,3) by (simp add: phase_of_def)
  ultimately show ?thesis using c0(1) by (auto simp: demo_requests_def demo_env_def)
qed

section \<open>Properties\<close>



end
