(* ===== verification/DoIP_Settings.thy ===== *)
theory DoIP_Settings
  imports DoIP_ServerSystem
begin

text \<open>
  The times of \<^verbatim>\<open>DoIPTimes.h\<close> and the accessors of the connection and the server, with the
  contract of a setting as a locale: what is read after it was written.  The lemmas say where a
  setting takes effect: which timer a timeout arms, and which ones never reach a timer.
\<close>

section \<open>DoIPTimes.h\<close>

text \<open>Milliseconds.\<close>

definition UdpMessageTimeout :: int where "UdpMessageTimeout = 2000"

definition RoutingActivationResponseTimeout :: int where "RoutingActivationResponseTimeout = 2000"

definition IntermessageDelay :: int where "IntermessageDelay = 2000"

definition VehicleAnnouncementDelay :: int where "VehicleAnnouncementDelay = 500"

definition VehicleAnnouncementInterval :: int where "VehicleAnnouncementInterval = 500"

definition VehicleAnnouncementNumber :: u8 where "VehicleAnnouncementNumber = 3"

definition times_InitialInactivityTimeout :: int where "times_InitialInactivityTimeout = 2000"

definition GeneralInactivityTimeout :: int where "GeneralInactivityTimeout = 300000"

definition AliveCheckResponseTimeout :: int where "AliveCheckResponseTimeout = 500"

definition VehicleDiscoveryTimer :: int where "VehicleDiscoveryTimer = 500"

definition DiagnosticMessageResponseTimeout :: int where "DiagnosticMessageResponseTimeout = 2000"

lemmas times = times_InitialInactivityTimeout_def GeneralInactivityTimeout_def AliveCheckResponseTimeout_def

section \<open>Accessors of the connection\<close>

definition isOpen :: "'t connection \<Rightarrow> bool" where "isOpen c = m_isOpen c"

definition getCloseReason :: "'t connection \<Rightarrow> DoIPCloseReason" where "getCloseReason c = m_closeReason c"

definition getState :: "'t connection \<Rightarrow> DoIPServerState" where "getState c = m_state c"

definition getAliveCheckRetryCount :: "'t connection \<Rightarrow> u8" where "getAliveCheckRetryCount c = m_aliveCheckRetryCount c"

definition getInitialInactivityTimeout :: "'t connection \<Rightarrow> int" where
  "getInitialInactivityTimeout c = m_initialInactivityTimeout c"

definition getGeneralInactivityTimeout :: "'t connection \<Rightarrow> int" where
  "getGeneralInactivityTimeout c = m_generalInactivityTimeout c"

definition getAliveCheckTimeout :: "'t connection \<Rightarrow> int" where "getAliveCheckTimeout c = m_aliveCheckTimeout c"

definition getDownstreamResponseTimeout :: "'t connection \<Rightarrow> int" where
  "getDownstreamResponseTimeout c = m_downstreamResponseTimeout c"

section \<open>Accessors of the server\<close>

definition server_getVin :: "('s, 't) DoIPServer \<Rightarrow> fixed_id" where "server_getVin srv = cfg_vin (m_config srv)"

definition server_getEid :: "('s, 't) DoIPServer \<Rightarrow> fixed_id" where "server_getEid srv = cfg_eid (m_config srv)"

definition server_getGid :: "('s, 't) DoIPServer \<Rightarrow> fixed_id" where "server_getGid srv = cfg_gid (m_config srv)"

definition getFurtherActionRequired :: "('s, 't) DoIPServer \<Rightarrow> DoIPFurtherAction" where
  "getFurtherActionRequired srv = m_FurtherActionReq srv"

definition getClientIp :: "('s, 't) DoIPServer \<Rightarrow> string" where "getClientIp srv = m_clientIp srv"

definition getClientPort :: "('s, 't) DoIPServer \<Rightarrow> int" where "getClientPort srv = m_clientPort srv"

definition getModelFactory :: "('s, 't) DoIPServer \<Rightarrow> (nat \<Rightarrow> 't DoIPServerModel) option" where
  "getModelFactory srv = m_modelFactory srv"

lemmas accessors = isOpen_def getCloseReason_def getState_def getAliveCheckRetryCount_def getInitialInactivityTimeout_def
  getGeneralInactivityTimeout_def getAliveCheckTimeout_def getDownstreamResponseTimeout_def setAliveCheckRetryCount_def
  setInitialInactivityTimeout_def setGeneralInactivityTimeout_def setAliveCheckTimeout_def setDownstreamResponseTimeout_def
  server_getVin_def server_getEid_def server_getGid_def getFurtherActionRequired_def setVin_def setEid_def setGid_def setFurtherActionRequired_def
  getLogicalGatewayAddress_def setLogicalGatewayAddress_def

section \<open>What a setting is\<close>

text \<open>Reading after writing gives what was written, writing what was read changes nothing, the last write counts.\<close>

locale setting =
  fixes get :: "'o \<Rightarrow> 'v" and put :: "'v \<Rightarrow> 'o \<Rightarrow> 'o"
  assumes get_put: "get (put v s) = v"
    and put_get: "put (get s) s = s"
    and put_put: "put v (put w s) = put v s"
begin

lemma last_write: "get (fold put vs s) = (if vs = [] then get s else last vs)"
  by (induction vs arbitrary: s) (auto simp: get_put)

lemma restored: "put (get s) (fold put vs s) = s"
  by (induction vs arbitrary: s rule: rev_induct) (simp_all add: put_get put_put)

end

text \<open>Two settings of one object that do not disturb each other.\<close>

locale independent_settings = a: setting get put + b: setting get' put'
  for get :: "'o \<Rightarrow> 'v" and put :: "'v \<Rightarrow> 'o \<Rightarrow> 'o" and get' :: "'o \<Rightarrow> 'w" and put' :: "'w \<Rightarrow> 'o \<Rightarrow> 'o" +
  assumes commute: "put v (put' w s) = put' w (put v s)"
begin

lemma undisturbed: "get (put' w s) = get s"
  by (metis a.get_put a.put_get commute)

lemma undisturbed_all: "get (fold put' ws s) = get s"
  by (induction ws arbitrary: s) (simp_all add: undisturbed)

end

interpretation retry_count: setting getAliveCheckRetryCount setAliveCheckRetryCount
  by unfold_locales (simp_all add: accessors)

interpretation initial_general: independent_settings getInitialInactivityTimeout setInitialInactivityTimeout
  getGeneralInactivityTimeout setGeneralInactivityTimeout
  by unfold_locales (simp_all add: accessors)

interpretation alive_downstream: independent_settings getAliveCheckTimeout setAliveCheckTimeout
  getDownstreamResponseTimeout setDownstreamResponseTimeout
  by unfold_locales (simp_all add: accessors)

interpretation address_vin: independent_settings getLogicalGatewayAddress setLogicalGatewayAddress server_getVin setVin
  by unfold_locales (simp_all add: accessors)

interpretation further_action: setting getFurtherActionRequired setFurtherActionRequired
  by unfold_locales (simp_all add: accessors)

text \<open>The identifiers that are set as numbers keep the lower 48 bits, in network order.\<close>

lemma eid_gid_value:
  "be_value (server_getEid (setEid v srv)) = uint v mod 2 ^ 48" "be_value (server_getGid (setGid v srv)) = uint v mod 2 ^ 48"
  using id_from_integral_value [of 8 eid_type "uint v"]
  by (auto simp: accessors eid_type_def id_from_integral_eq [OF refl])

section \<open>Times of a new connection\<close>

definition standard_times :: "'t connection \<Rightarrow> bool" where
  "standard_times c \<longleftrightarrow> getInitialInactivityTimeout c = times_InitialInactivityTimeout
     \<and> getGeneralInactivityTimeout c = GeneralInactivityTimeout \<and> getAliveCheckTimeout c = AliveCheckResponseTimeout"

lemma standard_times_cong:
  "standard_times c \<Longrightarrow> m_initialInactivityTimeout c' = m_initialInactivityTimeout c \<Longrightarrow>
   m_generalInactivityTimeout c' = m_generalInactivityTimeout c \<Longrightarrow> m_aliveCheckTimeout c' = m_aliveCheckTimeout c \<Longrightarrow>
   standard_times c'"
  by (simp add: standard_times_def accessors)

lemma standard_times_transition:
  "standard_times c \<Longrightarrow> timed_state s \<or> s = DoIPServerState.Closed \<Longrightarrow> standard_times (transitionTo now s c)"
  by (erule standard_times_cong) (use transitionTo_durations in blast)+

lemma standard_times_actions:
  assumes "connection_transport ti tp"
  shows "callback_actions ti (mk_env tp model g now) standard_times"
proof (intro callback_actions.intro callback_actions_axioms.intro mk_env_transport [OF assms])
  fix c :: "'a connection" and m x c' b res a e
  assume I: "standard_times c"
  note cong = standard_times_cong [OF I]
  show "standard_times (snd (sendProtocolMessage (mk_env tp model g now) m c))" by (rule cong) simp_all
  show "receiveProtocolMessage (mk_env tp model g now) c = Ok x c' \<Longrightarrow> standard_times c'"
    by (rule cong) (auto dest: receive_config)
  show "standard_times (receiveDownstreamResponse (mk_env tp model g now) b res c)"
    unfolding receiveDownstreamResponse_def Let_def
    by (rule standard_times_transition, rule cong) (simp_all add: emit_def)
  show "standard_times (setClientAddress a c)" "standard_times (emit e c)"
    by (rule cong; simp add: setClientAddress_def emit_def)+
qed

lemma new_connection_times:
  assumes "connection_transport ti tp" and "connection_new (mk_env tp model g now) this t tm client retries = Ok () c"
  shows "standard_times c"
  by (rule callback_actions.connection_new_I [OF standard_times_actions [OF assms(1)] _ _ assms(2)])
    (simp add: standard_times_def accessors times, rule standard_times_transition, simp_all)

section \<open>Where timeouts take effect\<close>

text \<open>
  A timeout is read when the state it belongs to is entered: it is the distance of the deadline,
  and zero closes the connection at once.
\<close>

lemma entering_arms:
  assumes "timed_state s" and "m_state c \<noteq> s" and "state_duration s c = d"
  shows "if d = 0 then getState (transitionTo now s c) = DoIPServerState.Closed
    else deadline_of (m_timerManager (transitionTo now s c)) = [state_timer s \<mapsto> (now + d, this_id c)]"
  using assms by (simp add: transitionTo_timed getState_def tms.arm_deadline)

lemma general_timeout_effective:
  assumes "m_state c \<noteq> DoIPServerState.RoutingActivated"
  shows "if t = 0
    then getState (transitionTo now DoIPServerState.RoutingActivated (setGeneralInactivityTimeout t c)) = DoIPServerState.Closed
    else deadline_of (m_timerManager (transitionTo now DoIPServerState.RoutingActivated (setGeneralInactivityTimeout t c)))
      = [ConnectionTimers.GeneralInactivity \<mapsto> (now + t, this_id c)]"
  using entering_arms [of DoIPServerState.RoutingActivated "setGeneralInactivityTimeout t c" t now] assms
  by (auto simp: accessors state_duration_def getTimerDuration_def state_timer_def split: if_splits)

text \<open>
  The timeout of downstream responses is stored but armed nowhere: waiting for the response
  always takes the two seconds of the state table.
\<close>

lemma downstream_timeout_ineffective:
  assumes "m_state c \<noteq> DoIPServerState.WaitDownstreamResponse"
  shows "deadline_of (m_timerManager (transitionTo now DoIPServerState.WaitDownstreamResponse (setDownstreamResponseTimeout t c)))
      = [ConnectionTimers.UserDefined \<mapsto> (now + 2000, this_id c)]"
  using entering_arms [of DoIPServerState.WaitDownstreamResponse "setDownstreamResponseTimeout t c" 2000 now] assms
  by (simp add: accessors state_duration_def getTimerDuration_def state_timer_def)

text \<open>\<open>isRunning\<close> reads the flag of the announcements: a server that only accepts connections is not running.\<close>

lemma tcp_server_not_running:
  "setupTcpSocket ops mf (server_new mk cfg) = (ok, srv) \<Longrightarrow> \<not> isRunning srv"
  by (auto simp: setupTcpSocket_def server_new_def setLoopbackMode_def isRunning_def Let_def split: prod.splits if_splits)

end
