(* ===== verification/DoIP_Context.thy ===== *)
theory DoIP_Context
  imports DoIP_Settings DoIP_ConnectionBehaviour
begin

text \<open>
  The interface between protocol and application (\<^verbatim>\<open>IConnectionContext.h\<close>) as a record of its virtual
  functions, the two classes that implement it, and the part of its documented contract that both fulfil.
  Where the documentation promises more than the code does, a lemma says so.
\<close>

section \<open>The interface\<close>

record 'c IConnectionContext =
  cx_sendProtocolMessage :: "DoIPMessage \<Rightarrow> 'c \<Rightarrow> int \<times> 'c"
  cx_receiveProtocolMessage :: "'c \<Rightarrow> (DoIPMessage option, 'c) outcome"
  cx_closeConnection :: "DoIPCloseReason \<Rightarrow> 'c \<Rightarrow> (unit, 'c) outcome"
  cx_isOpen :: "'c \<Rightarrow> bool"
  cx_getCloseReason :: "'c \<Rightarrow> DoIPCloseReason"
  cx_getServerAddress :: "'c \<Rightarrow> DoIPAddress"
  cx_getClientAddress :: "'c \<Rightarrow> DoIPAddress"
  cx_setClientAddress :: "DoIPAddress \<Rightarrow> 'c \<Rightarrow> 'c"
  cx_notifyDiagnosticMessage :: "DoIPMessage \<Rightarrow> 'c \<Rightarrow> (DoIPDiagnosticAck, 'c) outcome"
  cx_notifyConnectionClosed :: "DoIPCloseReason \<Rightarrow> 'c \<Rightarrow> (unit, 'c) outcome"
  cx_notifyDiagnosticAckSent :: "DoIPDiagnosticAck \<Rightarrow> 'c \<Rightarrow> (unit, 'c) outcome"
  cx_hasDownstreamHandler :: "'c \<Rightarrow> bool"
  cx_notifyDownstreamRequest :: "DoIPMessage \<Rightarrow> 'c \<Rightarrow> (DoIPDownstreamResult, 'c) outcome"
  cx_receiveDownstreamResponse :: "ByteArray \<Rightarrow> DoIPDownstreamResult \<Rightarrow> 'c \<Rightarrow> 'c"

text \<open>The classes \<open>DoIPConnection\<close> and \<open>DoIPDefaultConnection\<close>; the flag of the environment tells which.\<close>

definition context_of :: "nat \<Rightarrow> 't conn_env \<Rightarrow> 't connection IConnectionContext" where
  "context_of fuel env = \<lparr>
     cx_sendProtocolMessage = sendProtocolMessage env,
     cx_receiveProtocolMessage = receiveProtocolMessage env,
     cx_closeConnection = closeConnection fuel env,
     cx_isOpen = isOpen,
     cx_getCloseReason = getCloseReason,
     cx_getServerAddress = (\<lambda>c. getServerAddress env),
     cx_getClientAddress = getClientAddress,
     cx_setClientAddress = setClientAddress,
     cx_notifyDiagnosticMessage = notifyDiagnosticMessage fuel env,
     cx_notifyConnectionClosed = notifyConnectionClosed env (closeConnection fuel env),
     cx_notifyDiagnosticAckSent = notifyDiagnosticAckSent fuel env,
     cx_hasDownstreamHandler = (\<lambda>c. hasDownstreamHandler env),
     cx_notifyDownstreamRequest = notifyDownstreamRequest fuel env,
     cx_receiveDownstreamResponse = receiveDownstreamResponse env\<rparr>"

section \<open>The contract\<close>

text \<open>
  \<open>ready\<close> is what closing needs: the context is not already being closed.  When closing returns at all
  is not part of the contract; \<open>DoIP_ConnectionBehaviour\<close> says it for either class.
\<close>

locale connection_context =
  fixes ready :: "'c \<Rightarrow> bool" and cx :: "'c IConnectionContext"
  assumes address_set: "cx_getClientAddress cx (cx_setClientAddress cx a c) = a"
    and address_send: "cx_getClientAddress cx (snd (cx_sendProtocolMessage cx m c)) = cx_getClientAddress cx c"
    and open_send: "cx_isOpen cx (snd (cx_sendProtocolMessage cx m c)) = cx_isOpen cx c"
    and open_set: "cx_isOpen cx (cx_setClientAddress cx a c) = cx_isOpen cx c"
    and ready_send: "ready c \<Longrightarrow> ready (snd (cx_sendProtocolMessage cx m c))"
    and close_closes: "ready c \<Longrightarrow> cx_closeConnection cx r c = Ok () c' \<Longrightarrow>
      \<not> cx_isOpen cx c' \<and> cx_getCloseReason cx c' = r"
    and server_fixed: "cx_getServerAddress cx c = cx_getServerAddress cx c'"
    and no_downstream: "\<not> cx_hasDownstreamHandler cx c \<Longrightarrow>
      cx_notifyDownstreamRequest cx m c = Ok DoIPDownstreamResult.Error c"
begin

definition send_all :: "DoIPMessage list \<Rightarrow> 'c \<Rightarrow> 'c" where
  "send_all ms c = fold (\<lambda>m c. snd (cx_sendProtocolMessage cx m c)) ms c"

lemma send_all_keeps:
  "cx_getClientAddress cx (send_all ms c) = cx_getClientAddress cx c \<and> cx_isOpen cx (send_all ms c) = cx_isOpen cx c
   \<and> (ready c \<longrightarrow> ready (send_all ms c))"
  unfolding send_all_def
  by (induction ms arbitrary: c) (auto simp: address_send open_send ready_send)

text \<open>An application that sends what it has to and then closes.\<close>

lemma goodbye:
  assumes "ready c" and "cx_closeConnection cx r (send_all ms c) = Ok () c'"
  shows "\<not> cx_isOpen cx c' \<and> cx_getCloseReason cx c' = r"
  using close_closes assms send_all_keeps by blast

end

lemma context_sel [simp]:
  "cx_sendProtocolMessage (context_of fuel env) = sendProtocolMessage env"
  "cx_closeConnection (context_of fuel env) = closeConnection fuel env" "cx_isOpen (context_of fuel env) = isOpen"
  "cx_getCloseReason (context_of fuel env) = getCloseReason"
  "cx_getServerAddress (context_of fuel env) = (\<lambda>c. getServerAddress env)"
  "cx_getClientAddress (context_of fuel env) = getClientAddress" "cx_setClientAddress (context_of fuel env) = setClientAddress"
  "cx_hasDownstreamHandler (context_of fuel env) = (\<lambda>c. hasDownstreamHandler env)"
  "cx_notifyDownstreamRequest (context_of fuel env) = notifyDownstreamRequest fuel env"
  by (simp_all add: context_of_def)

lemma context_laws:
  assumes "\<And>c c' r. ready c \<Longrightarrow> closeConnection fuel env r c = Ok () c' \<Longrightarrow> \<not> m_isOpen c' \<and> m_closeReason c' = r"
    and "\<And>c m. ready c \<Longrightarrow> ready (snd (sendProtocolMessage env m c))"
  shows "connection_context ready (context_of fuel env)"
  by unfold_locales
    (use assms in \<open>auto simp: accessors getClientAddress_def setClientAddress_def emit_def sendProtocolMessage_eq
      hasDownstreamHandler_def model_hasDownstreamHandler_def notifyDownstreamRequest_def simp del: closeConnection.simps\<close>)

section \<open>The implementations\<close>

text \<open>\<open>DoIPConnection\<close>, with any application, over the TCP and the mock transport.\<close>

lemma guarded_context:
  assumes "connection_transport ti tp"
  shows "connection_context (\<lambda>c. \<not> m_isClosing c) (context_of (Suc (Suc n)) (mk_env tp model True now))"
proof (rule context_laws)
  fix c c' r assume "\<not> m_isClosing c" and o: "closeConnection (Suc (Suc n)) (mk_env tp model True now) r c = Ok () c'"
  have ct: "connection_transport ti (env_tp (mk_env tp model True now))" using assms by simp
  from closeConnection_guarded [OF ct _ \<open>\<not> m_isClosing c\<close> o] show "\<not> m_isOpen c' \<and> m_closeReason c' = r"
    by (auto simp: closing_phase_def)
qed simp

interpretation tcp_context: connection_context "\<lambda>c. \<not> m_isClosing c"
  "context_of (Suc (Suc n)) (mk_env (tcp_ops os) model True now)" for n model now and os :: "'n os_socket"
  by (rule guarded_context [OF tcp.connection_transport_axioms])

interpretation mock_context: connection_context "\<lambda>c. \<not> m_isClosing c"
  "context_of (Suc (Suc n)) (mk_env mock_ops model True now)" for n model now
  by (rule guarded_context [OF mock.connection_transport_axioms])

text \<open>\<open>DoIPDefaultConnection\<close>, with an application that does not call back.\<close>

interpretation default_context: connection_context "\<lambda>c. quiet_app model"
  "context_of (Suc n) (mk_env tp model False now)" for n model tp now
proof (rule context_laws)
  fix c c' r assume "quiet_app model" and "closeConnection (Suc n) (mk_env tp model False now) r c = Ok () c'"
  then show "\<not> m_isOpen c' \<and> m_closeReason c' = r"
    using closeConnection_quiet [of "mk_env tp model False now" c n r] by (auto simp del: closeConnection.simps)
qed simp

section \<open>Where the documentation promises more\<close>

text \<open>
  \<open>getClientAddress\<close> is documented to give 0 when no routing is active.  Before the activation it gives
  what happened to be in the uninitialised member, and after closing still the last client.
\<close>

lemma client_address_not_reset:
  assumes "quiet_app model" and "\<not> m_isClosing c"
  shows "\<exists>c'. closeConnection (Suc n) (mk_env tp model True now) r c = Ok () c'
    \<and> getClientAddress c' = getClientAddress c"
  using assms
  by (cases "onCloseConnection model")
    (auto simp: default_closeConnection_def notifyConnectionClosed_def Let_def quiet_app_def emit_def getClientAddress_def
      transitionTo_Closed)

lemma client_address_uninitialised:
  assumes "onOpenConnection model = Some (\<lambda>c. [])"
  shows "\<exists>c. connection_new (mk_env tp model g now) this t tm client retries = Ok () c \<and> getClientAddress c = client"
  using assms by (simp add: connection_new_def Let_def getClientAddress_def emit_def)

end
