(* ===== verification/DoIP_LegacyTransport.thy ===== *)
theory DoIP_LegacyTransport
  imports DoIP_Transport
begin

text \<open>
  The older transports behind the interface \<open>ITransport\<close> (\<^verbatim>\<open>tp/ITransport.h\<close>,
  \<^verbatim>\<open>MockTransport.cpp\<close>, \<^verbatim>\<open>TcpTransport.cpp\<close>), which the sources keep beside the connection
  transports.  The locale \<open>transport_implementation\<close> says when one transport does exactly what
  another does, up to an abstraction of its state, and derives the contract of connection
  transports for it; it is interpreted for both older classes.
\<close>

section \<open>MockTransport\<close>

record MockTransport =
  lm_identifier :: string
  lm_isActive :: bool
  lm_blocking :: bool
  lm_sentQueue :: "DoIPMessage ThreadSafeQueue"
  lm_receiveQueue :: "DoIPMessage ThreadSafeQueue"

definition lm_new :: "string \<Rightarrow> MockTransport" where
  "lm_new identifier = \<lparr>lm_identifier = identifier, lm_isActive = True, lm_blocking = False,
     lm_sentQueue = queue_new, lm_receiveQueue = queue_new\<rparr>"

definition lm_sendMessage :: "DoIPMessage \<Rightarrow> MockTransport \<Rightarrow> int \<times> MockTransport" where
  "lm_sendMessage msg t =
     (if \<not> lm_isActive t then (- 1, t)
      else let t = t\<lparr>lm_sentQueue := push msg (lm_sentQueue t)\<rparr> in (int (getMessageSize msg), t))"

definition lm_receiveMessage :: "MockTransport \<Rightarrow> (DoIPMessage option \<times> MockTransport) res option" where
  "lm_receiveMessage t =
     (if \<not> lm_isActive t then Some (Inr (None, t))
      else if lm_blocking t then
        (case waitAndPop (lm_receiveQueue t) of
           None \<Rightarrow> None
         | Some (Some msg, q) \<Rightarrow> Some (Inr (Some msg, t\<lparr>lm_receiveQueue := q\<rparr>))
         | Some (None, q) \<Rightarrow> Some (Inr (None, t\<lparr>lm_receiveQueue := q\<rparr>)))
      else
        (case tryPop (lm_receiveQueue t) of
           (Some msg, q) \<Rightarrow> Some (Inr (Some msg, t\<lparr>lm_receiveQueue := q\<rparr>))
         | (None, q) \<Rightarrow> Some (Inr (None, t\<lparr>lm_receiveQueue := q\<rparr>))))"

definition lm_close :: "DoIPCloseReason \<Rightarrow> MockTransport \<Rightarrow> MockTransport" where
  "lm_close reason t =
     t\<lparr>lm_isActive := False, lm_receiveQueue := clear (lm_receiveQueue t), lm_sentQueue := clear (lm_sentQueue t)\<rparr>"

definition lm_injectMessage :: "DoIPMessage \<Rightarrow> MockTransport \<Rightarrow> MockTransport" where
  "lm_injectMessage msg t = t\<lparr>lm_receiveQueue := push msg (lm_receiveQueue t)\<rparr>"

definition lm_popSentMessage :: "MockTransport \<Rightarrow> DoIPMessage option \<times> MockTransport" where
  "lm_popSentMessage t =
     (case tryPop (lm_sentQueue t) of
        (Some msg, q) \<Rightarrow> (Some msg, t\<lparr>lm_sentQueue := q\<rparr>)
      | (None, q) \<Rightarrow> (None, t\<lparr>lm_sentQueue := q\<rparr>))"

definition lm_hasSentMessages :: "MockTransport \<Rightarrow> bool" where
  "lm_hasSentMessages t = (\<not> queue_empty (lm_sentQueue t))"

definition lm_sentMessageCount :: "MockTransport \<Rightarrow> nat" where
  "lm_sentMessageCount t = queue_size (lm_sentQueue t)"

definition lm_clearQueues :: "MockTransport \<Rightarrow> MockTransport" where
  "lm_clearQueues t =
     (let t = t\<lparr>lm_sentQueue := clear (lm_sentQueue t)\<rparr> in t\<lparr>lm_receiveQueue := clear (lm_receiveQueue t)\<rparr>)"

definition lm_setBlocking :: "bool \<Rightarrow> MockTransport \<Rightarrow> MockTransport" where
  "lm_setBlocking blocking t = t\<lparr>lm_blocking := blocking\<rparr>"

definition lm_ops :: "MockTransport transport_ops" where
  "lm_ops = \<lparr>tp_send = lm_sendMessage, tp_receive = lm_receiveMessage, tp_close = lm_close,
     tp_isActive = lm_isActive, tp_getIdentifier = lm_identifier\<rparr>"

section \<open>TcpTransport\<close>

record 'n TcpTransport =
  lt_socket :: int
  lt_receiveBuffer :: "u8 list"
  lt_isActive :: bool
  lt_identifier :: string
  lt_network :: 'n

definition lt_initializeIdentifier :: "'n os_socket \<Rightarrow> 'n TcpTransport \<Rightarrow> 'n TcpTransport" where
  "lt_initializeIdentifier os t =
     (case os_getpeername os (lt_socket t) (lt_network t) of
        Some (ipStr, port) \<Rightarrow> t\<lparr>lt_identifier := ipStr @ '':'' @ show_nat (unat port)\<rparr>
      | None \<Rightarrow> t\<lparr>lt_identifier := ''socket_'' @ show_int (lt_socket t)\<rparr>)"

definition lt_new :: "'n os_socket \<Rightarrow> nat \<Rightarrow> int \<Rightarrow> 'n \<Rightarrow> 'n TcpTransport" where
  "lt_new os mtu socket n = lt_initializeIdentifier os
     \<lparr>lt_socket = socket, lt_receiveBuffer = replicate mtu 0, lt_isActive = True, lt_identifier = [], lt_network = n\<rparr>"

definition lt_sendMessage :: "'n os_socket \<Rightarrow> DoIPMessage \<Rightarrow> 'n TcpTransport \<Rightarrow> int \<times> 'n TcpTransport" where
  "lt_sendMessage os msg t =
     (if \<not> lt_isActive t then (- 1, t)
      else case os_write os (lt_socket t) (m_data msg) (lt_network t) of
        (result, n) \<Rightarrow>
          let t = t\<lparr>lt_network := n\<rparr>
          in if result < 0 then (result, t\<lparr>lt_isActive := False\<rparr>) else (result, t))"

text \<open>
  The loop of \<open>receiveExactly\<close>, line by line: errors other than an interruption and the end
  of the stream return what was received so far.
\<close>

partial_function (option) lt_receive_loop ::
  "'n os_socket \<Rightarrow> int \<Rightarrow> u8 list \<Rightarrow> nat \<Rightarrow> nat \<Rightarrow> 'n \<Rightarrow> (u8 list \<times> nat \<times> 'n) option" where
  "lt_receive_loop os fd buf totalReceived remaining n =
     (if remaining = 0 then Some (buf, totalReceived, n)
      else case os_recv os fd remaining n of
        (RecvError e, n') \<Rightarrow>
          (if e = EAGAIN \<or> e = EINTR then lt_receive_loop os fd buf totalReceived remaining n'
           else Some (buf, totalReceived, n'))
      | (RecvEof, n') \<Rightarrow> Some (buf, totalReceived, n')
      | (RecvData bs, n') \<Rightarrow>
          lt_receive_loop os fd (buffer_write buf totalReceived bs) (totalReceived + length bs) (remaining - length bs) n')"

definition lt_receiveExactly :: "'n os_socket \<Rightarrow> u8 list \<Rightarrow> nat \<Rightarrow> 'n TcpTransport \<Rightarrow> (u8 list \<times> nat \<times> 'n) option" where
  "lt_receiveExactly os buffer len t = lt_receive_loop os (lt_socket t) buffer 0 len (lt_network t)"

definition lt_receivePayload ::
  "'n os_socket \<Rightarrow> DoIPPayloadType \<Rightarrow> u32 \<Rightarrow> 'n TcpTransport \<Rightarrow> (DoIPMessage option \<times> 'n TcpTransport) res option" where
  "lt_receivePayload os payloadType payloadLength t =
     (if payloadLength > 0 then
        if unat payloadLength > length (lt_receiveBuffer t) then Some (Inr (None, t\<lparr>lt_isActive := False\<rparr>))
        else (case lt_receiveExactly os (lt_receiveBuffer t) (unat payloadLength) t of
            None \<Rightarrow> None
          | Some (buf, payloadBytes, n) \<Rightarrow>
              let t = t\<lparr>lt_receiveBuffer := buf, lt_network := n\<rparr>
              in if payloadBytes \<noteq> unat payloadLength then Some (Inr (None, t\<lparr>lt_isActive := False\<rparr>))
                 else Some (rbind (message_from_ptr payloadType (Some (lt_receiveBuffer t)) (unat payloadLength))
                   (\<lambda>msg. Inr (Some msg, t))))
      else Some (rbind (message_from_ptr payloadType (Some (lt_receiveBuffer t)) (unat payloadLength))
             (\<lambda>msg. Inr (Some msg, t))))"

definition lt_receiveMessage :: "'n os_socket \<Rightarrow> 'n TcpTransport \<Rightarrow> (DoIPMessage option \<times> 'n TcpTransport) res option" where
  "lt_receiveMessage os t =
     (if \<not> lt_isActive t then Some (Inr (None, t))
      else case lt_receiveExactly os (replicate DOIP_HEADER_SIZE 0) DOIP_HEADER_SIZE t of
        None \<Rightarrow> None
      | Some (headerBuf, headerBytes, n) \<Rightarrow>
          let t = t\<lparr>lt_network := n\<rparr>
          in if headerBytes \<noteq> DOIP_HEADER_SIZE then Some (Inr (None, t\<lparr>lt_isActive := False\<rparr>))
             else case tryParseHeader (Some headerBuf) DOIP_HEADER_SIZE of
               Inl e \<Rightarrow> Some (Inl e)
             | Inr None \<Rightarrow> Some (Inr (None, t\<lparr>lt_isActive := False\<rparr>))
             | Inr (Some (payloadType, payloadLength)) \<Rightarrow> lt_receivePayload os payloadType payloadLength t)"

definition lt_close :: "'n os_socket \<Rightarrow> DoIPCloseReason \<Rightarrow> 'n TcpTransport \<Rightarrow> 'n TcpTransport" where
  "lt_close os reason t =
     (if lt_isActive t
      then let t = t\<lparr>lt_isActive := False\<rparr>; t = t\<lparr>lt_network := os_close os (lt_socket t) (lt_network t)\<rparr>
           in t\<lparr>lt_socket := - 1\<rparr>
      else t)"

definition lt_destroy :: "'n os_socket \<Rightarrow> 'n TcpTransport \<Rightarrow> 'n TcpTransport" where
  "lt_destroy os t = lt_close os DoIPCloseReason.ApplicationRequest t"

definition lt_ops :: "'n os_socket \<Rightarrow> 'n TcpTransport transport_ops" where
  "lt_ops os = \<lparr>tp_send = lt_sendMessage os, tp_receive = lt_receiveMessage os, tp_close = lt_close os,
     tp_isActive = lt_isActive, tp_getIdentifier = lt_identifier\<rparr>"

lemma legacy_ops_sel [simp]:
  "tp_receive (lt_ops os) = lt_receiveMessage os" "tp_isActive (lt_ops os) = lt_isActive"
  "tp_send (lt_ops os) = lt_sendMessage os" "tp_close (lt_ops os) = lt_close os" "tp_getIdentifier (lt_ops os) = lt_identifier"
  "tp_receive lm_ops = lm_receiveMessage" "tp_isActive lm_ops = lm_isActive"
  "tp_send lm_ops = lm_sendMessage" "tp_close lm_ops = lm_close" "tp_getIdentifier lm_ops = lm_identifier"
  by (simp_all add: lt_ops_def lm_ops_def)

section \<open>One transport implements another\<close>

definition map_received :: "('u \<Rightarrow> 't) \<Rightarrow> (DoIPMessage option \<times> 'u) res option \<Rightarrow> (DoIPMessage option \<times> 't) res option" where
  "map_received h = map_option (map_sum id (map_prod id h))"

locale transport_implementation =
  fixes h :: "'u \<Rightarrow> 't" and impl :: "'u transport_ops" and ops :: "'t transport_ops"
  assumes h_inj: "h u = h v \<Longrightarrow> u = v"
    and h_send: "tp_send ops m (h u) = map_prod id h (tp_send impl m u)"
    and h_receive: "tp_receive ops (h u) = map_received h (tp_receive impl u)"
    and h_close: "tp_close ops r (h u) = h (tp_close impl r u)"
    and h_active: "tp_isActive ops (h u) = tp_isActive impl u"
    and h_identifier: "tp_getIdentifier ops (h u) = tp_getIdentifier impl u"
begin

lemma h_send_snd: "h (snd (tp_send impl m u)) = snd (tp_send ops m (h u))"
  and h_send_fst: "fst (tp_send impl m u) = fst (tp_send ops m (h u))"
  by (simp_all add: h_send)

lemma h_receive_Some:
  "tp_receive impl u = Some (Inr (x, v)) \<Longrightarrow> tp_receive ops (h u) = Some (Inr (x, h v))"
  by (simp add: h_receive map_received_def)

end

text \<open>An implementation of a connection transport is a connection transport.\<close>

locale connection_transport_implementation =
  transport_implementation h impl ops + connection_transport inv ops
  for h :: "'u \<Rightarrow> 't" and impl :: "'u transport_ops" and ops :: "'t transport_ops" and inv :: "'t \<Rightarrow> bool"
begin

lemma send_pulled: "\<not> tp_isActive impl u \<Longrightarrow> tp_send impl m u = (- 1, u)"
  using send_inactive [of "h u" m] h_inj by (cases "tp_send impl m u") (auto simp: h_send h_active)

lemma receive_pulled: "\<not> tp_isActive impl u \<Longrightarrow> tp_receive impl u = Some (Inr (None, u))"
  using receive_inactive [of "h u"] h_inj
  by (cases "tp_receive impl u") (auto simp: h_receive h_active map_received_def map_sum_def split: sum.splits)

end

sublocale connection_transport_implementation \<subseteq> pulled: connection_transport "\<lambda>u. inv (h u)" impl
proof
  show "\<not> tp_isActive impl (tp_close impl r u)" for r u
    using close_inactive [of r "h u"] by (simp add: h_close h_active)
  show "tp_close impl r (tp_close impl r' u) = tp_close impl r' u" for r r' u
    using close_close [of r r' "h u"] h_inj by (simp add: h_close)
  show "inv (h u) \<Longrightarrow> tp_receive impl u \<noteq> Some (Inl e)" for u e
    using receive_defined [of "h u" e] by (auto simp: h_receive map_received_def)
  show "inv (h u) \<Longrightarrow> inv (h (snd (tp_send impl m u)))" for u m
    using inv_send [of "h u" m] by (simp add: h_send_snd)
  show "inv (h u) \<Longrightarrow> tp_receive impl u = Some (Inr (x, v)) \<Longrightarrow> inv (h v)" for u x v
    using inv_receive [of "h u" x "h v"] h_receive_Some by blast
  show "inv (h u) \<Longrightarrow> inv (h (tp_close impl r u))" for u r
    using inv_close [of "h u" r] by (simp add: h_close)
qed (rule send_pulled receive_pulled; assumption)+

section \<open>The older classes implement the connection transports\<close>

definition mock_of :: "MockTransport \<Rightarrow> MockConnectionTransport" where
  "mock_of t = \<lparr>mock_identifier = lm_identifier t, mock_isActive = lm_isActive t, mock_blocking = lm_blocking t,
     m_sentQueue = lm_sentQueue t, m_receiveQueue = lm_receiveQueue t\<rparr>"

definition tcp_of :: "'n TcpTransport \<Rightarrow> 'n TcpConnectionTransport" where
  "tcp_of t = \<lparr>m_socket = lt_socket t, m_receiveBuffer = lt_receiveBuffer t, tcp_isActive = lt_isActive t,
     tcp_identifier = lt_identifier t, network = lt_network t\<rparr>"

lemmas of_defs = mock_of_def tcp_of_def

interpretation legacy_mock: connection_transport_implementation mock_of lm_ops mock_ops "\<lambda>_. True"
proof
  show "mock_of u = mock_of v \<Longrightarrow> u = v" for u v by (simp add: mock_of_def)
qed (auto simp: mock_of_def lm_sendMessage_def lm_receiveMessage_def lm_close_def mock_defs mock_ops_def map_received_def Let_def
    split: option.splits prod.splits)

text \<open>Both receive loops return the same, and neither returns when the other does not.\<close>

lemmas lt_receive_induct = lt_receive_loop.raw_induct [rotated, consumes 1, case_names step]

lemma lt_loop_returns:
  "lt_receive_loop os fd buf got remaining n = Some r \<Longrightarrow> receiveExactly_loop os fd buf got remaining n = Some r"
proof (induction os fd buf got remaining n r rule: lt_receive_induct)
  case (step f os fd buf got remaining n r)
  from step.hyps show ?case
    by (subst receiveExactly_loop.simps)
      (auto split: if_splits prod.splits recv_result.splits dest: step.IH)
qed

lemma loop_returns_lt:
  "receiveExactly_loop os fd buf got remaining n = Some r \<Longrightarrow> lt_receive_loop os fd buf got remaining n = Some r"
proof (induction os fd buf got remaining n r rule: receiveExactly_induct)
  case (step f os fd buf got remaining n r)
  from step.hyps show ?case
    by (subst lt_receive_loop.simps)
      (auto split: if_splits prod.splits recv_result.splits dest: step.IH)
qed

lemma lt_receive_loop_eq: "lt_receive_loop os fd buf got remaining n = receiveExactly_loop os fd buf got remaining n"
  using lt_loop_returns [of os fd buf got remaining n] loop_returns_lt [of os fd buf got remaining n]
  by (cases "lt_receive_loop os fd buf got remaining n"; cases "receiveExactly_loop os fd buf got remaining n") auto

lemma lt_receiveExactly_eq:
  "lt_receiveExactly os buf len t = receiveExactly os (m_socket (tcp_of t)) buf len (network (tcp_of t))"
  by (simp add: lt_receiveExactly_def receiveExactly_def lt_receive_loop_eq tcp_of_def)

lemma tcp_of_sel:
  "tcp_isActive (tcp_of t) = lt_isActive t" "m_receiveBuffer (tcp_of t) = lt_receiveBuffer t"
  "m_socket (tcp_of t) = lt_socket t" "network (tcp_of t) = lt_network t"
  "(tcp_of t)\<lparr>network := n\<rparr> = tcp_of (t\<lparr>lt_network := n\<rparr>)"
  "(tcp_of t)\<lparr>tcp_isActive := b\<rparr> = tcp_of (t\<lparr>lt_isActive := b\<rparr>)"
  "(tcp_of t)\<lparr>m_receiveBuffer := buf\<rparr> = tcp_of (t\<lparr>lt_receiveBuffer := buf\<rparr>)"
  by (simp_all add: tcp_of_def)

lemma map_received_message:
  "map_sum id (map_prod id h) (rbind r (\<lambda>msg. Inr (Some msg, u))) = rbind r (\<lambda>msg. Inr (Some msg, h u))"
  by (cases r) simp_all

lemma lt_receivePayload_eq:
  "tcp_receivePayload os pt l (tcp_of t) = map_received tcp_of (lt_receivePayload os pt l t)"
  by (auto simp: tcp_receivePayload_def lt_receivePayload_def lt_receiveExactly_eq map_received_def Let_def
      tcp_of_sel map_received_message split: option.splits prod.splits)

lemma lt_receiveMessage_eq:
  "tcp_receiveMessage os (tcp_of t) = map_received tcp_of (lt_receiveMessage os t)"
  by (simp add: tcp_receiveMessage_def lt_receiveMessage_def lt_receiveExactly_eq tcp_of_sel Let_def lt_receivePayload_eq
      map_received_def split: option.split sum.split prod.split)

interpretation legacy_tcp: connection_transport_implementation tcp_of "lt_ops os" "tcp_ops os" "\<lambda>_. recv_bounded os"
  for os :: "'n os_socket"
proof
  show "tcp_of u = tcp_of v \<Longrightarrow> u = v" for u v :: "'n TcpTransport" by (simp add: tcp_of_def)
  show "tp_receive (tcp_ops os) (tcp_of u) = map_received tcp_of (tp_receive (lt_ops os) u)" for u
    by (simp add: lt_receiveMessage_eq)
qed (auto simp: tcp_of_def lt_sendMessage_def lt_close_def tcp_sendMessage_def tcp_close_def tcp_ops_def Let_def split: prod.splits)

section \<open>Construction and destruction\<close>

lemma legacy_new: "mock_of (lm_new i) = mock_new i" "tcp_of (lt_new os mtu fd n) = tcp_new os mtu fd n"
  by (auto simp: of_defs lm_new_def mock_new_def lt_new_def lt_initializeIdentifier_def tcp_new_def
      initializeIdentifier_def split: option.split)

text \<open>
  The destructors differ: the older one closes whatever is stored in \<open>m_socket\<close>, the newer one
  only a descriptor that is not negative.
\<close>

lemma legacy_destroy:
  "tcp_of (lt_destroy os t) =
     (if lt_isActive t \<and> lt_socket t < 0
      then (tcp_shutdownSocket os (tcp_of t))\<lparr>m_socket := - 1, network := os_close os (lt_socket t) (lt_network t)\<rparr>
      else tcp_shutdownSocket os (tcp_of t))"
  by (simp add: lt_destroy_def lt_close_def tcp_shutdownSocket_def tcp_of_def Let_def)

lemma legacy_mock_members:
  "mock_of (lm_injectMessage m t) = mock_injectMessage m (mock_of t)"
  "map_prod id mock_of (lm_popSentMessage t) = mock_popSentMessage (mock_of t)"
  "lm_hasSentMessages t = mock_hasSentMessages (mock_of t)" "lm_sentMessageCount t = mock_sentMessageCount (mock_of t)"
  "mock_of (lm_clearQueues t) = mock_clearQueues (mock_of t)"
  by (auto simp: mock_of_def lm_injectMessage_def mock_injectMessage_def lm_popSentMessage_def mock_popSentMessage_def
      lm_hasSentMessages_def mock_hasSentMessages_def lm_sentMessageCount_def mock_sentMessageCount_def
      lm_clearQueues_def mock_clearQueues_def Let_def split: prod.split option.split)

end
