(* ===== verification/DoIP_UdsCodes.thy ===== *)
theory DoIP_UdsCodes
  imports DoIP_Enums
begin

text \<open>
  Service and response codes of UDS and the table of service descriptors
  (\<^verbatim>\<open>inc/uds/UdsServices.h\<close>, \<^verbatim>\<open>inc/uds/UdsResponseCode.h\<close>), with the stream operator that
  prints a response code.
\<close>

section \<open>Services (UdsServices.h)\<close>

datatype UdsService =
    DiagnosticSessionControl
  | ECUReset
  | SecurityAccess
  | CommunicationControl
  | TesterPresent
  | AccessTimingParameters
  | SecuredDataTransmission
  | ControlDTCSetting
  | ResponseOnEvent
  | LinkControl
  | ReadDataByIdentifier
  | ReadMemoryByAddress
  | ReadScalingDataByIdentifier
  | ReadDataByPeriodicIdentifier
  | DynamicallyDefineDataIdentifier
  | WriteDataByIdentifier
  | WriteMemoryByAddress
  | ClearDiagnosticInformation
  | ReadDTCInformation
  | RequestDownload
  | TransferData
  | RequestTransferExit
  | UnnamedService u8

primrec service_code :: "UdsService \<Rightarrow> u8" where
  "service_code UdsService.DiagnosticSessionControl = 0x10"
| "service_code UdsService.ECUReset = 0x11"
| "service_code UdsService.SecurityAccess = 0x27"
| "service_code UdsService.CommunicationControl = 0x28"
| "service_code UdsService.TesterPresent = 0x3E"
| "service_code UdsService.AccessTimingParameters = 0x83"
| "service_code UdsService.SecuredDataTransmission = 0x84"
| "service_code UdsService.ControlDTCSetting = 0x85"
| "service_code UdsService.ResponseOnEvent = 0x86"
| "service_code UdsService.LinkControl = 0x87"
| "service_code UdsService.ReadDataByIdentifier = 0x22"
| "service_code UdsService.ReadMemoryByAddress = 0x23"
| "service_code UdsService.ReadScalingDataByIdentifier = 0x24"
| "service_code UdsService.ReadDataByPeriodicIdentifier = 0x2A"
| "service_code UdsService.DynamicallyDefineDataIdentifier = 0x2C"
| "service_code UdsService.WriteDataByIdentifier = 0x2E"
| "service_code UdsService.WriteMemoryByAddress = 0x3D"
| "service_code UdsService.ClearDiagnosticInformation = 0x14"
| "service_code UdsService.ReadDTCInformation = 0x19"
| "service_code UdsService.RequestDownload = 0x34"
| "service_code UdsService.TransferData = 0x36"
| "service_code UdsService.RequestTransferExit = 0x37"
| "service_code (UdsService.UnnamedService v) = v"

definition service_cast :: "u8 \<Rightarrow> UdsService" where
  "service_cast v =
     (if v = 0x10 then UdsService.DiagnosticSessionControl
      else if v = 0x11 then UdsService.ECUReset
      else if v = 0x27 then UdsService.SecurityAccess
      else if v = 0x28 then UdsService.CommunicationControl
      else if v = 0x3E then UdsService.TesterPresent
      else if v = 0x83 then UdsService.AccessTimingParameters
      else if v = 0x84 then UdsService.SecuredDataTransmission
      else if v = 0x85 then UdsService.ControlDTCSetting
      else if v = 0x86 then UdsService.ResponseOnEvent
      else if v = 0x87 then UdsService.LinkControl
      else if v = 0x22 then UdsService.ReadDataByIdentifier
      else if v = 0x23 then UdsService.ReadMemoryByAddress
      else if v = 0x24 then UdsService.ReadScalingDataByIdentifier
      else if v = 0x2A then UdsService.ReadDataByPeriodicIdentifier
      else if v = 0x2C then UdsService.DynamicallyDefineDataIdentifier
      else if v = 0x2E then UdsService.WriteDataByIdentifier
      else if v = 0x3D then UdsService.WriteMemoryByAddress
      else if v = 0x14 then UdsService.ClearDiagnosticInformation
      else if v = 0x19 then UdsService.ReadDTCInformation
      else if v = 0x34 then UdsService.RequestDownload
      else if v = 0x36 then UdsService.TransferData
      else if v = 0x37 then UdsService.RequestTransferExit
      else UdsService.UnnamedService v)"

record UdsServiceDescriptor =
  service :: UdsService
  minReqLength :: u16
  maxReqLength :: u16
  minRspLength :: u16
  maxRspLength :: u16

definition MAX_UDS_MESSAGE_LENGTH :: u16 where
  "MAX_UDS_MESSAGE_LENGTH = 4095"

definition descriptor :: "UdsService \<Rightarrow> u16 \<Rightarrow> u16 \<Rightarrow> u16 \<Rightarrow> u16 \<Rightarrow> UdsServiceDescriptor" where
  "descriptor s a b c d =
     \<lparr>service = s, minReqLength = a, maxReqLength = b, minRspLength = c, maxRspLength = d\<rparr>"

definition UDS_SERVICE_DESCRIPTORS :: "UdsServiceDescriptor list" where
  "UDS_SERVICE_DESCRIPTORS = [
     descriptor UdsService.DiagnosticSessionControl 2 2 6 6,
     descriptor UdsService.ECUReset 2 2 2 2,
     descriptor UdsService.SecurityAccess 2 MAX_UDS_MESSAGE_LENGTH 3 MAX_UDS_MESSAGE_LENGTH,
     descriptor UdsService.CommunicationControl 2 MAX_UDS_MESSAGE_LENGTH 3 MAX_UDS_MESSAGE_LENGTH,
     descriptor UdsService.TesterPresent 2 2 2 2,
     descriptor UdsService.AccessTimingParameters 2 MAX_UDS_MESSAGE_LENGTH 3 MAX_UDS_MESSAGE_LENGTH,
     descriptor UdsService.SecuredDataTransmission 2 MAX_UDS_MESSAGE_LENGTH 3 MAX_UDS_MESSAGE_LENGTH,
     descriptor UdsService.ControlDTCSetting 2 MAX_UDS_MESSAGE_LENGTH 3 MAX_UDS_MESSAGE_LENGTH,
     descriptor UdsService.ResponseOnEvent 2 MAX_UDS_MESSAGE_LENGTH 3 MAX_UDS_MESSAGE_LENGTH,
     descriptor UdsService.LinkControl 2 MAX_UDS_MESSAGE_LENGTH 3 MAX_UDS_MESSAGE_LENGTH,
     descriptor UdsService.ReadDataByIdentifier 3 MAX_UDS_MESSAGE_LENGTH 4 MAX_UDS_MESSAGE_LENGTH,
     descriptor UdsService.ReadMemoryByAddress 4 MAX_UDS_MESSAGE_LENGTH 4 MAX_UDS_MESSAGE_LENGTH,
     descriptor UdsService.ReadScalingDataByIdentifier 3 MAX_UDS_MESSAGE_LENGTH 3 MAX_UDS_MESSAGE_LENGTH,
     descriptor UdsService.ReadDataByPeriodicIdentifier 3 MAX_UDS_MESSAGE_LENGTH 3 MAX_UDS_MESSAGE_LENGTH,
     descriptor UdsService.DynamicallyDefineDataIdentifier 3 MAX_UDS_MESSAGE_LENGTH 3 MAX_UDS_MESSAGE_LENGTH,
     descriptor UdsService.WriteDataByIdentifier 4 MAX_UDS_MESSAGE_LENGTH 3 MAX_UDS_MESSAGE_LENGTH,
     descriptor UdsService.WriteMemoryByAddress 4 MAX_UDS_MESSAGE_LENGTH 3 MAX_UDS_MESSAGE_LENGTH,
     descriptor UdsService.ClearDiagnosticInformation 3 MAX_UDS_MESSAGE_LENGTH 3 MAX_UDS_MESSAGE_LENGTH,
     descriptor UdsService.ReadDTCInformation 2 MAX_UDS_MESSAGE_LENGTH 3 MAX_UDS_MESSAGE_LENGTH,
     descriptor UdsService.RequestDownload 6 MAX_UDS_MESSAGE_LENGTH 5 MAX_UDS_MESSAGE_LENGTH,
     descriptor UdsService.TransferData 3 MAX_UDS_MESSAGE_LENGTH 3 MAX_UDS_MESSAGE_LENGTH,
     descriptor UdsService.RequestTransferExit 2 2 2 2]"

definition findServiceDescriptor :: "UdsService \<Rightarrow> UdsServiceDescriptor option" where
  "findServiceDescriptor sid = find (\<lambda>desc. service desc = sid) UDS_SERVICE_DESCRIPTORS"

section \<open>Response codes (UdsResponseCode.h)\<close>

text \<open>\<open>PositiveResponse\<close> is a second name of the enumerator \<open>OK\<close>.\<close>

datatype (plugins only: size) UdsResponseCode =
    OK
  | GeneralReject
  | ServiceNotSupported
  | SubFunctionNotSupported
  | IncorrectMessageLengthOrInvalidFormat
  | ResponseTooLong
  | BusyRepeatRequest
  | ConditionsNotCorrect
  | RequestSequenceError
  | NoResponseFromSubnetComponent
  | FailurePreventsExecutionOfRequestedAction
  | RequestOutOfRange
  | SecurityAccessDenied
  | AuthenticationRequired
  | InvalidKey
  | ExceedNumberOfAttempts
  | RequiredTimeDelayNotExpired
  | SecureDataTransmissionRequired
  | SecureDataTransmissionNotAllowed
  | SecureDataVerificationFailed
  | CertficateVerificationFailedInvalidTimePeriod
  | CertficateVerificationFailedInvalidSignature
  | CertficateVerificationFailedInvalidChainOfTrust
  | CertficateVerificationFailedInvalidType
  | CertficateVerificationFailedInvalidFormat
  | CertficateVerificationFailedInvalidContent
  | CertficateVerificationFailedInvalidScope
  | CertficateVerificationFailedInvalidCertificate
  | OwnershipVerificationFailed
  | ChallengeCalculationFailed
  | SettingAccessRightsFailed
  | SessionKeyCreationOrDerivationFailed
  | ConfigurationDataUsageFailed
  | DeAuthenticationFailed
  | UploadDownloadNotAccepted
  | TransferDataSuspended
  | GeneralProgrammingFailure
  | WrongBlockSequenceCounter
  | RequestCorrectlyReceived_ResponsePending
  | SubFunctionNotSupportedInActiveSession
  | ServiceNotSupportedInActiveSession
  | RpmTooHigh
  | RpmTooLow
  | EngineIsRunning
  | EngineIsNotRunning
  | EngineRunTimeTooLow
  | TemperatureTooHigh
  | TemperatureTooLow
  | VehicleSpeedTooHigh
  | VehicleSpeedTooLow
  | ThrottlePedalTooHigh
  | ThrottlePedalTooLow
  | TransmissionRangeNotInNeutral
  | TransmissionRangeNotInGear
  | BrakeSwitchNotClosed
  | ShifterLeverNotInPark
  | TorqueConverterClutchLocked
  | VoltageTooHigh
  | VoltageTooLow
  | ResourceTemporarilyNotAvailable
  | UnnamedResponseCode u8

primrec responseCode_code :: "UdsResponseCode \<Rightarrow> u8" where
  "responseCode_code UdsResponseCode.OK = 0"
| "responseCode_code UdsResponseCode.GeneralReject = 0x10"
| "responseCode_code UdsResponseCode.ServiceNotSupported = 0x11"
| "responseCode_code UdsResponseCode.SubFunctionNotSupported = 0x12"
| "responseCode_code UdsResponseCode.IncorrectMessageLengthOrInvalidFormat = 0x13"
| "responseCode_code UdsResponseCode.ResponseTooLong = 0x14"
| "responseCode_code UdsResponseCode.BusyRepeatRequest = 0x21"
| "responseCode_code UdsResponseCode.ConditionsNotCorrect = 0x22"
| "responseCode_code UdsResponseCode.RequestSequenceError = 0x24"
| "responseCode_code UdsResponseCode.NoResponseFromSubnetComponent = 0x25"
| "responseCode_code UdsResponseCode.FailurePreventsExecutionOfRequestedAction = 0x26"
| "responseCode_code UdsResponseCode.RequestOutOfRange = 0x31"
| "responseCode_code UdsResponseCode.SecurityAccessDenied = 0x33"
| "responseCode_code UdsResponseCode.AuthenticationRequired = 0x34"
| "responseCode_code UdsResponseCode.InvalidKey = 0x35"
| "responseCode_code UdsResponseCode.ExceedNumberOfAttempts = 0x36"
| "responseCode_code UdsResponseCode.RequiredTimeDelayNotExpired = 0x37"
| "responseCode_code UdsResponseCode.SecureDataTransmissionRequired = 0x38"
| "responseCode_code UdsResponseCode.SecureDataTransmissionNotAllowed = 0x39"
| "responseCode_code UdsResponseCode.SecureDataVerificationFailed = 0x3A"
| "responseCode_code UdsResponseCode.CertficateVerificationFailedInvalidTimePeriod = 0x50"
| "responseCode_code UdsResponseCode.CertficateVerificationFailedInvalidSignature = 0x51"
| "responseCode_code UdsResponseCode.CertficateVerificationFailedInvalidChainOfTrust = 0x52"
| "responseCode_code UdsResponseCode.CertficateVerificationFailedInvalidType = 0x53"
| "responseCode_code UdsResponseCode.CertficateVerificationFailedInvalidFormat = 0x54"
| "responseCode_code UdsResponseCode.CertficateVerificationFailedInvalidContent = 0x55"
| "responseCode_code UdsResponseCode.CertficateVerificationFailedInvalidScope = 0x56"
| "responseCode_code UdsResponseCode.CertficateVerificationFailedInvalidCertificate = 0x57"
| "responseCode_code UdsResponseCode.OwnershipVerificationFailed = 0x58"
| "responseCode_code UdsResponseCode.ChallengeCalculationFailed = 0x59"
| "responseCode_code UdsResponseCode.SettingAccessRightsFailed = 0x5A"
| "responseCode_code UdsResponseCode.SessionKeyCreationOrDerivationFailed = 0x5B"
| "responseCode_code UdsResponseCode.ConfigurationDataUsageFailed = 0x5C"
| "responseCode_code UdsResponseCode.DeAuthenticationFailed = 0x5D"
| "responseCode_code UdsResponseCode.UploadDownloadNotAccepted = 0x70"
| "responseCode_code UdsResponseCode.TransferDataSuspended = 0x71"
| "responseCode_code UdsResponseCode.GeneralProgrammingFailure = 0x72"
| "responseCode_code UdsResponseCode.WrongBlockSequenceCounter = 0x73"
| "responseCode_code UdsResponseCode.RequestCorrectlyReceived_ResponsePending = 0x78"
| "responseCode_code UdsResponseCode.SubFunctionNotSupportedInActiveSession = 0x7E"
| "responseCode_code UdsResponseCode.ServiceNotSupportedInActiveSession = 0x7F"
| "responseCode_code UdsResponseCode.RpmTooHigh = 0x81"
| "responseCode_code UdsResponseCode.RpmTooLow = 0x82"
| "responseCode_code UdsResponseCode.EngineIsRunning = 0x83"
| "responseCode_code UdsResponseCode.EngineIsNotRunning = 0x84"
| "responseCode_code UdsResponseCode.EngineRunTimeTooLow = 0x85"
| "responseCode_code UdsResponseCode.TemperatureTooHigh = 0x86"
| "responseCode_code UdsResponseCode.TemperatureTooLow = 0x87"
| "responseCode_code UdsResponseCode.VehicleSpeedTooHigh = 0x88"
| "responseCode_code UdsResponseCode.VehicleSpeedTooLow = 0x89"
| "responseCode_code UdsResponseCode.ThrottlePedalTooHigh = 0x8A"
| "responseCode_code UdsResponseCode.ThrottlePedalTooLow = 0x8B"
| "responseCode_code UdsResponseCode.TransmissionRangeNotInNeutral = 0x8C"
| "responseCode_code UdsResponseCode.TransmissionRangeNotInGear = 0x8D"
| "responseCode_code UdsResponseCode.BrakeSwitchNotClosed = 0x8F"
| "responseCode_code UdsResponseCode.ShifterLeverNotInPark = 0x90"
| "responseCode_code UdsResponseCode.TorqueConverterClutchLocked = 0x91"
| "responseCode_code UdsResponseCode.VoltageTooHigh = 0x92"
| "responseCode_code UdsResponseCode.VoltageTooLow = 0x93"
| "responseCode_code UdsResponseCode.ResourceTemporarilyNotAvailable = 0x94"
| "responseCode_code (UdsResponseCode.UnnamedResponseCode v) = v"

definition responseCode_text :: "UdsResponseCode \<Rightarrow> string" where
  "responseCode_text code = (case code of
       UdsResponseCode.GeneralReject \<Rightarrow> '' General Reject''
     | UdsResponseCode.ServiceNotSupported \<Rightarrow> '' Service Not Supported''
     | UdsResponseCode.SubFunctionNotSupported \<Rightarrow> '' SubFunction Not Supported''
     | UdsResponseCode.IncorrectMessageLengthOrInvalidFormat \<Rightarrow> '' Incorrect Message Length Or Invalid Format''
     | UdsResponseCode.ResponseTooLong \<Rightarrow> '' Response Too Long''
     | UdsResponseCode.BusyRepeatRequest \<Rightarrow> '' Busy Repeat Request''
     | UdsResponseCode.ConditionsNotCorrect \<Rightarrow> '' Conditions Not Correct''
     | UdsResponseCode.RequestSequenceError \<Rightarrow> '' Request Sequence Error''
     | UdsResponseCode.NoResponseFromSubnetComponent \<Rightarrow> '' No Response From Subnet Component''
     | UdsResponseCode.FailurePreventsExecutionOfRequestedAction \<Rightarrow> '' Failure Prevents Execution Of Requested Action''
     | UdsResponseCode.RequestOutOfRange \<Rightarrow> '' Request Out Of Range''
     | UdsResponseCode.SecurityAccessDenied \<Rightarrow> '' Security Access Denied''
     | UdsResponseCode.AuthenticationRequired \<Rightarrow> '' AuthenticationRequired''
     | UdsResponseCode.InvalidKey \<Rightarrow> '' InvalidKey''
     | UdsResponseCode.ExceedNumberOfAttempts \<Rightarrow> '' ExceedNumberOfAttempts''
     | UdsResponseCode.RequiredTimeDelayNotExpired \<Rightarrow> '' RequiredTimeDelayNotExpired''
     | UdsResponseCode.SecureDataTransmissionRequired \<Rightarrow> '' SecureDataTransmissionRequired''
     | UdsResponseCode.SecureDataTransmissionNotAllowed \<Rightarrow> '' SecureDataTransmissionNotAllowed''
     | UdsResponseCode.SecureDataVerificationFailed \<Rightarrow> '' SecureDataVerificationFailed''
     | UdsResponseCode.UploadDownloadNotAccepted \<Rightarrow> '' UploadDownloadNotAccepted''
     | UdsResponseCode.TransferDataSuspended \<Rightarrow> '' TransferDataSuspended''
     | UdsResponseCode.GeneralProgrammingFailure \<Rightarrow> '' GeneralProgrammingFailure''
     | UdsResponseCode.WrongBlockSequenceCounter \<Rightarrow> '' WrongBlockSequenceCounter''
     | UdsResponseCode.RequestCorrectlyReceived_ResponsePending \<Rightarrow> '' RequestCorrectlyReceived_ResponsePending''
     | UdsResponseCode.SubFunctionNotSupportedInActiveSession \<Rightarrow> '' SubFunctionNotSupportedInActiveSession''
     | UdsResponseCode.ServiceNotSupportedInActiveSession \<Rightarrow> '' ServiceNotSupportedInActiveSession''
     | UdsResponseCode.RpmTooHigh \<Rightarrow> '' RpmTooHigh''
     | UdsResponseCode.RpmTooLow \<Rightarrow> '' RpmTooLow''
     | UdsResponseCode.EngineIsRunning \<Rightarrow> '' EngineIsRunning''
     | UdsResponseCode.EngineIsNotRunning \<Rightarrow> '' EngineIsNotRunning''
     | UdsResponseCode.EngineRunTimeTooLow \<Rightarrow> '' EngineRunTimeTooLow''
     | UdsResponseCode.TemperatureTooHigh \<Rightarrow> '' TemperatureTooHigh''
     | UdsResponseCode.TemperatureTooLow \<Rightarrow> '' TemperatureTooLow''
     | UdsResponseCode.VehicleSpeedTooHigh \<Rightarrow> '' VehicleSpeedTooHigh''
     | UdsResponseCode.VehicleSpeedTooLow \<Rightarrow> '' VehicleSpeedTooLow''
     | UdsResponseCode.ThrottlePedalTooHigh \<Rightarrow> '' ThrottlePedalTooHigh''
     | UdsResponseCode.ThrottlePedalTooLow \<Rightarrow> '' ThrottlePedalTooLow''
     | UdsResponseCode.TransmissionRangeNotInNeutral \<Rightarrow> '' TransmissionRangeNotInNeutral''
     | UdsResponseCode.TransmissionRangeNotInGear \<Rightarrow> '' TransmissionRangeNotInGear''
     | UdsResponseCode.BrakeSwitchNotClosed \<Rightarrow> '' BrakeSwitchNotClosed''
     | UdsResponseCode.ShifterLeverNotInPark \<Rightarrow> '' ShifterLeverNotInPark''
     | UdsResponseCode.TorqueConverterClutchLocked \<Rightarrow> '' TorqueConverterClutchLocked''
     | UdsResponseCode.VoltageTooHigh \<Rightarrow> '' VoltageTooHigh''
     | UdsResponseCode.VoltageTooLow \<Rightarrow> '' VoltageTooLow''
     | UdsResponseCode.ResourceTemporarilyNotAvailable \<Rightarrow> '' ResourceTemporarilyNotAvailable''
     | _ \<Rightarrow> '' UnknownNRC'')"

definition show_responseCode :: "UdsResponseCode \<Rightarrow> string" where
  "show_responseCode code =
     ''UdsResponseCode(0x'' @ hex_byte (responseCode_code code) @ '')'' @
     (if responseCode_code code = responseCode_code UdsResponseCode.OK
      then '' '' @ ansi_green @ ''OK'' @ ansi_reset
      else '' '' @ ansi_red @ ''NRC'' @ ansi_reset @ responseCode_text code)"

end
