(* ===== verification/DoIP_Uds.thy ===== *)
theory DoIP_Uds
  imports DoIP_UdsCodes DoIP_Message
begin

text \<open>
  The simulated ECU behind the gateway: the service handlers
  (\<^verbatim>\<open>inc/uds/IUdsServiceHandler.h\<close>, \<^verbatim>\<open>inc/uds/LambdaUdsHandler.h\<close>) and the dispatcher
  \<open>UdsMock\<close> with its typed registration helpers (\<^verbatim>\<open>inc/uds/UdsMock.h\<close>,
  \<^verbatim>\<open>src/uds/UdsMock.cpp\<close>).

  A handler is application code: it maps the request and a state of its own to a response
  or an exception and the new state.  The properties show that every answer of the
  dispatcher is a well-formed UDS response, with which code it answers, that no
  combination of the typed helpers reads outside a request, and that a refusal of a
  handler that carries no data is reported under another code.
\<close>

section \<open>Handlers (IUdsServiceHandler.h, LambdaUdsHandler.h)\<close>

type_synonym UdsResponse = "UdsResponseCode \<times> ByteArray"

definition show_udsResponse :: "UdsResponse \<Rightarrow> string" where
  "show_udsResponse response = show_responseCode (fst response) @ '' ['' @ show_bytes (snd response)"

text \<open>
  A callable of the application that takes \<open>'a\<close>: its state before the call gives the
  response, or the exception that escapes it, and the state after it.  An empty
  \<open>std::function\<close> is \<open>None\<close>; calling it throws \<open>std::bad_function_call\<close>.
\<close>

type_synonym ('a, 's) uds_fn = "'a \<Rightarrow> 's \<Rightarrow> UdsResponse res \<times> 's"

fun call_fn :: "('a, 's) uds_fn option \<Rightarrow> ('a, 's) uds_fn" where
  "call_fn None a s = (Inl BadFunctionCall, s)"
| "call_fn (Some f) a s = f a s"

type_synonym 's IUdsServiceHandler = "(ByteArray, 's) uds_fn"

definition LambdaUdsHandler :: "(ByteArray, 's) uds_fn option \<Rightarrow> 's IUdsServiceHandler" where
  "LambdaUdsHandler m_fn = (\<lambda>request s. call_fn m_fn request s)"

section \<open>The dispatcher (UdsMock.h, UdsMock.cpp)\<close>

definition UDS_POSITIVE_RESPONSE_OFFSET :: u8 where
  "UDS_POSITIVE_RESPONSE_OFFSET = 0x40"

text \<open>An entry of the handler table holds an owning pointer, which may be null.\<close>

record 's UdsMock =
  m_handlers :: "u8 \<rightharpoonup> 's IUdsServiceHandler option"

definition udsMock_new :: "'s UdsMock" where
  "udsMock_new = \<lparr>m_handlers = Map.empty\<rparr>"

definition registerServicePtr :: "UdsService \<Rightarrow> 's IUdsServiceHandler option \<Rightarrow> 's UdsMock \<Rightarrow> 's UdsMock" where
  "registerServicePtr serviceId handler u =
     u\<lparr>m_handlers := (m_handlers u)(service_code serviceId \<mapsto> handler)\<rparr>"

definition registerService :: "UdsService \<Rightarrow> (ByteArray, 's) uds_fn option \<Rightarrow> 's UdsMock \<Rightarrow> 's UdsMock" where
  "registerService serviceId fn u =
     u\<lparr>m_handlers := (m_handlers u)(service_code serviceId \<mapsto> Some (LambdaUdsHandler fn))\<rparr>"

definition unregisterService :: "UdsService \<Rightarrow> 's UdsMock \<Rightarrow> 's UdsMock" where
  "unregisterService serviceId u = u\<lparr>m_handlers := (m_handlers u)(service_code serviceId := None)\<rparr>"

definition uds_clear :: "'s UdsMock \<Rightarrow> 's UdsMock" where
  "uds_clear u = u\<lparr>m_handlers := Map.empty\<rparr>"

definition uds_default_services :: "UdsService list" where
  "uds_default_services =
     [UdsService.DiagnosticSessionControl, UdsService.ECUReset, UdsService.SecurityAccess,
      UdsService.CommunicationControl, UdsService.TesterPresent, UdsService.AccessTimingParameters,
      UdsService.SecuredDataTransmission, UdsService.ControlDTCSetting, UdsService.ResponseOnEvent,
      UdsService.LinkControl, UdsService.ReadDataByIdentifier, UdsService.ReadMemoryByAddress,
      UdsService.ReadScalingDataByIdentifier, UdsService.ReadDataByPeriodicIdentifier,
      UdsService.DynamicallyDefineDataIdentifier, UdsService.WriteDataByIdentifier,
      UdsService.WriteMemoryByAddress, UdsService.ClearDiagnosticInformation,
      UdsService.ReadDTCInformation]"

definition uds_default_handler :: "(ByteArray, 's) uds_fn" where
  "uds_default_handler = (\<lambda>req s. (Inr (UdsResponseCode.ServiceNotSupported, []), s))"

definition registerDefaultServices :: "'s UdsMock \<Rightarrow> 's UdsMock" where
  "registerDefaultServices u =
     fold (\<lambda>s. registerService s (Some uds_default_handler)) uds_default_services u"

definition uds_makeResponse :: "ByteArray \<Rightarrow> UdsResponseCode \<Rightarrow> ByteArray \<Rightarrow> ByteArray" where
  "uds_makeResponse request responseCode extraData =
     (let sid = (if request = [] then 0 else hd request) in
      if responseCode_code responseCode \<noteq> responseCode_code UdsResponseCode.OK
      then [0x7F, sid, responseCode_code responseCode]
      else (sid + UDS_POSITIVE_RESPONSE_OFFSET) # extraData)"

definition handleDiagnosticRequest :: "'s UdsMock \<Rightarrow> ByteArray \<Rightarrow> 's \<Rightarrow> ByteArray res \<times> 's" where
  "handleDiagnosticRequest u request s =
     (if request = [] then (Inr [], s)
      else let sid = hd request in
        case findServiceDescriptor (service_cast sid) of
          None \<Rightarrow> (Inr (uds_makeResponse request UdsResponseCode.ServiceNotSupported []), s)
        | Some desc \<Rightarrow>
            if length request < unat (minReqLength desc) \<or> length request > unat (maxReqLength desc)
            then (Inr (uds_makeResponse request UdsResponseCode.IncorrectMessageLengthOrInvalidFormat []), s)
            else case m_handlers u sid of
              Some (Some handler) \<Rightarrow>
                (case handler request s of
                   (Inl e, s') \<Rightarrow> (Inl e, s')
                 | (Inr resp, s') \<Rightarrow>
                     let rspSize = szadd (length (snd resp)) 1 in
                     if rspSize < unat (minRspLength desc) \<or> rspSize > unat (maxRspLength desc)
                     then (Inr (uds_makeResponse request UdsResponseCode.GeneralProgrammingFailure []), s')
                     else (Inr (uds_makeResponse request (fst resp) (snd resp)), s'))
            | _ \<Rightarrow> (Inr (uds_makeResponse request UdsResponseCode.ServiceNotSupported []), s))"

text \<open>
  The typed registration helpers wrap a callable of the application in a lambda that
  decodes the request; \<open>req[i]\<close> on a \<open>std::vector\<close> is unchecked.
\<close>

fun with_arg :: "'a res \<Rightarrow> 's \<Rightarrow> ('a \<Rightarrow> UdsResponse res \<times> 's) \<Rightarrow> UdsResponse res \<times> 's" where
  "with_arg (Inl e) s k = (Inl e, s)"
| "with_arg (Inr a) s k = k a"

definition sub_fn :: "(u8, 's) uds_fn option \<Rightarrow> (ByteArray, 's) uds_fn" where
  "sub_fn handler = (\<lambda>req s. with_arg (ptr_read (Some req) 1) s (\<lambda>b. call_fn handler b s))"

definition read_did :: "ByteArray \<Rightarrow> u16 res" where
  "read_did req = rbind (ptr_read (Some req) 1) (\<lambda>h. rbind (ptr_read (Some req) 2) (\<lambda>l. Inr (join16 h l)))"

text \<open>\<open>ByteArray(req.data() + k, req.size() - k)\<close>: the difference is a \<open>size_t\<close>.\<close>

definition tail_from :: "nat \<Rightarrow> ByteArray \<Rightarrow> ByteArray res" where
  "tail_from k req = (if k \<le> length req then Inr (drop k req) else Inl UndefinedRead)"

definition registerDiagnosticSessionControlHandler :: "(u8, 's) uds_fn option \<Rightarrow> 's UdsMock \<Rightarrow> 's UdsMock" where
  "registerDiagnosticSessionControlHandler handler =
     registerService UdsService.DiagnosticSessionControl (Some (sub_fn handler))"

definition registerEcuResetHandler :: "(u8, 's) uds_fn option \<Rightarrow> 's UdsMock \<Rightarrow> 's UdsMock" where
  "registerEcuResetHandler handler = registerService UdsService.ECUReset (Some (sub_fn handler))"

definition registerReadDataByIdentifierHandler :: "(u16, 's) uds_fn option \<Rightarrow> 's UdsMock \<Rightarrow> 's UdsMock" where
  "registerReadDataByIdentifierHandler handler =
     registerService UdsService.ReadDataByIdentifier
       (Some (\<lambda>req s. with_arg (read_did req) s (\<lambda>did. call_fn handler did s)))"

definition registerWriteDataByIdentifierHandler ::
  "(u16 \<times> ByteArray, 's) uds_fn option \<Rightarrow> 's UdsMock \<Rightarrow> 's UdsMock" where
  "registerWriteDataByIdentifierHandler handler =
     registerService UdsService.WriteDataByIdentifier
       (Some (\<lambda>req s. with_arg (rbind (read_did req) (\<lambda>did. rbind (tail_from 3 req) (\<lambda>v. Inr (did, v)))) s
                        (\<lambda>a. call_fn handler a s)))"

definition registerTesterPresentHandler :: "(u8, 's) uds_fn option \<Rightarrow> 's UdsMock \<Rightarrow> 's UdsMock" where
  "registerTesterPresentHandler handler = registerService UdsService.TesterPresent (Some (sub_fn handler))"

definition registerRequestDownloadHandler :: "(u32 \<times> u32, 's) uds_fn option \<Rightarrow> 's UdsMock \<Rightarrow> 's UdsMock" where
  "registerRequestDownloadHandler handler =
     registerService UdsService.RequestDownload
       (Some (\<lambda>req s.
          if length req < 10 then (Inr (UdsResponseCode.IncorrectMessageLengthOrInvalidFormat, []), s)
          else with_arg (rbind (util_readU32BE (Some req) 1) (\<lambda>memoryAddress.
                         rbind (util_readU32BE (Some req) 5) (\<lambda>len. Inr (memoryAddress, len)))) s
                 (\<lambda>a. call_fn handler a s)))"

definition registerTransferDataHandler :: "(u8 \<times> ByteArray, 's) uds_fn option \<Rightarrow> 's UdsMock \<Rightarrow> 's UdsMock" where
  "registerTransferDataHandler handler =
     registerService UdsService.TransferData
       (Some (\<lambda>req s. with_arg (rbind (ptr_read (Some req) 1) (\<lambda>n. rbind (tail_from 2 req) (\<lambda>v. Inr (n, v)))) s
                        (\<lambda>a. call_fn handler a s)))"

definition registerRequestTransferExitHandler :: "(unit, 's) uds_fn option \<Rightarrow> 's UdsMock \<Rightarrow> 's UdsMock" where
  "registerRequestTransferExitHandler handler =
     registerService UdsService.RequestTransferExit (Some (\<lambda>req s. call_fn handler () s))"

text \<open>
  What can be done to a dispatcher, as data: a configuration is a list of these.
\<close>

datatype 's uds_op =
    RegPtr UdsService "'s IUdsServiceHandler option"
  | RegService UdsService "(ByteArray, 's) uds_fn option"
  | Unreg UdsService
  | ClearAll
  | RegDefaults
  | RegSession "(u8, 's) uds_fn option"
  | RegReset "(u8, 's) uds_fn option"
  | RegRead "(u16, 's) uds_fn option"
  | RegWrite "(u16 \<times> ByteArray, 's) uds_fn option"
  | RegTester "(u8, 's) uds_fn option"
  | RegDownload "(u32 \<times> u32, 's) uds_fn option"
  | RegTransfer "(u8 \<times> ByteArray, 's) uds_fn option"
  | RegExit "(unit, 's) uds_fn option"

fun uds_apply :: "'s uds_op \<Rightarrow> 's UdsMock \<Rightarrow> 's UdsMock" where
  "uds_apply (RegPtr svc h) = registerServicePtr svc h"
| "uds_apply (RegService svc f) = registerService svc f"
| "uds_apply (Unreg svc) = unregisterService svc"
| "uds_apply ClearAll = uds_clear"
| "uds_apply RegDefaults = registerDefaultServices"
| "uds_apply (RegSession f) = registerDiagnosticSessionControlHandler f"
| "uds_apply (RegReset f) = registerEcuResetHandler f"
| "uds_apply (RegRead f) = registerReadDataByIdentifierHandler f"
| "uds_apply (RegWrite f) = registerWriteDataByIdentifierHandler f"
| "uds_apply (RegTester f) = registerTesterPresentHandler f"
| "uds_apply (RegDownload f) = registerRequestDownloadHandler f"
| "uds_apply (RegTransfer f) = registerTransferDataHandler f"
| "uds_apply (RegExit f) = registerRequestTransferExitHandler f"

text \<open>The application's own code does not read out of bounds.\<close>

definition safe_fn :: "('a, 's) uds_fn option \<Rightarrow> bool" where
  "safe_fn f \<longleftrightarrow> (\<forall>a s. fst (call_fn f a s) \<noteq> Inl UndefinedRead)"

fun op_safe :: "'s uds_op \<Rightarrow> bool" where
  "op_safe (RegPtr svc h) = safe_fn h"
| "op_safe (RegService svc f) = safe_fn f"
| "op_safe (RegSession f) = safe_fn f"
| "op_safe (RegReset f) = safe_fn f"
| "op_safe (RegRead f) = safe_fn f"
| "op_safe (RegWrite f) = safe_fn f"
| "op_safe (RegTester f) = safe_fn f"
| "op_safe (RegDownload f) = safe_fn f"
| "op_safe (RegTransfer f) = safe_fn f"
| "op_safe (RegExit f) = safe_fn f"
| "op_safe _ = True"

section \<open>The descriptor table\<close>

definition req_in_range :: "UdsServiceDescriptor \<Rightarrow> nat \<Rightarrow> bool" where
  "req_in_range desc n \<longleftrightarrow> unat (minReqLength desc) \<le> n \<and> n \<le> unat (maxReqLength desc)"

definition rsp_in_range :: "UdsServiceDescriptor \<Rightarrow> nat \<Rightarrow> bool" where
  "rsp_in_range desc n \<longleftrightarrow> unat (minRspLength desc) \<le> n \<and> n \<le> unat (maxRspLength desc)"

lemma descriptor_table_bounds:
  "list_all (\<lambda>desc. 2 \<le> unat (minReqLength desc) \<and> unat (maxReqLength desc) \<le> 4095
      \<and> 2 \<le> unat (minRspLength desc) \<and> unat (maxRspLength desc) \<le> 4095) UDS_SERVICE_DESCRIPTORS"
  by (simp add: UDS_SERVICE_DESCRIPTORS_def descriptor_def MAX_UDS_MESSAGE_LENGTH_def)

lemma findServiceDescriptor_bounds:
  assumes "findServiceDescriptor svc = Some desc"
  shows "2 \<le> unat (minReqLength desc)" "unat (maxReqLength desc) \<le> 4095"
    "2 \<le> unat (minRspLength desc)" "unat (maxRspLength desc) \<le> 4095" "service desc = svc"
proof -
  have "desc \<in> set UDS_SERVICE_DESCRIPTORS" "service desc = svc"
    using assms by (auto simp: findServiceDescriptor_def find_Some_iff)
  then show "2 \<le> unat (minReqLength desc)" "unat (maxReqLength desc) \<le> 4095"
    "2 \<le> unat (minRspLength desc)" "unat (maxRspLength desc) \<le> 4095" "service desc = svc"
    using descriptor_table_bounds by (auto simp: list_all_iff)
qed

lemmas descriptor_eval =
  findServiceDescriptor_def UDS_SERVICE_DESCRIPTORS_def descriptor_def MAX_UDS_MESSAGE_LENGTH_def

lemma typed_min_lengths:
  "findServiceDescriptor UdsService.ReadDataByIdentifier = Some d \<Longrightarrow> 3 \<le> unat (minReqLength d)"
  "findServiceDescriptor UdsService.WriteDataByIdentifier = Some d \<Longrightarrow> 4 \<le> unat (minReqLength d)"
  "findServiceDescriptor UdsService.TransferData = Some d \<Longrightarrow> 3 \<le> unat (minReqLength d)"
  by (auto simp: descriptor_eval)

lemma service_cast_code:
  "(\<And>v. svc \<noteq> UdsService.UnnamedService v) \<Longrightarrow> service_cast (service_code svc) = svc"
  by (cases svc) (simp_all add: service_cast_def)

section \<open>The dispatcher answers\<close>

text \<open>The one case in which the application is asked.\<close>

lemma handleDiagnosticRequest_handler:
  assumes "findServiceDescriptor (service_cast sid) = Some desc"
    and "req_in_range desc (length (sid # args))"
    and "m_handlers u sid = Some (Some h)" and "h (sid # args) s = (Inr (c, data), s')"
  shows "handleDiagnosticRequest u (sid # args) s =
    (Inr (if rsp_in_range desc (szadd (length data) 1) then uds_makeResponse (sid # args) c data
          else [0x7F, sid, 0x72]), s')"
  using assms
  by (auto simp: handleDiagnosticRequest_def req_in_range_def rsp_in_range_def uds_makeResponse_def Let_def)

lemma handleDiagnosticRequest_cases:
  obtains (unknown) "findServiceDescriptor (service_cast sid) = None"
      "handleDiagnosticRequest u (sid # args) s = (Inr [0x7F, sid, 0x11], s)"
  | (bad_length) desc where "findServiceDescriptor (service_cast sid) = Some desc"
      "\<not> req_in_range desc (length (sid # args))"
      "handleDiagnosticRequest u (sid # args) s = (Inr [0x7F, sid, 0x13], s)"
  | (no_handler) desc where "findServiceDescriptor (service_cast sid) = Some desc"
      "req_in_range desc (length (sid # args))" "m_handlers u sid \<in> {None, Some None}"
      "handleDiagnosticRequest u (sid # args) s = (Inr [0x7F, sid, 0x11], s)"
  | (raised) desc h e s' where "findServiceDescriptor (service_cast sid) = Some desc"
      "req_in_range desc (length (sid # args))" "m_handlers u sid = Some (Some h)"
      "h (sid # args) s = (Inl e, s')" "handleDiagnosticRequest u (sid # args) s = (Inl e, s')"
  | (answered) desc h c data s' where "findServiceDescriptor (service_cast sid) = Some desc"
      "req_in_range desc (length (sid # args))" "m_handlers u sid = Some (Some h)"
      "h (sid # args) s = (Inr (c, data), s')"
proof (cases "findServiceDescriptor (service_cast sid)")
  case None
  then show thesis
    by (intro unknown) (simp_all add: handleDiagnosticRequest_def uds_makeResponse_def)
next
  case desc: (Some desc)
  show thesis
  proof (cases "req_in_range desc (length (sid # args))")
    case False
    then have "handleDiagnosticRequest u (sid # args) s = (Inr [0x7F, sid, 0x13], s)"
      using desc by (auto simp: handleDiagnosticRequest_def uds_makeResponse_def req_in_range_def)
    with desc False show thesis by (rule bad_length)
  next
    case True
    consider "m_handlers u sid \<in> {None, Some None}" | h where "m_handlers u sid = Some (Some h)"
      by (cases "m_handlers u sid") auto
    then show thesis
    proof cases
      case 1
      then have "handleDiagnosticRequest u (sid # args) s = (Inr [0x7F, sid, 0x11], s)"
        using desc True
        by (auto simp: handleDiagnosticRequest_def uds_makeResponse_def req_in_range_def)
      with desc True 1 show thesis by (rule no_handler)
    next
      case 2
      obtain r s' where h: "h (sid # args) s = (r, s')" by fastforce
      show thesis
      proof (cases r)
        case (Inl e)
        with h have h': "h (sid # args) s = (Inl e, s')" by simp
        with desc True 2 have "handleDiagnosticRequest u (sid # args) s = (Inl e, s')"
          by (simp add: handleDiagnosticRequest_def req_in_range_def)
        then show thesis by (rule raised [OF desc True 2 h'])
      next
        case (Inr resp)
        with h have "h (sid # args) s = (Inr (fst resp, snd resp), s')" by simp
        then show thesis by (rule answered [OF desc True 2])
      qed
    qed
  qed
qed

section \<open>Reading requests stays in bounds\<close>

definition handler_safe :: "u8 \<Rightarrow> 's IUdsServiceHandler \<Rightarrow> bool" where
  "handler_safe sid h \<longleftrightarrow> (\<forall>desc req s. findServiceDescriptor (service_cast sid) = Some desc
     \<and> req_in_range desc (length req) \<longrightarrow> fst (h req s) \<noteq> Inl UndefinedRead)"

definition uds_safe :: "'s UdsMock \<Rightarrow> bool" where
  "uds_safe u \<longleftrightarrow> (\<forall>sid h. m_handlers u sid = Some (Some h) \<longrightarrow> handler_safe sid h)"

lemma handler_safeI:
  assumes "\<And>desc req s. findServiceDescriptor (service_cast sid) = Some desc \<Longrightarrow>
    req_in_range desc (length req) \<Longrightarrow> fst (h req s) \<noteq> Inl UndefinedRead"
  shows "handler_safe sid h"
  using assms by (auto simp: handler_safe_def)

lemma safe_fn_call: "safe_fn f \<Longrightarrow> fst (call_fn f a s) \<noteq> Inl UndefinedRead"
  by (simp add: safe_fn_def)

lemma handler_safe_fn: "safe_fn f \<Longrightarrow> handler_safe sid (LambdaUdsHandler f)"
  by (auto simp: handler_safe_def LambdaUdsHandler_def safe_fn_call)

lemma handler_safe_sub_fn: "safe_fn f \<Longrightarrow> handler_safe sid (LambdaUdsHandler (Some (sub_fn f)))"
  by (rule handler_safeI)
    (auto simp: LambdaUdsHandler_def sub_fn_def req_in_range_def safe_fn_call
      dest: findServiceDescriptor_bounds(1))

lemma read_did_in: "3 \<le> length req \<Longrightarrow> read_did req = Inr (join16 (req ! 1) (req ! 2))"
  by (simp add: read_did_def)

lemma uds_safe_register:
  "uds_safe u \<Longrightarrow> handler_safe (service_code svc) (LambdaUdsHandler f) \<Longrightarrow> uds_safe (registerService svc f u)"
  by (auto simp: uds_safe_def registerService_def)

lemma uds_safe_defaults: "uds_safe u \<Longrightarrow> uds_safe (registerDefaultServices u)"
proof -
  have "safe_fn (Some uds_default_handler)"
    by (simp add: safe_fn_def uds_default_handler_def)
  then have "uds_safe u \<Longrightarrow> uds_safe (fold (\<lambda>s. registerService s (Some uds_default_handler)) svcs u)" for svcs
    by (induction svcs arbitrary: u) (auto intro: uds_safe_register handler_safe_fn)
  then show "uds_safe u \<Longrightarrow> uds_safe (registerDefaultServices u)"
    by (simp add: registerDefaultServices_def)
qed

lemma handler_safe_typed:
  assumes "svc \<in> {UdsService.ReadDataByIdentifier, UdsService.WriteDataByIdentifier, UdsService.TransferData,
      UdsService.RequestDownload}"
    and "\<And>desc req s. findServiceDescriptor svc = Some desc \<Longrightarrow> unat (minReqLength desc) \<le> length req \<Longrightarrow>
      fst (f req s) \<noteq> Inl UndefinedRead"
  shows "handler_safe (service_code svc) (LambdaUdsHandler (Some f))"
proof (rule handler_safeI)
  have "service_cast (service_code svc) = svc"
    using assms(1) by (intro service_cast_code) auto
  then show "fst (LambdaUdsHandler (Some f) req s) \<noteq> Inl UndefinedRead"
    if "findServiceDescriptor (service_cast (service_code svc)) = Some desc"
      "req_in_range desc (length req)" for desc req s
    using that assms(2) by (simp add: LambdaUdsHandler_def req_in_range_def)
qed

lemma uds_apply_safe:
  assumes "op_safe op" and "uds_safe u"
  shows "uds_safe (uds_apply op u)"
proof (cases op)
  case (RegPtr svc h)
  with assms show ?thesis
    by (auto simp: uds_safe_def registerServicePtr_def handler_safe_def safe_fn_def)
next
  case (Unreg svc)
  with assms show ?thesis
    by (auto simp: uds_safe_def unregisterService_def split: if_splits)
next
  case (RegRead f)
  then show ?thesis using assms
    by (auto simp: registerReadDataByIdentifierHandler_def read_did_in safe_fn_call
        intro!: uds_safe_register handler_safe_typed dest!: typed_min_lengths)
next
  case (RegWrite f)
  then show ?thesis using assms
    by (auto simp: registerWriteDataByIdentifierHandler_def read_did_in tail_from_def safe_fn_call
        intro!: uds_safe_register handler_safe_typed dest!: typed_min_lengths)
next
  case (RegTransfer f)
  then show ?thesis using assms
    by (auto simp: registerTransferDataHandler_def tail_from_def safe_fn_call
        intro!: uds_safe_register handler_safe_typed dest!: typed_min_lengths)
next
  case (RegDownload f)
  then show ?thesis using assms
    by (auto simp: registerRequestDownloadHandler_def util_readU32BE_def safe_fn_call
        intro!: uds_safe_register handler_safe_typed split: if_splits)
next
  case (RegExit f)
  then have "safe_fn (Some (\<lambda>req s. call_fn f () s))"
    using assms(1) by (simp add: safe_fn_def)
  with RegExit assms show ?thesis
    by (auto simp: registerRequestTransferExitHandler_def intro: uds_safe_register handler_safe_fn)
qed (use assms in \<open>simp_all add: uds_safe_register handler_safe_fn handler_safe_sub_fn uds_safe_defaults
      registerDiagnosticSessionControlHandler_def registerEcuResetHandler_def
      registerTesterPresentHandler_def uds_clear_def uds_safe_def [of "_\<lparr>m_handlers := Map.empty\<rparr>"]\<close>)

lemma uds_ops_safe: "list_all op_safe ops \<Longrightarrow> uds_safe u \<Longrightarrow> uds_safe (fold uds_apply ops u)"
  by (induction ops arbitrary: u) (simp_all add: uds_apply_safe)

lemma uds_safe_no_undefined:
  assumes "uds_safe u" shows "fst (handleDiagnosticRequest u req s) \<noteq> Inl UndefinedRead"
proof (cases req)
  case (Cons sid args)
  show ?thesis
  proof (cases rule: handleDiagnosticRequest_cases [where sid = sid and args = args and u = u and s = s])
    case (raised desc h e s')
    with assms have "fst (h (sid # args) s) \<noteq> Inl UndefinedRead"
      unfolding uds_safe_def handler_safe_def by blast
    with raised Cons show ?thesis by simp
  next
    case (answered desc h c data s')
    with Cons show ?thesis by (simp add: handleDiagnosticRequest_handler)
  qed (use Cons in simp_all)
qed (simp add: handleDiagnosticRequest_def)

section \<open>Properties\<close>

text \<open>
  (C21) Every answer is a well-formed UDS response.  The empty request has the empty answer.
  Any other request is either refused, with the three bytes \<open>7F\<close>, service id and a non-zero
  code, or it is answered positively, with the service id plus \<open>0x40\<close> and exactly the data
  the registered handler returned; in that case the service is known and the lengths of
  request and response are within the bounds of its descriptor, hence at most 4095 bytes.
  An exception escapes only when a handler raised it.
\<close>

theorem uds_answer_well_formed:
  "handleDiagnosticRequest u [] s = (Inr [], s)
    \<and> (case handleDiagnosticRequest u (sid # args) s of
         (Inl e, s') \<Rightarrow> \<exists>h. m_handlers u sid = Some (Some h) \<and> h (sid # args) s = (Inl e, s')
       | (Inr rsp, s') \<Rightarrow>
           (\<exists>nrc. nrc \<noteq> 0 \<and> rsp = [0x7F, sid, nrc])
           \<or> (\<exists>desc h c data. findServiceDescriptor (service_cast sid) = Some desc
                \<and> m_handlers u sid = Some (Some h) \<and> h (sid # args) s = (Inr (c, data), s')
                \<and> responseCode_code c = 0 \<and> rsp = (sid + 0x40) # data
                \<and> req_in_range desc (length (sid # args))
                \<and> rsp_in_range desc (szadd (length data) 1)))"
proof (cases rule: handleDiagnosticRequest_cases [where sid = sid and args = args and u = u and s = s])
  case (answered desc h c data s')
  then show ?thesis
    using handleDiagnosticRequest_handler [OF answered]
    by (auto simp: uds_makeResponse_def UDS_POSITIVE_RESPONSE_OFFSET_def Let_def handleDiagnosticRequest_def [of u "[]"])
qed (auto simp: handleDiagnosticRequest_def [of u "[]"])

text \<open>
  (C22) Requests are read in bounds.  However a dispatcher is configured (by any sequence of
  registrations, typed registrations, removals and resets, with callables that are
  themselves memory safe), no request whatsoever makes it read outside the request: the
  minimal lengths of the descriptor table cover every index the typed helpers use.
\<close>

theorem uds_requests_memory_safe:
  assumes "list_all op_safe ops"
  shows "fst (handleDiagnosticRequest (fold uds_apply ops udsMock_new) req s) \<noteq> Inl UndefinedRead"
proof -
  have "uds_safe (udsMock_new :: 's UdsMock)" by (simp add: uds_safe_def udsMock_new_def)
  with assms show ?thesis by (intro uds_safe_no_undefined uds_ops_safe)
qed

definition echo_sub :: "(u8, unit) uds_fn" where
  "echo_sub = (\<lambda>b s. (Inr (UdsResponseCode.OK, [b]), s))"

theorem uds_requests_memory_safe_witness:
  "list_all op_safe [RegDefaults, RegTester (Some echo_sub)]
    \<and> fst (handleDiagnosticRequest (fold uds_apply [RegDefaults, RegTester (Some echo_sub)] udsMock_new) [0x3E] ())
      \<noteq> Inl UndefinedRead"
proof -
  have "list_all op_safe [RegDefaults, RegTester (Some echo_sub)]"
    by (simp add: safe_fn_def echo_sub_def)
  from this uds_requests_memory_safe [OF this, of "[0x3E]" "()"] show ?thesis ..
qed

text \<open>
  A refusal without data is reported under another code: when a handler answers a
  request of a known service with a negative code and no data, the client receives
  \<open>GeneralProgrammingFailure\<close> (0x72), whatever the code was, because the lower bound of every
  response length is applied to negative answers too.  In particular the handlers installed
  by \<open>registerDefaultServices\<close> do not yield \<open>ServiceNotSupported\<close>.
\<close>

lemma uds_refusal_masked:
  assumes "findServiceDescriptor (service_cast sid) = Some desc" and "req_in_range desc (length (sid # args))"
  shows "(m_handlers u sid = Some (Some h) \<and> h (sid # args) s = (Inr (c, []), s') \<longrightarrow>
      handleDiagnosticRequest u (sid # args) s = (Inr [0x7F, sid, 0x72], s'))
    \<and> (service desc \<in> set uds_default_services \<longrightarrow>
      handleDiagnosticRequest (registerDefaultServices udsMock_new) (sid # args) s = (Inr [0x7F, sid, 0x72], s))"
proof -
  have masked: "handleDiagnosticRequest u' (sid # args) s = (Inr [0x7F, sid, 0x72], s')"
    if "m_handlers u' sid = Some (Some h')" "h' (sid # args) s = (Inr (c', []), s')" for u' h' c' s'
  proof -
    have "\<not> rsp_in_range desc (szadd (length ([] :: u8 list)) 1)"
      using findServiceDescriptor_bounds(3) [OF assms(1)] by (simp add: rsp_in_range_def szadd_def)
    with handleDiagnosticRequest_handler [OF assms that] show ?thesis by simp
  qed
  have "m_handlers (registerDefaultServices udsMock_new) sid = Some (Some (LambdaUdsHandler (Some uds_default_handler)))"
    if "service desc \<in> set uds_default_services"
  proof -
    have "service desc = service_cast sid" using findServiceDescriptor_bounds(5) [OF assms(1)] .
    then have "service_code (service desc) = sid" by (simp add: service_cast_def)
    then have "sid \<in> service_code ` set uds_default_services" using that by auto
    then show ?thesis
      by (auto simp: registerDefaultServices_def registerService_def uds_default_services_def udsMock_new_def)
  qed
  then have "handleDiagnosticRequest (registerDefaultServices udsMock_new) (sid # args) s = (Inr [0x7F, sid, 0x72], s)"
    if "service desc \<in> set uds_default_services"
    using that
    by (intro masked [of _ "LambdaUdsHandler (Some uds_default_handler)" UdsResponseCode.ServiceNotSupported])
      (auto simp: LambdaUdsHandler_def uds_default_handler_def)
  with masked show ?thesis by blast
qed

end
