(* ===== verification/DoIP_Downstream.thy ===== *)
theory DoIP_Downstream
  imports DoIP_Uds DoIP_Posix DoIP_Connection
begin

text \<open>
  Providers of downstream communication: the interface (\<^verbatim>\<open>inc/IDownstreamProvider.h\<close>), the
  simulated ECU (\<^verbatim>\<open>inc/uds/UdsMockProvider.h\<close>) and ISO-TP over SocketCAN
  (\<^verbatim>\<open>inc/can/CanIsoTpProvider.h\<close>).  A provider is a record of its virtual functions;
  \<open>sendRequest\<close> returns the responses with which it called the callback, in order.  The
  promise of the interface, exactly one call of the callback, is the locale
  \<open>downstream_provider\<close>, interpreted for both providers.
\<close>

section \<open>The interface\<close>

datatype DownstreamStatus = Handled | Pending | Timeout | Error

record DownstreamResponse =
  payload :: ByteArray
  status :: DownstreamStatus
  latency :: int

definition downstreamResponse_new :: DownstreamResponse where
  "downstreamResponse_new = \<lparr>payload = [], status = DownstreamStatus.Error, latency = 0\<rparr>"

text \<open>The flag of \<open>sendRequest\<close> says whether the callback is a non-empty \<open>std::function\<close>.\<close>

record 'p provider_ops =
  pv_start :: "'p \<Rightarrow> unit res \<times> 'p"
  pv_stop :: "'p \<Rightarrow> 'p"
  pv_sendRequest :: "bool \<Rightarrow> ByteArray \<Rightarrow> 'p \<Rightarrow> (DownstreamResponse list, 'p) outcome"
  pv_getProviderName :: string

text \<open>\<open>duration_cast<milliseconds>(end_ts - start_ts)\<close> of two readings in nanoseconds.\<close>

definition latency_ms :: "int \<Rightarrow> int \<Rightarrow> int" where
  "latency_ms start_ts end_ts = (end_ts - start_ts) div 1000000"

section \<open>The simulated ECU (UdsMockProvider)\<close>

text \<open>The handlers read the members \<open>m_p2_ms\<close> and \<open>m_p2star_10ms\<close>, which are their state.\<close>

record UdsMockProvider =
  m_uds :: "(u16 \<times> u16) UdsMock"
  m_p2 :: "u16 \<times> u16"

definition provider_vin :: string where
  "provider_vin = ''1HGCM82633A123456''"

definition provider_session :: "(u8, u16 \<times> u16) uds_fn" where
  "provider_session = (\<lambda>sessionType p2. case p2 of (m_p2_ms, m_p2star_10ms) \<Rightarrow>
     (Inr (UdsResponseCode.OK, writeU16BE (writeU16BE [sessionType] m_p2_ms) m_p2star_10ms), p2))"

definition provider_read :: "(u16, u16 \<times> u16) uds_fn" where
  "provider_read = (\<lambda>did s.
     (Inr (if did = 0xF190 then (UdsResponseCode.OK, [0xF1, 0x90] @ map byte_of_char provider_vin)
           else (UdsResponseCode.RequestOutOfRange, [])), s))"

definition provider_echo :: "(u8, u16 \<times> u16) uds_fn" where
  "provider_echo = (\<lambda>b s. (Inr (UdsResponseCode.OK, [b]), s))"

definition provider_write :: "(u16 \<times> ByteArray, u16 \<times> u16) uds_fn" where
  "provider_write = (\<lambda>(did, value) s. (Inr (UdsResponseCode.OK, [hi8 did, lo8 did]), s))"

definition udsMockProvider_new :: UdsMockProvider where
  "udsMockProvider_new =
     (let u = registerDefaultServices udsMock_new;
          u = registerDiagnosticSessionControlHandler (Some provider_session) u;
          u = registerReadDataByIdentifierHandler (Some provider_read) u;
          u = registerTesterPresentHandler (Some provider_echo) u;
          u = registerEcuResetHandler (Some provider_echo) u;
          u = registerWriteDataByIdentifierHandler (Some provider_write) u
      in \<lparr>m_uds = u, m_p2 = (2000, 400)\<rparr>)"

definition uds_sendRequest ::
  "int \<Rightarrow> int \<Rightarrow> bool \<Rightarrow> ByteArray \<Rightarrow> UdsMockProvider \<Rightarrow> (DownstreamResponse list, UdsMockProvider) outcome" where
  "uds_sendRequest start_ts end_ts cb request p =
     (if \<not> cb then Ok [] p
      else case handleDiagnosticRequest (m_uds p) request (m_p2 p) of
        (Inl e, s) \<Rightarrow> Throw e (p\<lparr>m_p2 := s\<rparr>)
      | (Inr rsp, s) \<Rightarrow>
          Ok [\<lparr>payload = rsp, status = DownstreamStatus.Handled, latency = latency_ms start_ts end_ts\<rparr>] (p\<lparr>m_p2 := s\<rparr>))"

definition uds_provider_ops :: "int \<Rightarrow> int \<Rightarrow> UdsMockProvider provider_ops" where
  "uds_provider_ops start_ts end_ts = \<lparr>pv_start = (\<lambda>p. (Inr (), p)), pv_stop = (\<lambda>p. p),
     pv_sendRequest = uds_sendRequest start_ts end_ts, pv_getProviderName = ''UdsMockProvider''\<rparr>"

section \<open>ISO-TP over SocketCAN (CanIsoTpProvider)\<close>

record IsoTpConfig =
  fc_st_min :: "u8 option"
  fc_bs :: "u8 option"

definition hasFlowControlOption :: "IsoTpConfig \<Rightarrow> bool" where
  "hasFlowControlOption cfg \<longleftrightarrow> fc_st_min cfg \<noteq> None \<or> fc_bs cfg \<noteq> None"

record 'n CanIsoTpProvider =
  m_interfaceName :: string
  m_txAddress :: u32
  m_rxAddress :: u32
  m_options :: "IsoTpConfig option"
  m_canSocket :: Socket
  can_net :: 'n

definition can_new :: "string \<Rightarrow> u32 \<Rightarrow> u32 \<Rightarrow> IsoTpConfig option \<Rightarrow> 'n \<Rightarrow> 'n CanIsoTpProvider" where
  "can_new interfaceName tx rx options n =
     \<lparr>m_interfaceName = interfaceName, m_txAddress = tx, m_rxAddress = rx, m_options = options,
      m_canSocket = socket_default, can_net = n\<rparr>"

text \<open>A failing step of \<open>start\<close> closes the temporary descriptor and throws.\<close>

definition can_fail :: "'n posix \<Rightarrow> int \<Rightarrow> string \<Rightarrow> 'n \<Rightarrow> 'n CanIsoTpProvider \<Rightarrow> unit res \<times> 'n CanIsoTpProvider" where
  "can_fail os tmpSocket what n p =
     (Inl (RuntimeError (what @ '': '' @ px_strerror os (px_close os tmpSocket n))),
      p\<lparr>can_net := px_close os tmpSocket n\<rparr>)"

definition value_or :: "'a option \<Rightarrow> 'a \<Rightarrow> 'a" where
  "value_or m d = (case m of None \<Rightarrow> d | Some a \<Rightarrow> a)"

definition can_bind :: "'n posix \<Rightarrow> int \<Rightarrow> int \<Rightarrow> 'n \<Rightarrow> 'n CanIsoTpProvider \<Rightarrow> unit res \<times> 'n CanIsoTpProvider" where
  "can_bind os tmpSocket ifindex n p =
     (case px_bind os tmpSocket (CanAddr ifindex (m_txAddress p) (m_rxAddress p)) n of (r, n) \<Rightarrow>
        if r < 0 then can_fail os tmpSocket ''Failed to bind CAN socket'' n p
        else case socket_reset os tmpSocket (m_canSocket p, n) of (s, n) \<Rightarrow>
          (Inr (), p\<lparr>m_canSocket := s, can_net := n\<rparr>))"

definition can_flow_control ::
  "'n posix \<Rightarrow> int \<Rightarrow> int \<Rightarrow> 'n \<Rightarrow> 'n CanIsoTpProvider \<Rightarrow> unit res \<times> 'n CanIsoTpProvider" where
  "can_flow_control os tmpSocket ifindex n p =
     (case m_options p of
        Some cfg \<Rightarrow>
          if hasFlowControlOption cfg then
            (case px_setsockopt os tmpSocket (IsoTpFlowControl (value_or (fc_bs cfg) 0) (value_or (fc_st_min cfg) 0)) n of
               (r, n) \<Rightarrow> if r < 0 then can_fail os tmpSocket ''Failed to set ISO-TP flow control options'' n p
                         else can_bind os tmpSocket ifindex n p)
          else can_bind os tmpSocket ifindex n p
      | None \<Rightarrow> can_bind os tmpSocket ifindex n p)"

text \<open>\<open>strncpy\<close> keeps at most 15 characters of the interface name (\<open>IFNAMSIZ\<close> is 16).\<close>

definition can_start :: "'n posix \<Rightarrow> 'n CanIsoTpProvider \<Rightarrow> unit res \<times> 'n CanIsoTpProvider" where
  "can_start os p =
     (if socket_valid (m_canSocket p) then (Inr (), p)
      else case px_socket os CanIsoTpSocket (can_net p) of (tmpSocket, n) \<Rightarrow>
        if tmpSocket < 0
        then (Inl (RuntimeError (''Failed to create CAN ISO-TP socket: '' @ px_strerror os n)), p\<lparr>can_net := n\<rparr>)
        else case px_ifindex os tmpSocket (take 15 (takeWhile (\<lambda>c. c \<noteq> CHR 0x00) (m_interfaceName p))) n of
          None \<Rightarrow> can_fail os tmpSocket (''Failed to get interface index for '' @ m_interfaceName p) n p
        | Some ifindex \<Rightarrow>
            (case px_setsockopt os tmpSocket IsoTpOptions n of (r, n) \<Rightarrow>
               if r < 0 then can_fail os tmpSocket ''Failed to set ISO-TP options'' n p
               else can_flow_control os tmpSocket ifindex n p))"

definition can_stop :: "'n posix \<Rightarrow> 'n CanIsoTpProvider \<Rightarrow> 'n CanIsoTpProvider" where
  "can_stop os p = (case socket_close os (m_canSocket p, can_net p) of (s, n) \<Rightarrow> p\<lparr>m_canSocket := s, can_net := n\<rparr>)"

text \<open>
  The destructor closes the socket, and the destructor of the member closes it again, which
  has no effect.
\<close>

definition can_destroy :: "'n posix \<Rightarrow> 'n CanIsoTpProvider \<Rightarrow> 'n CanIsoTpProvider" where
  "can_destroy os p = can_stop os (can_stop os p)"

text \<open>The receive loop repeats while nothing was received; it need not end.\<close>

partial_function (option) can_receive_loop :: "'n posix \<Rightarrow> int \<Rightarrow> 'n \<Rightarrow> (u8 list option \<times> 'n) option" where
  "can_receive_loop os fd n =
     (case px_recv os fd 4096 n of
        (RecvError e, n) \<Rightarrow> Some (None, n)
      | (RecvEof, n) \<Rightarrow> can_receive_loop os fd n
      | (RecvData bs, n) \<Rightarrow> if bs = [] then can_receive_loop os fd n else Some (Some bs, n))"

definition can_sendRequest ::
  "'n posix \<Rightarrow> int \<Rightarrow> int \<Rightarrow> bool \<Rightarrow> ByteArray \<Rightarrow> 'n CanIsoTpProvider
     \<Rightarrow> (DownstreamResponse list, 'n CanIsoTpProvider) outcome" where
  "can_sendRequest os start_ts end_ts cb request p =
     (if \<not> cb then Ok [] p
      else case px_send os (socket_get (m_canSocket p)) request (can_net p) of (sentBytes, n) \<Rightarrow>
        if sentBytes < 0
        then Ok [downstreamResponse_new\<lparr>status := DownstreamStatus.Error\<rparr>] (p\<lparr>can_net := n\<rparr>)
        else case can_receive_loop os (socket_get (m_canSocket p)) n of
          None \<Rightarrow> NoReturn
        | Some (None, n) \<Rightarrow> Ok [downstreamResponse_new\<lparr>status := DownstreamStatus.Timeout\<rparr>] (p\<lparr>can_net := n\<rparr>)
        | Some (Some rsp, n) \<Rightarrow>
            Ok [\<lparr>payload = rsp, status = DownstreamStatus.Handled, latency = latency_ms start_ts end_ts\<rparr>]
              (p\<lparr>can_net := n\<rparr>))"

definition can_provider_ops :: "'n posix \<Rightarrow> int \<Rightarrow> int \<Rightarrow> 'n CanIsoTpProvider provider_ops" where
  "can_provider_ops os start_ts end_ts = \<lparr>pv_start = can_start os, pv_stop = can_stop os,
     pv_sendRequest = can_sendRequest os start_ts end_ts, pv_getProviderName = ''CanIsoTpProvider''\<rparr>"

section \<open>The promise of a provider\<close>

locale downstream_provider =
  fixes ops :: "'p provider_ops"
  assumes answers_once: "pv_sendRequest ops True request p = Ok cbs p' \<Longrightarrow> \<exists>r. cbs = [r]"
    and silent_without_callback: "pv_sendRequest ops False request p = Ok [] p"
begin

lemma sendRequest_Ok:
  assumes "pv_sendRequest ops True request p = Ok cbs p'"
  obtains r where "cbs = [r]"
  using answers_once [OF assms] by blast

end

interpretation uds: downstream_provider "uds_provider_ops start_ts end_ts" for start_ts end_ts
proof (unfold_locales, goal_cases)
  case (1 request p cbs p')
  then show ?case
    by (auto simp: uds_provider_ops_def uds_sendRequest_def split: prod.splits sum.splits)
qed (simp add: uds_provider_ops_def uds_sendRequest_def)

interpretation can: downstream_provider "can_provider_ops os start_ts end_ts" for os :: "'n posix" and start_ts end_ts
proof (unfold_locales, goal_cases)
  case (1 request p cbs p')
  then show ?case
    by (auto simp: can_provider_ops_def can_sendRequest_def split: prod.splits if_splits option.splits)
qed (simp add: can_provider_ops_def can_sendRequest_def)

section \<open>Descriptors of the CAN provider\<close>

text \<open>
  The use of a provider, exceptions included, as a list of calls; \<open>None\<close> when a call has
  not returned.
\<close>

datatype can_op = CanStart | CanStop | CanSend bool ByteArray

fun can_apply :: "'n posix \<Rightarrow> can_op \<Rightarrow> 'n CanIsoTpProvider \<Rightarrow> 'n CanIsoTpProvider option" where
  "can_apply os CanStart p = Some (snd (can_start os p))"
| "can_apply os CanStop p = Some (can_stop os p)"
| "can_apply os (CanSend cb request) p =
     (case can_sendRequest os 0 0 cb request p of Ok _ p' \<Rightarrow> Some p' | Throw _ p' \<Rightarrow> Some p' | NoReturn \<Rightarrow> None)"

fun can_run :: "'n posix \<Rightarrow> can_op list \<Rightarrow> 'n CanIsoTpProvider \<Rightarrow> 'n CanIsoTpProvider option" where
  "can_run os [] p = Some p"
| "can_run os (op # ops) p = (case can_apply os op p of None \<Rightarrow> None | Some p' \<Rightarrow> can_run os ops p')"

text \<open>The provider owns one descriptor besides those that were open before it, or none.\<close>

definition can_owns :: "('n \<Rightarrow> int set) \<Rightarrow> int set \<Rightarrow> 'n CanIsoTpProvider \<Rightarrow> bool" where
  "can_owns fds base p \<longleftrightarrow>
     (if socket_valid (m_canSocket p)
      then m_canSocket p \<notin> base \<and> fds (can_net p) = insert (m_canSocket p) base
      else fds (can_net p) = base)"

lemma can_receive_loop_fds:
  assumes "fd_ledger os fds" and "can_receive_loop os fd n = Some (r, n')"
  shows "fds n' = fds n"
proof -
  have "(\<lambda>os fd n y. fd_ledger os fds \<longrightarrow> fds (snd y) = fds n) os fd n (r, n')"
  proof (rule can_receive_loop.raw_induct [OF _ assms(2)], intro impI, goal_cases)
    case (1 loop os fd n y)
    obtain rr n1 where r: "px_recv os fd 4096 n = (rr, n1)" by fastforce
    with 1(3) have "fds n1 = fds n" by (rule fd_ledger_eqs(7))
    with 1 r show ?case by (cases rr) (auto split: if_splits)
  qed
  with assms(1) show ?thesis by simp
qed

lemma can_fail_owns:
  assumes "fd_ledger os fds" and "\<not> socket_valid (m_canSocket p)" and "fd \<notin> base" and "fds n = insert fd base"
  shows "can_owns fds base (snd (can_fail os fd what n p))"
  using assms by (auto simp: can_fail_def can_owns_def fd_ledger_simps)

lemma can_bind_owns:
  assumes "fd_ledger os fds" and "\<not> socket_valid (m_canSocket p)" and "fd \<notin> base" and "fds n = insert fd base"
    and "0 \<le> fd"
  shows "can_owns fds base (snd (can_bind os fd i n p))"
proof -
  obtain r n1 where b: "px_bind os fd (CanAddr i (m_txAddress p) (m_rxAddress p)) n = (r, n1)" by fastforce
  then have "fds n1 = insert fd base" using fd_ledger_eqs(2) [OF assms(1)] assms(4) by metis
  then show ?thesis
    using assms b
    by (cases "r < 0")
      (simp_all add: can_bind_def can_fail_owns socket_reset_def socket_close_def socket_valid_def,
       simp add: can_owns_def socket_valid_def)
qed

lemma can_flow_control_owns:
  assumes "fd_ledger os fds" and "\<not> socket_valid (m_canSocket p)" and "fd \<notin> base" and "fds n = insert fd base"
    and "0 \<le> fd"
  shows "can_owns fds base (snd (can_flow_control os fd i n p))"
  using assms
  by (auto simp: can_flow_control_def can_fail_owns can_bind_owns fd_ledger_eqs(1) [OF assms(1)]
      split: option.split prod.split)

lemma can_start_owns:
  assumes "fd_ledger os fds" and "can_owns fds base p"
  shows "can_owns fds base (snd (can_start os p))"
proof (cases "socket_valid (m_canSocket p)")
  case invalid: False
  then have base: "fds (can_net p) = base" using assms(2) by (simp add: can_owns_def)
  obtain fd n where s: "px_socket os CanIsoTpSocket (can_net p) = (fd, n)" by fastforce
  note new = fd_ledger_eqs(8) [OF assms(1) s]
  show ?thesis
  proof (cases "fd < 0")
    case True
    then show ?thesis using new_fdD(1) [OF new] base invalid s by (simp add: can_start_def can_owns_def)
  next
    case False
    then have "fd \<notin> base" "fds n = insert fd base" using new_fdD(2) [OF new] base by simp_all
    then show ?thesis using invalid s False assms(1)
      by (auto simp: can_start_def can_fail_owns can_flow_control_owns fd_ledger_eqs(1) [OF assms(1)]
          split: option.split prod.split)
  qed
qed (use assms in \<open>simp add: can_start_def\<close>)

lemma can_stop_owns:
  assumes "fd_ledger os fds" and "can_owns fds base p"
  shows "can_owns fds base (can_stop os p)" and "fds (can_net (can_stop os p)) = base"
  using assms
  by (auto simp: can_stop_def can_owns_def socket_close_def socket_valid_def fd_ledger_simps)

lemma can_apply_owns:
  assumes "fd_ledger os fds" and "can_owns fds base p" and "can_apply os op p = Some p'"
  shows "can_owns fds base p'"
proof (cases op)
  case (CanSend cb request)
  have "m_canSocket p' = m_canSocket p \<and> fds (can_net p') = fds (can_net p)"
    using assms(3) CanSend fd_ledger_eqs(6) [OF assms(1)] can_receive_loop_fds [OF assms(1)]
    by (auto simp: can_sendRequest_def split: if_splits prod.splits option.splits)
  then show ?thesis using assms(2) by (simp add: can_owns_def)
qed (use assms can_start_owns can_stop_owns(1) in auto)

lemma can_run_owns:
  "fd_ledger os fds \<Longrightarrow> can_owns fds base p \<Longrightarrow> can_run os ops p = Some p' \<Longrightarrow> can_owns fds base p'"
  by (induction ops arbitrary: p) (auto split: option.splits intro: can_apply_owns)

section \<open>Answers of the simulated ECU\<close>

text \<open>What the simulated ECU answers, as a table over the service id.\<close>

definition provider_answer :: "ByteArray \<Rightarrow> ByteArray" where
  "provider_answer req =
     (case req of
        [] \<Rightarrow> []
      | sid # args \<Rightarrow>
          (case findServiceDescriptor (service_cast sid) of
             None \<Rightarrow> [0x7F, sid, 0x11]
           | Some desc \<Rightarrow>
               if \<not> req_in_range desc (length req) then [0x7F, sid, 0x13]
               else if sid = 0x10 then [0x50, args ! 0, 0x07, 0xD0, 0x01, 0x90]
               else if sid = 0x11 then [0x51, args ! 0]
               else if sid = 0x3E then [0x7E, args ! 0]
               else if sid = 0x22 then
                 (if args ! 0 = 0xF1 \<and> args ! 1 = 0x90 then [0x62, 0xF1, 0x90] @ map byte_of_char provider_vin
                  else [0x7F, 0x22, 0x72])
               else if sid = 0x2E then [0x6E, args ! 0, args ! 1]
               else if sid \<in> {0x34, 0x36, 0x37} then [0x7F, sid, 0x11]
               else [0x7F, sid, 0x72]))"

lemma provider_handlers:
  "m_handlers (m_uds udsMockProvider_new) sid =
     (if sid = 0x10 then Some (Some (LambdaUdsHandler (Some (sub_fn (Some provider_session)))))
      else if sid = 0x11 \<or> sid = 0x3E then Some (Some (LambdaUdsHandler (Some (sub_fn (Some provider_echo)))))
      else if sid = 0x22 then Some (Some (LambdaUdsHandler (Some (\<lambda>req s.
        with_arg (read_did req) s (\<lambda>did. call_fn (Some provider_read) did s)))))
      else if sid = 0x2E then Some (Some (LambdaUdsHandler (Some (\<lambda>req s.
        with_arg (rbind (read_did req) (\<lambda>did. rbind (tail_from 3 req) (\<lambda>v. Inr (did, v)))) s
          (\<lambda>a. call_fn (Some provider_write) a s)))))
      else if sid \<in> service_code ` set uds_default_services
        then Some (Some (LambdaUdsHandler (Some uds_default_handler)))
      else None)"
  by (simp add: udsMockProvider_new_def registerDefaultServices_def uds_default_services_def udsMock_new_def
      registerService_def registerDiagnosticSessionControlHandler_def registerReadDataByIdentifierHandler_def
      registerTesterPresentHandler_def registerEcuResetHandler_def registerWriteDataByIdentifierHandler_def Let_def)

lemma provider_p2: "m_p2 udsMockProvider_new = (2000, 400)"
  by (simp add: udsMockProvider_new_def Let_def)

lemma service_of_descriptor:
  "findServiceDescriptor (service_cast sid) = Some desc \<Longrightarrow>
     sid \<in> service_code ` (set uds_default_services
       \<union> {UdsService.RequestDownload, UdsService.TransferData, UdsService.RequestTransferExit})"
  by (auto simp: descriptor_eval service_cast_def uds_default_services_def split: if_splits)

lemmas provider_eval =
  handleDiagnosticRequest_def provider_answer_def provider_handlers LambdaUdsHandler_def uds_makeResponse_def
  UDS_POSITIVE_RESPONSE_OFFSET_def szadd_def Let_def

lemma provider_sub:
  assumes "findServiceDescriptor (service_cast sid) = Some desc" and "req_in_range desc (length (sid # args))"
    and "sid = 0x10 \<or> sid = 0x11 \<or> sid = 0x3E"
  shows "handleDiagnosticRequest (m_uds udsMockProvider_new) (sid # args) (2000, 400)
    = (Inr (provider_answer (sid # args)), (2000, 400))"
  using assms
  by (elim disjE)
    (auto simp: provider_eval sub_fn_def provider_session_def provider_echo_def descriptor_eval service_cast_def
      req_in_range_def writeU16BE_def)

lemma provider_data:
  assumes "findServiceDescriptor (service_cast sid) = Some desc" and "req_in_range desc (length (sid # args))"
    and "sid = 0x22 \<or> sid = 0x2E"
  shows "handleDiagnosticRequest (m_uds udsMockProvider_new) (sid # args) (2000, 400)
    = (Inr (provider_answer (sid # args)), (2000, 400))"
proof -
  have l: "3 \<le> length (sid # args)" and d: "service_cast sid \<in> {UdsService.ReadDataByIdentifier, UdsService.WriteDataByIdentifier}"
    using assms by (auto simp: req_in_range_def service_cast_def descriptor_eval)
  then have did: "read_did (sid # args) = Inr (join16 (args ! 0) (args ! 1))"
    by (simp add: read_did_in numeral_2_eq_2)
  have eq: "join16 a b = 0xF190 \<longleftrightarrow> a = 0xF1 \<and> b = 0x90" for a b
  proof
    assume "join16 a b = 0xF190"
    then have "a = hi8 0xF190" "b = lo8 0xF190" using hi8_join16 [of a b] lo8_join16 [of a b] by simp_all
    then show "a = 0xF1 \<and> b = 0x90" by (simp add: hi8_def lo8_def)
  qed (simp add: join16_def)
  from assms(3) show ?thesis
  proof
    assume "sid = 0x22"
    then show ?thesis using assms(1,2) did l
      by (auto simp: provider_eval eq provider_read_def provider_vin_def descriptor_eval service_cast_def req_in_range_def)
  next
    assume "sid = 0x2E"
    then show ?thesis using assms(1,2) did l
      by (auto simp: provider_eval provider_write_def tail_from_def byte_simps descriptor_eval service_cast_def
          req_in_range_def)
  qed
qed

lemma provider_rest:
  assumes "findServiceDescriptor (service_cast sid) = Some desc" and "req_in_range desc (length (sid # args))"
    and "sid \<notin> {0x10, 0x11, 0x3E, 0x22, 0x2E}"
  shows "handleDiagnosticRequest (m_uds udsMockProvider_new) (sid # args) s = (Inr (provider_answer (sid # args)), s)"
proof (cases "sid \<in> {0x34, 0x36, 0x37}")
  case True
  then have "m_handlers (m_uds udsMockProvider_new) sid = None"
    by (auto simp: provider_handlers uds_default_services_def)
  with True assms show ?thesis
    by (auto simp: handleDiagnosticRequest_def provider_answer_def uds_makeResponse_def req_in_range_def)
next
  case False
  then have d: "sid \<in> service_code ` set uds_default_services"
    using service_of_descriptor [OF assms(1)] by auto
  have "\<not> rsp_in_range desc (szadd (length ([] :: u8 list)) 1)"
    using findServiceDescriptor_bounds(3) [OF assms(1)] by (simp add: rsp_in_range_def szadd_def)
  moreover have h: "m_handlers (m_uds udsMockProvider_new) sid = Some (Some (LambdaUdsHandler (Some uds_default_handler)))"
    using assms(3) d by (simp add: provider_handlers)
  moreover have "LambdaUdsHandler (Some uds_default_handler) (sid # args) s = (Inr (UdsResponseCode.ServiceNotSupported, []), s)"
    by (simp add: LambdaUdsHandler_def uds_default_handler_def)
  ultimately show ?thesis
    using handleDiagnosticRequest_handler [OF assms(1,2) h, of s UdsResponseCode.ServiceNotSupported "[]" s] assms False
    by (simp add: provider_answer_def)
qed

lemma provider_answers:
  "handleDiagnosticRequest (m_uds udsMockProvider_new) req (2000, 400) = (Inr (provider_answer req), (2000, 400))"
proof (cases req)
  case (Cons sid args)
  show ?thesis
  proof (cases "findServiceDescriptor (service_cast sid)")
    case None
    with Cons show ?thesis by (simp add: handleDiagnosticRequest_def provider_answer_def uds_makeResponse_def)
  next
    case (Some desc)
    show ?thesis
    proof (cases "req_in_range desc (length (sid # args))")
      case True
      with Some Cons show ?thesis
        using provider_sub [of sid desc args] provider_data [of sid desc args] provider_rest [of sid desc args]
        by blast
    next
      case False
      with Some Cons show ?thesis
        by (auto simp: handleDiagnosticRequest_def provider_answer_def uds_makeResponse_def req_in_range_def)
    qed
  qed
qed (simp add: handleDiagnosticRequest_def provider_answer_def)

section \<open>Properties\<close>

text \<open>
  (C26) The simulated ECU answers every request, once, and as its table says: session control
  with its timing parameters, ECU reset and tester present by an echo, the VIN for data
  identifier \<open>F190\<close>, writes by the identifier; the wrong length, an unknown service and a
  service without handler are refused with the codes of the standard.  The refusal of an
  unknown data identifier is not among them: the client is told 0x72 instead of the
  handler's \<open>RequestOutOfRange\<close>.
\<close>

theorem uds_provider_answers:
  "uds_sendRequest t0 t1 True req udsMockProvider_new =
     Ok [\<lparr>payload = provider_answer req, status = DownstreamStatus.Handled, latency = latency_ms t0 t1\<rparr>]
       udsMockProvider_new
   \<and> provider_answer [0x22, 0xF1, 0x90] = [0x62, 0xF1, 0x90] @ map byte_of_char provider_vin
   \<and> provider_answer [0x22, 0xF1, 0x91] = [0x7F, 0x22, 0x72]"
proof -
  have "uds_sendRequest t0 t1 True req udsMockProvider_new =
     Ok [\<lparr>payload = provider_answer req, status = DownstreamStatus.Handled, latency = latency_ms t0 t1\<rparr>]
       udsMockProvider_new"
    by (simp add: uds_sendRequest_def provider_p2 provider_answers)
  then show ?thesis
    by (simp add: provider_answer_def descriptor_eval service_cast_def req_in_range_def)
qed

text \<open>
  (C25) The CAN provider balances its descriptors.  Whatever is done with it (starting twice,
  stopping, requests, any failure of a system call on the way and the exception it causes),
  it owns at most one descriptor, the one in its \<open>Socket\<close>, and no other descriptor that it
  opened stays open; after its destruction exactly the descriptors are open that were
  open before.
\<close>

theorem can_provider_descriptor_balance:
  assumes "fd_ledger os fds" and "can_run os ops (can_new name tx rx options n) = Some p"
  shows "fds (can_net p) = fds n \<union> (if socket_valid (m_canSocket p) then {m_canSocket p} else {})
    \<and> (socket_valid (m_canSocket p) \<longrightarrow> m_canSocket p \<notin> fds n)
    \<and> fds (can_net (can_destroy os p)) = fds n"
proof -
  have "can_owns fds (fds n) (can_new name tx rx options n)"
    by (simp add: can_owns_def can_new_def socket_default_def socket_valid_def)
  from can_run_owns [OF assms(1) this assms(2)] have p: "can_owns fds (fds n) p" .
  have "fds (can_net (can_destroy os p)) = fds n"
    unfolding can_destroy_def by (intro can_stop_owns [OF assms(1)] p)
  with p show ?thesis by (auto simp: can_owns_def)
qed

theorem can_provider_descriptor_balance_witness:
  "\<exists>p. can_run sim_posix [CanStart, CanSend True [0x3E, 0], CanStart] (can_new ''vcan0'' 1 2 None (5, {0, 1, 2}, [])) = Some p
    \<and> m_canSocket p = 5 \<and> fst (snd (can_net p)) = {0, 1, 2, 5}
    \<and> fst (snd (can_net (can_destroy sim_posix p))) = {0, 1, 2}"
proof -
  let ?n = "(5, {0, 1, 2}, []) :: sim_kernel"
  have "\<exists>p. can_run sim_posix [CanStart, CanSend True [0x3E, 0], CanStart] (can_new ''vcan0'' 1 2 None ?n) = Some p
    \<and> m_canSocket p = 5"
    by (simp add: can_new_def socket_default_def can_start_def socket_valid_def sim_posix_def sim_new_def
        can_flow_control_def can_bind_def socket_reset_def socket_close_def can_sendRequest_def socket_get_def
        can_receive_loop.simps)
  then obtain p where p: "can_run sim_posix [CanStart, CanSend True [0x3E, 0], CanStart]
      (can_new ''vcan0'' 1 2 None ?n) = Some p" and s: "m_canSocket p = 5" by blast
  from can_provider_descriptor_balance [OF sim_ledger p] p s show ?thesis
    by (auto simp: socket_valid_def split: prod.splits)
qed

end
