(* ===== verification/DoIP_Gateway.thy ===== *)
theory DoIP_Gateway
  imports DoIP_Downstream DoIP_ConnectionBehaviour
begin

text \<open>
  The gateway application \<open>DoIPDownstreamServerModel\<close>
  (\<^verbatim>\<open>inc/DoIPDownstreamServerModel.h\<close>): diagnostic messages are queued by the connection's
  thread, sent to a provider by a worker thread, and the answers handed back to the
  connection.  The composed system holds a connection and the application; its steps are
  the stimuli of the connection and the steps of the worker, interleaved in any order.  A
  pass of the worker is split where another thread can observe a difference: sending,
  handing the answer to the callback, and forgetting the callback.
\<close>

section \<open>The application\<close>

datatype worker_pc = WkSend | WkReceive | WkClear

record 'p DoIPDownstreamServerModel =
  m_downstreamCallback :: bool
  m_rx :: "ByteArray ThreadSafeQueue"
  m_tx :: "ByteArray ThreadSafeQueue"
  m_provider :: 'p
  m_worker :: bool
  ds_running :: bool
  ds_pc :: worker_pc

definition downstreamModel_new :: "'p \<Rightarrow> 'p DoIPDownstreamServerModel" where
  "downstreamModel_new provider =
     \<lparr>m_downstreamCallback = False, m_rx = queue_new, m_tx = queue_new, m_provider = provider,
      m_worker = False, ds_running = True, ds_pc = WkSend\<rparr>"

text \<open>
  Assigning a new thread to a joinable one terminates the process, and so does an exception
  that leaves a callback declared \<open>noexcept\<close>: both are \<open>None\<close>.
\<close>

definition startWorker :: "'p DoIPDownstreamServerModel \<Rightarrow> 'p DoIPDownstreamServerModel option" where
  "startWorker d = (if m_worker d then None else Some (d\<lparr>m_worker := True\<rparr>))"

definition ds_onOpenConnection ::
  "'p provider_ops \<Rightarrow> 'p DoIPDownstreamServerModel \<Rightarrow> 'p DoIPDownstreamServerModel option" where
  "ds_onOpenConnection ops d =
     (case startWorker d of
        None \<Rightarrow> None
      | Some d \<Rightarrow> (case pv_start ops (m_provider d) of
            (Inl e, p) \<Rightarrow> None
          | (Inr _, p) \<Rightarrow> Some (d\<lparr>m_provider := p\<rparr>)))"

text \<open>
  \<open>stopWorker\<close> clears the flag and joins the worker, which finishes the pass it is in.
\<close>

definition stopWorker :: "'p DoIPDownstreamServerModel \<Rightarrow> 'p DoIPDownstreamServerModel" where
  "stopWorker d = d\<lparr>ds_running := False\<rparr>"

definition ds_onCloseConnection ::
  "'p provider_ops \<Rightarrow> 'p DoIPDownstreamServerModel \<Rightarrow> 'p DoIPDownstreamServerModel" where
  "ds_onCloseConnection ops d = (let d = stopWorker d in d\<lparr>m_provider := pv_stop ops (m_provider d)\<rparr>)"

definition ds_onDownstreamRequest ::
  "DoIPMessage \<Rightarrow> 'p DoIPDownstreamServerModel \<Rightarrow> (DoIPDownstreamResult \<times> 'p DoIPDownstreamServerModel) res" where
  "ds_onDownstreamRequest msg d =
     (let d = d\<lparr>m_downstreamCallback := True\<rparr>
      in case getDiagnosticMessagePayload msg of (data, n) \<Rightarrow>
           rbind (ptr_copy_n data n) (\<lambda>req.
             Inr (DoIPDownstreamResult.Pending, d\<lparr>m_tx := push req (m_tx d)\<rparr>)))"

definition handleDownstreamResponse ::
  "DownstreamResponse \<Rightarrow> 'p DoIPDownstreamServerModel \<Rightarrow> 'p DoIPDownstreamServerModel" where
  "handleDownstreamResponse response d = d\<lparr>m_rx := push (payload response) (m_rx d)\<rparr>"

text \<open>The three parts of \<open>downstream_thread\<close>; the second returns the call of the callback it makes.\<close>

definition worker_send ::
  "'p provider_ops \<Rightarrow> 'p DoIPDownstreamServerModel \<Rightarrow> (unit, 'p DoIPDownstreamServerModel) outcome" where
  "worker_send ops d =
     (if queue_size (m_tx d) \<noteq> 0 then
        (case pop (m_tx d) of (item, q) \<Rightarrow>
           let req = (case item of Some r \<Rightarrow> r | None \<Rightarrow> []); d = d\<lparr>m_tx := q\<rparr>
           in case pv_sendRequest ops True req (m_provider d) of
                Ok cbs p \<Rightarrow> Ok () ((fold handleDownstreamResponse cbs (d\<lparr>m_provider := p\<rparr>))\<lparr>ds_pc := WkReceive\<rparr>)
              | Throw e p \<Rightarrow> Throw e (d\<lparr>m_provider := p\<rparr>)
              | NoReturn \<Rightarrow> NoReturn)
      else Ok () (d\<lparr>ds_pc := WkReceive\<rparr>))"

definition worker_receive :: "'p DoIPDownstreamServerModel \<Rightarrow> ByteArray option \<times> 'p DoIPDownstreamServerModel" where
  "worker_receive d =
     (if queue_size (m_rx d) \<noteq> 0 then
        (case pop (m_rx d) of (item, q) \<Rightarrow>
           let rsp = (case item of Some r \<Rightarrow> r | None \<Rightarrow> []); d = d\<lparr>m_rx := q\<rparr>
           in if m_downstreamCallback d then (Some rsp, d\<lparr>ds_pc := WkClear\<rparr>) else (None, d\<lparr>ds_pc := WkSend\<rparr>))
      else (None, d\<lparr>ds_pc := WkSend\<rparr>))"

definition worker_clear :: "'p DoIPDownstreamServerModel \<Rightarrow> 'p DoIPDownstreamServerModel" where
  "worker_clear d = d\<lparr>m_downstreamCallback := False, ds_pc := WkSend\<rparr>"

text \<open>
  The callbacks as the connection sees them: none of them calls the connection, and the
  downstream request is always pending.
\<close>

definition downstream_model :: "'t DoIPServerModel" where
  "downstream_model = \<lparr>
     onOpenConnection = Some (\<lambda>ctx. []),
     onCloseConnection = Some (\<lambda>ctx reason. []),
     onDiagnosticMessage = Some (\<lambda>ctx msg. (None, [])),
     onDiagnosticNotification = Some (\<lambda>ctx ack. []),
     onDownstreamRequest = Some (\<lambda>ctx msg. (DoIPDownstreamResult.Pending, [])),
     serverAddress = 0x0E00\<rparr>"

section \<open>The composed system\<close>

record ('t, 'p) gateway =
  gw_conn :: "'t connection"
  gw_model :: "'p DoIPDownstreamServerModel"

text \<open>What the application's callbacks do to its own state, for the calls a step recorded.\<close>

fun model_event :: "'p provider_ops \<Rightarrow> conn_event \<Rightarrow> 'p DoIPDownstreamServerModel \<Rightarrow> 'p DoIPDownstreamServerModel" where
  "model_event ops (EvDownstream m) d = (case ds_onDownstreamRequest m d of Inr (_, d') \<Rightarrow> d' | Inl _ \<Rightarrow> d)"
| "model_event ops (EvClosed r) d = ds_onCloseConnection ops d"
| "model_event ops _ d = d"

definition gw_sync :: "'p provider_ops \<Rightarrow> 't connection \<Rightarrow> ('t, 'p) gateway \<Rightarrow> ('t, 'p) gateway" where
  "gw_sync ops c g =
     \<lparr>gw_conn = c, gw_model = fold (model_event ops) (drop (length (trace (gw_conn g))) (trace c)) (gw_model g)\<rparr>"

datatype gw_action = GwStimulus stimulus | GwSend | GwReceive | GwClear

fun gw_enabled :: "int \<Rightarrow> gw_action \<Rightarrow> ('t, 'p) gateway \<Rightarrow> bool" where
  "gw_enabled now (GwStimulus stim) g =
     (enabled_at now stim (gw_conn g) \<and> (\<forall>b r. stim \<noteq> DownstreamArrived b r))"
| "gw_enabled now GwSend g = (m_worker (gw_model g) \<and> ds_running (gw_model g) \<and> ds_pc (gw_model g) = WkSend)"
| "gw_enabled now GwReceive g = (m_worker (gw_model g) \<and> ds_pc (gw_model g) = WkReceive)"
| "gw_enabled now GwClear g = (m_worker (gw_model g) \<and> ds_pc (gw_model g) = WkClear)"

fun gw_exec ::
  "nat \<Rightarrow> 'p provider_ops \<Rightarrow> 't conn_env \<Rightarrow> gw_action \<Rightarrow> ('t, 'p) gateway \<Rightarrow> (unit, ('t, 'p) gateway) outcome" where
  "gw_exec fuel ops env (GwStimulus stim) g =
     (case react fuel env stim (gw_conn g) of
        Ok _ c \<Rightarrow> Ok () (gw_sync ops c g)
      | Throw e c \<Rightarrow> Throw e (gw_sync ops c g)
      | NoReturn \<Rightarrow> NoReturn)"
| "gw_exec fuel ops env GwSend g =
     (case worker_send ops (gw_model g) of
        Ok _ d \<Rightarrow> Ok () (g\<lparr>gw_model := d\<rparr>)
      | Throw e d \<Rightarrow> Throw e (g\<lparr>gw_model := d\<rparr>)
      | NoReturn \<Rightarrow> NoReturn)"
| "gw_exec fuel ops env GwReceive g =
     (case worker_receive (gw_model g) of
        (None, d) \<Rightarrow> Ok () (g\<lparr>gw_model := d\<rparr>)
      | (Some rsp, d) \<Rightarrow>
          (case react fuel env (DownstreamArrived rsp DoIPDownstreamResult.Handled) (gw_conn g) of
             Ok _ c \<Rightarrow> Ok () (gw_sync ops c (g\<lparr>gw_model := d\<rparr>))
           | Throw e c \<Rightarrow> Throw e (gw_sync ops c (g\<lparr>gw_model := d\<rparr>))
           | NoReturn \<Rightarrow> NoReturn))"
| "gw_exec fuel ops env GwClear g = Ok () (g\<lparr>gw_model := worker_clear (gw_model g)\<rparr>)"

inductive gw_reach ::
  "'t transport_ops \<Rightarrow> 'p provider_ops \<Rightarrow> bool \<Rightarrow> ('t, 'p) gateway \<Rightarrow> ('t, 'p) gateway \<Rightarrow> bool"
  for tp :: "'t transport_ops" and ops :: "'p provider_ops" and guarded :: bool and g0 :: "('t, 'p) gateway" where
  gw_start: "gw_reach tp ops guarded g0 g0"
| gw_step: "gw_reach tp ops guarded g0 g \<Longrightarrow> gw_enabled now act g \<Longrightarrow>
     leaves (gw_exec fuel ops (mk_env tp downstream_model guarded now) act g) g' \<Longrightarrow> gw_reach tp ops guarded g0 g'"

text \<open>A sequence of actions that all return, at one reading of the clock.\<close>

fun gw_run ::
  "nat \<Rightarrow> 'p provider_ops \<Rightarrow> 't conn_env \<Rightarrow> gw_action list \<Rightarrow> ('t, 'p) gateway \<Rightarrow> ('t, 'p) gateway option" where
  "gw_run fuel ops env [] g = Some g"
| "gw_run fuel ops env (a # as) g =
     (if gw_enabled (env_now env) a g then
        (case gw_exec fuel ops env a g of Ok _ g' \<Rightarrow> gw_run fuel ops env as g' | _ \<Rightarrow> None)
      else None)"

definition worker_pass :: "gw_action list" where
  "worker_pass = [GwSend, GwReceive, GwClear]"

section \<open>The connection inside the gateway\<close>

lemma downstream_model_quiet: "quiet_app downstream_model"
  by (simp add: quiet_app_def downstream_model_def)

lemma gw_sync_conn [simp]: "gw_conn (gw_sync ops c g) = c"
  by (simp add: gw_sync_def)

text \<open>Every action of the gateway is a stimulus of its connection, or leaves it alone.\<close>

lemma gw_exec_conn:
  assumes "leaves (gw_exec fuel ops env act g) g'" and "gw_enabled now act g"
  shows "gw_conn g' = gw_conn g \<or>
    (\<exists>stim. enabled_at now stim (gw_conn g) \<and> leaves (react fuel env stim (gw_conn g)) (gw_conn g'))"
proof (cases act)
  case (GwStimulus stim)
  then show ?thesis using assms
    by (cases "react fuel env stim (gw_conn g)") (auto simp del: react.simps)
next
  case GwSend
  then show ?thesis using assms(1) by (cases "worker_send ops (gw_model g)") auto
next
  case GwReceive
  show ?thesis
  proof (cases "fst (worker_receive (gw_model g))")
    case None
    with GwReceive assms(1) show ?thesis by (auto split: prod.splits)
  next
    case (Some rsp)
    let ?s = "DownstreamArrived rsp DoIPDownstreamResult.Handled"
    have "leaves (react fuel env ?s (gw_conn g)) (gw_conn g')"
      using GwReceive assms(1) Some by (auto split: prod.splits)
    moreover have "enabled_at now ?s (gw_conn g)" by simp
    ultimately show ?thesis by blast
  qed
qed (use assms in simp)

lemma gw_reach_conn:
  assumes "gw_reach tp ops guarded g0 g"
  shows "conn_reach tp downstream_model guarded (gw_conn g0) (gw_conn g)"
  using assms
proof (induction rule: gw_reach.induct)
  case (gw_step g now act fuel g')
  from gw_exec_conn [OF gw_step.hyps(3,2)] gw_step.IH show ?case
    by (auto intro: conn_reach.step)
qed (rule conn_reach.start)

section \<open>One request and its answer\<close>

definition uds_request :: "DoIPMessage \<Rightarrow> ByteArray" where
  "uds_request m = drop 12 (m_data m)"

lemma ds_onDownstreamRequest_eq:
  "ds_onDownstreamRequest m d =
     Inr (DoIPDownstreamResult.Pending, d\<lparr>m_downstreamCallback := True, m_tx := push (uds_request m) (m_tx d)\<rparr>)"
  by (auto simp: ds_onDownstreamRequest_def getDiagnosticMessagePayload_def uds_request_def
      DOIP_DIAG_HEADER_SIZE_def DOIP_HEADER_SIZE_def mem_simps)

text \<open>The events a diagnostic message of the client causes in the gateway's connection.\<close>

definition forwarded :: "DoIPMessage \<Rightarrow> DoIPMessage \<Rightarrow> int \<Rightarrow> conn_event list" where
  "forwarded m ack r = [EvDiagnostic m, EvSend ack r, EvAckSent None, EvDownstream m]"

lemma gateway_message:
  assumes "env_model env = downstream_model" and "m_state c = DoIPServerState.RoutingActivated"
    and "getPayloadType m = DoIPPayloadType.DiagnosticMessage"
    and "getSourceAddress m = Inr (Some (m_routedClientAddress c))"
  shows "\<exists>c' r. handleMessage fuel env m c = Ok () c' \<and> m_state c' = DoIPServerState.WaitDownstreamResponse
    \<and> trace c' = trace c @ forwarded m (diagnosticMessageResponse env (m_routedClientAddress c) None) r
    \<and> m_routedClientAddress c' = m_routedClientAddress c
    \<and> m_generalInactivityTimeout c' = m_generalInactivityTimeout c"
proof -
  let ?a = "acked env (m_routedClientAddress c) m c"
  have q: "quiet_app (env_model env)" using assms(1) downstream_model_quiet by simp
  have ack: "app_ack (env_model env) c m = None" using assms(1) by (simp add: app_ack_def downstream_model_def)
  have "handleMessage fuel env m c = handleDownstream fuel env (m_routedClientAddress c) m ?a"
    using assms(2,3) handleDiagnosticMessage_quiet [OF q assms(4,2), of fuel] ack
    by (simp add: handleMessage_def handleRoutingActivated_def)
  also have "\<dots> = Ok () (transitionTo (env_now env) DoIPServerState.WaitDownstreamResponse (emit (EvDownstream m) ?a))"
    using assms(1)
    by (simp add: handleDownstream_def hasDownstreamHandler_def model_hasDownstreamHandler_def
        notifyDownstreamRequest_def downstream_model_def)
  finally show ?thesis
    using assms(1,2) ack
    by (simp add: emit_def transitionTo_timed state_duration_def getTimerDuration_def acked_def Let_def
        restartStateTimer_def forwarded_def ev_diag_def ev_ack_def downstream_model_def)
qed

lemma gateway_response:
  assumes "m_state c = DoIPServerState.WaitDownstreamResponse" and "m_generalInactivityTimeout c \<noteq> 0"
  shows "\<exists>c' r. react fuel env (DownstreamArrived rsp DoIPDownstreamResult.Handled) c = Ok () c'
    \<and> m_state c' = DoIPServerState.RoutingActivated
    \<and> trace c' = trace c @ [EvDownstreamResponse,
        EvSend (makeDiagnosticMessage (getServerAddress env) (m_routedClientAddress c) rsp) r]
    \<and> m_routedClientAddress c' = m_routedClientAddress c
    \<and> m_generalInactivityTimeout c' = m_generalInactivityTimeout c"
  using assms
  by (simp add: receiveDownstreamResponse_def Let_def sendProtocolMessage_eq emit_def transitionTo_timed
      state_duration_def getTimerDuration_def getClientAddress_def)

text \<open>The application with a running worker and nothing to do, or one request queued.\<close>

definition idle_model :: "'p DoIPDownstreamServerModel \<Rightarrow> bool" where
  "idle_model d \<longleftrightarrow> m_worker d \<and> ds_running d \<and> ds_pc d = WkSend \<and> m_tx d = queue_new \<and> m_rx d = queue_new"

lemma push_new [simp]: "push x queue_new = \<lparr>m_queue = [x], m_stopped = False\<rparr>"
  by (simp add: push_def queue_new_def)

lemma pop_one [simp]: "pop \<lparr>m_queue = [x], m_stopped = False\<rparr> = (Some x, queue_new)"
  by (simp add: pop_def front_pop_def queue_new_def)

lemma queue_size_simps [simp]: "queue_size queue_new = 0" "queue_size \<lparr>m_queue = [x], m_stopped = b\<rparr> = 1"
  by (simp_all add: queue_size_def queue_new_def)

text \<open>A diagnostic message and a delivered answer as steps of the gateway.\<close>

lemma gw_message_step:
  assumes "env_model env = downstream_model" and "m_tx (gw_model g) = queue_new"
    and "m_state (gw_conn g) = DoIPServerState.RoutingActivated"
    and "getPayloadType m = DoIPPayloadType.DiagnosticMessage"
    and "getSourceAddress m = Inr (Some (m_routedClientAddress (gw_conn g)))"
  obtains c r where
    "gw_exec fuel ops env (GwStimulus (Received m)) g = Ok () \<lparr>gw_conn = c, gw_model =
       (gw_model g)\<lparr>m_downstreamCallback := True, m_tx := \<lparr>m_queue = [uds_request m], m_stopped = False\<rparr>\<rparr>\<rparr>"
    "m_state c = DoIPServerState.WaitDownstreamResponse"
    "trace c = trace (gw_conn g) @ forwarded m (diagnosticMessageResponse env (m_routedClientAddress (gw_conn g)) None) r"
    "m_routedClientAddress c = m_routedClientAddress (gw_conn g)"
    "m_generalInactivityTimeout c = m_generalInactivityTimeout (gw_conn g)"
proof -
  obtain c r where c: "handleMessage fuel env m (gw_conn g) = Ok () c"
    "m_state c = DoIPServerState.WaitDownstreamResponse"
    "trace c = trace (gw_conn g) @ forwarded m (diagnosticMessageResponse env (m_routedClientAddress (gw_conn g)) None) r"
    "m_routedClientAddress c = m_routedClientAddress (gw_conn g)"
    "m_generalInactivityTimeout c = m_generalInactivityTimeout (gw_conn g)"
    using gateway_message [OF assms(1,3-5), of fuel] by blast
  have "gw_exec fuel ops env (GwStimulus (Received m)) g = Ok () \<lparr>gw_conn = c, gw_model =
       (gw_model g)\<lparr>m_downstreamCallback := True, m_tx := \<lparr>m_queue = [uds_request m], m_stopped = False\<rparr>\<rparr>\<rparr>"
    using c(1,3) assms(2) by (simp add: gw_sync_def forwarded_def ds_onDownstreamRequest_eq)
  then show thesis using c(2-5) by (rule that)
qed

lemma gw_receive_step:
  assumes "m_rx (gw_model g) = \<lparr>m_queue = [rsp], m_stopped = False\<rparr>" and "m_downstreamCallback (gw_model g)"
    and "m_state (gw_conn g) = DoIPServerState.WaitDownstreamResponse" and "m_generalInactivityTimeout (gw_conn g) \<noteq> 0"
  obtains c r where
    "gw_exec fuel ops env GwReceive g =
       Ok () \<lparr>gw_conn = c, gw_model = (gw_model g)\<lparr>m_rx := queue_new, ds_pc := WkClear\<rparr>\<rparr>"
    "m_state c = DoIPServerState.RoutingActivated"
    "trace c = trace (gw_conn g) @ [EvDownstreamResponse,
        EvSend (makeDiagnosticMessage (getServerAddress env) (m_routedClientAddress (gw_conn g)) rsp) r]"
    "m_routedClientAddress c = m_routedClientAddress (gw_conn g)"
    "m_generalInactivityTimeout c = m_generalInactivityTimeout (gw_conn g)"
proof -
  obtain c r where c: "react fuel env (DownstreamArrived rsp DoIPDownstreamResult.Handled) (gw_conn g) = Ok () c"
    "m_state c = DoIPServerState.RoutingActivated"
    "trace c = trace (gw_conn g) @ [EvDownstreamResponse,
        EvSend (makeDiagnosticMessage (getServerAddress env) (m_routedClientAddress (gw_conn g)) rsp) r]"
    "m_routedClientAddress c = m_routedClientAddress (gw_conn g)"
    "m_generalInactivityTimeout c = m_generalInactivityTimeout (gw_conn g)"
    using gateway_response [OF assms(3,4), of fuel env rsp] by blast
  have "gw_exec fuel ops env GwReceive g =
      Ok () \<lparr>gw_conn = c, gw_model = (gw_model g)\<lparr>m_rx := queue_new, ds_pc := WkClear\<rparr>\<rparr>"
    using assms(1,2) c(1,3) by (simp add: worker_receive_def gw_sync_def del: react.simps)
  then show thesis using c(2-5) by (rule that)
qed

context downstream_provider
begin

lemma worker_send_one:
  assumes "m_tx d = \<lparr>m_queue = [req], m_stopped = False\<rparr>" and "m_rx d = queue_new"
    and "pv_sendRequest ops True req (m_provider d) = Ok cbs p'"
  shows "\<exists>r. cbs = [r] \<and> worker_send ops d =
    Ok () (d\<lparr>m_tx := queue_new, m_rx := \<lparr>m_queue = [payload r], m_stopped = False\<rparr>, m_provider := p', ds_pc := WkReceive\<rparr>)"
proof -
  obtain r where r: "cbs = [r]" by (rule sendRequest_Ok [OF assms(3)])
  show ?thesis using assms by (simp add: r worker_send_def handleDownstreamResponse_def)
qed

lemma gateway_request_answered:
  assumes "env_model env = downstream_model" and "idle_model (gw_model g)"
    and "m_state (gw_conn g) = DoIPServerState.RoutingActivated" and "m_generalInactivityTimeout (gw_conn g) \<noteq> 0"
    and "getPayloadType m = DoIPPayloadType.DiagnosticMessage"
    and "getSourceAddress m = Inr (Some (m_routedClientAddress (gw_conn g)))"
    and "pv_sendRequest ops True (uds_request m) (m_provider (gw_model g)) = Ok cbs p'"
  shows "\<exists>g' rsp r1 r2. cbs = [rsp]
    \<and> gw_run fuel ops env (GwStimulus (Received m) # worker_pass) g = Some g'
    \<and> m_state (gw_conn g') = DoIPServerState.RoutingActivated
    \<and> idle_model (gw_model g') \<and> m_provider (gw_model g') = p'
    \<and> trace (gw_conn g') = trace (gw_conn g)
        @ forwarded m (diagnosticMessageResponse env (m_routedClientAddress (gw_conn g)) None) r1
        @ [EvDownstreamResponse,
           EvSend (makeDiagnosticMessage (getServerAddress env) (m_routedClientAddress (gw_conn g)) (payload rsp)) r2]"
proof -
  let ?d = "gw_model g"
  let ?d1 = "?d\<lparr>m_downstreamCallback := True, m_tx := \<lparr>m_queue = [uds_request m], m_stopped = False\<rparr>\<rparr>"
  have idle: "m_worker ?d" "ds_running ?d" "ds_pc ?d = WkSend" "m_tx ?d = queue_new" "m_rx ?d = queue_new"
    using assms(2) by (simp_all add: idle_model_def)
  obtain c1 r1 where s1: "gw_exec fuel ops env (GwStimulus (Received m)) g = Ok () \<lparr>gw_conn = c1, gw_model = ?d1\<rparr>"
    and c1: "m_state c1 = DoIPServerState.WaitDownstreamResponse"
    "trace c1 = trace (gw_conn g) @ forwarded m (diagnosticMessageResponse env (m_routedClientAddress (gw_conn g)) None) r1"
    "m_routedClientAddress c1 = m_routedClientAddress (gw_conn g)"
    "m_generalInactivityTimeout c1 = m_generalInactivityTimeout (gw_conn g)"
    using gw_message_step [OF assms(1) idle(4) assms(3,5,6)] .
  obtain rsp where rsp: "cbs = [rsp]" and s2: "worker_send ops ?d1 = Ok () (?d1\<lparr>m_tx := queue_new,
      m_rx := \<lparr>m_queue = [payload rsp], m_stopped = False\<rparr>, m_provider := p', ds_pc := WkReceive\<rparr>)" (is "_ = Ok () ?d2")
    using worker_send_one [of ?d1 "uds_request m" cbs p'] idle(5) assms(7) by auto
  obtain c2 r2 where s3: "gw_exec fuel ops env GwReceive \<lparr>gw_conn = c1, gw_model = ?d2\<rparr> =
      Ok () \<lparr>gw_conn = c2, gw_model = ?d2\<lparr>m_rx := queue_new, ds_pc := WkClear\<rparr>\<rparr>"
    and c2: "m_state c2 = DoIPServerState.RoutingActivated" "trace c2 = trace c1 @ [EvDownstreamResponse,
        EvSend (makeDiagnosticMessage (getServerAddress env) (m_routedClientAddress c1) (payload rsp)) r2]"
    by (rule gw_receive_step [of "\<lparr>gw_conn = c1, gw_model = ?d2\<rparr>" "payload rsp" fuel ops env]) (use c1 assms(4) in auto)
  let ?g = "\<lparr>gw_conn = c2, gw_model = ?d\<lparr>m_downstreamCallback := False, m_tx := queue_new,
      m_rx := queue_new, m_provider := p', ds_pc := WkSend\<rparr>\<rparr>"
  have "gw_run fuel ops env (GwStimulus (Received m) # worker_pass) g = Some ?g"
    using idle s1 s2 s3 by (simp add: worker_pass_def worker_clear_def del: gw_exec.simps(1,3))
  then show ?thesis
    using rsp c1 c2 idle by (intro exI [of _ ?g] exI [of _ rsp]) (auto simp: idle_model_def)
qed

end

section \<open>Properties\<close>

text \<open>
  (C9) The gateway answers: with an idle worker and a provider that returns, a diagnostic
  message of the registered client in state \<open>RoutingActivated\<close>, followed by one pass of the
  worker, leads to exactly this exchange: the message is shown to the application,
  acknowledged positively, forwarded once, and the provider's answer is sent to the client
  as a diagnostic message from the server's address; then connection and worker are as idle
  as before.  For the simulated ECU the answer is the one of its table.
\<close>

theorem gateway_round_trip:
  assumes "env_model env = downstream_model" and "idle_model (gw_model g)"
    and "m_provider (gw_model g) = udsMockProvider_new"
    and "m_state (gw_conn g) = DoIPServerState.RoutingActivated" and "m_generalInactivityTimeout (gw_conn g) \<noteq> 0"
    and "getPayloadType m = DoIPPayloadType.DiagnosticMessage"
    and "getSourceAddress m = Inr (Some (m_routedClientAddress (gw_conn g)))"
  shows "\<exists>g' r1 r2. gw_run fuel (uds_provider_ops t0 t1) env (GwStimulus (Received m) # worker_pass) g = Some g'
    \<and> m_state (gw_conn g') = DoIPServerState.RoutingActivated
    \<and> idle_model (gw_model g') \<and> m_provider (gw_model g') = udsMockProvider_new
    \<and> trace (gw_conn g') = trace (gw_conn g)
        @ [EvDiagnostic m, EvSend (diagnosticMessageResponse env (m_routedClientAddress (gw_conn g)) None) r1,
           EvAckSent None, EvDownstream m, EvDownstreamResponse,
           EvSend (makeDiagnosticMessage (getServerAddress env) (m_routedClientAddress (gw_conn g))
             (provider_answer (drop 12 (m_data m)))) r2]"
proof -
  have "pv_sendRequest (uds_provider_ops t0 t1) True (uds_request m) (m_provider (gw_model g)) =
     Ok [\<lparr>payload = provider_answer (uds_request m), status = DownstreamStatus.Handled, latency = latency_ms t0 t1\<rparr>]
       udsMockProvider_new"
    using assms(3) by (simp add: uds_provider_ops_def uds_sendRequest_def provider_p2 provider_answers)
  from uds.gateway_request_answered [OF assms(1,2,4-7) this, of fuel]
  show ?thesis by (auto simp: forwarded_def uds_request_def)
qed

text \<open>A gateway for the witnesses, on the mock transport, after a routing activation.\<close>

definition demo_gateway :: "(MockConnectionTransport, UdsMockProvider) gateway" where
  "demo_gateway = \<lparr>gw_conn = \<lparr>this_id = 1, m_transport = mock_new ''m'', m_timerManager = timerManager_new,
       m_routedClientAddress = 0x0E80, m_isOpen = True, m_closeReason = DoIPCloseReason.NoReason,
       m_state = DoIPServerState.RoutingActivated, m_aliveCheckRetry = 0, m_aliveCheckRetryCount = 1,
       m_initialInactivityTimeout = 2000, m_generalInactivityTimeout = 300000, m_aliveCheckTimeout = 500,
       m_downstreamResponseTimeout = 10000, m_isClosing = False, trace = []\<rparr>,
     gw_model = (downstreamModel_new udsMockProvider_new)\<lparr>m_worker := True\<rparr>\<rparr>"

lemma demo_gateway_fields [simp]:
  "idle_model (gw_model demo_gateway)" "m_provider (gw_model demo_gateway) = udsMockProvider_new"
  "m_state (gw_conn demo_gateway) = DoIPServerState.RoutingActivated"
  "m_generalInactivityTimeout (gw_conn demo_gateway) = 300000"
  "m_routedClientAddress (gw_conn demo_gateway) = 0x0E80" "trace (gw_conn demo_gateway) = []"
  by (simp_all add: demo_gateway_def idle_model_def downstreamModel_new_def)

theorem gateway_round_trip_witness:
  "\<exists>g' r. gw_run 2 (uds_provider_ops 0 0) (mk_env mock_ops downstream_model True 0)
      (GwStimulus (Received demo_diag) # worker_pass) demo_gateway = Some g'
    \<and> last (trace (gw_conn g')) = EvSend (makeDiagnosticMessage 0x0E00 0x0E80 [0x7E, 0]) r"
proof -
  have "m_data demo_diag = wire 3 0x8001 [0x0E, 0x80, 0x0E, 0x00, 0x3E, 0x00]"
    by (simp add: demo_diag_def makeDiagnosticMessage_def Let_def buildMessage_wire writeU16BE_def)
  then have "drop 12 (m_data demo_diag) = [0x3E, 0x00]"
    using drop_drop [of 4 8 "m_data demo_diag"] by simp
  moreover have "provider_answer [0x3E, 0x00] = [0x7E, 0]"
    by (simp add: provider_answer_def descriptor_eval service_cast_def req_in_range_def)
  moreover have "getServerAddress (mk_env mock_ops downstream_model True 0) = 0x0E00"
    by (simp add: getServerAddress_def downstream_model_def)
  ultimately show ?thesis
    using gateway_round_trip [of "mk_env mock_ops downstream_model True 0" demo_gateway demo_diag 2 0 0]
    by (auto simp: demo_diag_fields)
qed

lemma worker_send_answer:
  assumes "m_tx d = \<lparr>m_queue = [req], m_stopped = False\<rparr>" and "m_rx d = queue_new" and "m_provider d = udsMockProvider_new"
  shows "worker_send (uds_provider_ops t0 t1) d = Ok () (d\<lparr>m_tx := queue_new,
      m_rx := \<lparr>m_queue = [provider_answer req], m_stopped = False\<rparr>, ds_pc := WkReceive\<rparr>)"
  using assms by (simp add: worker_send_def uds_provider_ops_def uds_sendRequest_def provider_p2 provider_answers
      handleDownstreamResponse_def)

text \<open>
  (C29) The gateway can lose an answer.  After the callback has handed an answer to the
  connection the worker forgets the callback in a separate, unsynchronised step.  When the
  client's next diagnostic message arrives in between, the callback stored for it is
  forgotten with the old one: the next pass sends the second request, receives its answer
  and drops it.  The connection then waits in \<open>WaitDownstreamResponse\<close> with nothing queued,
  and stays there whatever the client sends and whatever the worker does.
\<close>

theorem gateway_answer_lost:
  assumes "env_model env = downstream_model" and "idle_model (gw_model g)"
    and "m_provider (gw_model g) = udsMockProvider_new"
    and "m_state (gw_conn g) = DoIPServerState.RoutingActivated" and "m_generalInactivityTimeout (gw_conn g) \<noteq> 0"
    and "getPayloadType m = DoIPPayloadType.DiagnosticMessage"
    and "getSourceAddress m = Inr (Some (m_routedClientAddress (gw_conn g)))"
  shows "\<exists>g'. gw_run fuel (uds_provider_ops t0 t1) env
        [GwStimulus (Received m), GwSend, GwReceive, GwStimulus (Received m), GwClear, GwSend, GwReceive] g = Some g'
    \<and> m_state (gw_conn g') = DoIPServerState.WaitDownstreamResponse
    \<and> m_tx (gw_model g') = queue_new \<and> m_rx (gw_model g') = queue_new \<and> ds_pc (gw_model g') = WkSend
    \<and> gw_run fuel (uds_provider_ops t0 t1) env [GwSend, GwReceive] g' = Some g'
    \<and> gw_exec fuel (uds_provider_ops t0 t1) env (GwStimulus (Received m')) g' = Ok () g'"
proof -
  let ?ops = "uds_provider_ops t0 t1" and ?d = "gw_model g"
  let ?d1 = "?d\<lparr>m_downstreamCallback := True, m_tx := \<lparr>m_queue = [uds_request m], m_stopped = False\<rparr>\<rparr>"
  let ?d2 = "?d\<lparr>m_downstreamCallback := True, m_tx := queue_new,
      m_rx := \<lparr>m_queue = [provider_answer (uds_request m)], m_stopped = False\<rparr>, ds_pc := WkReceive\<rparr>"
  have idle: "m_worker ?d" "ds_running ?d" "ds_pc ?d = WkSend" "m_tx ?d = queue_new" "m_rx ?d = queue_new"
    using assms(2) by (simp_all add: idle_model_def)
  obtain c1 r1 where s1: "gw_exec fuel ?ops env (GwStimulus (Received m)) g = Ok () \<lparr>gw_conn = c1, gw_model = ?d1\<rparr>"
    and c1: "m_state c1 = DoIPServerState.WaitDownstreamResponse"
    "m_routedClientAddress c1 = m_routedClientAddress (gw_conn g)"
    "m_generalInactivityTimeout c1 = m_generalInactivityTimeout (gw_conn g)"
    using gw_message_step [OF assms(1) idle(4) assms(4,6,7)] .
  obtain c2 where s3: "gw_exec fuel ?ops env GwReceive \<lparr>gw_conn = c1, gw_model = ?d2\<rparr> =
      Ok () \<lparr>gw_conn = c2, gw_model = ?d2\<lparr>m_rx := queue_new, ds_pc := WkClear\<rparr>\<rparr>"
    and c2: "m_state c2 = DoIPServerState.RoutingActivated" "m_routedClientAddress c2 = m_routedClientAddress c1"
    by (rule gw_receive_step [of "\<lparr>gw_conn = c1, gw_model = ?d2\<rparr>" "provider_answer (uds_request m)" fuel ?ops env])
      (use c1 assms(5) in auto)
  let ?g3 = "\<lparr>gw_conn = c2, gw_model = ?d2\<lparr>m_rx := queue_new, ds_pc := WkClear\<rparr>\<rparr>"
  obtain c3 where s4: "gw_exec fuel ?ops env (GwStimulus (Received m)) ?g3 = Ok () \<lparr>gw_conn = c3, gw_model =
       (gw_model ?g3)\<lparr>m_downstreamCallback := True, m_tx := \<lparr>m_queue = [uds_request m], m_stopped = False\<rparr>\<rparr>\<rparr>"
    and c3: "m_state c3 = DoIPServerState.WaitDownstreamResponse"
    by (rule gw_message_step [of env ?g3 m fuel ?ops]) (use c1 c2 assms in auto)
  let ?g = "\<lparr>gw_conn = c3, gw_model = ?d\<lparr>m_downstreamCallback := False, m_tx := queue_new, m_rx := queue_new,
      ds_pc := WkSend\<rparr>\<rparr>"
  have s7: "gw_exec fuel ?ops env GwReceive \<lparr>gw_conn = c3, gw_model = ?d\<lparr>m_downstreamCallback := False,
      m_tx := queue_new, m_rx := \<lparr>m_queue = [provider_answer (uds_request m)], m_stopped = False\<rparr>,
      ds_pc := WkReceive\<rparr>\<rparr> = Ok () ?g"
    by (simp add: worker_receive_def)
  have "gw_run fuel ?ops env
      [GwStimulus (Received m), GwSend, GwReceive, GwStimulus (Received m), GwClear, GwSend, GwReceive] g = Some ?g"
    using idle s1 s3 s4 s7 assms(3) by (simp add: worker_send_answer worker_clear_def del: gw_exec.simps(1,3))
  moreover have "gw_run fuel ?ops env [GwSend, GwReceive] ?g = Some ?g"
    using idle by (simp add: worker_send_def worker_receive_def)
  moreover have "gw_exec fuel ?ops env (GwStimulus (Received m')) ?g = Ok () ?g"
    using c3 by (simp add: handleMessage_def handleWaitDownstreamResponse_def gw_sync_def)
  ultimately show ?thesis using c3 by (intro exI [of _ ?g]) simp
qed

theorem gateway_answer_lost_witness:
  "\<exists>g'. gw_run 2 (uds_provider_ops 0 0) (mk_env mock_ops downstream_model True 0)
      [GwStimulus (Received demo_diag), GwSend, GwReceive, GwStimulus (Received demo_diag), GwClear, GwSend, GwReceive]
      demo_gateway = Some g' \<and> m_state (gw_conn g') = DoIPServerState.WaitDownstreamResponse"
  using gateway_answer_lost [of "mk_env mock_ops downstream_model True 0" demo_gateway demo_diag 2 0 0]
  by (auto simp: demo_diag_fields)


text \<open>A run of the gateway in which the application has seen a message.\<close>

lemma demo_gateway_new:
  "\<exists>c. connection_new (mk_env mock_ops downstream_model True 0) 1 (mock_new ''m'') timerManager_new 0 1 = Ok () c
     \<and> m_state c = DoIPServerState.WaitRoutingActivation \<and> m_generalInactivityTimeout c = 300000"
  by (simp add: connection_new_def downstream_model_def Let_def transitionTo_timed
      state_duration_def getTimerDuration_def emit_def mock_new_def)


end
