(* ===== verification/DoIP_Cli.thy ===== *)
theory DoIP_Cli
  imports DoIP_Server
begin

text \<open>
  The command line of the server (\<^verbatim>\<open>inc/cli/ServerConfigCLI.h\<close>,
  \<^verbatim>\<open>src/cli/ServerConfigCLI.cpp\<close>).  Splitting the arguments into options is the work of the
  CLI11 library: its result is a parameter, the option strings and numbers it stored, or
  \<open>None\<close> for a parse error.  What the repository does with them, including \<open>strtoul\<close> of the
  C library, is modelled in full.
\<close>

section \<open>Numbers in text (\<open>isxdigit\<close>, \<open>strtoul\<close>)\<close>

definition digit_val :: "nat \<Rightarrow> char \<Rightarrow> nat option" where
  "digit_val base c =
     (let n = of_char c :: nat;
          v = (if 48 \<le> n \<and> n \<le> 57 then Some (n - 48)
               else if 97 \<le> n \<and> n \<le> 122 then Some (n - 87)
               else if 65 \<le> n \<and> n \<le> 90 then Some (n - 55)
               else None)
      in case v of Some d \<Rightarrow> if d < base then Some d else None | None \<Rightarrow> None)"

definition isxdigit :: "char \<Rightarrow> bool" where
  "isxdigit c \<longleftrightarrow> digit_val 16 c \<noteq> None"

definition isspace :: "char \<Rightarrow> bool" where
  "isspace c \<longleftrightarrow> (let n = of_char c :: nat in n = 32 \<or> 9 \<le> n \<and> n \<le> 13)"

definition ULONG_MAX :: nat where
  "ULONG_MAX = 2 ^ 64 - 1"

text \<open>The value of the leading digits and what follows them.\<close>

fun digits_value :: "nat \<Rightarrow> string \<Rightarrow> nat \<Rightarrow> nat \<times> string" where
  "digits_value base [] acc = (acc, [])"
| "digits_value base (c # cs) acc =
     (case digit_val base c of
        Some d \<Rightarrow> digits_value base cs (acc * base + d)
      | None \<Rightarrow> (acc, c # cs))"

text \<open>
  \<open>strtoul\<close>: white space, a sign, with base 16 a prefix \<open>0x\<close> that digits follow, digits.  The
  result is the value and the text from \<open>end\<close> on; without digits \<open>end\<close> is the beginning.  A
  value out of range gives \<open>ULONG_MAX\<close>, a minus sign negates modulo \<open>2\<^sup>6\<^sup>4\<close>.
\<close>

definition strtoul :: "nat \<Rightarrow> string \<Rightarrow> nat \<times> string" where
  "strtoul base s =
     (let t = dropWhile isspace s;
          neg = (t \<noteq> [] \<and> hd t = CHR ''-'');
          t = (if t \<noteq> [] \<and> (hd t = CHR ''-'' \<or> hd t = CHR ''+'') then tl t else t);
          t = (if base = 16 \<and> length t > 2 \<and> t ! 0 = CHR ''0'' \<and> (t ! 1 = CHR ''x'' \<or> t ! 1 = CHR ''X'')
                  \<and> digit_val 16 (t ! 2) \<noteq> None then drop 2 t else t)
      in if t = [] \<or> digit_val base (hd t) = None then (0, s)
         else case digits_value base t 0 of (v, rest) \<Rightarrow>
           (if v > ULONG_MAX then ULONG_MAX else if neg then (2 ^ 64 - v) mod 2 ^ 64 else v, rest))"

section \<open>The options\<close>

record CliOptions =
  m_vinStr :: string
  m_eidHex :: string
  m_gidHex :: string
  m_logicalStr :: string
  cli_loopback :: bool
  cli_daemonize :: bool
  m_announceCount :: int
  m_announceInterval :: u32

text \<open>The members before parsing, and the validators attached to the options.\<close>

definition cli_defaults :: CliOptions where
  "cli_defaults = \<lparr>m_vinStr = [], m_eidHex = [], m_gidHex = [], m_logicalStr = ''0x28'', cli_loopback = False,
     cli_daemonize = False, m_announceCount = 3, m_announceInterval = 500\<rparr>"

definition vinlen :: "string \<Rightarrow> string" where
  "vinlen s = (if length s = 17 then [] else ''VIN must be 17 chars'')"

definition eidlen :: "string \<Rightarrow> string" where
  "eidlen s = (if length s = 12 then [] else ''EID must be 12 hex chars'')"

definition gidlen :: "string \<Rightarrow> string" where
  "gidlen s = (if length s = 12 then [] else ''GID must be 12 hex chars'')"

definition parseHexBytes12 :: "string \<Rightarrow> u8 list option" where
  "parseHexBytes12 s =
     (if length s \<noteq> 12 then None
      else if \<not> list_all isxdigit s then None
      else Some (map (\<lambda>i. let byte = fst (strtoul 16 (take 2 (drop (i * 2) s))) in word_of_nat byte AND 0xFF) [0..<6]))"

definition parse_id :: "string \<Rightarrow> fixed_id \<Rightarrow> string \<Rightarrow> fixed_id res" where
  "parse_id hex dflt what =
     (if hex = [] then Inr dflt
      else case parseHexBytes12 hex of
             None \<Rightarrow> Inl (RuntimeError what)
           | Some b \<Rightarrow> id_from_bytes eid_type (Some b) 6)"

definition parse_logical :: "string \<Rightarrow> nat res" where
  "parse_logical s =
     (if length s > 2 \<and> s ! 0 = CHR ''0'' \<and> (s ! 1 = CHR ''x'' \<or> s ! 1 = CHR ''X'') then
        (let hex = drop 2 s in
         if hex = [] then Inl (RuntimeError ''Invalid logical-address: empty hex after 0x'')
         else if \<not> list_all isxdigit hex then Inl (RuntimeError ''Invalid logical-address: non-hex digit present'')
         else case strtoul 16 hex of (la, end) \<Rightarrow>
           if end \<noteq> [] then Inl (RuntimeError ''Invalid logical-address: partial parse'') else Inr la)
      else
        case strtoul 10 s of (la, end) \<Rightarrow>
          if end \<noteq> [] then Inl (RuntimeError ''Invalid logical-address: partial parse'') else Inr la)"

definition build_config :: "CliOptions \<Rightarrow> ServerConfig res" where
  "build_config cli =
     (let cfg = DefaultServerConfig\<lparr>cfg_loopback := cli_loopback cli, cfg_daemonize := cli_daemonize cli,
                  cfg_announceCount := m_announceCount cli, cfg_announceInterval := m_announceInterval cli\<rparr>;
          cfg = (if m_vinStr cli \<noteq> [] then cfg\<lparr>cfg_vin := vin_from_string (m_vinStr cli)\<rparr> else cfg)
      in rbind (parse_id (m_eidHex cli) (cfg_eid cfg) ''Invalid EID: must be 12 hex chars'') (\<lambda>eid.
         rbind (parse_id (m_gidHex cli) (cfg_gid cfg) ''Invalid GID: must be 12 hex chars'') (\<lambda>gid.
         rbind (parse_logical (m_logicalStr cli)) (\<lambda>la.
           Inr (cfg\<lparr>cfg_eid := eid, cfg_gid := gid, cfg_logicalAddress := word_of_nat la AND 0xFFFF\<rparr>)))))"

text \<open>\<open>parse\<close> is CLI11 on the configured options, started with the members' defaults.\<close>

definition parse_and_build :: "(CliOptions \<Rightarrow> string list \<Rightarrow> CliOptions option) \<Rightarrow> string list \<Rightarrow> ServerConfig res" where
  "parse_and_build parse argv =
     (case parse cli_defaults argv of
        None \<Rightarrow> Inl (RuntimeError ''CLI parse error'')
      | Some cli \<Rightarrow> build_config cli)"

section \<open>Digits\<close>

definition num_value :: "nat \<Rightarrow> nat list \<Rightarrow> nat" where
  "num_value base ds = foldl (\<lambda>a d. a * base + d) 0 ds"

lemma digit_val_hex: "d < base \<Longrightarrow> base \<le> 16 \<Longrightarrow> digit_val base (hex_digit d) = Some d"
  by (auto simp: digit_val_def hex_digit_def Let_def)

lemma hex_digit_plain:
  assumes "d < 16"
  shows "\<not> isspace (hex_digit d)" "hex_digit d \<noteq> CHR ''-''" "hex_digit d \<noteq> CHR ''+''"
    "hex_digit d \<noteq> CHR ''x''" "hex_digit d \<noteq> CHR ''X''"
proof -
  have "of_char (hex_digit d) \<in> {48..70 :: nat}" using assms by (auto simp: hex_digit_def)
  then show "\<not> isspace (hex_digit d)" by (auto simp: isspace_def Let_def)
  have "of_char (hex_digit d) \<noteq> (of_char c :: nat)" if "of_char c < (48 :: nat) \<or> 70 < (of_char c :: nat)" for c
    using \<open>of_char (hex_digit d) \<in> {48..70 :: nat}\<close> that by auto
  from this [of "CHR ''-''"] this [of "CHR ''+''"] this [of "CHR ''x''"] this [of "CHR ''X''"]
  show "hex_digit d \<noteq> CHR ''-''" "hex_digit d \<noteq> CHR ''+''" "hex_digit d \<noteq> CHR ''x''" "hex_digit d \<noteq> CHR ''X''"
    by auto
qed

lemma digits_value_hex:
  assumes "base \<le> 16" and "\<forall>d \<in> set ds. d < base"
  shows "digits_value base (map hex_digit ds) acc = (foldl (\<lambda>a d. a * base + d) acc ds, [])"
  using assms(2) by (induction ds arbitrary: acc) (simp_all add: digit_val_hex assms(1))

lemma strtoul_digits:
  assumes "base = 10 \<or> base = 16" and "ds \<noteq> []" and "\<forall>d \<in> set ds. d < base"
  shows "strtoul base (map hex_digit ds) = (min (num_value base ds) ULONG_MAX, [])"
proof -
  obtain d ds' where ds: "ds = d # ds'" using assms(2) by (cases ds) auto
  have b: "base \<le> 16" using assms(1) by auto
  have d: "d < 16" "d < base" using assms(3) ds b by auto
  have x: "map hex_digit ds ! 1 \<noteq> CHR ''x'' \<and> map hex_digit ds ! 1 \<noteq> CHR ''X''" if "length ds > 2"
  proof -
    have "ds ! 1 \<in> set ds" using that by simp
    with assms(3) b have "ds ! 1 < 16" by fastforce
    with hex_digit_plain(4,5) [of "ds ! 1"] that show ?thesis by simp
  qed
  have v: "digits_value base (map hex_digit ds) 0 = (num_value base ds, [])"
    using digits_value_hex [OF b assms(3), of 0] by (simp add: num_value_def)
  have h: "dropWhile isspace (map hex_digit ds) = map hex_digit ds" "hd (map hex_digit ds) = hex_digit d"
    using hex_digit_plain(1) [OF d(1)] by (simp_all add: ds)
  show ?thesis
    unfolding strtoul_def h Let_def
    using x v hex_digit_plain(2,3) [OF d(1)] digit_val_hex [OF d(2) b] assms(2)
    by (auto simp: h min_def ULONG_MAX_def)
qed

lemma show_nat_digits:
  "\<exists>ds. show_nat n = map hex_digit ds \<and> ds \<noteq> [] \<and> (\<forall>d \<in> set ds. d < 10) \<and> num_value 10 ds = n"
proof (induction n rule: show_nat.induct)
  case (1 n)
  show ?case
  proof (cases "n < 10")
    case True
    then have "show_nat n = map hex_digit [n]" by (subst show_nat.simps) (simp add: hex_digit_def)
    with True show ?thesis by (intro exI [of _ "[n]"]) (simp add: num_value_def)
  next
    case False
    from 1 [OF this] obtain ds where "show_nat (n div 10) = map hex_digit ds" "ds \<noteq> []" "\<forall>d \<in> set ds. d < 10"
      "num_value 10 ds = n div 10" by blast
    moreover from this False have "show_nat n = map hex_digit (ds @ [n mod 10])"
      by (subst show_nat.simps) (simp add: hex_digit_def)
    ultimately show ?thesis by (intro exI [of _ "ds @ [n mod 10]"]) (auto simp: num_value_def)
  qed
qed

text \<open>Hexadecimal text of a number, as the option accepts it.\<close>

fun show_hex :: "nat \<Rightarrow> string" where
  "show_hex n = (if n < 16 then [hex_digit n] else show_hex (n div 16) @ [hex_digit (n mod 16)])"

declare show_hex.simps [simp del]

lemma show_hex_digits:
  "\<exists>ds. show_hex n = map hex_digit ds \<and> ds \<noteq> [] \<and> (\<forall>d \<in> set ds. d < 16) \<and> num_value 16 ds = n"
proof (induction n rule: show_hex.induct)
  case (1 n)
  show ?case
  proof (cases "n < 16")
    case True
    then show ?thesis by (intro exI [of _ "[n]"]) (subst show_hex.simps, simp add: num_value_def)
  next
    case False
    from 1 [OF this] obtain ds where "show_hex (n div 16) = map hex_digit ds" "ds \<noteq> []" "\<forall>d \<in> set ds. d < 16"
      "num_value 16 ds = n div 16" by blast
    moreover from this False have "show_hex n = map hex_digit (ds @ [n mod 16])"
      by (subst show_hex.simps) simp
    ultimately show ?thesis by (intro exI [of _ "ds @ [n mod 16]"]) (auto simp: num_value_def)
  qed
qed

lemma isxdigit_hex: "d < 16 \<Longrightarrow> isxdigit (hex_digit d)"
  by (simp add: isxdigit_def digit_val_hex)

lemma parse_logical_dec: "parse_logical (show_nat n) = Inr (min n ULONG_MAX)"
proof -
  obtain ds where ds: "show_nat n = map hex_digit ds" "ds \<noteq> []" "\<forall>d \<in> set ds. d < 10" "num_value 10 ds = n"
    using show_nat_digits by blast
  have x: "map hex_digit ds ! 1 \<noteq> CHR ''x'' \<and> map hex_digit ds ! 1 \<noteq> CHR ''X''" if "length ds > 2"
  proof -
    have "ds ! 1 \<in> set ds" using that by simp
    with ds(3) have "ds ! 1 < 16" by fastforce
    with hex_digit_plain(4,5) [of "ds ! 1"] that show ?thesis by simp
  qed
  have "strtoul 10 (map hex_digit ds) = (min n ULONG_MAX, [])" using strtoul_digits [of 10 ds] ds by simp
  with x show ?thesis unfolding ds(1) parse_logical_def by auto
qed

lemma parse_logical_hex: "parse_logical (''0x'' @ show_hex n) = Inr (min n ULONG_MAX)"
proof -
  obtain ds where ds: "show_hex n = map hex_digit ds" "ds \<noteq> []" "\<forall>d \<in> set ds. d < 16" "num_value 16 ds = n"
    using show_hex_digits by blast
  have "list_all isxdigit (map hex_digit ds)" using ds(3) by (simp add: list_all_iff isxdigit_hex)
  moreover have "strtoul 16 (map hex_digit ds) = (min n ULONG_MAX, [])" using strtoul_digits [of 16 ds] ds by simp
  ultimately show ?thesis unfolding ds(1) parse_logical_def using ds(2) by simp
qed

section \<open>Six bytes\<close>

lemma digit_val_cases:
  assumes "digit_val 16 c = Some d"
  shows "d < 16 \<and> toupper c = hex_digit d"
proof -
  have c: "c = char_of (of_char c :: nat)" by simp
  show ?thesis
    using assms unfolding digit_val_def Let_def
    by (auto simp: toupper_def hex_digit_def less_eq_char_def split: if_splits)
qed

lemma xdigit_plain:
  assumes "isxdigit c" shows "\<not> isspace c" "c \<noteq> CHR ''-''" "c \<noteq> CHR ''+''"
  using assms by (auto simp: isxdigit_def digit_val_def isspace_def Let_def split: if_splits)

lemma strtoul_pair:
  assumes "digit_val 16 a = Some x" and "digit_val 16 b = Some y"
  shows "strtoul 16 [a, b] = (x * 16 + y, [])"
proof -
  have "isxdigit a" using assms(1) by (simp add: isxdigit_def)
  note p = xdigit_plain [OF this]
  have "x < 16" "y < 16" using digit_val_cases assms by blast+
  then show ?thesis using p assms by (simp add: strtoul_def Let_def ULONG_MAX_def)
qed

lemma hex_byte_pair:
  assumes "x < 16" and "y < 16"
  shows "hex_byte (word_of_nat (x * 16 + y)) = [hex_digit x, hex_digit y]"
proof -
  have "unat (word_of_nat k :: u8) = k" if "k < 256" for k using that by (simp add: unat_of_nat)
  from this [of "x * 16 + y"] assms have "unat (word_of_nat (x * 16 + y) :: u8) = x * 16 + y" by linarith
  then show ?thesis using assms by (simp add: hex_byte_def del: of_nat_add of_nat_mult)
qed

lemma hex_pair_value:
  assumes "isxdigit a" and "isxdigit b"
  shows "hex_byte (word_of_nat (fst (strtoul 16 [a, b]))) = [toupper a, toupper b]"
proof -
  obtain x y where d: "digit_val 16 a = Some x" "digit_val 16 b = Some y" using assms by (auto simp: isxdigit_def)
  with digit_val_cases [OF d(1)] digit_val_cases [OF d(2)] show ?thesis
    by (simp add: strtoul_pair hex_byte_pair del: of_nat_add of_nat_mult)
qed

lemma mask_full: "(w :: u8) AND 0xFF = w" "(x :: u16) AND 0xFFFF = x"
proof -
  have "(0xFF :: u8) = - 1" "(0xFFFF :: u16) = - 1" by simp_all
  then show "(w :: u8) AND 0xFF = w" "(x :: u16) AND 0xFFFF = x" by (metis and.right_neutral)+
qed

lemma high_nibble: "unat (w :: u8) div 16 < 16"
  by (rule less_mult_imp_div_less) simp

lemma parseHexBytes12_some:
  assumes "length s = 12" and "list_all isxdigit s"
  shows "\<exists>bs. parseHexBytes12 s = Some bs \<and> length bs = 6 \<and> concat (map hex_byte bs) = map toupper s"
proof -
  obtain a b c d e f g h i j k l where s: "s = [a, b, c, d, e, f, g, h, i, j, k, l]"
    using assms(1) by (auto simp: eval_nat_numeral length_Suc_conv)
  have r: "[0..<6] = [0, 1, 2, 3, 4, 5 :: nat]" by (simp add: upt_rec)
  show ?thesis using assms(2) unfolding s parseHexBytes12_def r
    by (simp add: Let_def mask_full hex_pair_value)
qed

lemma hex_byte_inj: "hex_byte b = hex_byte b' \<Longrightarrow> b = b'"
proof -
  assume e: "hex_byte b = hex_byte b'"
  have v: "digit_val 16 (hex_digit (unat w div 16)) = Some (unat w div 16)"
    "digit_val 16 (hex_digit (unat w mod 16)) = Some (unat w mod 16)" for w :: u8
    by (auto intro!: digit_val_hex high_nibble)
  from e have a: "hex_digit (unat b div 16) = hex_digit (unat b' div 16)" "hex_digit (unat b mod 16) = hex_digit (unat b' mod 16)"
    unfolding hex_byte_def list.inject by blast+
  from v [of b, unfolded a] v [of b'] have "unat b div 16 = unat b' div 16" "unat b mod 16 = unat b' mod 16" by simp_all
  then have "unat b = unat b'" by (metis div_mult_mod_eq)
  then show "b = b'" by (rule word_unat_eq_iff [THEN iffD2])
qed

lemma hex_bytes_inj: "concat (map hex_byte bs) = concat (map hex_byte bs') \<Longrightarrow> bs = bs'"
proof (induction bs arbitrary: bs')
  case Nil
  then show ?case by (cases bs') (simp_all add: hex_byte_def)
next
  case (Cons b bs)
  then obtain b' bs'' where "bs' = b' # bs''" by (cases bs') (simp_all add: hex_byte_def)
  with Cons show ?case by (auto simp: hex_byte_def intro: hex_byte_inj [unfolded hex_byte_def])
qed

lemma toupper_hex: "toupper (hex_digit d) = hex_digit d" if "d < 16"
  using digit_val_cases [OF digit_val_hex [OF that order_refl]] by simp

lemma hex_bytes_digits:
  "list_all isxdigit (concat (map hex_byte bs)) \<and> map toupper (concat (map hex_byte bs)) = concat (map hex_byte bs)
   \<and> length (concat (map hex_byte bs)) = 2 * length bs"
proof (induction bs)
  case (Cons b bs)
  with high_nibble [of b] show ?case by (simp add: hex_byte_def isxdigit_hex toupper_hex)
qed simp

lemma parseHexBytes12_hex: "length bs = 6 \<Longrightarrow> parseHexBytes12 (concat (map hex_byte bs)) = Some bs"
  using parseHexBytes12_some [of "concat (map hex_byte bs)"] hex_bytes_digits [of bs] hex_bytes_inj by auto

lemma parse_id_bad:
  assumes "bad \<noteq> []"
  shows "parse_id bad dflt what = Inl (RuntimeError what) \<longleftrightarrow> \<not> (length bad = 12 \<and> list_all isxdigit bad)"
proof (cases "length bad = 12 \<and> list_all isxdigit bad")
  case True
  with parseHexBytes12_some obtain bs where "parseHexBytes12 bad = Some bs" "length bs = 6" by blast
  with assms True show ?thesis by (simp add: parse_id_def id_from_bytes_eq)
next
  case False
  then have "parseHexBytes12 bad = None" by (auto simp: parseHexBytes12_def)
  with assms False show ?thesis by (simp add: parse_id_def)
qed

lemma parse_id_hex: "length e = 6 \<Longrightarrow> parse_id (concat (map hex_byte e)) dflt what = Inr e"
proof -
  assume l: "length e = 6"
  then have "concat (map hex_byte e) \<noteq> []" using hex_bytes_digits [of e] by fastforce
  then show ?thesis using l
    unfolding parse_id_def parseHexBytes12_hex [OF l]
    by (simp add: id_from_bytes_eq id_from_byteArray_eq eid_type_def del: concat_eq_Nil_conv)
qed

lemma build_config_bad_eid:
  assumes "m_eidHex cli \<noteq> []" and "\<not> (length (m_eidHex cli) = 12 \<and> list_all isxdigit (m_eidHex cli))"
  shows "build_config cli = Inl (RuntimeError ''Invalid EID: must be 12 hex chars'')"
  using parse_id_bad [OF assms(1)] assms(2) by (simp add: build_config_def Let_def)

section \<open>Properties\<close>

text \<open>
  (C28) The command line carries a configuration.  From the VIN as text, the EID and GID as
  twelve hexadecimal digits and the logical address as decimal or as hexadecimal number
  below \<open>2\<^sup>1\<^sup>6\<close>, \<open>parse_and_build\<close> makes the configuration with exactly these values, the EID and
  GID byte for byte.  An EID of twelve characters that are not all hexadecimal digits, which
  the length check of the option lets pass, is refused.
\<close>

theorem cli_builds_config:
  assumes "length e = 6" and "length g = 6" and "n < 2 ^ 16" and "v \<noteq> []"
    and "parse cli_defaults argv = Some cli"
    and "cli = \<lparr>m_vinStr = v, m_eidHex = eidText, m_gidHex = concat (map hex_byte g),
      m_logicalStr = laText, cli_loopback = lb, cli_daemonize = dm, m_announceCount = cnt, m_announceInterval = iv\<rparr>"
    and "laText = show_nat n \<or> laText = ''0x'' @ show_hex n"
  shows "(eidText = concat (map hex_byte e) \<longrightarrow> parse_and_build parse argv = Inr \<lparr>cfg_eid = e, cfg_gid = g,
      cfg_vin = vin_from_string v, cfg_logicalAddress = word_of_nat n, cfg_loopback = lb, cfg_daemonize = dm,
      cfg_announceCount = cnt, cfg_announceInterval = iv\<rparr>)
    \<and> (eidlen eidText = [] \<and> \<not> list_all isxdigit eidText \<longrightarrow>
        parse_and_build parse argv = Inl (RuntimeError ''Invalid EID: must be 12 hex chars''))"
proof (intro conjI impI)
  have l: "parse_logical laText = Inr n"
    using assms(3,7) parse_logical_dec [of n] parse_logical_hex [of n] by (auto simp: ULONG_MAX_def)
  assume "eidText = concat (map hex_byte e)"
  then show "parse_and_build parse argv = Inr \<lparr>cfg_eid = e, cfg_gid = g, cfg_vin = vin_from_string v,
      cfg_logicalAddress = word_of_nat n, cfg_loopback = lb, cfg_daemonize = dm, cfg_announceCount = cnt,
      cfg_announceInterval = iv\<rparr>"
    using assms(4) unfolding parse_and_build_def assms(5) option.case assms(6)
    by (simp add: build_config_def Let_def parse_id_hex assms(1,2) l mask_full DefaultServerConfig_def)
next
  assume "eidlen eidText = [] \<and> \<not> list_all isxdigit eidText"
  then have "m_eidHex cli \<noteq> []" "\<not> (length (m_eidHex cli) = 12 \<and> list_all isxdigit (m_eidHex cli))"
    using assms(6) by (auto simp: eidlen_def split: if_splits)
  from build_config_bad_eid [OF this] show "parse_and_build parse argv = Inl (RuntimeError ''Invalid EID: must be 12 hex chars'')"
    by (simp add: parse_and_build_def assms(5))
qed

theorem cli_builds_config_witness:
  "parse_and_build (\<lambda>_ _. Some \<lparr>m_vinStr = ''WVW'', m_eidHex = concat (map hex_byte [1, 2, 3, 4, 5, 0xFE]),
     m_gidHex = concat (map hex_byte [0, 0, 0, 0, 0, 9]), m_logicalStr = show_nat 4660, cli_loopback = True,
     cli_daemonize = False, m_announceCount = 1, m_announceInterval = 20\<rparr>) [] =
   Inr \<lparr>cfg_eid = [1, 2, 3, 4, 5, 0xFE], cfg_gid = [0, 0, 0, 0, 0, 9], cfg_vin = vin_from_string ''WVW'',
     cfg_logicalAddress = 0x1234, cfg_loopback = True, cfg_daemonize = False, cfg_announceCount = 1,
     cfg_announceInterval = 20\<rparr>"
  using cli_builds_config [of "[1, 2, 3, 4, 5, 0xFE]" "[0, 0, 0, 0, 0, 9]" 4660 "''WVW''" "\<lambda>_ _. Some \<lparr>m_vinStr = ''WVW'',
     m_eidHex = concat (map hex_byte [1, 2, 3, 4, 5, 0xFE]),
     m_gidHex = concat (map hex_byte [0, 0, 0, 0, 0, 9]), m_logicalStr = show_nat 4660, cli_loopback = True,
     cli_daemonize = False, m_announceCount = 1, m_announceInterval = 20\<rparr>" "[]", OF _ _ _ _ refl refl, OF _ _ _ _ disjI1, OF _ _ _ _ refl]
  by simp

text \<open>
  Logical addresses are not checked for their range.  The decimal text of any number is
  accepted; up to \<open>2\<^sup>6\<^sup>4\<close> its low 16 bits are taken, beyond that the address is \<open>0xFFFF\<close>.  An
  empty text is the address zero, which the remark on strict validation excludes, and a
  negative number is accepted too.
\<close>

lemma cli_logical_address_unchecked:
  "build_config (cli_defaults\<lparr>m_logicalStr := show_nat n\<rparr>) =
     Inr (DefaultServerConfig\<lparr>cfg_logicalAddress := if n < 2 ^ 64 then word_of_nat n else 0xFFFF\<rparr>)
   \<and> build_config (cli_defaults\<lparr>m_logicalStr := []\<rparr>) = Inr (DefaultServerConfig\<lparr>cfg_logicalAddress := 0\<rparr>)
   \<and> build_config (cli_defaults\<lparr>m_logicalStr := ''-1''\<rparr>) = Inr (DefaultServerConfig\<lparr>cfg_logicalAddress := 0xFFFF\<rparr>)"
proof -
  have b: "build_config (cli_defaults\<lparr>m_logicalStr := t\<rparr>) = Inr (DefaultServerConfig\<lparr>cfg_logicalAddress := word_of_nat la\<rparr>)"
    if "parse_logical t = Inr la" for t la
    using that by (simp add: build_config_def cli_defaults_def Let_def parse_id_def mask_full DefaultServerConfig_def)
  have m: "word_of_nat ULONG_MAX = (0xFFFF :: u16)" by (simp add: ULONG_MAX_def)
  have e: "parse_logical [] = Inr 0" "parse_logical ''-1'' = Inr ULONG_MAX"
    by (simp_all add: parse_logical_def strtoul_def isspace_def digit_val_def ULONG_MAX_def Let_def)
  have "word_of_nat (min n ULONG_MAX) = (if n < 2 ^ 64 then word_of_nat n else (0xFFFF :: u16))"
  proof (cases "n < 2 ^ 64")
    case True
    then have "min n ULONG_MAX = n" by (simp add: ULONG_MAX_def)
    with True show ?thesis by simp
  next
    case False
    then have "min n ULONG_MAX = ULONG_MAX" by (simp add: ULONG_MAX_def)
    with False m show ?thesis by (simp only: if_False)
  qed
  then show ?thesis
    unfolding b [OF e(1)] b [OF e(2)] b [OF parse_logical_dec [of n]] m by simp
qed

end
