(* ===== verification/DoIP_Example.thy ===== *)
theory DoIP_Example
  imports DoIP_Gateway DoIP_Cli DoIP_Settings
begin

text \<open>
  The example server (\<^verbatim>\<open>examples/socket-can\<close>): a gateway to a CAN bus, configured from the
  command line, that accepts connections in a loop of its own beside the listener of the
  server.  The connection's callbacks are those of the gateway model; its worker and provider
  are modelled in \<open>DoIP_Gateway\<close> and \<open>DoIP_Downstream\<close>.
\<close>

section \<open>CanIsoTpServerModel.h\<close>

definition interfaceName :: string where "interfaceName = ''vcan0''"

definition tx_address :: u32 where "tx_address = 0x98DA28F2"

definition rx_address :: u32 where "rx_address = 0x98DAF228"

definition canIsoTpServerModel_new ::
  "string \<Rightarrow> u32 \<Rightarrow> u32 \<Rightarrow> 'n \<Rightarrow> 'n CanIsoTpProvider DoIPDownstreamServerModel" where
  "canIsoTpServerModel_new interface tx rx n = downstreamModel_new (can_new interface tx rx None n)"

section \<open>DoIPCanIsoTpServer.cpp\<close>

definition isSocketActive :: "'t connection \<Rightarrow> bool" where
  "isSocketActive c = m_isOpen c"

text \<open>
  The inner loop of \<open>listenTcp\<close>; \<open>clock i\<close> is the reading of the clock in round \<open>i\<close>.  A loop that
  never ends, or a call in it that blocks forever, is \<open>None\<close>.
\<close>

partial_function (option) serve_loop ::
  "nat \<Rightarrow> 't transport_ops \<Rightarrow> 't DoIPServerModel \<Rightarrow> (nat \<Rightarrow> int) \<Rightarrow> nat \<Rightarrow> 't connection
     \<Rightarrow> (unit, 't connection) outcome option" where
  "serve_loop fuel tp model clock i c =
     (if isSocketActive c then
        (case receiveMessage fuel (mk_env tp model True (clock i)) c of
           Ok _ c \<Rightarrow> serve_loop fuel tp model clock (i + 1) c
         | Throw e c \<Rightarrow> Some (Throw e c)
         | NoReturn \<Rightarrow> None)
      else Some (Ok () c))"

text \<open>
  One round of the outer loop: the pointer that \<open>waitForTcpConnection\<close> returns is used without
  a test, so that a null pointer is dereferenced.
\<close>

definition listenTcp_round ::
  "nat \<Rightarrow> ('s, 't) server_ops \<Rightarrow> 't transport_ops \<Rightarrow> (nat \<Rightarrow> int) \<Rightarrow> nat \<Rightarrow> DoIPAddress \<Rightarrow> u8
     \<Rightarrow> ('s, 't) DoIPServer \<Rightarrow> (unit, ('s, 't) DoIPServer) outcome" where
  "listenTcp_round fuel ops tp clock this client retries srv =
     obind (waitForTcpConnection ops tp (clock 0) this client retries (Some (\<lambda>_. downstream_model)) srv) (\<lambda>conn srv.
       case conn of
         None \<Rightarrow> Throw UndefinedRead srv
       | Some (c, model) \<Rightarrow>
           (case serve_loop fuel tp model clock 1 c of
              None \<Rightarrow> NoReturn
            | Some (Ok _ c) \<Rightarrow> Ok () (srv\<lparr>m_TimerManager := m_timerManager c\<rparr>)
            | Some (Throw e c) \<Rightarrow> Throw e srv
            | Some NoReturn \<Rightarrow> NoReturn))"

text \<open>\<open>main\<close> up to the start of the loops: an exit code, or the running server.\<close>

definition example_main ::
  "(CliOptions \<Rightarrow> string list \<Rightarrow> CliOptions option) \<Rightarrow> ('s, 't) server_ops \<Rightarrow> (bool \<Rightarrow> 's) \<Rightarrow> string list
     \<Rightarrow> int + ('s, 't) DoIPServer" where
  "example_main parse ops mk_transport argv =
     (case parse_and_build parse argv of
        Inl e \<Rightarrow> Inl 1
      | Inr cfg \<Rightarrow>
          (case setupTcpSocket ops (Some (\<lambda>_. downstream_model)) (server_new mk_transport cfg) of (ok, srv) \<Rightarrow>
             if \<not> ok then Inl 1 else Inr srv))"

text \<open>
  The rest of \<open>main\<close> and the thread it started: \<open>main\<close> sleeps while the server is running, then joins
  the thread and returns; the thread runs one round of \<open>listenTcp\<close> after the other.  An exception that
  leaves the thread, or undefined behaviour in it, ends the process.
\<close>

datatype main_at = MainSleeps | MainJoins | MainReturned int

datatype listener_at = Listening | ListenerReturned | ProcessDied cxx_error

record ('s, 't) example_state =
  ex_server :: "('s, 't) DoIPServer"
  ex_main :: main_at
  ex_listener :: listener_at

definition main_step :: "('s, 't) example_state \<Rightarrow> ('s, 't) example_state" where
  "main_step st =
     (case ex_main st of
        MainSleeps \<Rightarrow> if isRunning (ex_server st) then st else st\<lparr>ex_main := MainJoins\<rparr>
      | MainJoins \<Rightarrow> if ex_listener st = ListenerReturned then st\<lparr>ex_main := MainReturned 0\<rparr> else st
      | MainReturned code \<Rightarrow> st)"

inductive example_step ::
  "nat \<Rightarrow> ('s, 't) server_ops \<Rightarrow> 't transport_ops \<Rightarrow> u8 \<Rightarrow> ('s, 't) example_state \<Rightarrow> ('s, 't) example_state \<Rightarrow> bool"
  for fuel :: nat and ops :: "('s, 't) server_ops" and tp :: "'t transport_ops" and retries :: u8 where
  main: "(\<forall>e. ex_listener st \<noteq> ProcessDied e) \<Longrightarrow> example_step fuel ops tp retries st (main_step st)"
| served: "ex_listener st = Listening \<Longrightarrow>
     listenTcp_round fuel ops tp clock this client retries (ex_server st) = Ok () srv \<Longrightarrow>
     example_step fuel ops tp retries st (st\<lparr>ex_server := srv\<rparr>)"
| died: "ex_listener st = Listening \<Longrightarrow>
     listenTcp_round fuel ops tp clock this client retries (ex_server st) = Throw e srv \<Longrightarrow>
     example_step fuel ops tp retries st (st\<lparr>ex_server := srv, ex_listener := ProcessDied e\<rparr>)"

section \<open>Behaviour\<close>

text \<open>
  The socket of the server does not block: when no client is waiting, \<open>accept\<close> fails at once,
  there is no connection, and the example dereferences a null pointer in its first round.
\<close>

lemma example_null_pointer:
  assumes "m_tcpRunning srv" and "st_acceptConnection ops (srv_transport srv) = (None, s')"
  shows "listenTcp_round fuel ops tp clock this client retries srv = Throw UndefinedRead (srv\<lparr>srv_transport := s'\<rparr>)"
  using assms by (simp add: listenTcp_round_def waitForTcpConnection_def acceptTcpConnection_def Let_def)

lemma example_crashes_without_client:
  assumes "example_main parse (ts_ops os io mtu) (\<lambda>l. ts_new l n) argv = Inr srv"
    and "\<And>fd n. fst (px_accept os fd n) < 0"
  shows "\<exists>srv'. listenTcp_round fuel (ts_ops os io mtu) tp clock this client retries srv = Throw UndefinedRead srv'"
proof -
  have r: "m_tcpRunning srv"
    using assms(1) by (auto simp: example_main_def setupTcpSocket_def Let_def split: sum.splits prod.splits if_splits)
  let ?s = "srv_transport srv"
  have "fst (ts_acceptSocket os ?s) = None"
    using assms(2) [of "m_tcpServerSocket ?s" "ts_net ?s"]
    by (cases "px_accept os (m_tcpServerSocket ?s) (ts_net ?s)") (simp add: ts_acceptSocket_def)
  then obtain s' where "st_acceptConnection (ts_ops os io mtu) ?s = (None, s')"
    by (cases "ts_acceptSocket os ?s") (simp add: ts_ops_def ts_acceptConnection_def)
  from example_null_pointer [OF r this] show ?thesis by blast
qed

text \<open>A bad command line ends the program with code 1 before anything is opened.\<close>

lemma example_bad_arguments:
  "parse cli_defaults argv = None \<Longrightarrow> example_main parse ops mk argv = Inl 1"
  by (simp add: example_main_def parse_and_build_def)

text \<open>
  Only the TCP side is set up, so \<open>isRunning\<close> is false from the start and \<open>main\<close> joins at once;
  the thread never returns, so neither does \<open>main\<close>: the program ends only by dying.
\<close>

lemma example_not_running: "example_main parse ops mk argv = Inr srv \<Longrightarrow> \<not> isRunning srv"
  by (auto simp: example_main_def split: sum.splits prod.splits if_splits dest: tcp_server_not_running)

lemma example_never_returns:
  assumes "example_main parse ops mk argv = Inr srv"
    and "(example_step fuel ops tp retries)\<^sup>*\<^sup>* \<lparr>ex_server = srv, ex_main = MainSleeps, ex_listener = Listening\<rparr> st"
  shows "ex_main st \<in> {MainSleeps, MainJoins} \<and> ex_listener st \<noteq> ListenerReturned"
  using assms(2)
  by (induction rule: rtranclp_induct) (auto elim!: example_step.cases simp: main_step_def split: if_splits)

text \<open>The inner loop is left, without an exception, only with a connection that is closed.\<close>

lemma serve_loop_left:
  assumes "serve_loop fuel tp model clock i c = Some (Ok () d)"
  shows "\<not> isSocketActive d"
proof -
  have "x = Ok () d \<longrightarrow> \<not> isSocketActive d" if "serve_loop fuel tp model clock i c = Some x" for x
    using that
    by (induction fuel tp model clock i c x rule: serve_loop.raw_induct [rotated, consumes 1])
      (auto split: if_splits outcome.splits)
  with assms show ?thesis by blast
qed

end
