(* ===== verification/DoIP_Daemon.thy ===== *)
theory DoIP_Daemon
  imports DoIP_Cli
begin

text \<open>
  Running in the background (\<^verbatim>\<open>inc/util/Daemonize.h\<close>, \<^verbatim>\<open>src/util/Daemonize.cpp\<close>): the double fork,
  closing and redirecting the descriptors, and the PID file.  The process calls of the
  operating system are a parameter; \<open>process_contract\<close> names what the theorems rely on: which
  files the descriptors refer to, what the files hold, and who leads a session.  The scan of
  the PID file (\<open>fscanf\<close> with \<open>%d\<close>) is the C library's and modelled.
\<close>

section \<open>Calls\<close>

record 'n process_ops =
  pr_fork :: "'n \<Rightarrow> int \<times> 'n"
  pr_setsid :: "'n \<Rightarrow> int \<times> 'n"
  pr_ignore_hup :: "'n \<Rightarrow> 'n"
  pr_umask :: "nat \<Rightarrow> 'n \<Rightarrow> 'n"
  pr_chdir :: "string \<Rightarrow> 'n \<Rightarrow> int \<times> 'n"
  pr_open_max :: "'n \<Rightarrow> int"
  pr_close :: "int \<Rightarrow> 'n \<Rightarrow> 'n"
  pr_open_rw :: "string \<Rightarrow> 'n \<Rightarrow> int \<times> 'n"
  pr_dup2 :: "int \<Rightarrow> int \<Rightarrow> 'n \<Rightarrow> int \<times> 'n"
  pr_read_file :: "string \<Rightarrow> 'n \<Rightarrow> string option"
  pr_write_file :: "string \<Rightarrow> string \<Rightarrow> 'n \<Rightarrow> bool \<times> 'n"
  pr_chmod :: "string \<Rightarrow> nat \<Rightarrow> 'n \<Rightarrow> 'n"
  pr_kill0 :: "int \<Rightarrow> 'n \<Rightarrow> errno option"
  pr_unlink :: "string \<Rightarrow> 'n \<Rightarrow> errno option \<times> 'n"
  pr_getpid :: "'n \<Rightarrow> int"

definition ENOENT :: errno where "ENOENT = OtherErrno 2"

definition ESRCH :: errno where "ESRCH = OtherErrno 3"

text \<open>
  \<open>fscanf(pf, "%d", &pid)\<close>: white space, a sign, digits; the value is converted to \<open>long\<close>, with
  saturation, and stored in an \<open>int\<close>.
\<close>

definition scan_int :: "string \<Rightarrow> int option" where
  "scan_int s =
     (let t = dropWhile isspace s;
          neg = (t \<noteq> [] \<and> hd t = CHR ''-'');
          t = (if t \<noteq> [] \<and> (hd t = CHR ''-'' \<or> hd t = CHR ''+'') then tl t else t)
      in if t = [] \<or> digit_val 10 (hd t) = None then None
         else let v = int (fst (digits_value 10 t 0));
                  l = (if neg then max (- v) (- (2 ^ 63)) else min v (2 ^ 63 - 1))
              in Some (sint (word_of_int l :: 32 word)))"

section \<open>The PID file\<close>

definition daemon_isRunning :: "'n process_ops \<Rightarrow> string option \<Rightarrow> 'n \<Rightarrow> bool \<times> 'n" where
  "daemon_isRunning os pidfile n =
     (case pidfile of
        None \<Rightarrow> (False, n)
      | Some path \<Rightarrow>
          (case pr_read_file os path n of
             None \<Rightarrow> (False, n)
           | Some text \<Rightarrow>
               (case scan_int text of
                  None \<Rightarrow> (False, n)
                | Some pid \<Rightarrow>
                    (case pr_kill0 os pid n of
                       None \<Rightarrow> (True, n)
                     | Some e \<Rightarrow> if e = ESRCH then (False, snd (pr_unlink os path n)) else (True, n)))))"

definition removePidFile :: "'n process_ops \<Rightarrow> string option \<Rightarrow> 'n \<Rightarrow> bool \<times> 'n" where
  "removePidFile os pidfile n =
     (case pidfile of
        None \<Rightarrow> (True, n)
      | Some path \<Rightarrow> (case pr_unlink os path n of
            (None, n) \<Rightarrow> (True, n)
          | (Some e, n) \<Rightarrow> (e = ENOENT, n)))"

definition write_pid_file :: "'n process_ops \<Rightarrow> string option \<Rightarrow> 'n \<Rightarrow> bool \<times> 'n" where
  "write_pid_file os pidfile n =
     (case pidfile of
        None \<Rightarrow> (True, n)
      | Some path \<Rightarrow>
          (case daemon_isRunning os pidfile n of (running, n) \<Rightarrow>
             if running then (False, n)
             else case pr_write_file os path (show_int (pr_getpid os n) @ [CHR 0x0A]) n of (ok, n) \<Rightarrow>
               if \<not> ok then (False, n) else (True, pr_chmod os path 420 n)))"

section \<open>Detaching\<close>

text \<open>
  The outcome in one process: it exits (the two parents), or \<open>daemonize\<close> returns.  The calls
  that may fail are threaded by \<open>require\<close>, which returns false at the first failure.
\<close>

datatype 'n daemon_outcome = ProcessExit 'n | DaemonReturn bool 'n

definition require :: "int \<times> 'n \<Rightarrow> ('n \<Rightarrow> 'n daemon_outcome) \<Rightarrow> 'n daemon_outcome" where
  "require call k = (case call of (r, n) \<Rightarrow> if r < 0 then DaemonReturn False n else k n)"

definition fork_child :: "'n process_ops \<Rightarrow> ('n \<Rightarrow> 'n daemon_outcome) \<Rightarrow> 'n \<Rightarrow> 'n daemon_outcome" where
  "fork_child os k n =
     (case pr_fork os n of (pid, n) \<Rightarrow>
        if pid < 0 then DaemonReturn False n else if pid > 0 then ProcessExit n else k n)"

definition close_all :: "'n process_ops \<Rightarrow> 'n \<Rightarrow> 'n" where
  "close_all os n =
     (let max_fd = pr_open_max os n;
          max_fd = (if max_fd < 0 then 1024 else max_fd)
      in fold (pr_close os) [0..max_fd - 1] n)"

definition redirect :: "'n process_ops \<Rightarrow> ('n \<Rightarrow> 'n daemon_outcome) \<Rightarrow> 'n \<Rightarrow> 'n daemon_outcome" where
  "redirect os k n =
     (case pr_open_rw os ''/dev/null'' n of (null_fd, n) \<Rightarrow>
        if null_fd < 0 then DaemonReturn False n
        else require (pr_dup2 os null_fd 0 n) (\<lambda>n. require (pr_dup2 os null_fd 1 n) (\<lambda>n.
             require (pr_dup2 os null_fd 2 n) (\<lambda>n. require (pr_dup2 os null_fd 2 n) (\<lambda>n.
             k (if null_fd > 2 then pr_close os null_fd n else n))))))"

definition daemonize :: "'n process_ops \<Rightarrow> string option \<Rightarrow> 'n \<Rightarrow> 'n daemon_outcome" where
  "daemonize os pidfile n =
     fork_child os (\<lambda>n. require (pr_setsid os n) (\<lambda>n. fork_child os (\<lambda>n.
       require (pr_chdir os ''/'' (pr_umask os 0 n)) (\<lambda>n. redirect os (\<lambda>n.
         case write_pid_file os pidfile n of (ok, n) \<Rightarrow> DaemonReturn ok n) (close_all os n)))
       (pr_ignore_hup os n))) n"

section \<open>What is assumed of the calls\<close>

text \<open>
  The part of the state of a process the theorems speak of: the file each open descriptor
  refers to, the contents of files, whether the process leads a session, and its directory.
\<close>

record process_view =
  v_fds :: "int \<rightharpoonup> string"
  v_files :: "string \<rightharpoonup> string"
  v_leader :: bool
  v_cwd :: string

definition fork_law :: "'n process_ops \<Rightarrow> ('n \<Rightarrow> process_view) \<Rightarrow> bool" where
  "fork_law os view \<longleftrightarrow> (\<forall>n r n'. pr_fork os n = (r, n') \<longrightarrow>
     view n' = (if r = 0 then (view n)\<lparr>v_leader := False\<rparr> else view n))"

definition session_law :: "'n process_ops \<Rightarrow> ('n \<Rightarrow> process_view) \<Rightarrow> bool" where
  "session_law os view \<longleftrightarrow>
     (\<forall>n r n'. pr_setsid os n = (r, n') \<longrightarrow> view n' = (if r < 0 then view n else (view n)\<lparr>v_leader := True\<rparr>))
     \<and> (\<forall>p n r n'. pr_chdir os p n = (r, n') \<longrightarrow> view n' = (if r < 0 then view n else (view n)\<lparr>v_cwd := p\<rparr>))
     \<and> (\<forall>n. view (pr_ignore_hup os n) = view n) \<and> (\<forall>k n. view (pr_umask os k n) = view n)"

definition descriptor_law :: "'n process_ops \<Rightarrow> ('n \<Rightarrow> process_view) \<Rightarrow> bool" where
  "descriptor_law os view \<longleftrightarrow>
     (\<forall>fd n. view (pr_close os fd n) = (view n)\<lparr>v_fds := (v_fds (view n))(fd := None)\<rparr>)
     \<and> (\<forall>p n r n'. pr_open_rw os p n = (r, n') \<longrightarrow>
          (if r < 0 then view n' = view n
           else v_fds (view n) r = None \<and> view n' = (view n)\<lparr>v_fds := (v_fds (view n))(r \<mapsto> p)\<rparr>))
     \<and> (\<forall>a b n r n'. pr_dup2 os a b n = (r, n') \<longrightarrow>
          (if r < 0 then view n' = view n
           else \<exists>f. v_fds (view n) a = Some f \<and> view n' = (view n)\<lparr>v_fds := (v_fds (view n))(b \<mapsto> f)\<rparr>))"

definition file_law :: "'n process_ops \<Rightarrow> ('n \<Rightarrow> process_view) \<Rightarrow> bool" where
  "file_law os view \<longleftrightarrow>
     (\<forall>p t n ok n'. pr_write_file os p t n = (ok, n') \<longrightarrow>
        view n' = (if ok then (view n)\<lparr>v_files := (v_files (view n))(p \<mapsto> t)\<rparr> else view n)
        \<and> pr_getpid os n' = pr_getpid os n)
     \<and> (\<forall>p m n. view (pr_chmod os p m n) = view n \<and> pr_getpid os (pr_chmod os p m n) = pr_getpid os n)
     \<and> (\<forall>p n e n'. pr_unlink os p n = (e, n') \<longrightarrow>
        view n' = (if e = None then (view n)\<lparr>v_files := (v_files (view n))(p := None)\<rparr> else view n))"

definition process_contract :: "'n process_ops \<Rightarrow> ('n \<Rightarrow> process_view) \<Rightarrow> bool" where
  "process_contract os view \<longleftrightarrow> fork_law os view \<and> session_law os view \<and> descriptor_law os view \<and> file_law os view"

text \<open>A process for the witnesses: its view and its number; every call succeeds, \<open>fork\<close> as the child.\<close>

definition sim_process :: "(process_view \<times> int) process_ops" where
  "sim_process = \<lparr>
     pr_fork = (\<lambda>(v, pid). (0, (v\<lparr>v_leader := False\<rparr>, pid + 1))), pr_setsid = (\<lambda>(v, pid). (1, (v\<lparr>v_leader := True\<rparr>, pid))),
     pr_ignore_hup = id, pr_umask = (\<lambda>_. id), pr_chdir = (\<lambda>p (v, pid). (0, (v\<lparr>v_cwd := p\<rparr>, pid))),
     pr_open_max = (\<lambda>_. 4), pr_close = (\<lambda>fd (v, pid). (v\<lparr>v_fds := (v_fds v)(fd := None)\<rparr>, pid)),
     pr_open_rw = (\<lambda>p (v, pid). if v_fds v 0 = None then (0, (v\<lparr>v_fds := (v_fds v)(0 \<mapsto> p)\<rparr>, pid)) else (- 1, (v, pid))),
     pr_dup2 = (\<lambda>a b (v, pid). case v_fds v a of None \<Rightarrow> (- 1, (v, pid)) 
       | Some f \<Rightarrow> if b < 0 then (- 1, (v, pid)) else (b, (v\<lparr>v_fds := (v_fds v)(b \<mapsto> f)\<rparr>, pid))),
     pr_read_file = (\<lambda>p (v, pid). v_files v p),
     pr_write_file = (\<lambda>p t (v, pid). (True, (v\<lparr>v_files := (v_files v)(p \<mapsto> t)\<rparr>, pid))), pr_chmod = (\<lambda>_ _. id),
     pr_kill0 = (\<lambda>pid (v, self). None), pr_unlink = (\<lambda>p (v, pid). (None, (v\<lparr>v_files := (v_files v)(p := None)\<rparr>, pid))),
     pr_getpid = snd\<rparr>"

definition sim_shell :: process_view where
  "sim_shell = \<lparr>v_fds = [0 \<mapsto> ''/dev/tty'', 3 \<mapsto> ''/tmp/log''], v_files = Map.empty, v_leader = True, v_cwd = ''/home''\<rparr>"

section \<open>Lemmas\<close>

lemma require_True:
  "require call k = DaemonReturn True n' \<longleftrightarrow> \<not> fst call < 0 \<and> k (snd call) = DaemonReturn True n'"
  by (cases call) (simp add: require_def)

lemma fork_child_True:
  "fork_child os k n = DaemonReturn True n' \<longleftrightarrow> fst (pr_fork os n) = 0 \<and> k (snd (pr_fork os n)) = DaemonReturn True n'"
  by (cases "pr_fork os n") (simp add: fork_child_def)

lemma close_fold:
  assumes "descriptor_law os view"
  shows "view (fold (pr_close os) fds n) = (view n)\<lparr>v_fds := (\<lambda>a. if a \<in> set fds then None else v_fds (view n) a)\<rparr>"
proof (induction fds arbitrary: n)
  case (Cons fd fds)
  have c: "view (pr_close os fd n) = (view n)\<lparr>v_fds := (v_fds (view n))(fd := None)\<rparr>"
    using assms by (simp add: descriptor_law_def)
  show ?case by (auto simp: Cons.IH c fun_eq_iff intro!: arg_cong [where f = "\<lambda>x. (view n)\<lparr>v_fds := x\<rparr>"] cong: if_cong)
qed simp

lemma close_all_view:
  assumes "descriptor_law os view" and "pr_open_max os n = M" and "dom (v_fds (view n)) \<subseteq> {0..<if M < 0 then 1024 else M}"
  shows "view (close_all os n) = (view n)\<lparr>v_fds := Map.empty\<rparr>"
proof -
  let ?limit = "if M < 0 then 1024 else M"
  have "(\<lambda>a. if a \<in> set [0..?limit - 1] then None else v_fds (view n) a) = Map.empty"
    using assms(3) by (force simp: dom_def)
  then show ?thesis using assms(2) by (simp add: close_all_def Let_def close_fold [OF assms(1)])
qed

text \<open>Descriptors 0, 1 and 2 on \<open>/dev/null\<close>, and nothing else.\<close>

definition null_fds :: "int \<rightharpoonup> string" where
  "null_fds = [0 \<mapsto> ''/dev/null'', 1 \<mapsto> ''/dev/null'', 2 \<mapsto> ''/dev/null'']"

lemma null_fds_close:
  assumes "0 \<le> r" and "m = [r \<mapsto> ''/dev/null'', 0 \<mapsto> ''/dev/null'', 1 \<mapsto> ''/dev/null'', 2 \<mapsto> ''/dev/null'']"
  shows "2 < r \<Longrightarrow> m(r := None) = null_fds" and "\<not> 2 < r \<Longrightarrow> m = null_fds"
  using assms by (auto simp: null_fds_def fun_eq_iff)

lemma open_view:
  assumes "descriptor_law os view" and "pr_open_rw os p n = (r, n')" and "\<not> r < 0"
  shows "view n' = (view n)\<lparr>v_fds := (v_fds (view n))(r \<mapsto> p)\<rparr>"
  using assms(1) [unfolded descriptor_law_def, THEN conjunct2, THEN conjunct1, rule_format, OF assms(2)] assms(3) by simp

lemma dup2_view:
  assumes "descriptor_law os view" and "pr_dup2 os a b n = (r, n')" and "\<not> r < 0" and "v_fds (view n) a = Some f"
  shows "view n' = (view n)\<lparr>v_fds := (v_fds (view n))(b \<mapsto> f)\<rparr>"
  using assms(1) [unfolded descriptor_law_def, THEN conjunct2, THEN conjunct2, rule_format, OF assms(2)] assms(3,4) by auto

lemma redirect_True:
  assumes "descriptor_law os view" and "v_fds (view n) = Map.empty" and "redirect os k n = DaemonReturn True n'"
  shows "\<exists>m. k m = DaemonReturn True n' \<and> view m = (view n)\<lparr>v_fds := null_fds\<rparr>"
proof -
  obtain r n0 where o: "pr_open_rw os ''/dev/null'' n = (r, n0)" by fastforce
  obtain r1 n1 where d1: "pr_dup2 os r 0 n0 = (r1, n1)" by fastforce
  obtain r2 n2 where d2: "pr_dup2 os r 1 n1 = (r2, n2)" by fastforce
  obtain r3 n3 where d3: "pr_dup2 os r 2 n2 = (r3, n3)" by fastforce
  obtain r4 n4 where d4: "pr_dup2 os r 2 n3 = (r4, n4)" by fastforce
  have ok: "\<not> r < 0" "\<not> r1 < 0" "\<not> r2 < 0" "\<not> r3 < 0" "\<not> r4 < 0"
    and k: "k (if r > 2 then pr_close os r n4 else n4) = DaemonReturn True n'"
    using assms(3) o d1 d2 d3 d4 by (auto simp: redirect_def require_True split: if_splits)
  let ?f = "''/dev/null''"
  have v0: "view n0 = (view n)\<lparr>v_fds := [r \<mapsto> ?f]\<rparr>" using open_view [OF assms(1) o ok(1)] assms(2) by simp
  have v1: "view n1 = (view n)\<lparr>v_fds := [r \<mapsto> ?f, 0 \<mapsto> ?f]\<rparr>" using dup2_view [OF assms(1) d1 ok(2), of ?f] v0 by simp
  have v2: "view n2 = (view n)\<lparr>v_fds := [r \<mapsto> ?f, 0 \<mapsto> ?f, 1 \<mapsto> ?f]\<rparr>"
    using dup2_view [OF assms(1) d2 ok(3), of ?f] v1 by simp
  have v3: "view n3 = (view n)\<lparr>v_fds := [r \<mapsto> ?f, 0 \<mapsto> ?f, 1 \<mapsto> ?f, 2 \<mapsto> ?f]\<rparr>"
    using dup2_view [OF assms(1) d3 ok(4), of ?f] v2 by simp
  have v4: "view n4 = (view n)\<lparr>v_fds := [r \<mapsto> ?f, 0 \<mapsto> ?f, 1 \<mapsto> ?f, 2 \<mapsto> ?f]\<rparr>"
    using dup2_view [OF assms(1) d4 ok(5), of ?f] v3 by simp
  define m where "m = [r \<mapsto> ?f, 0 \<mapsto> ?f, 1 \<mapsto> ?f, 2 \<mapsto> ?f]"
  have "view (pr_close os r n4) = (view n4)\<lparr>v_fds := (v_fds (view n4))(r := None)\<rparr>"
    using assms(1) by (simp add: descriptor_law_def)
  then have "view (if r > 2 then pr_close os r n4 else n4) = (view n)\<lparr>v_fds := null_fds\<rparr>"
    using null_fds_close [OF _ m_def] ok(1) by (cases "2 < r") (simp_all add: v4 [folded m_def])
  with k show ?thesis by blast
qed

lemma unlink_view:
  assumes "file_law os view"
  shows "view (snd (pr_unlink os p n)) = view n
    \<or> view (snd (pr_unlink os p n)) = (view n)\<lparr>v_files := (v_files (view n))(p := None)\<rparr>"
  using assms [unfolded file_law_def, THEN conjunct2, THEN conjunct2, rule_format, OF surjective_pairing, of p n]
  by (simp split: if_splits)

lemma write_view:
  assumes "file_law os view" and "pr_write_file os p t n = (True, n')"
  shows "view n' = (view n)\<lparr>v_files := (v_files (view n))(p \<mapsto> t)\<rparr>" and "pr_getpid os n' = pr_getpid os n"
  using assms(1) [unfolded file_law_def, THEN conjunct1, rule_format, OF assms(2)] by simp_all

lemma chmod_view:
  assumes "file_law os view"
  shows "view (pr_chmod os p m n) = view n" and "pr_getpid os (pr_chmod os p m n) = pr_getpid os n"
  using assms by (simp_all add: file_law_def)

lemma write_pid_file_True:
  assumes "file_law os view" and "write_pid_file os pidfile n = (True, n')"
  shows "view n' = (case pidfile of None \<Rightarrow> view n
    | Some p \<Rightarrow> (view n)\<lparr>v_files := (v_files (view n))(p \<mapsto> show_int (pr_getpid os n') @ [CHR 0x0A])\<rparr>)"
proof (cases pidfile)
  case None
  then show ?thesis using assms(2) by (simp add: write_pid_file_def)
next
  case (Some p)
  let ?t = "\<lambda>m. show_int (pr_getpid os m) @ [CHR 0x0A]"
  obtain m where m: "daemon_isRunning os pidfile n = (False, m)"
    using assms(2) Some by (auto simp: write_pid_file_def split: prod.splits if_splits)
  obtain m' where w: "pr_write_file os p (?t m) m = (True, m')" "n' = pr_chmod os p 420 m'"
    using assms(2) Some m by (auto simp: write_pid_file_def split: prod.splits if_splits)
  have "view m = view n \<or> view m = (view n)\<lparr>v_files := (v_files (view n))(p := None)\<rparr>"
    using m Some unlink_view [OF assms(1), of p n]
    by (auto simp: daemon_isRunning_def split: option.splits if_splits)
  moreover have "view n' = (view m)\<lparr>v_files := (v_files (view m))(p \<mapsto> ?t m)\<rparr>" "pr_getpid os n' = pr_getpid os m"
    using write_view [OF assms(1) w(1)] chmod_view [OF assms(1)] w(2) by simp_all
  ultimately show ?thesis using Some by auto
qed

lemma scan_int_show:
  assumes "0 \<le> pid" and "pid < 2 ^ 31"
  shows "scan_int (show_int pid @ [CHR 0x0A]) = Some pid"
proof -
  obtain ds where ds: "show_nat (nat pid) = map hex_digit ds" "ds \<noteq> []" "\<forall>d \<in> set ds. d < 10" "num_value 10 ds = nat pid"
    using show_nat_digits by blast
  obtain d ds' where d: "ds = d # ds'" using ds(2) by (cases ds) auto
  have "digits_value 10 (map hex_digit es @ [CHR 0x0A]) acc = (foldl (\<lambda>a d. a * 10 + d) acc es, [CHR 0x0A])"
    if "\<forall>d \<in> set es. d < 10" for es acc
    using that by (induction es arbitrary: acc) (simp_all add: digit_val_hex, simp add: digit_val_def)
  then have v: "digits_value 10 (map hex_digit ds @ [CHR 0x0A]) 0 = (nat pid, [CHR 0x0A])"
    using ds(3,4) by (simp add: num_value_def)
  have p: "d < 16" "digit_val 10 (hex_digit d) = Some d" using ds(3) d by (auto simp: digit_val_hex)
  have "sint (word_of_int pid :: 32 word) = pid" using assms by (simp add: signed_of_int signed_take_bit_int_eq_self)
  then show ?thesis
    using assms v p hex_digit_plain(1-3) [OF p(1)] ds(1) d
    by (simp add: scan_int_def show_int_def Let_def min_def)
qed

lemma fork_view:
  "fork_law os view \<Longrightarrow> view (snd (pr_fork os n)) = (if fst (pr_fork os n) = 0 then (view n)\<lparr>v_leader := False\<rparr> else view n)"
  by (simp add: fork_law_def)

lemma session_views:
  assumes "session_law os view"
  shows "view (snd (pr_setsid os n)) = (if fst (pr_setsid os n) < 0 then view n else (view n)\<lparr>v_leader := True\<rparr>)"
    and "view (snd (pr_chdir os p n)) = (if fst (pr_chdir os p n) < 0 then view n else (view n)\<lparr>v_cwd := p\<rparr>)"
    and "view (pr_ignore_hup os n) = view n" and "view (pr_umask os k n) = view n"
  using assms by (simp_all add: session_law_def)

text \<open>The state in which a daemon that succeeds writes its PID file.\<close>

lemma daemonize_True:
  assumes c: "process_contract os view" and d: "daemonize os pidfile n = DaemonReturn True n'"
    and M: "\<And>m. pr_open_max os m = M" "dom (v_fds (view n)) \<subseteq> {0..<if M < 0 then 1024 else M}"
  shows "\<exists>m. write_pid_file os pidfile m = (True, n')
    \<and> view m = (view n)\<lparr>v_leader := False, v_cwd := ''/'', v_fds := null_fds\<rparr>"
proof -
  have laws: "fork_law os view" "session_law os view" "descriptor_law os view"
    using c by (simp_all add: process_contract_def)
  let ?n1 = "snd (pr_fork os n)"
  let ?n2 = "pr_ignore_hup os (snd (pr_setsid os ?n1))"
  let ?n3 = "snd (pr_fork os ?n2)"
  let ?n4 = "snd (pr_chdir os ''/'' (pr_umask os 0 ?n3))"
  from d have ok: "fst (pr_fork os n) = 0" "\<not> fst (pr_setsid os ?n1) < 0" "fst (pr_fork os ?n2) = 0"
      "\<not> fst (pr_chdir os ''/'' (pr_umask os 0 ?n3)) < 0"
    and r: "redirect os (\<lambda>n. case write_pid_file os pidfile n of (ok, n) \<Rightarrow> DaemonReturn ok n) (close_all os ?n4) = DaemonReturn True n'"
    by (simp_all add: daemonize_def fork_child_True require_True)
  have v4: "view ?n4 = (view n)\<lparr>v_leader := False, v_cwd := ''/''\<rparr>"
    using ok by (simp add: session_views [OF laws(2)] fork_view [OF laws(1)])
  then have cl: "view (close_all os ?n4) = (view n)\<lparr>v_leader := False, v_cwd := ''/'', v_fds := Map.empty\<rparr>"
    using close_all_view [OF laws(3) M(1), of ?n4] M(2) by simp
  obtain m where m: "(case write_pid_file os pidfile m of (ok, n) \<Rightarrow> DaemonReturn ok n) = DaemonReturn True n'"
      "view m = (view (close_all os ?n4))\<lparr>v_fds := null_fds\<rparr>"
    using redirect_True [OF laws(3) _ r] cl by auto
  from m(1) have "write_pid_file os pidfile m = (True, n')" by (cases "write_pid_file os pidfile m") simp
  with m(2) cl show ?thesis by auto
qed

lemma sim_process_contract: "process_contract sim_process fst"
  by (auto simp: process_contract_def fork_law_def session_law_def descriptor_law_def file_law_def sim_process_def
      split: if_splits option.splits)

lemma sim_daemonize:
  "\<exists>n'. daemonize sim_process (Some ''/run/doip.pid'') (sim_shell, 40) = DaemonReturn True n' \<and> pr_getpid sim_process n' = 42"
  by (simp add: daemonize_def fork_child_def require_def close_all_def redirect_def write_pid_file_def
      daemon_isRunning_def sim_process_def sim_shell_def upto.simps)





end
