(* ===== verification/DoIP_ServerBehaviour.thy ===== *)
theory DoIP_ServerBehaviour
  imports DoIP_ServerSystem
begin

text \<open>
  Theorems on the server as a whole: what it announces, that stopping leaves nothing behind,
  that no exception leaves the thread of a connection, and the two ways in which stopping
  goes wrong, a connection accepted meanwhile and a client that stays silent.
\<close>

section \<open>Timers of other connections\<close>

definition unowned :: "nat \<Rightarrow> (ConnectionTimers, nat) TimerManager \<Rightarrow> bool" where
  "unowned i tm \<longleftrightarrow> (\<forall>t x. deadline_of tm t \<noteq> Some (x, i))"

lemma unowned_clear [simp]: "unowned i (stopAll tm)"
  by (simp add: unowned_def tms.clear_deadline)

lemma unowned_arm: "f \<noteq> i \<Longrightarrow> unowned i (tms.arm now k d f tm)"
  by (simp add: unowned_def tms.arm_deadline)

lemma unowned_restart: "unowned i tm \<Longrightarrow> unowned i (snd (restartTimer now k tm))"
  unfolding unowned_def
proof (intro allI notI)
  fix t x assume u: "\<forall>t x. deadline_of tm t \<noteq> Some (x, i)"
    and s: "deadline_of (snd (restartTimer now k tm)) t = Some (x, i)"
  from s tms.restart_handler [of now k tm t] have "map_option snd (deadline_of tm t) = Some i" by simp
  with u show False by auto
qed

lemma unowned_remove: "unowned i tm \<Longrightarrow> unowned i (snd (removeTimer k tm))"
  by (auto simp: unowned_def deadline_of_def removeTimer_def Let_def delete_conv' split: if_splits)

definition foreign_inv :: "nat \<Rightarrow> nat \<Rightarrow> 't connection \<Rightarrow> bool" where
  "foreign_inv i j c \<longleftrightarrow> this_id c = j \<and> (j \<noteq> i \<longrightarrow> unowned i (m_timerManager c))"

lemma foreign_inv_cong:
  "foreign_inv i j c \<Longrightarrow> this_id c' = this_id c \<Longrightarrow> m_timerManager c' = m_timerManager c \<Longrightarrow> foreign_inv i j c'"
  by (simp add: foreign_inv_def)

lemma foreign_inv_transition:
  assumes "foreign_inv i j c" and "timed_state s \<or> s = DoIPServerState.Closed"
  shows "foreign_inv i j (transitionTo now s c)"
proof (cases "m_state c = s")
  case False
  with assms show ?thesis
    by (cases "s = DoIPServerState.Closed")
      (auto simp: foreign_inv_def transitionTo_Closed transitionTo_timed unowned_arm)
qed (use assms in simp)

lemma send_timers [simp]:
  "this_id (snd (sendProtocolMessage env m c)) = this_id c"
  "m_timerManager (snd (sendProtocolMessage env m c)) = m_timerManager c"
  by (simp_all add: sendProtocolMessage_def emit_def split: prod.split)

lemma foreign_inv_locale:
  assumes "connection_transport ti tp"
  shows "connection_invariant ti (mk_env tp model g now) (foreign_inv i j)"
proof (intro connection_invariant.intro callback_invariant.intro connection_invariant_axioms.intro
    callback_invariant_axioms.intro callback_actions.intro callback_actions_axioms.intro mk_env_transport [OF assms])
  fix c :: "'a connection" and m s e r a x c' b res
  let ?env = "mk_env tp model g now"
  assume I: "foreign_inv i j c"
  show "foreign_inv i j (snd (sendProtocolMessage ?env m c))" by (rule foreign_inv_cong [OF I]) simp_all
  show "receiveProtocolMessage ?env c = Ok x c' \<Longrightarrow> foreign_inv i j c'"
    by (rule foreign_inv_cong [OF I]) (auto simp: receiveProtocolMessage_def split: option.splits sum.splits)
  show "foreign_inv i j (receiveDownstreamResponse ?env b res c)"
    unfolding receiveDownstreamResponse_def Let_def
    by (rule foreign_inv_transition, rule foreign_inv_cong [OF I]) (simp_all add: emit_def)
  show "foreign_inv i j (transitionTo (env_now ?env) DoIPServerState.Closed c)"
    by (rule foreign_inv_transition [OF I]) simp
  show "timed_state s \<or> s = DoIPServerState.Closed \<Longrightarrow> foreign_inv i j (transitionTo (env_now ?env) s c)"
    by (rule foreign_inv_transition [OF I])
  show "foreign_inv i j (restartStateTimer (env_now ?env) c)"
    using I by (simp add: foreign_inv_def restartStateTimer_def unowned_restart)
qed (simp_all add: foreign_inv_def setClientAddress_def emit_def)

lemma foreign_inv_react:
  assumes "connection_transport ti tp" and "foreign_inv i j c"
  shows "post (foreign_inv i j) (react fuel (mk_env tp model g now) stim c)"
  by (rule connection_invariant.react_I [OF foreign_inv_locale [OF assms(1)] assms(2)])
    (use assms(2) in \<open>simp add: foreign_inv_def unowned_remove\<close>)

lemma foreign_inv_new:
  assumes "connection_transport ti tp" and "this \<noteq> i \<longrightarrow> unowned i tm"
    and "connection_new (mk_env tp model g now) this t tm client retries = Ok () c"
  shows "foreign_inv i this c"
proof -
  note loc = callback_invariant.axioms(1) [OF connection_invariant.axioms(1) [OF foreign_inv_locale [OF assms(1)]]]
  show ?thesis
    by (rule callback_actions.connection_new_I [OF loc _ _ assms(3)])
      (use assms(2) in \<open>simp add: foreign_inv_def\<close>, rule foreign_inv_transition, simp_all)
qed

lemma foreign_inv_handler:
  assumes ct: "connection_transport ti tp" and I: "foreign_inv i j c"
  shows "post (foreign_inv i j) (connectionHandler_step fuel (mk_env tp model True now) running pc c)"
proof -
  note loc = foreign_inv_locale [OF ct, of model True now i j]
  note hi = connection_invariant.axioms(1) [OF loc]
  show ?thesis
  proof (cases pc)
    case HandlerHead
    then show ?thesis using I by (auto intro!: post_bind callback_invariant.close_I [OF hi])
  next
    case HandlerReceive
    have m: "post (foreign_inv i j) (handleMessage fuel (mk_env tp model True now) m c)" if "foreign_inv i j c" for m c
      using connection_invariant.react_I [OF loc that, of "Received m" fuel] by simp
    show ?thesis
      using HandlerReceive I
      by (auto intro!: post_bind callback_actions.I_receive_post [OF callback_invariant.axioms(1) [OF hi]]
          callback_invariant.close_I [OF hi] m split: option.split)
  qed (use I in simp)
qed

text \<open>A step on a connection leaves everything else alone, and keeps what concerns foreign timers.\<close>

definition conn_stepped :: "nat \<Rightarrow> ('s, 't) server_system \<Rightarrow> ('s, 't) server_system \<Rightarrow> bool" where
  "conn_stepped j sys sys' \<longleftrightarrow> j < length (sys_conns sys) \<and> (\<exists>c pc b. sys' = (put_conn j c pc sys)\<lparr>sys_terminated := b\<rparr>
     \<and> (\<forall>i. foreign_inv i j (conn_of sys j) \<longrightarrow> foreign_inv i j c))"

lemma handler_step_stepped:
  assumes ct: "connection_transport ti tp" and "handler_step fuel tp j now sys = Some sys'"
  shows "conn_stepped j sys sys'"
proof -
  let ?o = "connectionHandler_step fuel (mk_env tp (model_of sys j) True now) (m_tcpRunning (sys_server sys))
      (sys_handlers sys ! j) (conn_of sys j)"
  have j: "j < length (sys_conns sys)" using assms(2) by (auto simp: handler_step_def split: if_splits)
  have p: "foreign_inv i j (conn_of sys j) \<Longrightarrow> post (foreign_inv i j) ?o" for i by (rule foreign_inv_handler [OF ct])
  show ?thesis
  proof (cases ?o)
    case (Ok pc c)
    with assms(2) have "sys' = (put_conn j c pc sys)\<lparr>sys_terminated := sys_terminated sys\<rparr>"
      by (auto simp: handler_step_def put_conn_def split: if_splits)
    with j p Ok show ?thesis by (auto simp: conn_stepped_def)
  next
    case (Throw e c)
    with assms(2) have "sys' = (put_conn j c (sys_handlers sys ! j) sys)\<lparr>sys_terminated := True\<rparr>"
      by (auto simp: handler_step_def split: if_splits)
    with j p Throw show ?thesis unfolding conn_stepped_def by force
  qed (use assms(2) in \<open>simp add: handler_step_def split: if_splits\<close>)
qed

lemma timer_step_stepped:
  assumes ct: "connection_transport ti tp" and st: "timer_step fuel tp j t now sys = Some sys'"
  shows "(sys' = sys\<lparr>sys_terminated := True\<rparr> \<or> conn_stepped j sys sys')
    \<and> \<not> unowned j (m_TimerManager (sys_server sys))"
proof -
  let ?o = "react fuel (mk_env tp (model_of sys j) True now) (TimerFired t) (conn_of sys j)"
  from st obtain x where "deadline_of (m_TimerManager (sys_server sys)) t = Some (x, j)" and j: "j < length (sys_conns sys)"
    by (auto simp: timer_step_def split: option.splits if_splits)
  then have u: "\<not> unowned j (m_TimerManager (sys_server sys))" unfolding unowned_def by blast
  have p: "foreign_inv i j (conn_of sys j) \<Longrightarrow> post (foreign_inv i j) ?o" for i by (rule foreign_inv_react [OF ct])
  have "sys' = sys\<lparr>sys_terminated := True\<rparr> \<or> conn_stepped j sys sys'"
  proof (cases ?o)
    case (Ok x c)
    with st have "sys' = sys\<lparr>sys_terminated := True\<rparr>
        \<or> sys' = (put_conn j c (sys_handlers sys ! j) sys)\<lparr>sys_terminated := sys_terminated sys\<rparr>"
      by (auto simp: timer_step_def put_conn_def split: option.splits if_splits)
    with j p Ok show ?thesis unfolding conn_stepped_def by force
  next
    case (Throw e c)
    with st have "sys' = sys\<lparr>sys_terminated := True\<rparr>
        \<or> sys' = (put_conn j c (sys_handlers sys ! j) sys)\<lparr>sys_terminated := \<not> is_exception e\<rparr>"
      by (auto simp: timer_step_def split: option.splits if_splits)
    with j p Throw show ?thesis unfolding conn_stepped_def by force
  qed (use st in \<open>auto simp: timer_step_def split: option.splits if_splits\<close>)
  with u show ?thesis by blast
qed

section \<open>A silent client\<close>

definition ids_inv :: "('s, 't) server_system \<Rightarrow> bool" where
  "ids_inv sys \<longleftrightarrow> length (sys_handlers sys) = length (sys_conns sys)
     \<and> (\<forall>j < length (sys_conns sys). this_id (fst (sys_conns sys ! j)) = j)"

text \<open>The thread of connection \<open>i\<close> waits for a message that does not come, and no timer refers to it.\<close>

definition stuck :: "'t transport_ops \<Rightarrow> nat \<Rightarrow> ('s, 't) server_system \<Rightarrow> bool" where
  "stuck tp i sys \<longleftrightarrow> i < length (sys_conns sys) \<and> sys_handlers sys ! i = HandlerReceive
     \<and> tp_receive tp (m_transport (fst (sys_conns sys ! i))) = None \<and> unowned i (m_TimerManager (sys_server sys))"

lemma stepped_ids:
  assumes "conn_stepped j sys sys'" and "ids_inv sys"
  shows "ids_inv sys'"
proof -
  obtain c pc b where e: "sys' = (put_conn j c pc sys)\<lparr>sys_terminated := b\<rparr>" "j < length (sys_conns sys)"
    and f: "foreign_inv j j (conn_of sys j) \<longrightarrow> foreign_inv j j c"
    using assms(1) by (auto simp: conn_stepped_def)
  from assms(2) e(2) have "foreign_inv j j (conn_of sys j)" by (simp add: ids_inv_def foreign_inv_def conn_of_def)
  with f have "this_id c = j" by (simp add: foreign_inv_def)
  with assms(2) e show ?thesis by (auto simp: ids_inv_def put_conn_def nth_list_update)
qed

lemma stepped_stuck:
  assumes "conn_stepped j sys sys'" and "ids_inv sys" and "stuck tp i sys" and "j \<noteq> i"
  shows "stuck tp i sys'"
proof -
  obtain c pc b where e: "sys' = (put_conn j c pc sys)\<lparr>sys_terminated := b\<rparr>" "j < length (sys_conns sys)"
    and f: "foreign_inv i j (conn_of sys j) \<longrightarrow> foreign_inv i j c"
    using assms(1) by (auto simp: conn_stepped_def)
  from assms(2,3) e(2) have "foreign_inv i j (conn_of sys j)"
    by (simp add: ids_inv_def foreign_inv_def conn_of_def stuck_def)
  with f assms(4) have "unowned i (m_timerManager c)" by (simp add: foreign_inv_def)
  with assms(3,4) e show ?thesis by (simp add: stuck_def put_conn_def)
qed

lemma accept_ids:
  assumes ct: "connection_transport ti tp"
    and a: "acceptTcpConnection ops tp now this client retries mf srv = Ok cm srv'"
    and u: "i \<noteq> this \<Longrightarrow> unowned i (m_TimerManager srv)"
  shows "i \<noteq> this \<Longrightarrow> unowned i (m_TimerManager srv')" and "cm = Some (c, model) \<Longrightarrow> this_id c = this"
proof -
  have "foreign_inv i this c" if "connection_new (mk_env tp m True now) this t (m_TimerManager srv) client retries = Ok () c"
    for c m t
    by (rule foreign_inv_new [OF ct _ that]) (use u in auto)
  then show "i \<noteq> this \<Longrightarrow> unowned i (m_TimerManager srv')" "cm = Some (c, model) \<Longrightarrow> this_id c = this"
    using a u by (auto simp: acceptTcpConnection_def Let_def foreign_inv_def
        split: prod.splits option.splits outcome.splits)
qed

lemma listener_ids:
  assumes ct: "connection_transport ti tp" and I: "ids_inv sys"
    and st: "listener_step ops tp retries now client sys = Some sys'"
  shows "ids_inv sys'"
proof (cases "sys_listener sys")
  case ListenerAccept
  show ?thesis
  proof (cases "acceptTcpConnection ops tp now (length (sys_conns sys)) client retries
                  (m_modelFactory (sys_server sys)) (sys_server sys)")
    case (Ok cm srv)
    have "this_id c = length (sys_conns sys)" if "cm = Some (c, m)" for c m
      by (rule accept_ids(2) [where i = "length (sys_conns sys)", OF ct Ok _ that]) simp
    with st ListenerAccept Ok I show ?thesis
      by (cases cm) (auto simp: listener_step_def ids_inv_def spawn_handler_def Let_def nth_append less_Suc_eq)
  qed (use st ListenerAccept I in \<open>auto simp: listener_step_def ids_inv_def\<close>)
qed (use st I in \<open>auto simp: listener_step_def ids_inv_def\<close>)

lemma listener_stuck:
  assumes ct: "connection_transport ti tp" and I: "ids_inv sys" and S: "stuck tp i sys"
    and st: "listener_step ops tp retries now client sys = Some sys'"
  shows "sys_terminated sys' \<or> stuck tp i sys'"
proof (cases "sys_listener sys")
  case ListenerAccept
  have i: "i \<noteq> length (sys_conns sys)" "i < length (sys_handlers sys)" using S I by (auto simp: stuck_def ids_inv_def)
  have u: "unowned i (m_TimerManager (sys_server sys))" using S by (simp add: stuck_def)
  let ?o = "acceptTcpConnection ops tp now (length (sys_conns sys)) client retries
                  (m_modelFactory (sys_server sys)) (sys_server sys)"
  show ?thesis
  proof (cases ?o)
    case (Ok cm srv)
    have "unowned i (m_TimerManager srv)" by (rule accept_ids(1) [OF ct Ok u i(1)])
    with st ListenerAccept Ok S i show ?thesis
      by (cases cm) (auto simp: listener_step_def stuck_def spawn_handler_def Let_def nth_append)
  next
    case (Throw e srv)
    with st ListenerAccept show ?thesis by (auto simp: listener_step_def)
  qed (use st ListenerAccept in \<open>simp add: listener_step_def\<close>)
qed (use st S in \<open>auto simp: listener_step_def stuck_def\<close>)

lemma announcer_timers [simp]:
  "m_TimerManager (snd (announce_once ops srv)) = m_TimerManager srv"
  by (simp add: announce_once_def split: prod.split)

lemma exec_ids:
  assumes ct: "connection_transport ti tp" and I: "ids_inv sys" and st: "sys_exec fuel ops tp retries a sys = Some sys'"
  shows "ids_inv sys'"
proof (cases a)
  case (ActListener now client)
  with st I listener_ids [OF ct] show ?thesis by (auto split: if_splits)
next
  case (ActHandler j now)
  with st have "handler_step fuel tp j now sys = Some sys'" by (auto split: if_splits)
  with handler_step_stepped [OF ct] I stepped_ids show ?thesis by blast
next
  case (ActTimer j t now)
  with st have "timer_step fuel tp j t now sys = Some sys'" by (auto split: if_splits)
  from timer_step_stepped [OF ct this] show ?thesis
  proof (elim conjE disjE)
    assume "sys' = sys\<lparr>sys_terminated := True\<rparr>"
    with I show ?thesis by (simp add: ids_inv_def)
  qed (use I stepped_ids in blast)
qed (use st I in \<open>auto simp: announcer_step_def stop_step_def ids_inv_def Let_def split: if_splits announcer_pc.splits
    stop_pc.splits\<close>)

lemma exec_stuck:
  assumes ct: "connection_transport ti tp" and I: "ids_inv sys" and S: "stuck tp i sys"
    and st: "sys_exec fuel ops tp retries a sys = Some sys'"
  shows "sys_terminated sys' \<or> stuck tp i sys'"
proof (cases a)
  case (ActListener now client)
  with st have "listener_step ops tp retries now client sys = Some sys'" by (auto split: if_splits)
  from listener_stuck [OF ct I S this] show ?thesis .
next
  case (ActHandler j now)
  with st have h: "handler_step fuel tp j now sys = Some sys'" by (auto split: if_splits)
  have "j \<noteq> i"
  proof
    assume "j = i"
    with h S show False by (simp add: handler_step_def stuck_def receiveProtocolMessage_def conn_of_def)
  qed
  from stepped_stuck [OF handler_step_stepped [OF ct h] I S this] show ?thesis ..
next
  case (ActTimer j t now)
  with st have h: "timer_step fuel tp j t now sys = Some sys'" by (auto split: if_splits)
  have t: "sys' = sys\<lparr>sys_terminated := True\<rparr> \<or> conn_stepped j sys sys'" "j \<noteq> i"
    using timer_step_stepped [OF ct h] S by (auto simp: stuck_def)
  then show ?thesis using stepped_stuck [OF _ I S] by auto
qed (use st S in \<open>auto simp: announcer_step_def stop_step_def stuck_def Let_def split: if_splits announcer_pc.splits
    stop_pc.splits\<close>)

lemma reach_ids:
  assumes "connection_transport ti tp" and "sys_reach fuel ops tp retries (system_start srv) sys"
  shows "ids_inv sys"
  using assms(2)
proof (induction rule: sys_reach.induct)
  case sys_start
  then show ?case by (simp add: ids_inv_def system_start_def)
qed (rule exec_ids [OF assms(1)])

lemma reach_trans:
  assumes "sys_reach fuel ops tp retries s0 s1" and "sys_reach fuel ops tp retries s1 s2"
  shows "sys_reach fuel ops tp retries s0 s2"
  using assms(2,1) by (induction rule: sys_reach.induct) (auto intro: sys_reach.intros)

lemma reach_stuck:
  assumes "connection_transport ti tp" and "ids_inv sys" and "stuck tp i sys"
    and "sys_reach fuel ops tp retries sys sys'"
  shows "ids_inv sys' \<and> (sys_terminated sys' \<or> stuck tp i sys')"
  using assms(4)
proof (induction rule: sys_reach.induct)
  case sys_start
  with assms(2,3) show ?case by simp
next
  case (sys_step sys a sys')
  then have "\<not> sys_terminated sys" by (auto split: if_splits)
  with sys_step exec_ids [OF assms(1)] exec_stuck [OF assms(1)] show ?case by blast
qed

section \<open>Announcing\<close>

text \<open>The server transport after \<open>k\<close> announcements.\<close>

definition after_announcements :: "('s, 't) server_ops \<Rightarrow> ServerConfig \<Rightarrow> nat \<Rightarrow> 's \<Rightarrow> 's" where
  "after_announcements ops cfg k =
     ((\<lambda>s. snd (st_sendBroadcast ops (announcement cfg) DOIP_UDP_TEST_EQUIPMENT_REQUEST_PORT s)) ^^ k)"

lemma after_announcements_Suc:
  "after_announcements ops cfg (Suc k) s =
     after_announcements ops cfg k (snd (st_sendBroadcast ops (announcement cfg) DOIP_UDP_TEST_EQUIPMENT_REQUEST_PORT s))"
  by (simp add: after_announcements_def funpow_Suc_right del: funpow.simps)

definition announce_number :: "ServerConfig \<Rightarrow> int \<Rightarrow> bool list \<Rightarrow> nat" where
  "announce_number cfg i flags = min (nat (cfg_announceCount cfg - i)) (length (takeWhile id flags))"

lemma announce_loop_eq:
  assumes "nat (cfg_announceCount (m_config srv) - i) \<le> length flags \<or> False \<in> set flags"
  shows "\<exists>rs. announce_loop ops flags i srv = Some (rs,
      srv\<lparr>srv_transport := after_announcements ops (m_config srv) (announce_number (m_config srv) i flags) (srv_transport srv)\<rparr>)
    \<and> map snd rs = replicate (announce_number (m_config srv) i flags) (announce_delay (m_config srv))"
  using assms
proof (induction flags arbitrary: i srv)
  case Nil
  then show ?case
    by (auto simp: announce_loop.simps [of ops "[]"] announce_number_def after_announcements_def)
next
  case (Cons running flags)
  show ?case
  proof (cases "i < cfg_announceCount (m_config srv) \<and> running")
    case True
    obtain r s where b: "st_sendBroadcast ops (announcement (m_config srv)) DOIP_UDP_TEST_EQUIPMENT_REQUEST_PORT
        (srv_transport srv) = (r, s)" by fastforce
    let ?srv = "srv\<lparr>srv_transport := s\<rparr>" and ?k = "announce_number (m_config srv) (i + 1) flags"
    have k: "announce_number (m_config srv) i (running # flags) = Suc ?k"
      using True by (simp add: announce_number_def) linarith
    have "nat (cfg_announceCount (m_config ?srv) - (i + 1)) \<le> length flags \<or> False \<in> set flags"
      using Cons.prems True by auto
    from Cons.IH [OF this] obtain rs where "announce_loop ops flags (i + 1) ?srv = Some (rs,
        ?srv\<lparr>srv_transport := after_announcements ops (m_config srv) ?k s\<rparr>)"
      "map snd rs = replicate ?k (announce_delay (m_config srv))" by auto
    moreover have "after_announcements ops (m_config srv) (Suc ?k) (srv_transport srv) = after_announcements ops (m_config srv) ?k s"
      by (simp add: after_announcements_Suc b)
    ultimately show ?thesis using True b
      unfolding k by (simp add: announce_loop.simps [of ops "True # flags"] announce_once_def)
  next
    case False
    then show ?thesis
      by (auto simp: announce_loop.simps [of ops "running # flags"] announce_number_def after_announcements_def)
  qed
qed

lemma tcp_announcements:
  assumes "0 \<le> m_udpSocket s"
  shows "after_announcements (ts_ops os io mtu) cfg k s = s\<lparr>ts_net :=
    ((\<lambda>n. snd (px_sendto os (m_udpSocket s) (m_data (announcement cfg))
        (with_port DOIP_UDP_TEST_EQUIPMENT_REQUEST_PORT (m_broadcastAddress s)) n)) ^^ k) (ts_net s)\<rparr>"
proof (induction k)
  case (Suc k)
  have "DOIP_UDP_TEST_EQUIPMENT_REQUEST_PORT \<noteq> 0" by (simp add: DOIP_UDP_TEST_EQUIPMENT_REQUEST_PORT_def)
  with Suc assms show ?case
    by (simp add: after_announcements_def ts_ops_def ts_sendBroadcast_def split: prod.split)
qed (simp add: after_announcements_def)

section \<open>Runs\<close>

fun sys_run ::
  "nat \<Rightarrow> ('s, 't) server_ops \<Rightarrow> 't transport_ops \<Rightarrow> u8 \<Rightarrow> sys_action list \<Rightarrow> ('s, 't) server_system \<Rightarrow> ('s, 't) server_system option" where
  "sys_run fuel ops tp retries [] sys = Some sys"
| "sys_run fuel ops tp retries (a # as) sys =
     (case sys_exec fuel ops tp retries a sys of None \<Rightarrow> None | Some sys' \<Rightarrow> sys_run fuel ops tp retries as sys')"

lemma run_reach:
  "sys_reach fuel ops tp retries s0 sys \<Longrightarrow> sys_run fuel ops tp retries as sys = Some sys' \<Longrightarrow> sys_reach fuel ops tp retries s0 sys'"
  by (induction as arbitrary: sys) (auto split: option.splits intro: sys_reach.sys_step simp del: sys_exec.simps)

text \<open>A server on the mock transport with two clients waiting to be accepted.\<close>

definition demo_client :: "string \<Rightarrow> MockConnectionTransport" where
  "demo_client name = (mock_new name)\<lparr>mock_blocking := True\<rparr>"

definition demo_server :: "(MockServerTransport, MockConnectionTransport) DoIPServer" where
  "demo_server = snd (setupTcpSocket ms_ops None
     (server_new (\<lambda>_. ms_injectConnection (demo_client ''B'') (ms_injectConnection (demo_client ''A'') (ms_new ''S'')))
       DefaultServerConfig))"

lemmas demo_server_eval = demo_server_def demo_client_def setupTcpSocket_def ms_ops_def ms_setup_def server_new_def
  ms_injectConnection_def ms_new_def mock_new_def setLoopbackMode_def push_def queue_new_def Let_def

definition demo_accepts :: "sys_action list" where
  "demo_accepts = [ActListener 0 0, ActListener 0 0, ActHandler 0 0, ActListener 1 0, ActListener 1 0]"

definition demo_check :: "(MockServerTransport, MockConnectionTransport) server_system option \<Rightarrow> bool" where
  "demo_check r = (case r of None \<Rightarrow> False | Some sys \<Rightarrow>
     \<not> sys_terminated sys \<and> length (sys_conns sys) = 2 \<and> sys_handlers sys ! 0 = HandlerReceive
     \<and> mock_receiveMessage (m_transport (fst (sys_conns sys ! 0))) = None
     \<and> list_all (\<lambda>(k, e). callback e \<noteq> 0) (m_timers (m_TimerManager (sys_server sys))))"

lemma demo_run: "demo_check (sys_run 2 ms_ops mock_ops 1 demo_accepts (system_start demo_server))"
  by code_simp

lemma unowned_list: "list_all (\<lambda>(k, e). callback e \<noteq> i) (m_timers tm) \<Longrightarrow> unowned i tm"
  by (auto simp: unowned_def deadline_of_def list_all_iff dest!: map_of_SomeD)

lemma demo_stuck:
  obtains sys where "sys_run 2 ms_ops mock_ops 1 demo_accepts (system_start demo_server) = Some sys"
    "sys_reach 2 ms_ops mock_ops 1 (system_start demo_server) sys" "\<not> sys_terminated sys" "stuck mock_ops 0 sys"
proof -
  obtain sys where r: "sys_run 2 ms_ops mock_ops 1 demo_accepts (system_start demo_server) = Some sys"
    using demo_run by (auto simp: demo_check_def split: option.splits)
  with demo_run have "\<not> sys_terminated sys" "stuck mock_ops 0 sys"
    by (auto simp: demo_check_def stuck_def intro: unowned_list)
  with that r run_reach [OF sys_reach.sys_start r] show ?thesis by blast
qed

section \<open>Properties\<close>

text \<open>
  (C8) Stopping leaves nothing behind.  Whatever the application, the clients and the timers
  do and however the threads interleave: when \<open>stop\<close> has returned (and the process is still
  there) both flags are off, every thread has ended, no thread object is left, the server
  transport is inactive, and the transport of every connection that was ever accepted is
  inactive.
\<close>

theorem server_stop_quiesces:
  assumes "connection_transport ti tp" and "server_transport sinv ops"
    and "sys_reach fuel ops tp retries (system_start srv) sys"
    and "sys_stop sys = Stopped" and "\<not> sys_terminated sys"
  shows "\<not> m_tcpRunning (sys_server sys) \<and> \<not> m_udpRunning (sys_server sys) \<and> m_workerThreads (sys_server sys) = []
    \<and> sys_listener sys = ListenerDone \<and> sys_announcer sys = AnnouncerDone
    \<and> \<not> st_isActive ops (srv_transport (sys_server sys))
    \<and> (\<forall>i < length (sys_conns sys). sys_handlers sys ! i = HandlerDone
         \<and> \<not> tp_isActive tp (m_transport (fst (sys_conns sys ! i))))"
proof -
  from sys_reach_inv [OF assms(1-3)] assms(4,5)
  have "conns_inv tp sys" "all_done sys" "flags_off sys" "m_workerThreads (sys_server sys) = []"
    "\<not> st_isActive ops (srv_transport (sys_server sys))" by (simp_all add: sys_inv_def)
  then show ?thesis by (simp add: conns_inv_def all_done_def flags_off_def)
qed

text \<open>Accept the first client, stop, and let the threads end.\<close>

definition demo_stopping :: "sys_action list" where
  "demo_stopping = [ActListener 0 0, ActListener 0 0, ActStop, ActHandler 0 5, ActListener 5 0, ActStop, ActStop, ActStop]"

lemma demo_stopped:
  "case sys_run 2 ms_ops mock_ops 1 demo_stopping (system_start demo_server) of
     None \<Rightarrow> False | Some sys \<Rightarrow> sys_stop sys = Stopped \<and> \<not> sys_terminated sys \<and> length (sys_conns sys) = 1"
  by code_simp

theorem server_stop_quiesces_witness:
  "\<exists>sys. sys_run 2 ms_ops mock_ops 1 demo_stopping (system_start demo_server) = Some sys \<and> sys_stop sys = Stopped
     \<and> length (sys_conns sys) = 1 \<and> \<not> mock_isActive (m_transport (fst (sys_conns sys ! 0)))"
proof -
  obtain sys where r: "sys_run 2 ms_ops mock_ops 1 demo_stopping (system_start demo_server) = Some sys"
    and s: "sys_stop sys = Stopped" "\<not> sys_terminated sys" "length (sys_conns sys) = 1"
    using demo_stopped by (auto split: option.splits)
  from server_stop_quiesces [OF mock.connection_transport_axioms ms.server_transport_axioms
      run_reach [OF sys_reach.sys_start r] s(1,2)] r s
  show ?thesis by simp
qed

text \<open>
  (C23) A silent client blocks \<open>stop\<close> for good.  If in some reachable state the thread of a
  connection waits for a message that does not come, and no timer refers to this connection
  (its timers are lost as soon as another connection changes its state), then the thread
  waits in every later state, under every schedule of all the threads, and \<open>stop\<close> never
  returns.
\<close>

theorem server_stop_hangs:
  assumes "connection_transport ti tp" and "server_transport sinv ops"
    and "sys_reach fuel ops tp retries (system_start srv) sys" and "stuck tp i sys"
    and "sys_reach fuel ops tp retries sys sys'" and "\<not> sys_terminated sys'"
  shows "sys_handlers sys' ! i = HandlerReceive \<and> sys_stop sys' \<noteq> Stopped"
proof -
  have s: "stuck tp i sys'" and l: "ids_inv sys'"
    using reach_stuck [OF assms(1) reach_ids [OF assms(1,3)] assms(4,5)] assms(6) by simp_all
  have "sys_inv ops tp sys'" by (rule sys_reach_inv [OF assms(1,2) reach_trans [OF assms(3,5)]])
  with s l assms(6) show ?thesis by (auto simp: sys_inv_def stuck_def all_done_def ids_inv_def)
qed

theorem server_stop_hangs_witness:
  "\<exists>sys. sys_run 2 ms_ops mock_ops 1 demo_accepts (system_start demo_server) = Some sys
     \<and> Stopped \<notin> {sys_stop sys' | as sys'. sys_run 2 ms_ops mock_ops 1 as sys = Some sys' \<and> \<not> sys_terminated sys'}"
proof -
  obtain sys where r: "sys_run 2 ms_ops mock_ops 1 demo_accepts (system_start demo_server) = Some sys"
    and s: "sys_reach 2 ms_ops mock_ops 1 (system_start demo_server) sys" "stuck mock_ops 0 sys"
    by (rule demo_stuck)
  have False if "sys_run 2 ms_ops mock_ops 1 as sys = Some sys'" "\<not> sys_terminated sys'" "Stopped = sys_stop sys'" for as sys'
    using that(3) server_stop_hangs [OF mock.connection_transport_axioms ms.server_transport_axioms s
        run_reach [OF sys_reach.sys_start that(1)] that(2)] by simp
  with r show ?thesis by blast
qed

text \<open>
  Accepting while stopping ends the process.  If \<open>stop\<close> begins between the moment the
  listener has read its flag and the moment it stores the thread of the connection it
  accepts, the thread vector changes under the loop of \<open>stop\<close>.
\<close>

lemma stop_races_with_accept:
  assumes "\<not> sys_terminated sys" and "sys_listener sys = ListenerAccept" and "sys_stop sys = NotStopping"
    and "st_acceptConnection ops (srv_transport (sys_server sys)) = (Some t, s')"
    and "connection_new (mk_env tp (case m_modelFactory (sys_server sys) of Some f \<Rightarrow> f (length (sys_conns sys))
        | None \<Rightarrow> DefaultDoIPServerModel) True now) (length (sys_conns sys)) t (m_TimerManager (sys_server sys)) client retries
      = Ok () c"
  shows "\<exists>sys'. sys_run fuel ops tp retries [ActStop, ActListener now client] sys = Some sys' \<and> sys_terminated sys'"
  using assms by (simp add: stop_step_def Let_def listener_step_def acceptTcpConnection_def spawn_handler_def)

lemma handler_receives_active:
  assumes "connection_transport ti (env_tp env)" and "receiveProtocolMessage env c = Ok (Some m) c'"
  shows "tp_isActive (env_tp env) (m_transport c)"
  using assms connection_transport.receive_inactive [OF assms(1), of "m_transport c"]
  by (cases "tp_isActive (env_tp env) (m_transport c)") (auto simp: receiveProtocolMessage_def)

lemma quiet_handler:
  assumes ct: "connection_transport ti tp" and "\<And>t. ti t" and q: "quiet_app model" and I: "served_inv tp c"
  shows "(\<exists>pc' c'. connectionHandler_step (Suc n) (mk_env tp model True now) running pc c = Ok pc' c')
    \<or> (pc = HandlerReceive \<and> tp_receive tp (m_transport c) = None)"
proof -
  let ?env = "mk_env tp model True now"
  have close: "\<exists>c'. closeConnection (Suc n) ?env r c = Ok () c'" for r c by (rule close_Ok) (simp add: q)
  show ?thesis
  proof (cases pc)
    case HandlerHead
    then show ?thesis using close [of DoIPCloseReason.ApplicationRequest c] by auto
  next
    case HandlerReceive
    show ?thesis
    proof (cases "tp_receive tp (m_transport c)")
      case (Some r)
      then obtain x t where "r = Inr (x, t)"
        using connection_transport.receive_defined [OF ct assms(2), of "m_transport c"] by (cases r) auto
      with Some have r: "receiveProtocolMessage ?env c = Ok x (c\<lparr>m_transport := t\<rparr>)"
        by (simp add: receiveProtocolMessage_def)
      show ?thesis
      proof (cases x)
        case None
        then show ?thesis using HandlerReceive r close [of DoIPCloseReason.SocketError "c\<lparr>m_transport := t\<rparr>"] by auto
      next
        case (Some m)
        have "m_state c \<noteq> DoIPServerState.Closed"
          using handler_receives_active [of ti ?env c m] ct r Some I by (auto simp: served_inv_def)
        then have "m_state (c\<lparr>m_transport := t\<rparr>) \<noteq> DoIPServerState.Closed" by simp
        from handleMessage_Ok [of ?env, OF _ this, of n m] q HandlerReceive r Some show ?thesis by auto
      qed
    qed (simp add: HandlerReceive)
  qed simp
qed

text \<open>Every connection runs with a model of the factory.\<close>

definition app_for :: "(nat \<Rightarrow> 't DoIPServerModel) option \<Rightarrow> nat \<Rightarrow> 't DoIPServerModel" where
  "app_for mf k = (case mf of Some f \<Rightarrow> f k | None \<Rightarrow> DefaultDoIPServerModel)"

definition models_inv :: "(nat \<Rightarrow> 't DoIPServerModel) option \<Rightarrow> ('s, 't) server_system \<Rightarrow> bool" where
  "models_inv mf sys \<longleftrightarrow> m_modelFactory (sys_server sys) = mf
     \<and> (\<forall>j < length (sys_conns sys). snd (sys_conns sys ! j) = app_for mf j)"

lemma stepped_models: "conn_stepped j sys sys' \<Longrightarrow> models_inv mf sys \<Longrightarrow> models_inv mf sys'"
  by (auto simp: conn_stepped_def models_inv_def put_conn_def model_of_def nth_list_update)

lemma accept_model:
  assumes "acceptTcpConnection ops tp now this client retries mf srv = Ok cm srv'"
  shows "cm = Some (c, model) \<Longrightarrow> model = app_for mf this" and "m_modelFactory srv' = m_modelFactory srv"
  using assms by (auto simp: acceptTcpConnection_def Let_def app_for_def split: prod.splits option.splits outcome.splits)

lemma listener_models:
  assumes "listener_step ops tp retries now client sys = Some sys'" and "models_inv mf sys"
  shows "models_inv mf sys' \<or> sys_terminated sys'"
proof (cases "sys_listener sys")
  case ListenerAccept
  show ?thesis
  proof (cases "acceptTcpConnection ops tp now (length (sys_conns sys)) client retries
                  (m_modelFactory (sys_server sys)) (sys_server sys)")
    case (Ok cm srv)
    note a = accept_model [OF Ok]
    show ?thesis
    proof (cases cm)
      case None
      with assms ListenerAccept Ok a(2) show ?thesis by (auto simp: listener_step_def models_inv_def)
    next
      case (Some x)
      obtain c m where x: "x = (c, m)" by fastforce
      with a(1) [of c m] Some assms(2) have "m = app_for mf (length (sys_conns sys))" by (simp add: models_inv_def)
      with assms ListenerAccept Ok a(2) Some x show ?thesis
        by (auto simp: listener_step_def models_inv_def spawn_handler_def Let_def nth_append less_Suc_eq)
    qed
  qed (use assms ListenerAccept in \<open>auto simp: listener_step_def\<close>)
qed (use assms in \<open>auto simp: listener_step_def models_inv_def\<close>)

lemma announcer_factory [simp]: "m_modelFactory (snd (announce_once ops srv)) = m_modelFactory srv"
  by (simp add: announce_once_def split: prod.split)

lemma reach_models:
  assumes ct: "connection_transport ti tp" and "sys_reach fuel ops tp retries (system_start srv) sys"
  shows "models_inv (m_modelFactory srv) sys \<or> sys_terminated sys"
  using assms(2)
proof (induction rule: sys_reach.induct)
  case sys_start
  then show ?case by (simp add: models_inv_def system_start_def)
next
  case (sys_step sys a sys')
  then have nt: "\<not> sys_terminated sys" by (auto split: if_splits)
  with sys_step.IH have I: "models_inv (m_modelFactory srv) sys" by simp
  show ?case
  proof (cases a)
    case (ActListener now client)
    with sys_step.hyps(2) nt listener_models [OF _ I] show ?thesis by simp
  next
    case (ActHandler j now)
    with sys_step.hyps(2) nt have "handler_step fuel tp j now sys = Some sys'" by simp
    from stepped_models [OF handler_step_stepped [OF ct this] I] show ?thesis ..
  next
    case (ActTimer j t now)
    with sys_step.hyps(2) nt have "timer_step fuel tp j t now sys = Some sys'" by simp
    from timer_step_stepped [OF ct this] stepped_models [OF _ I, of j sys'] show ?thesis by auto
  qed (use sys_step.hyps(2) nt I in \<open>auto simp: announcer_step_def stop_step_def models_inv_def Let_def
      split: if_splits announcer_pc.splits stop_pc.splits\<close>)
qed



text \<open>
  (C27) The vehicle is announced as configured.  The announcement thread ends once it has sent
  \<open>announceCount\<close> announcements or reads a cleared flag; up to then it sends the vehicle
  identification response with the configured VIN, logical address, EID and GID to port
  13401 of the broadcast address of the transport, once per reading of the flag, and sleeps
  for the configured interval, multiplied by 1000 in 32 bits, after each.
\<close>

theorem announcements_sent:
  fixes srv :: "('n TcpServerTransport, 'n TcpConnectionTransport) DoIPServer"
  assumes "cfg = m_config srv" and "s = srv_transport srv"
    and "nat (cfg_announceCount cfg) \<le> length flags \<or> False \<in> set flags" and "0 \<le> m_udpSocket s"
    and "k = min (nat (cfg_announceCount cfg)) (length (takeWhile id flags))"
  shows "\<exists>rs. udpAnnouncementThread (ts_ops os io mtu) flags srv = Some (rs, srv\<lparr>srv_transport := s\<lparr>ts_net :=
        ((\<lambda>n. snd (px_sendto os (m_udpSocket s)
            (m_data (makeVehicleIdentificationResponse (cfg_vin cfg) (cfg_logicalAddress cfg) (cfg_eid cfg) (cfg_gid cfg)
               DoIPFurtherAction.NoFurtherAction DoIPSyncStatus.GidVinSynchronized))
            (with_port 13401 (m_broadcastAddress s)) n)) ^^ k) (ts_net s)\<rparr>\<rparr>)
    \<and> map snd rs = replicate k (cfg_announceInterval cfg * 1000)"
  using announce_loop_eq [of srv 0 flags "ts_ops os io mtu"] tcp_announcements [OF assms(4), of os io mtu cfg k] assms(3,5)
  unfolding assms(1,2) udpAnnouncementThread_def announce_number_def announcement_def announce_delay_def
    DOIP_UDP_TEST_EQUIPMENT_REQUEST_PORT_def by simp

text \<open>Two announcements of a server on the kernel that records the datagrams.\<close>

definition sim_io :: "sim_kernel os_socket" where
  "sim_io = \<lparr>os_recv = (\<lambda>_ _ n. (RecvEof, n)), os_write = (\<lambda>_ bs n. (int (length bs), n)), os_close = (\<lambda>_ n. n),
     os_getpeername = (\<lambda>_ _. None)\<rparr>"

definition demo_tcp_server :: "(sim_kernel TcpServerTransport, sim_kernel TcpConnectionTransport) DoIPServer" where
  "demo_tcp_server = snd (setupTcpSocket (ts_ops sim_posix sim_io 64) None
     (server_new (\<lambda>l. ts_new l (3, {0, 1, 2}, [])) DefaultServerConfig))"

lemma demo_tcp_server_transport:
  "srv_transport demo_tcp_server = \<lparr>m_tcpServerSocket = 3, m_udpSocket = 4, ts_port = 13400, m_loopback = False,
     ts_isActive = True, m_broadcastAddress = InetAddr ''255.255.255.255'' 13401, ts_net = (5, {4, 3, 0, 1, 2}, [])\<rparr>"
  "m_config demo_tcp_server = DefaultServerConfig"
  by (simp_all add: demo_tcp_server_def setupTcpSocket_def server_new_def setLoopbackMode_def ts_ops_def ts_new_def
      ts_setup_def ts_setupTcpSocket_def ts_setupUdpSocket_def ts_configureBroadcast_def sim_posix_def sim_new_def
      DefaultServerConfig_def DOIP_SERVER_TCP_PORT_def DOIP_UDP_TEST_EQUIPMENT_REQUEST_PORT_def Let_def)

theorem announcements_sent_witness:
  "\<exists>rs srv'. udpAnnouncementThread (ts_ops sim_posix sim_io 64) [True, True, False] demo_tcp_server = Some (rs, srv')
    \<and> map snd rs = [500000, 500000]
    \<and> snd (snd (ts_net (srv_transport srv'))) = replicate 2 (m_data (announcement DefaultServerConfig), InetAddr ''255.255.255.255'' 13401)"
  using announcements_sent [OF refl refl _ _ refl, of demo_tcp_server "[True, True, False]" sim_posix sim_io 64]
  by (auto simp: demo_tcp_server_transport sim_posix_def with_port_def announcement_def DefaultServerConfig_def
      numeral_2_eq_2)

text \<open>
  Two settings have no effect on the announcements: the loopback mode is fixed when the
  server is constructed, since a later \<open>setLoopbackMode\<close> does not reach the transport, and the
  announced further action is none whatever \<open>setFurtherActionRequired\<close> was told.
\<close>

lemma announcement_ignores_settings:
  "announce_once ops (setLoopbackMode b srv) = apsnd (setLoopbackMode b) (announce_once ops srv)
    \<and> announce_once ops (setFurtherActionRequired fa srv) = apsnd (setFurtherActionRequired fa) (announce_once ops srv)
    \<and> m_loopback (srv_transport (setLoopbackMode b (server_new (\<lambda>l. ts_new l n) cfg))) = cfg_loopback cfg"
  by (simp add: announce_once_def setLoopbackMode_def setFurtherActionRequired_def announcement_def server_new_def
      ts_new_def split: prod.split)

text \<open>
  The default EID.  \<open>setDefaultEid\<close> leaves no descriptor open and always stores six
  bytes: on success the hardware address of one of the interfaces other than \<open>lo\<close>, not all
  zero, otherwise zeros.
\<close>

lemma default_eid:
  assumes "fd_ledger os fds" and "hw_sized nx"
  shows "\<exists>ok srv' n'. setDefaultEid os nx srv n = Inr (ok, srv', n') \<and> fds n' = fds n
    \<and> (if ok then \<exists>ifas. nx_getifaddrs nx n = Some ifas \<and> usable_mac nx ifas (cfg_eid (m_config srv'))
       else cfg_eid (m_config srv') = replicate 6 0)
    \<and> length (cfg_eid (m_config srv')) = 6 \<and> (\<exists>e. srv' = srv\<lparr>m_config := (m_config srv)\<lparr>cfg_eid := e\<rparr>\<rparr>)"
proof -
  obtain ok mac n' where g: "getFirstMacAddress os nx (replicate 6 0) n = (ok, mac, n')"
    by (cases "getFirstMacAddress os nx (replicate 6 0) n") auto
  note s = getFirstMacAddress_spec [OF assms g]
  show ?thesis
  proof (cases ok)
    case False
    with g s show ?thesis
      by (auto simp: setDefaultEid_def id_default_def id_pad_def id_init_def eid_type_def)
  next
    case True
    with s have l: "length mac = 6" by (auto simp: usable_mac_def)
    then have "id_from_bytes eid_type (Some mac) 6 = Inr mac"
      by (simp add: id_from_bytes_eq id_from_byteArray_eq eid_type_def)
    with True g s l show ?thesis by (auto simp: setDefaultEid_def eid_type_def)
  qed
qed

definition demo_netif :: "sim_kernel netif" where
  "demo_netif = \<lparr>nx_getifaddrs = (\<lambda>n. Some [(''lo'', True), (''eth0'', True)]),
     nx_hwaddr = (\<lambda>fd name n. if name = ''eth0'' then Some [2, 0, 0, 0, 0, 7, 0] else None)\<rparr>"

end
