(* ===== verification/DoIP_Client.thy ===== *)
theory DoIP_Client
  imports DoIP_ServerBehaviour
begin

text \<open>
  The test client (\<^verbatim>\<open>inc/DoIPClient.h\<close>, \<^verbatim>\<open>src/DoIPClient.cpp\<close>): sockets, requests, the reception of
  messages and announcements.  The socket calls are those of \<open>DoIP_Posix\<close>; \<open>recvfrom\<close>, which
  also reports the sender, and \<open>inet_aton\<close> are a parameter of their own.  Members that only
  log what they received return it.  The formatting of log messages runs inside the
  logger, which catches its exceptions, and is left out.
\<close>

section \<open>State\<close>

datatype recvfrom_result = Datagram "u8 list" sock_addr | DatagramError errno

record 'n datagram_ops =
  dg_recvfrom :: "int \<Rightarrow> nat \<Rightarrow> 'n \<Rightarrow> recvfrom_result \<times> 'n"
  dg_inet_aton :: "string \<Rightarrow> string option"

definition maxDataSize :: nat where
  "maxDataSize = 64"

text \<open>
  The receive buffer is the storage the constructor reserves (\<open>DOIP_MAXIMUM_MTU\<close> bytes, not
  initialised, as are the three addresses): these values are arguments of the constructor.
\<close>

record 'n DoIPClient =
  m_receiveBuf :: "u8 list"
  m_tcpSocket :: int
  cl_udpSocket :: int
  m_udpAnnouncementSocket :: int
  m_connected :: int
  m_serverAddress :: sock_addr
  m_clientAddress :: sock_addr
  m_announcementAddress :: sock_addr
  m_sourceAddress :: DoIPAddress
  m_vin :: fixed_id
  m_logicalAddress :: DoIPAddress
  m_eid :: fixed_id
  m_gid :: fixed_id
  m_furtherActionReqResult :: DoIPFurtherAction
  emptyMessageCounter :: int
  cl_net :: 'n

definition client_new :: "u8 list \<Rightarrow> sock_addr \<Rightarrow> sock_addr \<Rightarrow> sock_addr \<Rightarrow> 'n \<Rightarrow> 'n DoIPClient" where
  "client_new storage a1 a2 a3 n = \<lparr>m_receiveBuf = storage, m_tcpSocket = - 1, cl_udpSocket = - 1,
     m_udpAnnouncementSocket = - 1, m_connected = - 1, m_serverAddress = a1, m_clientAddress = a2,
     m_announcementAddress = a3, m_sourceAddress = 0xE000, m_vin = vin_from_integral 4 0,
     m_logicalAddress = ZERO_ADDRESS, m_eid = id_from_integral eid_type 4 0, m_gid = id_from_integral eid_type 4 0,
     m_furtherActionReqResult = DoIPFurtherAction.NoFurtherAction, emptyMessageCounter = 0, cl_net = n\<rparr>"

section \<open>Sockets\<close>

text \<open>The loop of \<open>startTcpConnection\<close> ends only when a connection is made.\<close>

partial_function (option) connect_loop :: "'n posix \<Rightarrow> int \<Rightarrow> sock_addr \<Rightarrow> 'n \<Rightarrow> (int \<times> 'n) option" where
  "connect_loop os fd a n =
     (case px_connect os fd a n of (r, n') \<Rightarrow> if r \<noteq> - 1 then Some (r, n') else connect_loop os fd a n')"

definition startTcpConnection :: "'n posix \<Rightarrow> 'n DoIPClient \<Rightarrow> 'n DoIPClient option" where
  "startTcpConnection os cl =
     (case px_socket os StreamSocket (cl_net cl) of (fd, n) \<Rightarrow>
        let cl = cl\<lparr>m_tcpSocket := fd, cl_net := n\<rparr> in
        if fd \<ge> 0 then
          (let cl = cl\<lparr>m_serverAddress := InetAddr ''127.0.0.1'' DOIP_UDP_DISCOVERY_PORT\<rparr>
           in case connect_loop os fd (m_serverAddress cl) n of
                None \<Rightarrow> None
              | Some (r, n) \<Rightarrow> Some (cl\<lparr>m_connected := r, cl_net := n\<rparr>))
        else Some cl)"

definition startUdpConnection :: "'n posix \<Rightarrow> 'n DoIPClient \<Rightarrow> 'n DoIPClient" where
  "startUdpConnection os cl =
     (case px_socket os DgramSocket (cl_net cl) of (fd, n) \<Rightarrow>
        let cl = cl\<lparr>cl_udpSocket := fd, cl_net := n\<rparr> in
        if fd \<ge> 0 then
          (let cl = cl\<lparr>m_serverAddress := any_addr DOIP_UDP_DISCOVERY_PORT, m_clientAddress := any_addr DOIP_UDP_DISCOVERY_PORT\<rparr>
           in case px_bind os fd (m_clientAddress cl) n of (_, n) \<Rightarrow> cl\<lparr>cl_net := n\<rparr>)
        else cl)"

definition startAnnouncementListener :: "'n posix \<Rightarrow> 'n DoIPClient \<Rightarrow> 'n DoIPClient" where
  "startAnnouncementListener os cl =
     (case px_socket os DgramSocket (cl_net cl) of (fd, n) \<Rightarrow>
        let cl = cl\<lparr>m_udpAnnouncementSocket := fd, cl_net := n\<rparr> in
        if fd \<ge> 0 then
          (case px_setsockopt os fd ReuseAddr n of (_, n) \<Rightarrow>
           case px_setsockopt os fd Broadcast n of (_, n) \<Rightarrow>
             let cl = cl\<lparr>m_announcementAddress := any_addr DOIP_UDP_TEST_EQUIPMENT_REQUEST_PORT\<rparr>
             in case px_bind os fd (m_announcementAddress cl) n of (_, n) \<Rightarrow> cl\<lparr>cl_net := n\<rparr>)
        else cl)"

definition closeTcpConnection :: "'n posix \<Rightarrow> 'n DoIPClient \<Rightarrow> 'n DoIPClient" where
  "closeTcpConnection os cl = cl\<lparr>cl_net := px_close os (m_tcpSocket cl) (cl_net cl)\<rparr>"

definition closeUdpConnection :: "'n posix \<Rightarrow> 'n DoIPClient \<Rightarrow> 'n DoIPClient" where
  "closeUdpConnection os cl =
     (let cl = cl\<lparr>cl_net := px_close os (cl_udpSocket cl) (cl_net cl)\<rparr>
      in if m_udpAnnouncementSocket cl \<ge> 0
         then cl\<lparr>cl_net := px_close os (m_udpAnnouncementSocket cl) (cl_net cl)\<rparr> else cl)"

definition reconnectServer :: "'n posix \<Rightarrow> 'n DoIPClient \<Rightarrow> 'n DoIPClient option" where
  "reconnectServer os cl = startTcpConnection os (closeTcpConnection os cl)"

section \<open>Requests\<close>

definition client_write :: "'n posix \<Rightarrow> DoIPMessage \<Rightarrow> 'n DoIPClient \<Rightarrow> int \<times> 'n DoIPClient" where
  "client_write os m cl =
     (case px_send os (m_tcpSocket cl) (m_data m) (cl_net cl) of (r, n) \<Rightarrow> (r, cl\<lparr>cl_net := n\<rparr>))"

definition sendRoutingActivationRequest :: "'n posix \<Rightarrow> 'n DoIPClient \<Rightarrow> int \<times> 'n DoIPClient" where
  "sendRoutingActivationRequest os cl =
     client_write os (makeRoutingActivationRequest (m_sourceAddress cl) DoIPRoutingActivationType.Default) cl"

definition sendDiagnosticMessage :: "'n posix \<Rightarrow> ByteArray \<Rightarrow> 'n DoIPClient \<Rightarrow> int \<times> 'n DoIPClient" where
  "sendDiagnosticMessage os pl cl =
     client_write os (makeDiagnosticMessage (m_sourceAddress cl) (m_logicalAddress cl) pl) cl"

definition sendAliveCheckResponse :: "'n posix \<Rightarrow> 'n DoIPClient \<Rightarrow> int \<times> 'n DoIPClient" where
  "sendAliveCheckResponse os cl = client_write os (makeAliveCheckResponse (m_sourceAddress cl)) cl"

definition sendVehicleIdentificationRequest ::
  "'n posix \<Rightarrow> 'n datagram_ops \<Rightarrow> string \<Rightarrow> 'n DoIPClient \<Rightarrow> int \<times> 'n DoIPClient" where
  "sendVehicleIdentificationRequest os dg inet_address cl =
     (let cl = (case (dg_inet_aton dg inet_address, m_serverAddress cl) of
                  (Some ip, InetAddr _ port) \<Rightarrow> cl\<lparr>m_serverAddress := InetAddr ip port\<rparr>
                | _ \<Rightarrow> cl)
      in case px_setsockopt os (cl_udpSocket cl) Broadcast (cl_net cl) of (_, n) \<Rightarrow>
         (case px_sendto os (cl_udpSocket cl) (m_data makeVehicleIdentificationRequest) (m_serverAddress cl) n of
            (bytesSent, n) \<Rightarrow> (bytesSent, cl\<lparr>cl_net := n\<rparr>)))"

section \<open>Reception\<close>

text \<open>The messages of a read are parsed from the start of the buffer, up to the length read.\<close>

definition client_store :: "u8 list \<Rightarrow> 'n DoIPClient \<Rightarrow> DoIPMessage option res \<times> 'n DoIPClient" where
  "client_store bs cl =
     (let cl = cl\<lparr>m_receiveBuf := buffer_write (m_receiveBuf cl) 0 bs\<rparr>
      in (tryParse (Some (m_receiveBuf cl)) (length bs), cl))"

definition client_receiveMessage :: "'n posix \<Rightarrow> 'n DoIPClient \<Rightarrow> (DoIPMessage option res \<times> 'n DoIPClient) option" where
  "client_receiveMessage os cl =
     (case px_recv os (m_tcpSocket cl) maxDataSize (cl_net cl) of
        (RecvError _, n) \<Rightarrow> Some (Inr None, cl\<lparr>cl_net := n\<rparr>)
      | (RecvEof, n) \<Rightarrow>
          (let cl = cl\<lparr>cl_net := n, emptyMessageCounter := emptyMessageCounter cl + 1\<rparr>
           in if emptyMessageCounter cl = 5
              then map_option (\<lambda>cl. (Inr None, cl)) (reconnectServer os (cl\<lparr>emptyMessageCounter := 0\<rparr>))
              else Some (Inr None, cl))
      | (RecvData bs, n) \<Rightarrow> Some (client_store bs (cl\<lparr>cl_net := n\<rparr>)))"

definition receiveUdpMessage :: "'n posix \<Rightarrow> 'n datagram_ops \<Rightarrow> 'n DoIPClient \<Rightarrow> DoIPMessage option res \<times> 'n DoIPClient" where
  "receiveUdpMessage os dg cl =
     (case px_setsockopt os (cl_udpSocket cl) (RcvTimeo 3) (cl_net cl) of (_, n) \<Rightarrow>
        case dg_recvfrom dg (cl_udpSocket cl) maxDataSize n of
          (DatagramError _, n) \<Rightarrow> (Inr None, cl\<lparr>cl_net := n\<rparr>)
        | (Datagram bs sender, n) \<Rightarrow> client_store bs (cl\<lparr>cl_net := n, m_clientAddress := sender\<rparr>))"

text \<open>
  The five fields are read first, then each \<open>value()\<close> is stored or throws; the fields stored
  before an exception keep their new values.
\<close>

definition store_field :: "'a option \<Rightarrow> ('a \<Rightarrow> 'c \<Rightarrow> 'c) \<Rightarrow> unit res \<times> 'c \<Rightarrow> unit res \<times> 'c" where
  "store_field v upd r =
     (case r of (Inl e, cl) \<Rightarrow> (Inl e, cl)
      | (Inr _, cl) \<Rightarrow> (case opt_value v of Inl e \<Rightarrow> (Inl e, cl) | Inr a \<Rightarrow> (Inr (), upd a cl)))"

definition parseVehicleIdentificationResponse :: "DoIPMessage \<Rightarrow> 'n DoIPClient \<Rightarrow> unit res \<times> 'n DoIPClient" where
  "parseVehicleIdentificationResponse msg cl =
     (case rbind (getVin msg) (\<lambda>optVin. rbind (getEid msg) (\<lambda>optEid. rbind (getGid msg) (\<lambda>optGid.
           rbind (getLogicalAddress msg) (\<lambda>optLogicalAddress. rbind (getFurtherActionRequest msg) (\<lambda>optFurtherAction.
           Inr (optVin, optEid, optGid, optLogicalAddress, optFurtherAction)))))) of
        Inl e \<Rightarrow> (Inl e, cl)
      | Inr (optVin, optEid, optGid, optLogicalAddress, optFurtherAction) \<Rightarrow>
          store_field optFurtherAction (\<lambda>a. m_furtherActionReqResult_update (\<lambda>_. a))
            (store_field optLogicalAddress (\<lambda>a. m_logicalAddress_update (\<lambda>_. a))
            (store_field optGid (\<lambda>a. m_gid_update (\<lambda>_. a))
            (store_field optEid (\<lambda>a. m_eid_update (\<lambda>_. a))
            (store_field optVin (\<lambda>a. m_vin_update (\<lambda>_. a)) (Inr (), cl))))))"

definition receiveVehicleAnnouncement :: "'n posix \<Rightarrow> 'n datagram_ops \<Rightarrow> 'n DoIPClient \<Rightarrow> bool res \<times> 'n DoIPClient" where
  "receiveVehicleAnnouncement os dg cl =
     (case px_setsockopt os (m_udpAnnouncementSocket cl) (RcvTimeo 2) (cl_net cl) of (_, n) \<Rightarrow>
        case dg_recvfrom dg (m_udpAnnouncementSocket cl) maxDataSize n of
          (DatagramError _, n) \<Rightarrow> (Inr False, cl\<lparr>cl_net := n\<rparr>)
        | (Datagram bs sender, n) \<Rightarrow>
            (case client_store bs (cl\<lparr>cl_net := n, m_announcementAddress := sender\<rparr>) of
               (Inl e, cl) \<Rightarrow> (Inl e, cl)
             | (Inr None, cl) \<Rightarrow> (Inr False, cl)
             | (Inr (Some msg), cl) \<Rightarrow>
                 if getPayloadType msg = DoIPPayloadType.VehicleIdentificationResponse
                 then (case parseVehicleIdentificationResponse msg cl of
                         (Inl e, cl) \<Rightarrow> (Inl e, cl)
                       | (Inr _, cl) \<Rightarrow> (Inr True, cl))
                 else (Inr False, cl)))"

section \<open>Settings and display\<close>

definition setSourceAddress :: "DoIPAddress \<Rightarrow> 'n DoIPClient \<Rightarrow> 'n DoIPClient" where
  "setSourceAddress address cl = cl\<lparr>m_sourceAddress := address\<rparr>"

definition getSockFd :: "'n DoIPClient \<Rightarrow> int" where
  "getSockFd cl = m_tcpSocket cl"

definition getConnected :: "'n DoIPClient \<Rightarrow> int" where
  "getConnected cl = m_connected cl"

definition ansi_bold_green :: string where "ansi_bold_green = CHR 0x1B # ''[1;32m''"

text \<open>The lines given to the logger; whether it supports colours is an argument.\<close>

definition info_line :: "bool \<Rightarrow> string \<Rightarrow> string \<Rightarrow> string" where
  "info_line colors label v = label @ (if colors then ansi_bold_green else []) @ v @ ansi_reset"

definition printVehicleInformationResponse :: "bool \<Rightarrow> 'n DoIPClient \<Rightarrow> string list" where
  "printVehicleInformationResponse colors cl =
     [info_line colors ''VIN: '' (show_vin (m_vin cl)), info_line colors ''LA : '' (show_address (m_logicalAddress cl)),
      info_line colors ''EID: '' (show_eid (m_eid cl)), info_line colors ''GID: '' (show_eid (m_gid cl)),
      info_line colors ''FAR: '' (show_furtherAction (m_furtherActionReqResult cl))]"

section \<open>A kernel for the witnesses\<close>

text \<open>
  The state holds the bytes written and the bytes still to be read; every call succeeds and
  a read returns all it may.
\<close>

definition pipe_posix :: "(u8 list \<times> u8 list) posix" where
  "pipe_posix = \<lparr>
     px_socket = (\<lambda>_ n. (3, n)), px_setsockopt = (\<lambda>_ _ n. (0, n)), px_bind = (\<lambda>_ _ n. (0, n)),
     px_nonblock = (\<lambda>_ n. n), px_listen = (\<lambda>_ _ n. (0, n)), px_accept = (\<lambda>_ n. (- 1, n)),
     px_connect = (\<lambda>_ _ n. (0, n)), px_sendto = (\<lambda>_ bs _ n. (int (length bs), n)),
     px_send = (\<lambda>_ bs (out, inp). (int (length bs), (out @ bs, inp))),
     px_recv = (\<lambda>_ k (out, inp). if inp = [] then (RecvEof, (out, inp)) else (RecvData (take k inp), (out, drop k inp))),
     px_ifindex = (\<lambda>_ _ _. None), px_close = (\<lambda>_ n. n), px_strerror = (\<lambda>_. ''Success'')\<rparr>"

definition one_datagram :: "u8 list \<Rightarrow> 'n datagram_ops" where
  "one_datagram bs = \<lparr>dg_recvfrom = (\<lambda>_ k n. (Datagram (take k bs) (InetAddr ''192.168.0.7'' 13401), n)),
     dg_inet_aton = Some\<rparr>"

definition demo_tester :: "u8 list \<Rightarrow> (u8 list \<times> u8 list) DoIPClient" where
  "demo_tester inp = client_new (replicate 64 0) (any_addr 0) (any_addr 0) (any_addr 0) ([], inp)"

section \<open>Connecting\<close>

text \<open>The network after a number of further attempts.\<close>

fun attempts :: "'n posix \<Rightarrow> int \<Rightarrow> sock_addr \<Rightarrow> nat \<Rightarrow> 'n \<Rightarrow> 'n" where
  "attempts os fd a 0 n = n"
| "attempts os fd a (Suc k) n = attempts os fd a k (snd (px_connect os fd a n))"

lemma connect_loop_some:
  "fst (px_connect os fd a (attempts os fd a k n)) \<noteq> - 1 \<Longrightarrow> \<exists>r n'. connect_loop os fd a n = Some (r, n') \<and> r \<noteq> - 1"
proof (induction k arbitrary: n)
  case 0
  then show ?case by (subst connect_loop.simps) (auto split: prod.split)
next
  case (Suc k)
  obtain r n' where c: "px_connect os fd a n = (r, n')" by fastforce
  then show ?case using Suc.IH [of n'] Suc.prems by (subst connect_loop.simps) simp
qed

lemmas connect_loop_induct = connect_loop.raw_induct [rotated, consumes 1, case_names step]

lemma connect_loop_success:
  "connect_loop os fd a n = Some x \<Longrightarrow> \<exists>k. px_connect os fd a (attempts os fd a k n) = x \<and> fst x \<noteq> - 1"
proof (induction os fd a n x rule: connect_loop_induct)
  case (step loop os fd a n x)
  obtain r n' where c: "px_connect os fd a n = (r, n')" by fastforce
  show ?case
  proof (cases "r = - 1")
    case True
    then obtain k where "px_connect os fd a (attempts os fd a k n') = x" "fst x \<noteq> - 1"
      using step(1) [of os fd a n' x] step(2) c by auto
    then show ?thesis using c by (intro exI [of _ "Suc k"]) simp
  next
    case False
    then show ?thesis using step(2) c by (intro exI [of _ 0]) auto
  qed
qed

text \<open>\<open>startTcpConnection\<close> returns exactly when it gets no socket or one of its attempts succeeds.\<close>

lemma startTcpConnection_returns:
  assumes "px_socket os StreamSocket (cl_net cl) = (fd, n)"
  shows "(\<exists>cl'. startTcpConnection os cl = Some cl') \<longleftrightarrow>
    fd < 0 \<or> (\<exists>k. fst (px_connect os fd (InetAddr ''127.0.0.1'' DOIP_UDP_DISCOVERY_PORT)
      (attempts os fd (InetAddr ''127.0.0.1'' DOIP_UDP_DISCOVERY_PORT) k n)) \<noteq> - 1)"
proof -
  let ?a = "InetAddr ''127.0.0.1'' DOIP_UDP_DISCOVERY_PORT"
  have "(\<exists>x. connect_loop os fd ?a n = Some x) \<longleftrightarrow> (\<exists>k. fst (px_connect os fd ?a (attempts os fd ?a k n)) \<noteq> - 1)"
    using connect_loop_some connect_loop_success by metis
  then show ?thesis using assms
    by (cases "connect_loop os fd ?a n") (auto simp: startTcpConnection_def Let_def)
qed

section \<open>The parsed part of the buffer\<close>

lemma parses_to_prefix: "parses_to (bs @ rest) (length bs) m \<longleftrightarrow> parses_to bs (length bs) m"
  by (simp add: parses_to_def cong: conj_cong)

lemma tryParse_prefix: "tryParse (Some (bs @ rest)) (length bs) = tryParse (Some bs) (length bs)"
proof (cases "8 \<le> length bs")
  case True
  obtain r1 r2 where r: "tryParse (Some (bs @ rest)) (length bs) = Inr r1" "tryParse (Some bs) (length bs) = Inr r2"
    using tryParse_defined [of "length bs" "bs @ rest"] tryParse_defined [of "length bs" bs] by auto
  have "r1 = Some m \<longleftrightarrow> r2 = Some m" for m
    using tryParse_parses_to [of "length bs" "bs @ rest" m] tryParse_parses_to [of "length bs" bs m] True r
    by (simp add: parses_to_prefix)
  then have "r1 = r2" by (metis not_Some_eq)
  then show ?thesis using r by simp
qed (simp add: tryParse_short)

lemma client_store_eq:
  "client_store bs cl = (tryParse (Some bs) (length bs), cl\<lparr>m_receiveBuf := bs @ drop (length bs) (m_receiveBuf cl)\<rparr>)"
  by (simp add: client_store_def buffer_write_def tryParse_prefix)

lemma tryParse_Some_iff: "tryParse (Some bs) (length bs) = Inr (Some m) \<longleftrightarrow> parses_to bs (length bs) m"
  using tryParse_parses_to [of "length bs" bs m] by (cases "8 \<le> length bs") (auto simp: tryParse_short parses_to_def)

section \<open>Vehicle announcements\<close>

lemma parse_response_outcome:
  assumes "getPayloadType m = DoIPPayloadType.VehicleIdentificationResponse"
  shows "case parseVehicleIdentificationResponse m cl of
     (Inr _, cl') \<Rightarrow> 32 \<le> getPayloadSize m \<and> getVin m = Inr (Some (m_vin cl')) \<and> getEid m = Inr (Some (m_eid cl'))
       \<and> getGid m = Inr (Some (m_gid cl')) \<and> getLogicalAddress m = Inr (Some (m_logicalAddress cl'))
       \<and> getFurtherActionRequest m = Inr (Some (m_furtherActionReqResult cl'))
   | (Inl e, cl') \<Rightarrow> (e = UndefinedRead \<and> getPayloadSize m = 31 \<and> cl' = cl)
       \<or> (e = BadOptionalAccess \<and> getPayloadSize m < 31 \<and> m_logicalAddress cl' = m_logicalAddress cl \<and> m_gid cl' = m_gid cl
          \<and> (if 17 \<le> getPayloadSize m then getVin m = Inr (Some (m_vin cl')) else cl' = cl))"
  using assms getPayload_cases [of m]
  by (auto simp: parseVehicleIdentificationResponse_def store_field_def getLogicalAddress_def getVin_def getEid_def
      getGid_def getFurtherActionRequest_def vin_from_bytes_def id_from_bytes_eq readAddressFrom_in
      split: if_splits)

lemma announcement_reception:
  assumes "px_setsockopt os (m_udpAnnouncementSocket cl) (RcvTimeo 2) (cl_net cl) = (r, n)"
    and "dg_recvfrom dg (m_udpAnnouncementSocket cl) maxDataSize n = (Datagram bs sender, n')"
    and "cl1 = cl\<lparr>cl_net := n', m_announcementAddress := sender, m_receiveBuf := bs @ drop (length bs) (m_receiveBuf cl)\<rparr>"
  shows "parses_to bs (length bs) m \<Longrightarrow> getPayloadType m = DoIPPayloadType.VehicleIdentificationResponse \<Longrightarrow>
      receiveVehicleAnnouncement os dg cl = apfst (map_sum id (\<lambda>_. True)) (parseVehicleIdentificationResponse m cl1)"
    and "\<forall>m. parses_to bs (length bs) m \<longrightarrow> getPayloadType m \<noteq> DoIPPayloadType.VehicleIdentificationResponse \<Longrightarrow>
      receiveVehicleAnnouncement os dg cl = (Inr False, cl1)"
proof -
  let ?v = DoIPPayloadType.VehicleIdentificationResponse
  obtain x where x: "tryParse (Some bs) (length bs) = Inr x" using tryParse_defined [of "length bs" bs] by auto
  have u: "receiveVehicleAnnouncement os dg cl = (case x of None \<Rightarrow> (Inr False, cl1) | Some m \<Rightarrow>
      if getPayloadType m = ?v then apfst (map_sum id (\<lambda>_. True)) (parseVehicleIdentificationResponse m cl1) else (Inr False, cl1))"
    using assms x by (auto simp: receiveVehicleAnnouncement_def client_store_eq split: option.split sum.split prod.split)
  show "parses_to bs (length bs) m \<Longrightarrow> getPayloadType m = ?v \<Longrightarrow>
      receiveVehicleAnnouncement os dg cl = apfst (map_sum id (\<lambda>_. True)) (parseVehicleIdentificationResponse m cl1)"
    using u x tryParse_Some_iff [of bs m] by simp
  show "\<forall>m. parses_to bs (length bs) m \<longrightarrow> getPayloadType m \<noteq> ?v \<Longrightarrow> receiveVehicleAnnouncement os dg cl = (Inr False, cl1)"
    using u x tryParse_Some_iff [of bs] by (simp split: option.split)
qed

text \<open>
  (C18) The client learns what the server announces.  When a datagram with the announcement of a
  server configuration arrives on the announcement socket, the client stores exactly the
  configured VIN, EID, GID and logical address, reports success, and addresses its
  diagnostic messages to the announced logical address from then on.
\<close>

theorem client_learns_announcement:
  assumes "length (cfg_vin cfg) = 17" and "length (cfg_eid cfg) = 6" and "length (cfg_gid cfg) = 6"
    and "px_setsockopt os (m_udpAnnouncementSocket cl) (RcvTimeo 2) (cl_net cl) = (r, n)"
    and "dg_recvfrom dg (m_udpAnnouncementSocket cl) maxDataSize n = (Datagram (m_data (announcement cfg)) sender, n')"
  shows "\<exists>cl'. receiveVehicleAnnouncement os dg cl = (Inr True, cl')
    \<and> m_vin cl' = cfg_vin cfg \<and> m_eid cl' = cfg_eid cfg \<and> m_gid cl' = cfg_gid cfg
    \<and> m_logicalAddress cl' = cfg_logicalAddress cfg \<and> m_furtherActionReqResult cl' = DoIPFurtherAction.NoFurtherAction
    \<and> sendDiagnosticMessage os uds cl' =
        client_write os (makeDiagnosticMessage (m_sourceAddress cl) (cfg_logicalAddress cfg) uds) cl'"
proof -
  let ?m = "announcement cfg"
  have f: "getVin ?m = Inr (Some (cfg_vin cfg))" "getLogicalAddress ?m = Inr (Some (cfg_logicalAddress cfg))"
    "getEid ?m = Inr (Some (cfg_eid cfg))" "getGid ?m = Inr (Some (cfg_gid cfg))"
    "getFurtherActionRequest ?m = Inr (Some DoIPFurtherAction.NoFurtherAction)"
    using vehicleIdentificationResponse_fields [OF assms(1-3) refl, of "cfg_logicalAddress cfg"
        DoIPFurtherAction.NoFurtherAction DoIPSyncStatus.GidVinSynchronized]
    by (simp_all add: announcement_def furtherAction_cast_def)
  obtain pl where m: "?m = buildMessage DoIPPayloadType.VehicleIdentificationResponse pl" "length pl = 33"
    using assms(1-3) by (simp add: announcement_def makeVehicleIdentificationResponse_def Let_def writeU16BE_eq)
  then have p: "parses_to (m_data ?m) (length (m_data ?m)) ?m"
    and t: "getPayloadType ?m = DoIPPayloadType.VehicleIdentificationResponse"
    using parses_to_build [of DoIPPayloadType.VehicleIdentificationResponse pl 41 "[]"] by (simp_all add: buildMessage_wire)
  show ?thesis
    using announcement_reception(1) [OF assms(4,5) refl p t] f
    by (simp add: parseVehicleIdentificationResponse_def store_field_def sendDiagnosticMessage_def)
qed

theorem client_learns_announcement_witness:
  "\<exists>cl'. receiveVehicleAnnouncement pipe_posix (one_datagram (m_data (announcement DefaultServerConfig))) (demo_tester [])
      = (Inr True, cl') \<and> m_logicalAddress cl' = cfg_logicalAddress DefaultServerConfig"
proof -
  have l: "length (cfg_vin DefaultServerConfig) = 17" "length (cfg_eid DefaultServerConfig) = 6"
    "length (cfg_gid DefaultServerConfig) = 6"
    by (simp_all add: DefaultServerConfig_def vin_default_def id_default_eq vin_type_def eid_type_def)
  then have "length (m_data (announcement DefaultServerConfig)) = 41"
    by (simp add: announcement_def makeVehicleIdentificationResponse_def Let_def writeU16BE_eq buildMessage_wire)
  then have d: "dg_recvfrom (one_datagram (m_data (announcement DefaultServerConfig))) fd maxDataSize n
      = (Datagram (m_data (announcement DefaultServerConfig)) (InetAddr ''192.168.0.7'' 13401), n)" for fd n
    by (simp add: one_datagram_def maxDataSize_def)
  have "px_setsockopt pipe_posix fd opt n = (0, n)" for fd opt n by (simp add: pipe_posix_def)
  from client_learns_announcement [OF l this d] show ?thesis by blast
qed

text \<open>
  (C34) What a datagram can do to the client.  Reception succeeds exactly for vehicle
  identification responses with a payload of at least 32 bytes, and the identity is then
  the one the datagram carries.  Anything that is not such a response is ignored and
  leaves the identity alone.  A response that is too short makes the member throw
  \<open>std::bad_optional_access\<close>, after the VIN was overwritten when it has at least 17 bytes;
  one with exactly 31 bytes makes the client read beyond the message.  Nothing else can
  happen.
\<close>

theorem client_announcement_outcomes:
  assumes "px_setsockopt os (m_udpAnnouncementSocket cl) (RcvTimeo 2) (cl_net cl) = (r, n)"
    and "dg_recvfrom dg (m_udpAnnouncementSocket cl) maxDataSize n = (Datagram bs sender, n')"
  shows "case receiveVehicleAnnouncement os dg cl of
      (Inr True, cl') \<Rightarrow> \<exists>m. parses_to bs (length bs) m \<and> getPayloadType m = DoIPPayloadType.VehicleIdentificationResponse
        \<and> 32 \<le> getPayloadSize m \<and> getVin m = Inr (Some (m_vin cl')) \<and> getEid m = Inr (Some (m_eid cl'))
        \<and> getGid m = Inr (Some (m_gid cl')) \<and> getLogicalAddress m = Inr (Some (m_logicalAddress cl'))
    | (Inr False, cl') \<Rightarrow> (\<forall>m. parses_to bs (length bs) m \<longrightarrow> getPayloadType m \<noteq> DoIPPayloadType.VehicleIdentificationResponse)
        \<and> m_vin cl' = m_vin cl \<and> m_eid cl' = m_eid cl \<and> m_gid cl' = m_gid cl \<and> m_logicalAddress cl' = m_logicalAddress cl
    | (Inl e, cl') \<Rightarrow> \<exists>m. parses_to bs (length bs) m \<and> getPayloadType m = DoIPPayloadType.VehicleIdentificationResponse
        \<and> (if getPayloadSize m = 31 then e = UndefinedRead
           else getPayloadSize m < 31 \<and> e = BadOptionalAccess
             \<and> (17 \<le> getPayloadSize m \<longrightarrow> getVin m = Inr (Some (m_vin cl'))))"
proof (cases "\<exists>m. parses_to bs (length bs) m \<and> getPayloadType m = DoIPPayloadType.VehicleIdentificationResponse")
  case True
  then obtain m where m: "parses_to bs (length bs) m" "getPayloadType m = DoIPPayloadType.VehicleIdentificationResponse"
    by blast
  let ?cl1 = "cl\<lparr>cl_net := n', m_announcementAddress := sender, m_receiveBuf := bs @ drop (length bs) (m_receiveBuf cl)\<rparr>"
  obtain res cl' where p: "parseVehicleIdentificationResponse m ?cl1 = (res, cl')" by fastforce
  show ?thesis
    using announcement_reception(1) [OF assms refl m] parse_response_outcome [OF m(2), of ?cl1] m p
    by (cases res) (auto intro!: exI [of _ m] split: if_splits)
next
  case False
  then show ?thesis using announcement_reception(2) [OF assms refl] by simp
qed

theorem client_announcement_outcomes_witness:
  "fst (receiveVehicleAnnouncement pipe_posix (one_datagram [3, 0xFC, 0, 4, 0, 0, 0, 1, 0x57]) (demo_tester [])) = Inl BadOptionalAccess"
proof -
  let ?bs = "[3, 0xFC, 0, 4, 0, 0, 0, 1, 0x57] :: u8 list"
  have d: "dg_recvfrom (one_datagram ?bs) fd maxDataSize n = (Datagram ?bs (InetAddr ''192.168.0.7'' 13401), n)" for fd n
    by (simp add: one_datagram_def maxDataSize_def)
  have "px_setsockopt pipe_posix fd opt n = (0, n)" for fd opt n by (simp add: pipe_posix_def)
  note o = client_announcement_outcomes [OF this d, where cl = "demo_tester []"]
  let ?m = "buildMessage DoIPPayloadType.VehicleIdentificationResponse [0x57]"
  have b: "m_data ?m = ?bs" by (simp add: buildMessage_wire wire_def Let_def hi8_def lo8_def byte_of32_def)
  have p: "parses_to ?bs (length ?bs) ?m"
    using parses_to_build [of DoIPPayloadType.VehicleIdentificationResponse "[0x57]" "length ?bs" "[]"] b by simp
  have u: "m = ?m" if "parses_to ?bs (length ?bs) m" for m
    using trans [OF sym [OF iffD2 [OF tryParse_Some_iff that]] iffD2 [OF tryParse_Some_iff p]]
    by (simp only: sum.inject option.inject)
  have f: "getPayloadSize ?m = 1" "getPayloadType ?m = DoIPPayloadType.VehicleIdentificationResponse" by simp_all
  obtain res cl' where rv: "receiveVehicleAnnouncement pipe_posix (one_datagram ?bs) (demo_tester []) = (res, cl')" by fastforce
  show ?thesis
  proof (cases res)
    case (Inl e)
    from o [unfolded rv Inl prod.case sum.case] obtain m where m: "parses_to ?bs (length ?bs) m"
      and e: "if getPayloadSize m = 31 then e = UndefinedRead else getPayloadSize m < 31 \<and> e = BadOptionalAccess
        \<and> (17 \<le> getPayloadSize m \<longrightarrow> getVin m = Inr (Some (m_vin cl')))" by (elim exE conjE)
    from e show ?thesis unfolding u [OF m] f rv Inl by simp
  next
    case (Inr b)
    note b = o [unfolded rv Inr prod.case sum.case]
    have False
    proof (cases b rule: bool.exhaust)
      case True
      from b [unfolded True bool.case] obtain m where m: "parses_to ?bs (length ?bs) m" "32 \<le> getPayloadSize m"
        by (elim exE conjE)
      from m(2) show False unfolding u [OF m(1)] f by simp
    next
      case False
      from b [unfolded False bool.case] p f(2) show False by (elim conjE) blast
    qed
    then show ?thesis ..
  qed
qed

section \<open>Reading from the server\<close>

text \<open>
  The contract of a connected stream socket for the reads of the client: the bytes of the
  peer in order, at most as many as asked for, at least one while there are any.
\<close>

definition client_stream :: "'n posix \<Rightarrow> int \<Rightarrow> ('n \<Rightarrow> u8 list) \<Rightarrow> bool" where
  "client_stream os fd view \<longleftrightarrow>
     (\<forall>n k. 0 < k \<and> view n \<noteq> [] \<longrightarrow>
        (\<exists>bs n'. px_recv os fd k n = (RecvData bs, n') \<and> bs \<noteq> [] \<and> length bs \<le> k \<and> view n = bs @ view n'))"

text \<open>
  (C35) The client reads one message per call, of at most 64 bytes.  When a read returns a whole
  message, this message is shown, but whatever arrived behind it in the same read is
  consumed and dropped.  A message of more than 64 bytes is never shown: no read can return it
  completely, a part of it is consumed without any message, and the following reads start
  in its middle.
\<close>

theorem client_receive_window:
  assumes "client_stream os (m_tcpSocket cl) view" and "named_payloadType t" and "length pl < 2 ^ 32"
    and "view (cl_net cl) = m_data (buildMessage t pl) @ rest"
  shows "\<exists>k x cl'. client_receiveMessage os cl = Some (Inr x, cl') \<and> 0 < k \<and> k \<le> 64
    \<and> view (cl_net cl') = drop k (view (cl_net cl))
    \<and> x = (if 8 + length pl \<le> k then Some (buildMessage t pl) else None)
    \<and> (56 < length pl \<longrightarrow> x = None)"
proof -
  have ne: "view (cl_net cl) \<noteq> []" unfolding assms(4) using length_wire [of 3 "payloadType_code t" pl]
    by (auto simp: buildMessage_wire simp del: length_wire)
  obtain bs n' where r: "px_recv os (m_tcpSocket cl) maxDataSize (cl_net cl) = (RecvData bs, n')"
    and bs: "bs \<noteq> []" "length bs \<le> 64" "view (cl_net cl) = bs @ view n'"
    using assms(1) [unfolded client_stream_def, rule_format, of maxDataSize "cl_net cl"] ne
    by (auto simp: maxDataSize_def)
  have pre: "bs = take (length bs) (m_data (buildMessage t pl) @ rest)" using bs(3) assms(4) by (metis append_eq_conv_conj)
  have "tryParse (Some bs) (length bs) = Inr (if 8 + length pl \<le> length bs then Some (buildMessage t pl) else None)"
  proof (cases "8 + length pl \<le> length bs")
    case True
    then have "take (length bs) (m_data (buildMessage t pl) @ rest)
        = m_data (buildMessage t pl) @ take (length bs - (8 + length pl)) rest"
      by (simp add: buildMessage_wire)
    with pre have "bs = m_data (buildMessage t pl) @ take (length bs - (8 + length pl)) rest" by (rule trans)
    with parses_to_build [OF assms(2,3) True] have "parses_to bs (length bs) (buildMessage t pl)" by metis
    then show ?thesis using True by (simp add: tryParse_Some_iff)
  next
    case False
    have "take 8 bs = take 8 (wire 3 (payloadType_code t) pl)" if "8 \<le> length bs"
      using that by (subst pre) (simp add: buildMessage_wire min_def)
    then show ?thesis using False assms(3) take_wire_field [of "length bs" bs 3 "payloadType_code t" pl]
      by (cases "8 \<le> length bs") (simp_all add: tryParse_short)
  qed
  then show ?thesis using r bs(1,2) arg_cong [OF bs(3), of "drop (length bs)"]
    by (intro exI [of _ "length bs"]) (auto simp: client_receiveMessage_def client_store_eq)
qed

theorem client_receive_window_witness:
  "\<exists>k x cl'. client_receiveMessage pipe_posix (demo_tester (m_data (buildMessage DoIPPayloadType.DiagnosticMessage (replicate 57 7))))
      = Some (Inr x, cl') \<and> 0 < k \<and> snd (cl_net cl') = drop k (m_data (buildMessage DoIPPayloadType.DiagnosticMessage (replicate 57 7)))
      \<and> x = None"
proof -
  have "client_stream pipe_posix fd snd" for fd
    by (auto simp: client_stream_def pipe_posix_def)
  from client_receive_window [OF this, of DoIPPayloadType.DiagnosticMessage "replicate 57 7"
      "demo_tester (m_data (buildMessage DoIPPayloadType.DiagnosticMessage (replicate 57 7)))" "[]"]
  show ?thesis by (auto simp: demo_tester_def client_new_def)
qed

section \<open>A session with the server\<close>

text \<open>Writing on the server's socket succeeds and does not touch the bytes still to be read.\<close>

definition duplex :: "'n os_socket \<Rightarrow> ('n \<Rightarrow> u8 list) \<Rightarrow> bool" where
  "duplex io view \<longleftrightarrow> (\<forall>fd bs n. 0 \<le> fst (os_write io fd bs n) \<and> view (snd (os_write io fd bs n)) = view n)"

text \<open>A TCP connection of the server that can be read, with the bytes it will read.\<close>

definition readable ::
  "'n os_socket \<Rightarrow> ('n \<Rightarrow> u8 list) \<Rightarrow> ('n \<Rightarrow> nat) \<Rightarrow> nat \<Rightarrow> u8 list \<Rightarrow> 'n TcpConnectionTransport \<Rightarrow> bool" where
  "readable io view patience mtu bytes t \<longleftrightarrow> stream_socket io (m_socket t) view patience \<and> tcp_isActive t
     \<and> length (m_receiveBuffer t) = mtu \<and> view (network t) = bytes"

lemma readable_send:
  assumes "duplex io view" and "readable io view patience mtu bytes t"
  shows "readable io view patience mtu bytes (snd (tcp_sendMessage io m t))"
proof -
  obtain r n' where w: "os_write io (m_socket t) (m_data m) (network t) = (r, n')" by fastforce
  with assms(1) [unfolded duplex_def, rule_format, of "m_socket t" "m_data m" "network t"]
  have "\<not> r < 0" "view n' = view (network t)" by simp_all
  with w assms(2) show ?thesis by (simp add: readable_def tcp_sendMessage_def)
qed

lemma readable_receive:
  assumes "env_tp env = tcp_ops io" and "readable io view patience mtu (m_data (buildMessage pt pl) @ rest) (m_transport c)"
    and "named_payloadType pt" and "length pl \<le> mtu" and "length pl < 2 ^ 32"
  shows "\<exists>t. receiveProtocolMessage env c = Ok (Some (buildMessage pt pl)) (c\<lparr>m_transport := t\<rparr>)
    \<and> readable io view patience mtu rest t"
proof -
  have "frame_at_head (length (m_receiveBuffer (m_transport c))) (view (network (m_transport c))) pt pl rest"
    using assms by (auto simp: frame_at_head_def readable_def buildMessage_wire intro!: exI [of _ 3])
  with receive_frame [of io "m_transport c" view patience] assms show ?thesis
    by (fastforce simp: receiveProtocolMessage_def readable_def transport_ops_sel)
qed

lemma client_write_eq:
  "client_write os m cl = (fst (px_send os (m_tcpSocket cl) (m_data m) (cl_net cl)),
     cl\<lparr>cl_net := snd (px_send os (m_tcpSocket cl) (m_data m) (cl_net cl))\<rparr>)"
  by (simp add: client_write_def split: prod.split)

lemma request_builds:
  "makeRoutingActivationRequest sa act = buildMessage DoIPPayloadType.RoutingActivationRequest
     ([hi8 sa, lo8 sa, activationType_code act] @ [0, 0, 0, 0])"
  "makeDiagnosticMessage sa ta uds = buildMessage DoIPPayloadType.DiagnosticMessage
     ([hi8 sa, lo8 sa] @ [hi8 ta, lo8 ta] @ uds)"
  by (simp_all add: makeRoutingActivationRequest_def makeDiagnosticMessage_def Let_def writeU16BE_eq)

lemma request_fields:
  "getPayloadType (makeRoutingActivationRequest sa act) = DoIPPayloadType.RoutingActivationRequest"
  "getSourceAddress (makeRoutingActivationRequest sa act) = Inr (Some sa)"
  "getPayloadType (makeDiagnosticMessage sa ta uds) = DoIPPayloadType.DiagnosticMessage"
  "getSourceAddress (makeDiagnosticMessage sa ta uds) = Inr (Some sa)"
  using addressed_messages_fields by (simp_all add: request_builds)

text \<open>One round of the connection thread that reads a routing activation request of a client.\<close>

lemma session_activation:
  assumes "duplex io view" and "env_tp env = tcp_ops io" and "7 \<le> mtu"
    and "m_state c = DoIPServerState.WaitRoutingActivation" and "m_generalInactivityTimeout c \<noteq> 0"
    and "readable io view patience mtu (m_data (makeRoutingActivationRequest sa act) @ rest) (m_transport c)"
  shows "\<exists>c' r. connectionHandler_step fuel env running HandlerReceive c = Ok HandlerHead c'
    \<and> m_state c' = DoIPServerState.RoutingActivated \<and> m_routedClientAddress c' = sa
    \<and> trace c' = trace c @ [EvClientAddress sa, EvSend (routingActivationResponse env sa) r]
    \<and> readable io view patience mtu rest (m_transport c')"
proof -
  let ?m = "makeRoutingActivationRequest sa act"
  obtain t where t: "receiveProtocolMessage env c = Ok (Some ?m) (c\<lparr>m_transport := t\<rparr>)" "readable io view patience mtu rest t"
    using readable_receive [OF assms(2), of view patience mtu DoIPPayloadType.RoutingActivationRequest
        "[hi8 sa, lo8 sa, activationType_code act] @ [0, 0, 0, 0]" rest c] assms(3,6)
    by (auto simp: request_builds)
  note h = handleWaitRoutingActivation_accept [OF request_fields(1,2), of fuel env sa act "c\<lparr>m_transport := t\<rparr>"]
  from readable_send [OF assms(1) t(2)] show ?thesis
    using assms(2,4,5) t(1) h
    by (simp add: handleMessage_def sendProtocolMessage_eq setClientAddress_def emit_def transitionTo_timed
        state_duration_def getTimerDuration_def transport_ops_sel)
qed

text \<open>One round that reads a diagnostic message of the registered client.\<close>

lemma session_diagnostic:
  assumes "duplex io view" and "env_tp env = tcp_ops io" and "quiet_app (env_model env)"
    and "onDownstreamRequest (env_model env) = None" and "m_state c = DoIPServerState.RoutingActivated"
    and "4 + length uds \<le> mtu" and "4 + length uds < 2 ^ 32" and "m = makeDiagnosticMessage (m_routedClientAddress c) ta uds"
    and "readable io view patience mtu (m_data m @ rest) (m_transport c)"
  shows "\<exists>t r. let ack = app_ack (env_model env) (c\<lparr>m_transport := t\<rparr>) m;
         c' = acked env (m_routedClientAddress c) m (c\<lparr>m_transport := t\<rparr>) in
       connectionHandler_step fuel env running HandlerReceive c = Ok HandlerHead c'
       \<and> trace c' = trace c @ ev_diag (env_model env) m
           @ [EvSend (diagnosticMessageResponse env (m_routedClientAddress c) ack) r] @ ev_ack (env_model env) ack
       \<and> readable io view patience mtu rest (m_transport c')"
proof -
  obtain t where t: "receiveProtocolMessage env c = Ok (Some m) (c\<lparr>m_transport := t\<rparr>)" "readable io view patience mtu rest t"
    using readable_receive [OF assms(2), of view patience mtu DoIPPayloadType.DiagnosticMessage
        "[hi8 (m_routedClientAddress c), lo8 (m_routedClientAddress c)] @ [hi8 ta, lo8 ta] @ uds" rest c] assms(6-9)
    by (auto simp: request_builds)
  let ?c = "c\<lparr>m_transport := t\<rparr>"
  have "handleMessage fuel env m ?c = Ok () (acked env (m_routedClientAddress c) m ?c)"
    using handleDiagnosticMessage_quiet [OF assms(3), of m ?c fuel] assms(5,8)
    by (simp add: handleMessage_def handleRoutingActivated_def handleDownstream_none [OF assms(4)] request_fields)
  with t readable_send [OF assms(1) t(2)] assms(2) show ?thesis
    by (intro exI [of _ t]) (simp add: Let_def acked_def restartStateTimer_def transport_ops_sel)
qed

text \<open>
  (C17) Client and server understand each other.  The bytes that the client writes for a routing
  activation and a diagnostic request, read by the server's connection thread from its TCP
  socket in whatever pieces, activate the routing for the client's source address, are
  answered positively, and hand exactly the client's request to the application, followed by
  one acknowledgement as the application decided; nothing of the stream is left over.
\<close>

theorem client_session:
  assumes "duplex io view" and "env_tp env = tcp_ops io" and "quiet_app (env_model env)"
    and "onDownstreamRequest (env_model env) = None"
    and "m_state c = DoIPServerState.WaitRoutingActivation" and "m_generalInactivityTimeout c \<noteq> 0"
    and "\<And>fd bs n. out (snd (px_send os fd bs n)) = out n @ bs" and "out (cl_net cl) = []"
    and "cl' = snd (sendDiagnosticMessage os uds (snd (sendRoutingActivationRequest os cl)))"
    and "readable io view patience mtu (out (cl_net cl')) (m_transport c)"
    and "7 \<le> mtu" and "4 + length uds \<le> mtu" and "4 + length uds < 2 ^ 32"
    and "sa = m_sourceAddress cl" and "m = makeDiagnosticMessage sa (m_logicalAddress cl) uds"
  shows "\<exists>c1 c2 t r1 r2. connectionHandler_step fuel env running HandlerReceive c = Ok HandlerHead c1
    \<and> connectionHandler_step fuel env running HandlerReceive c1 = Ok HandlerHead c2
    \<and> m_state c2 = DoIPServerState.RoutingActivated \<and> m_routedClientAddress c2 = sa
    \<and> trace c2 = trace c @ [EvClientAddress sa, EvSend (routingActivationResponse env sa) r1]
        @ ev_diag (env_model env) m
        @ [EvSend (diagnosticMessageResponse env sa (app_ack (env_model env) (c1\<lparr>m_transport := t\<rparr>) m)) r2]
        @ ev_ack (env_model env) (app_ack (env_model env) (c1\<lparr>m_transport := t\<rparr>) m)
    \<and> readable io view patience mtu [] (m_transport c2)"
proof -
  have "out (cl_net cl') = m_data (makeRoutingActivationRequest sa DoIPRoutingActivationType.Default) @ m_data m"
    using assms(7-9,14,15) by (simp add: sendDiagnosticMessage_def sendRoutingActivationRequest_def client_write_eq)
  then obtain c1 r1 where c1: "connectionHandler_step fuel env running HandlerReceive c = Ok HandlerHead c1"
      "m_state c1 = DoIPServerState.RoutingActivated" "m_routedClientAddress c1 = sa"
      "trace c1 = trace c @ [EvClientAddress sa, EvSend (routingActivationResponse env sa) r1]"
      "readable io view patience mtu (m_data m @ []) (m_transport c1)"
    using session_activation [OF assms(1,2,11,5,6), of patience sa DoIPRoutingActivationType.Default "m_data m" fuel running]
      assms(10) by auto
  show ?thesis
    using session_diagnostic [OF assms(1-4) c1(2) assms(12,13) _ c1(5), of "m_logicalAddress cl" fuel running] c1 assms(15)
    by (fastforce simp: Let_def)
qed

theorem client_session_witness:
  "\<exists>c c2 out. connection_new (mk_env (tcp_ops trickle) DefaultDoIPServerModel True 0) 1 (tcp_new trickle 4095 7 out) timerManager_new 0 1 = Ok () c
     \<and> (\<exists>c1. connectionHandler_step 2 (mk_env (tcp_ops trickle) DefaultDoIPServerModel True 0) True HandlerReceive c = Ok HandlerHead c1
       \<and> connectionHandler_step 2 (mk_env (tcp_ops trickle) DefaultDoIPServerModel True 0) True HandlerReceive c1 = Ok HandlerHead c2)
     \<and> m_routedClientAddress c2 = 0xE000"
proof -
  let ?env = "mk_env (tcp_ops trickle) DefaultDoIPServerModel True 0"
  let ?cl' = "snd (sendDiagnosticMessage pipe_posix [0x3E, 0] (snd (sendRoutingActivationRequest pipe_posix (demo_tester []))))"
  let ?out = "fst (cl_net ?cl')"
  obtain c where c: "connection_new ?env 1 (tcp_new trickle 4095 7 ?out) timerManager_new 0 1 = Ok () c"
    "m_state c = DoIPServerState.WaitRoutingActivation" "m_generalInactivityTimeout c \<noteq> 0" "m_transport c = tcp_new trickle 4095 7 ?out"
    by (simp add: connection_new_def DefaultDoIPServerModel_def Let_def transitionTo_timed state_duration_def
        getTimerDuration_def emit_def)
  have d: "duplex trickle (\<lambda>n. n)" by (simp add: duplex_def trickle_def)
  have q: "quiet_app (env_model ?env)" "onDownstreamRequest (env_model ?env) = None"
    by (simp_all add: quiet_default) (simp add: DefaultDoIPServerModel_def)
  have r: "readable trickle (\<lambda>n. n) (\<lambda>_. 0) 4095 ?out (m_transport c)"
    unfolding c(4) by (simp add: readable_def trickle_stream) (simp add: tcp_new_def)
  have w: "fst (snd (px_send pipe_posix fd bs n)) = fst n @ bs" for fd bs n
    by (simp add: pipe_posix_def split: prod.split)
  have e: "env_tp ?env = tcp_ops trickle" "fst (cl_net (demo_tester [])) = []" "m_sourceAddress (demo_tester []) = 0xE000"
    by (simp_all add: demo_tester_def client_new_def)
  from client_session [where out = fst, OF d e(1) q c(2,3) w e(2) refl r _ _ _ e(3) [symmetric] refl, of 2 True] c(1)
  show ?thesis by fastforce
qed

end
