(* ===== verification/DoIP_Logger.thy ===== *)
theory DoIP_Logger
  imports DoIP_Client
begin

text \<open>
  The registry of loggers (\<^verbatim>\<open>inc/Logger.h\<close>, \<^verbatim>\<open>src/Logger.cpp\<close>).  A logger of the spdlog library is
  represented by what the registry configures: its name, its sink (console or system log),
  its level and its pattern.  Loggers are shared: the registry and its clients hold
  addresses into a store of all loggers ever made, so that a change of level or pattern is
  seen by everyone who holds the logger.  The pointers in the registry are never null.
\<close>

section \<open>State\<close>

datatype log_level = LvTrace | LvDebug | LvInfo | LvWarn | LvErr | LvCritical | LvOff

record logger =
  lg_name :: string
  lg_syslog :: bool
  lg_level :: log_level
  lg_pattern :: string

record Logger =
  use_syslog :: bool
  m_loggers :: "string \<rightharpoonup> nat"
  lg_store :: "logger list"

definition logger_start :: Logger where
  "logger_start = \<lparr>use_syslog = False, m_loggers = Map.empty, lg_store = []\<rparr>"

definition DEFAULT_PATTERN :: string where
  "DEFAULT_PATTERN = ''[%H:%M:%S.%e] [%n] [%^%l%$] %v''"

definition SYSLOG_PATTERN :: string where
  "SYSLOG_PATTERN = ''[%n] %v''"

section \<open>Operations\<close>

definition logger_get :: "string \<Rightarrow> log_level \<Rightarrow> Logger \<Rightarrow> nat \<times> Logger" where
  "logger_get name level L =
     (case m_loggers L name of
        Some a \<Rightarrow> (a, L\<lparr>lg_store := (lg_store L)[a := (lg_store L ! a)\<lparr>lg_level := level\<rparr>]\<rparr>)
      | None \<Rightarrow>
          let a = length (lg_store L);
              new_logger = \<lparr>lg_name = name, lg_syslog = use_syslog L, lg_level = level,
                lg_pattern = (if use_syslog L then SYSLOG_PATTERN else DEFAULT_PATTERN)\<rparr>
          in (a, L\<lparr>m_loggers := (m_loggers L)(name \<mapsto> a), lg_store := lg_store L @ [new_logger]\<rparr>))"

definition getUdp :: "Logger \<Rightarrow> nat \<times> Logger" where
  "getUdp L = logger_get ''udp '' LvInfo L"

definition getTcp :: "Logger \<Rightarrow> nat \<times> Logger" where
  "getTcp L = logger_get ''tcp '' LvInfo L"

text \<open>A change to every registered logger.\<close>

definition for_loggers :: "(logger \<Rightarrow> logger) \<Rightarrow> Logger \<Rightarrow> Logger" where
  "for_loggers f L = L\<lparr>lg_store := map (\<lambda>a. if a \<in> ran (m_loggers L) then f (lg_store L ! a) else lg_store L ! a)
     [0..<length (lg_store L)]\<rparr>"

definition setLevel :: "log_level \<Rightarrow> Logger \<Rightarrow> Logger" where
  "setLevel level L = for_loggers (\<lambda>l. l\<lparr>lg_level := level\<rparr>) L"

definition setPattern :: "string \<Rightarrow> Logger \<Rightarrow> Logger" where
  "setPattern pattern L = for_loggers (\<lambda>l. l\<lparr>lg_pattern := pattern\<rparr>) L"

text \<open>\<open>std::string::find\<close> different from \<open>npos\<close>.\<close>

definition contains :: "string \<Rightarrow> string \<Rightarrow> bool" where
  "contains s sub = list_ex (\<lambda>i. take (length sub) (drop i s) = sub) [0..<Suc (length s)]"

definition colorsSupported :: "string option \<Rightarrow> string option \<Rightarrow> bool" where
  "colorsSupported term_env colorterm =
     (case term_env of
        None \<Rightarrow> False
      | Some termStr \<Rightarrow> contains termStr ''color'' \<or> contains termStr ''xterm'' \<or> contains termStr ''screen''
          \<or> colorterm \<noteq> None)"

definition setUseSyslog :: "bool \<Rightarrow> Logger \<Rightarrow> unit res \<times> Logger" where
  "setUseSyslog use L =
     (if m_loggers L \<noteq> Map.empty then (Inl (RuntimeError ''Cannot change syslog setting after loggers have been created''), L)
      else (Inr (), L\<lparr>use_syslog := use\<rparr>))"

definition logger_shutdown :: "Logger \<Rightarrow> Logger" where
  "logger_shutdown L = L\<lparr>m_loggers := Map.empty\<rparr>"

section \<open>All loggers go to the same place\<close>

text \<open>
  Registered addresses exist, belong to the logger of that name, and every registered logger
  has the sink the current setting asks for.
\<close>

definition logger_ok :: "Logger \<Rightarrow> bool" where
  "logger_ok L \<longleftrightarrow> (\<forall>name a. m_loggers L name = Some a \<longrightarrow>
     a < length (lg_store L) \<and> lg_name (lg_store L ! a) = name \<and> lg_syslog (lg_store L ! a) = use_syslog L)"

datatype logger_op = OpGet string log_level | OpSetLevel log_level | OpSetPattern string | OpSetUseSyslog bool | OpShutdown

fun logger_apply :: "logger_op \<Rightarrow> Logger \<Rightarrow> Logger" where
  "logger_apply (OpGet name level) L = snd (logger_get name level L)"
| "logger_apply (OpSetLevel level) L = setLevel level L"
| "logger_apply (OpSetPattern pattern) L = setPattern pattern L"
| "logger_apply (OpSetUseSyslog use) L = snd (setUseSyslog use L)"
| "logger_apply OpShutdown L = logger_shutdown L"

lemma logger_get_ok:
  assumes "logger_ok L" shows "logger_ok (snd (logger_get name level L))"
proof (cases "m_loggers L name")
  case None
  then show ?thesis using assms by (auto simp: logger_ok_def logger_get_def Let_def nth_append less_Suc_eq)
next
  case (Some a)
  let ?L = "snd (logger_get name level L)"
  have "lg_name (lg_store ?L ! b) = lg_name (lg_store L ! b) \<and> lg_syslog (lg_store ?L ! b) = lg_syslog (lg_store L ! b)" for b
    using Some by (cases "a = b"; cases "b < length (lg_store L)") (simp_all add: logger_get_def list_update_beyond)
  then show ?thesis using assms Some by (simp add: logger_ok_def) (simp add: logger_get_def)
qed

lemma for_loggers_ok:
  "logger_ok L \<Longrightarrow> (\<And>l. lg_name (f l) = lg_name l \<and> lg_syslog (f l) = lg_syslog l) \<Longrightarrow> logger_ok (for_loggers f L)"
  by (simp add: logger_ok_def for_loggers_def)

lemma logger_apply_ok: "logger_ok L \<Longrightarrow> logger_ok (logger_apply op L)"
  by (cases op) (simp_all add: logger_get_ok for_loggers_ok setLevel_def setPattern_def,
    auto simp: setUseSyslog_def logger_shutdown_def logger_ok_def)

text \<open>After any sequence of calls all registered loggers write to the sink of the setting.\<close>

lemma loggers_uniform: "logger_ok (fold logger_apply ops logger_start)"
proof -
  have "logger_ok L \<Longrightarrow> logger_ok (fold logger_apply ops L)" for L
    by (induction ops arbitrary: L) (simp_all add: logger_apply_ok)
  then show ?thesis by (simp add: logger_start_def logger_ok_def)
qed

text \<open>
  One logger per name: asking again gives the same logger, whatever level is asked for.  But
  asking again also sets the level: a level chosen with \<open>setLevel\<close> is replaced by the default
  of \<open>get\<close> as soon as any component asks for its logger again.
\<close>

lemma logger_get_same:
  "fst (logger_get name lv2 (snd (logger_get name lv1 L))) = fst (logger_get name lv1 L)"
  by (auto simp: logger_get_def Let_def split: option.split)

lemma logger_get_resets_level:
  assumes "logger_ok L" and "m_loggers L name = Some a"
  shows "lg_level (lg_store (setLevel lv L) ! a) = lv"
    and "lg_level (lg_store (snd (logger_get name LvInfo (setLevel lv L))) ! a) = LvInfo"
  using assms by (auto simp: logger_ok_def setLevel_def for_loggers_def logger_get_def ran_def)

text \<open>The display of the client with the colours the terminal supports.\<close>

lemma client_display_plain:
  "\<not> colorsSupported t ct \<Longrightarrow>
     hd (printVehicleInformationResponse (colorsSupported t ct) cl) = ''VIN: '' @ id_toString (m_vin cl) @ ansi_reset"
  by (simp add: printVehicleInformationResponse_def info_line_def show_vin_def)

end
