(* ===== verification/DoIP_MacPlatforms.thy ===== *)
theory DoIP_MacPlatforms
  imports DoIP_MacAddress
begin

text \<open>
  The other two branches of \<^verbatim>\<open>src/MacAddress.cpp\<close>: macOS (\<open>getifaddrs\<close> with link-layer addresses)
  and Windows (\<open>GetAdaptersInfo\<close>).  The lists the system returns are parameters.  All four
  searches are shown to take the first entry that meets a condition.
\<close>

section \<open>macOS\<close>

text \<open>
  An entry of the list: its name and its address, if any: whether it belongs to the family
  \<open>AF_LINK\<close>, and then the \<open>sdl_alen\<close> bytes at \<open>LLADDR\<close>.
\<close>

type_synonym macos_ifa = "string \<times> (bool \<times> u8 list) option"

fun macos_find :: "string \<Rightarrow> macos_ifa list \<Rightarrow> MacAddress \<Rightarrow> bool \<times> MacAddress" where
  "macos_find ifname [] mac = (False, mac)"
| "macos_find ifname ((ifa_name, ifa_addr) # ifas) mac =
     (case ifa_addr of
        None \<Rightarrow> macos_find ifname ifas mac
      | Some (af_link, lladdr) \<Rightarrow>
          if ifa_name \<noteq> ifname then macos_find ifname ifas mac
          else if af_link \<and> length lladdr = 6 then (True, lladdr)
          else macos_find ifname ifas mac)"

fun macos_first :: "macos_ifa list \<Rightarrow> MacAddress \<Rightarrow> bool \<times> MacAddress" where
  "macos_first [] mac = (False, mac)"
| "macos_first ((ifa_name, ifa_addr) # ifas) mac =
     (case ifa_addr of
        None \<Rightarrow> macos_first ifas mac
      | Some (af_link, lladdr) \<Rightarrow>
          if ifa_name = ''lo0'' then macos_first ifas mac
          else if af_link \<and> length lladdr = 6 \<and> \<not> list_all (\<lambda>b. b = 0) lladdr then (True, lladdr)
          else macos_first ifas mac)"

definition macos_getFirstMacAddress :: "macos_ifa list option \<Rightarrow> MacAddress \<Rightarrow> bool \<times> MacAddress" where
  "macos_getFirstMacAddress getifaddrs mac =
     (case getifaddrs of None \<Rightarrow> (False, mac) | Some ifaddr \<Rightarrow> macos_first ifaddr mac)"

definition macos_getMacAddress :: "macos_ifa list option \<Rightarrow> string option \<Rightarrow> MacAddress \<Rightarrow> bool \<times> MacAddress" where
  "macos_getMacAddress getifaddrs ifname mac =
     (case ifname of
        None \<Rightarrow> macos_getFirstMacAddress getifaddrs mac
      | Some name \<Rightarrow> (case getifaddrs of None \<Rightarrow> (False, mac) | Some ifaddr \<Rightarrow> macos_find name ifaddr mac))"

section \<open>Windows\<close>

text \<open>\<open>IP_ADAPTER_INFO\<close>; the address is given by its \<open>AddressLength\<close> bytes.\<close>

record adapter =
  AdapterName :: string
  Description :: string
  Address :: "u8 list"
  is_ethernet :: bool

datatype adapters_result = NoError "adapter list" | BufferOverflow | AdaptersError

text \<open>
  \<open>GetAdaptersInfo\<close> takes the size of the buffer and also returns the size it needs.  The first
  call finds that size, the second fills the buffer.
\<close>

type_synonym 'n adapters_call = "nat \<Rightarrow> 'n \<Rightarrow> adapters_result \<times> nat \<times> 'n"

definition adapters_info :: "'n adapters_call \<Rightarrow> 'n \<Rightarrow> adapter list option \<times> 'n" where
  "adapters_info call n =
     (case call 15000 n of (_, bufferSize, n) \<Rightarrow>
        case call bufferSize n of
          (NoError adapters, _, n) \<Rightarrow> (Some adapters, n)
        | (_, _, n) \<Rightarrow> (None, n))"

fun windows_find :: "string \<Rightarrow> adapter list \<Rightarrow> MacAddress \<Rightarrow> bool \<times> MacAddress" where
  "windows_find ifname [] mac = (False, mac)"
| "windows_find ifname (a # as) mac =
     (if (AdapterName a = ifname \<or> Description a = ifname) \<and> length (Address a) = 6 then (True, Address a)
      else windows_find ifname as mac)"

fun windows_first :: "adapter list \<Rightarrow> MacAddress \<Rightarrow> bool \<times> MacAddress" where
  "windows_first [] mac = (False, mac)"
| "windows_first (a # as) mac =
     (if length (Address a) = 6 then
        (if \<not> list_all (\<lambda>b. b = 0) (Address a) \<and> is_ethernet a then (True, Address a) else windows_first as mac)
      else windows_first as mac)"

definition windows_getFirstMacAddress :: "'n adapters_call \<Rightarrow> MacAddress \<Rightarrow> 'n \<Rightarrow> (bool \<times> MacAddress) \<times> 'n" where
  "windows_getFirstMacAddress call mac n =
     (case adapters_info call n of (r, n) \<Rightarrow> (case r of None \<Rightarrow> (False, mac) | Some as \<Rightarrow> windows_first as mac, n))"

definition windows_getMacAddress :: "'n adapters_call \<Rightarrow> string option \<Rightarrow> MacAddress \<Rightarrow> 'n \<Rightarrow> (bool \<times> MacAddress) \<times> 'n" where
  "windows_getMacAddress call ifname mac n =
     (case ifname of
        None \<Rightarrow> windows_getFirstMacAddress call mac n
      | Some name \<Rightarrow>
          (case adapters_info call n of (r, n) \<Rightarrow> (case r of None \<Rightarrow> (False, mac) | Some as \<Rightarrow> windows_find name as mac, n)))"

section \<open>The searches\<close>

text \<open>
  The contract the four searches share: the first candidate among the entries, or the address
  as it was.  A candidate has six bytes.
\<close>

locale mac_search =
  fixes search :: "'i list \<Rightarrow> MacAddress \<Rightarrow> bool \<times> MacAddress" and candidate :: "'i \<Rightarrow> MacAddress option"
  assumes search_Nil: "search [] mac = (False, mac)"
    and search_Cons: "search (i # is) mac = (case candidate i of Some a \<Rightarrow> (True, a) | None \<Rightarrow> search is mac)"
    and candidate_length: "candidate i = Some a \<Longrightarrow> length a = 6"
begin

lemma search_first:
  "search is mac = (case List.find (\<lambda>i. candidate i \<noteq> None) is of
     None \<Rightarrow> (False, mac) | Some i \<Rightarrow> (True, the (candidate i)))"
  by (induction "is") (auto simp: search_Nil search_Cons split: option.split)

lemma search_found_iff: "fst (search is mac) \<longleftrightarrow> (\<exists>i \<in> set is. candidate i \<noteq> None)"
  by (induction "is") (auto simp: search_Nil search_Cons split: option.split)

lemma search_not_found: "\<not> fst (search is mac) \<Longrightarrow> snd (search is mac) = mac"
  by (induction "is") (auto simp: search_Nil search_Cons split: option.splits)

lemma search_length: "length mac = 6 \<Longrightarrow> length (snd (search is mac)) = 6"
  by (induction "is") (auto simp: search_Nil search_Cons candidate_length split: option.splits)

end

definition macos_named :: "string \<Rightarrow> macos_ifa \<Rightarrow> MacAddress option" where
  "macos_named ifname i = (case i of (name, Some (True, a)) \<Rightarrow> if name = ifname \<and> length a = 6 then Some a else None | _ \<Rightarrow> None)"

definition macos_usable :: "macos_ifa \<Rightarrow> MacAddress option" where
  "macos_usable i = (case i of (name, Some (True, a)) \<Rightarrow>
     if name \<noteq> ''lo0'' \<and> length a = 6 \<and> \<not> list_all (\<lambda>b. b = 0) a then Some a else None | _ \<Rightarrow> None)"

definition windows_named :: "string \<Rightarrow> adapter \<Rightarrow> MacAddress option" where
  "windows_named ifname a =
     (if (AdapterName a = ifname \<or> Description a = ifname) \<and> length (Address a) = 6 then Some (Address a) else None)"

definition windows_usable :: "adapter \<Rightarrow> MacAddress option" where
  "windows_usable a =
     (if length (Address a) = 6 \<and> \<not> list_all (\<lambda>b. b = 0) (Address a) \<and> is_ethernet a then Some (Address a) else None)"

interpretation macos_by_name: mac_search "macos_find ifname" "macos_named ifname" for ifname
  by unfold_locales (auto simp: macos_named_def split: prod.splits option.splits bool.splits if_splits)

interpretation macos_any: mac_search macos_first macos_usable
  by unfold_locales (auto simp: macos_usable_def split: prod.splits option.splits bool.splits if_splits)

interpretation windows_by_name: mac_search "windows_find ifname" "windows_named ifname" for ifname
  by unfold_locales (auto simp: windows_named_def split: if_splits)

interpretation windows_any: mac_search windows_first windows_usable
  by unfold_locales (auto simp: windows_usable_def split: if_splits)

text \<open>
  On both platforms the lookup without a name takes the first usable address, which is not
  zero, and otherwise leaves the caller's bytes alone.
\<close>

lemma first_mac_platforms:
  "macos_getFirstMacAddress (Some ifas) mac = (case List.find (\<lambda>i. macos_usable i \<noteq> None) ifas of
     None \<Rightarrow> (False, mac) | Some i \<Rightarrow> (True, the (macos_usable i)))"
  "adapters_info call n = (Some as, n') \<Longrightarrow> windows_getFirstMacAddress call mac n =
     ((case List.find (\<lambda>a. windows_usable a \<noteq> None) as of
        None \<Rightarrow> (False, mac) | Some a \<Rightarrow> (True, the (windows_usable a))), n')"
  "macos_usable i = Some a \<or> windows_usable w = Some a \<Longrightarrow> length a = 6 \<and> (\<exists>b \<in> set a. b \<noteq> 0)"
  by (simp_all add: macos_getFirstMacAddress_def windows_getFirstMacAddress_def macos_any.search_first
      windows_any.search_first)
    (auto simp: windows_usable_def macos_usable_def list_all_iff split: option.splits if_splits prod.splits bool.splits)

end
