(* ===== verification/Spec2Isabelle.thy ===== *)
theory Spec2Isabelle
  imports DoIP_ProtocolRefinement DoIP_Context DoIP_TransportChange DoIP_Example DoIP_Daemon DoIP_Logger DoIP_MacPlatforms
begin

text \<open>
  \<^bold>\<open>A model of the DoIP server library.\<close>

  The library implements diagnostics over IP (ISO 13400) for vehicles: a server that
  announces itself over UDP, accepts testers over TCP and runs one protocol state machine
  per connection, the messages and identifiers of the protocol, a simulated control unit
  (UDS) and gateways that forward requests to it or to a CAN bus, and a command line.
  The code is in \<^verbatim>\<open>src/inc\<close> (headers, many of them with the implementation) and
  \<^verbatim>\<open>src/src\<close>.

  \<^bold>\<open>Parts, theories and sources.\<close>  The theories follow the layers of the program; each
  holds the types and operations of one part, in the order of the source, then its lemmas.

  \<^item> \<open>DoIP_Prelude\<close>: widths and abbreviations (\<open>u8\<close>, \<open>u16\<close>), exceptions as values
    (\<open>cxx_error\<close>, results \<open>cxx_error + 'a\<close>, \<open>Inl\<close> the exception), \<open>size_t\<close> arithmetic with its wrap-around at
    \<open>2\<^sup>6\<^sup>4\<close>, vector access where a read outside the buffer is the value \<open>UndefinedRead\<close>, and the
    lemmas on words, lists and big-endian numbers that the other theories share.
  \<^item> \<open>DoIP_ByteArray\<close>: \<^verbatim>\<open>ByteArray.h\<close>, \<^verbatim>\<open>DoIPAddress.h\<close>.  \<open>DoIP_Enums\<close>: the enumerations,
    their codes, checked conversions and printers.  \<open>DoIP_Identifiers\<close>:
    \<^verbatim>\<open>DoIPIdentifiers.h\<close> (VIN, EID, GID).  \<open>DoIP_Message\<close>: \<^verbatim>\<open>DoIPMessage.h\<close>, the message
    class, parser, accessors, factories and printer.
  \<^item> \<open>DoIP_Queue\<close>: \<^verbatim>\<open>ThreadSafeQueue.h\<close>.  \<open>DoIP_Timer\<close>: \<^verbatim>\<open>TimerManager.h\<close>, with one pass of
    the timer thread as a function of its clock readings.
  \<^item> \<open>DoIP_Transport\<close>: the connection transports under \<^verbatim>\<open>tp/\<close>, as a record of operations with
    the contract \<open>connection_transport\<close>, implemented in memory and over a TCP socket.
    \<open>DoIP_LegacyTransport\<close>: the older classes of \<^verbatim>\<open>TcpTransport.cpp\<close> and \<^verbatim>\<open>MockTransport.cpp\<close>, which
    no target compiles, and when one transport implements another; \<open>DoIP_TransportChange\<close>: a
    connection over an implementation behaves as over the original.
  \<^item> \<open>DoIP_Connection\<close>: the state machine of \<^verbatim>\<open>DoIPDefaultConnection.cpp\<close> and
    \<^verbatim>\<open>DoIPConnection.cpp\<close>.  \<open>DoIP_ConnectionInv\<close> lifts invariants over callbacks and handlers,
    \<open>DoIP_ConnectionReach\<close> over all stimuli (messages, timeouts, calls of the application),
    \<open>DoIP_ConnectionBehaviour\<close> states what the connection promises.  \<open>DoIP_Protocol\<close> specifies the
    protocol abstractly (phases, inputs, outputs; no code), \<open>DoIP_ProtocolRefinement\<close> shows
    that the connection refines it.  \<open>DoIP_Context\<close>: the interface of \<^verbatim>\<open>IConnectionContext.h\<close> with the
    contract both connection classes fulfil.
  \<^item> \<open>DoIP_UdsCodes\<close>, \<open>DoIP_Uds\<close>: the service table, response codes and dispatcher under
    \<^verbatim>\<open>uds/\<close>.  \<open>DoIP_Posix\<close>: \<^verbatim>\<open>Socket.h\<close> and the interface of the socket calls.
    \<open>DoIP_Downstream\<close>: \<^verbatim>\<open>UdsMockProvider.h\<close> and \<^verbatim>\<open>CanIsoTpProvider.h\<close>.
    \<open>DoIP_Gateway\<close>: \<^verbatim>\<open>DoIPDownstreamServerModel.h\<close>, its worker interleaved with a connection.
  \<^item> \<open>DoIP_ServerTransport\<close>: \<^verbatim>\<open>TcpServerTransport.cpp\<close>, \<^verbatim>\<open>MockServerTransport.cpp\<close>.
    \<open>DoIP_MacAddress\<close>: the Linux part of \<^verbatim>\<open>MacAddress.cpp\<close>, \<open>DoIP_MacPlatforms\<close> its macOS and
    Windows parts.  \<open>DoIP_Server\<close>: the members of \<^verbatim>\<open>DoIPServer.cpp\<close>; \<open>DoIP_ServerSystem\<close>: its
    threads as a system of interleaved steps; \<open>DoIP_ServerBehaviour\<close>: what the running server
    promises.  \<open>DoIP_Settings\<close>: \<^verbatim>\<open>DoIPTimes.h\<close> and the accessors of connection and server, with the
    contract \<open>setting\<close>.
  \<^item> \<open>DoIP_Client\<close>: \<^verbatim>\<open>DoIPClient.cpp\<close>, alone and in a session with the server's connection.
  \<^item> \<open>DoIP_Cli\<close>: \<^verbatim>\<open>ServerConfigCLI.cpp\<close>.  \<open>DoIP_Daemon\<close>: \<^verbatim>\<open>Daemonize.cpp\<close>.  \<open>DoIP_Logger\<close>: the
    registry of loggers of \<^verbatim>\<open>Logger.h\<close>.  \<open>DoIP_Example\<close>: the CAN gateway under \<^verbatim>\<open>examples\<close>.

  \<^bold>\<open>How state and operations correspond.\<close>  A class is a \<open>record\<close> with the members' names, a
  member function takes the record and returns it changed.  Members that may throw return
  the exception as a value; operations of a connection have the result type with \<open>Ok\<close>,
  \<open>Throw\<close> and \<open>NoReturn\<close>.  Callbacks of the application are functions that return the list
  of calls (\<open>ctx_call\<close>) they make on the connection they are given, and these calls are
  executed where the code would execute them, re-entrantly.  Everything a connection
  sends or shows to the application is recorded in the field \<open>trace\<close>, which the code does
  not have.  Socket calls, the interface queries, the command line library and the
  application are arguments; what is assumed of them is named: \<open>fd_ledger\<close> (a descriptor
  is open from its creation to its closing), \<open>stream_socket\<close> (the peer's bytes arrive in
  order, in pieces; \<open>client_stream\<close> the same for the client, \<open>duplex\<close> that writing does not
  disturb reading), \<open>recv_bounded\<close> (a read gives no more bytes than were asked for),
  \<open>hw_sized\<close> (a hardware address has six bytes) and \<open>process_contract\<close> (what the process calls
  do to descriptors, files and sessions).  Each has an instance in the development.

  \<^bold>\<open>What the lemmas show.\<close>
  \<^item> Bytes and messages: reads stay in bounds with the exceptions that are stated, writing and
    reading are inverse, the parser accepts exactly the wire images of messages.
  \<^item> Queue and timers refine a list and a finite map; the timer thread fires what is due and
    otherwise waits until the next deadline.
  \<^item> Transports: a byte stream, however split, is received as its messages in order; every
    other outcome is an inactive transport.  Exchanging a transport for an implementation of
    it changes nothing a connection does.
  \<^item> Connection: only the registered client's messages reach the application; routing
    activation, acknowledgements and alive checks behave as stated on every branch; closing
    ends, happens once and silences the connection; timers belong to the current state.
    With an application that does not call back, every run is a run of the abstract protocol.
    The invariants are proved once in locales over all callbacks and instantiated with each
    property.
  \<^item> Gateway and providers: a request is answered through the worker as the table of the
    simulated control unit says, for every interleaving the connection's guarantees remain;
    descriptors are balanced; the interleaving that loses an answer is exhibited.
  \<^item> Server: after \<open>stop\<close> nothing runs, connection threads never throw, announcements carry
    the configuration; the schedules on which \<open>stop\<close> never returns are characterised.
  \<^item> Client: what it writes is what the server's connection accepts, what the server announces
    is what it stores; which datagrams make it throw, which messages it cannot read.
  \<^item> Command line, daemon, logger: options give the configuration they spell; a daemon is
    detached and alone; all loggers share one sink.

  \<^bold>\<open>Bounds and fuel.\<close>  Loops are recursive functions with a termination proof, except for the
  receive loop of the TCP transport, which is a \<open>partial_function\<close> into \<open>option\<close> (a peer may
  never send; that it returns is proved for stream sockets), its copy in the older class, the client's
  loop of connection attempts (it returns exactly when one of them succeeds) and the example's loop
  over a connection (it serves as long as the connection is open).  Closing calls the
  application, which may close again: it takes fuel, and two levels are proved sufficient
  for \<open>DoIPConnection\<close>, while for the unguarded base class no fuel is.  The clock is
  read once per handler.  Threads interleave at the granularity of one blocking call or one
  access to shared data per step.

  \<^bold>\<open>Not modelled.\<close>  What is logged (no effect on the results), \<^verbatim>\<open>DoIPDownstreamForwarder.h\<close>
  (part of no target; it names a result that the enumeration does not have, so it does not compile),
  iterators and accessors of the identifiers that only return a member, and tests.
\<close>

end
